(* ===== verification/Prelude.thy ===== *)
theory Prelude
  imports Main "HOL-Library.Word" "HOL-Library.Sublist" "HOL-Library.Multiset"
    "HOL-Library.Char_ord" "HOL-Library.List_Lexorder"
begin

text \<open>
  What every theory of the development shares: the monad in which the Go code is written,
  its weakest preconditions with the collections that drive the proofs, Go's integer types,
  and Go maps.

  A Go function that talks to the outside is a \<open>prog\<close>: from a world it computes an
  outcome (a returned value, or a run-time panic), the list of the external calls it made,
  in order, and the next world. The type of events and the type of worlds are parameters.
\<close>

subsection \<open>Proof collections\<close>

named_theorems run_simps \<open>equations that run a program on a world\<close>
named_theorems wp_simps \<open>equations that compute weakest preconditions\<close>
named_theorems always_intros \<open>rules that establish a property of every run\<close>
named_theorems emits_intros \<open>rules that bound the external calls of a program\<close>
named_theorems runs_intros \<open>rules that prove a program keeps to a protocol\<close>

subsection \<open>Go integers\<close>

type_synonym int32 = "32 word"
type_synonym int64 = "64 word"

subsection \<open>Programs with external calls and panics\<close>

datatype panic = NilDeref | SliceBounds

datatype 'a outcome = Ret 'a | Panic panic

type_synonym ('w, 'e, 'a) prog = "'w \<Rightarrow> 'a outcome \<times> 'e list \<times> 'w"

definition ret :: "'a \<Rightarrow> ('w, 'e, 'a) prog" where
  "ret x = (\<lambda>w. (Ret x, [], w))"

definition panic :: "panic \<Rightarrow> ('w, 'e, 'a) prog" where
  "panic p = (\<lambda>w. (Panic p, [], w))"

definition andThen ::
  "('w, 'e, 'a) prog \<Rightarrow> ('a \<Rightarrow> ('w, 'e, 'b) prog) \<Rightarrow> ('w, 'e, 'b) prog" where
  "andThen m f = (\<lambda>w. case m w of
      (Ret x, es, w') \<Rightarrow> (case f x w' of (out, es', w'') \<Rightarrow> (out, es @ es', w''))
    | (Panic p, es, w') \<Rightarrow> (Panic p, es, w'))"

text \<open>One external call: it changes the world, answers, and is recorded with its answer.\<close>

definition call :: "('w \<Rightarrow> 'r \<times> 'w) \<Rightarrow> ('r \<Rightarrow> 'e) \<Rightarrow> ('w, 'e, 'r) prog" where
  "call f ev = (\<lambda>w. case f w of (r, w') \<Rightarrow> (Ret r, [ev r], w'))"

text \<open>A step of a library function that uses the world but is not an external call.\<close>

definition silent :: "('w \<Rightarrow> 'r \<times> 'w) \<Rightarrow> ('w, 'e, 'r) prog" where
  "silent f = (\<lambda>w. case f w of (r, w') \<Rightarrow> (Ret r, [], w'))"

text \<open>A value that may be a panic (a slice expression, say), as a program.\<close>

definition lift_outcome :: "'a outcome \<Rightarrow> ('w, 'e, 'a) prog" where
  "lift_outcome out = (\<lambda>w. (out, [], w))"

lemma andThen_ret [simp]: "andThen (ret x) f = f x"
  by (auto simp: andThen_def ret_def fun_eq_iff split: prod.splits)

lemma andThen_panic [simp]: "andThen (panic p) f = panic p"
  by (auto simp: andThen_def panic_def fun_eq_iff)

lemma andThen_ret_right: "andThen m ret = m"
  by (auto simp: andThen_def ret_def fun_eq_iff split: prod.splits outcome.splits)

lemma andThen_assoc: "andThen (andThen m f) g = andThen m (\<lambda>x. andThen (f x) g)"
  by (auto simp: andThen_def fun_eq_iff split: prod.splits outcome.splits)

subsection \<open>Running a program on a world\<close>

lemma run_andThen [run_simps]:
  "andThen m f w = (case m w of
      (Ret x, es, w') \<Rightarrow> (case f x w' of (out, es', w'') \<Rightarrow> (out, es @ es', w''))
    | (Panic p, es, w') \<Rightarrow> (Panic p, es, w'))"
  by (simp add: andThen_def)

lemma run_leaves [run_simps]:
  "ret x w = (Ret x, [], w)" "panic p w = (Panic p, [], w)"
  "call f ev w = (case f w of (y, w') \<Rightarrow> (Ret y, [ev y], w'))"
  "silent f w = (case f w of (y, w') \<Rightarrow> (Ret y, [], w'))"
  "lift_outcome out w = (out, [], w)"
  by (simp_all add: ret_def panic_def call_def silent_def lift_outcome_def)

subsection \<open>Weakest preconditions\<close>

definition wp ::
  "('w, 'e, 'a) prog \<Rightarrow> ('a outcome \<Rightarrow> 'e list \<Rightarrow> 'w \<Rightarrow> bool) \<Rightarrow> 'w \<Rightarrow> bool" where
  "wp m Q w = (case m w of (out, es, w') \<Rightarrow> Q out es w')"

lemma wp_iff: "wp m Q w \<longleftrightarrow> (\<forall>out es w'. m w = (out, es, w') \<longrightarrow> Q out es w')"
  by (auto simp: wp_def split: prod.splits)

lemma wpD: "wp m Q w \<Longrightarrow> m w = (out, es, w') \<Longrightarrow> Q out es w'"
  by (simp add: wp_def)

lemma wp_ret [wp_simps]: "wp (ret x) Q w = Q (Ret x) [] w"
  by (simp add: wp_def ret_def)

lemma wp_panic [wp_simps]: "wp (panic p) Q w = Q (Panic p) [] w"
  by (simp add: wp_def panic_def)

lemma wp_andThen [wp_simps]:
  "wp (andThen m f) Q w = wp m (\<lambda>out es w'. case out of
      Ret x \<Rightarrow> wp (f x) (\<lambda>out' es'. Q out' (es @ es')) w'
    | Panic p \<Rightarrow> Q (Panic p) es w') w"
  by (auto simp: wp_def andThen_def split: prod.splits outcome.splits)

lemma wp_call [wp_simps]: "wp (call f ev) Q w = (case f w of (r, w') \<Rightarrow> Q (Ret r) [ev r] w')"
  by (simp add: wp_def call_def split: prod.splits)

lemma wp_silent [wp_simps]: "wp (silent f) Q w = (case f w of (r, w') \<Rightarrow> Q (Ret r) [] w')"
  by (simp add: wp_def silent_def split: prod.splits)

lemma wp_lift_outcome [wp_simps]: "wp (lift_outcome out) Q w = Q out [] w"
  by (simp add: wp_def lift_outcome_def)

lemma wp_mono:
  "wp m P w \<Longrightarrow> (\<And>out es w'. P out es w' \<Longrightarrow> Q out es w') \<Longrightarrow> wp m Q w"
  by (auto simp: wp_def split: prod.splits)

lemma wp_conj: "wp m P w \<Longrightarrow> wp m Q w \<Longrightarrow> wp m (\<lambda>out es w'. P out es w' \<and> Q out es w') w"
  by (auto simp: wp_def split: prod.splits)

subsection \<open>Properties of every run, whatever the world answers\<close>

definition always :: "('w, 'e, 'a) prog \<Rightarrow> ('a outcome \<Rightarrow> 'e list \<Rightarrow> bool) \<Rightarrow> bool" where
  "always m Q \<longleftrightarrow> (\<forall>w. wp m (\<lambda>out es w'. Q out es) w)"

lemma alwaysI: "(\<And>w. wp m (\<lambda>out es w'. Q out es) w) \<Longrightarrow> always m Q"
  by (simp add: always_def)

lemma alwaysD: "always m Q \<Longrightarrow> wp m (\<lambda>out es w'. Q out es) w"
  by (simp add: always_def)

lemma always_run: "always m Q \<Longrightarrow> m w = (out, es, w') \<Longrightarrow> Q out es"
  by (auto simp: always_def wp_def split: prod.splits)

lemma always_mono: "always m P \<Longrightarrow> (\<And>out es. P out es \<Longrightarrow> Q out es) \<Longrightarrow> always m Q"
  by (auto simp: always_def intro: wp_mono)

lemma always_conj: "always m P \<Longrightarrow> always m Q \<Longrightarrow> always m (\<lambda>out es. P out es \<and> Q out es)"
  by (auto simp: always_def intro: wp_conj)

lemma always_ret: "Q (Ret x) [] \<Longrightarrow> always (ret x) Q"
  by (simp add: always_def wp_simps)

lemma always_panic: "Q (Panic p) [] \<Longrightarrow> always (panic p) Q"
  by (simp add: always_def wp_simps)

lemma always_call: "(\<And>r. Q (Ret r) [ev r]) \<Longrightarrow> always (call f ev) Q"
  by (simp add: always_def wp_simps split: prod.splits)

lemma always_silent: "(\<And>r. Q (Ret r) []) \<Longrightarrow> always (silent f) Q"
  by (simp add: always_def wp_simps split: prod.splits)

lemma always_andThen:
  assumes m: "always m P"
    and f: "\<And>x es. P (Ret x) es \<Longrightarrow> always (f x) (\<lambda>out es'. Q out (es @ es'))"
    and p: "\<And>p es. P (Panic p) es \<Longrightarrow> Q (Panic p) es"
  shows "always (andThen m f) Q"
proof (rule alwaysI)
  fix w
  show "wp (andThen m f) (\<lambda>out es w'. Q out es) w"
    unfolding wp_andThen
    by (rule wp_mono [OF alwaysD [OF m]]) (auto split: outcome.splits dest: f alwaysD p)
qed

lemma always_andThen_call [always_intros]:
  "(\<And>x. always (g x) (\<lambda>out es. Q out (ev x # es))) \<Longrightarrow> always (andThen (call f ev) g) Q"
  by (rule always_andThen [where P = "\<lambda>out es. \<exists>x. out = Ret x \<and> es = [ev x]"])
    (auto intro: always_call)

lemma always_andThen_silent [always_intros]:
  "(\<And>x. always (g x) Q) \<Longrightarrow> always (andThen (silent f) g) Q"
  by (rule always_andThen [where P = "\<lambda>out es. \<exists>x. out = Ret x \<and> es = []"])
    (auto intro: always_silent)

lemma always_if [always_intros]:
  "(b \<Longrightarrow> always m Q) \<Longrightarrow> (\<not> b \<Longrightarrow> always m' Q) \<Longrightarrow> always (if b then m else m') Q"
  by simp

lemma always_case_sum [always_intros]:
  "(\<And>x. r = Inl x \<Longrightarrow> always (f x) Q) \<Longrightarrow> (\<And>y. r = Inr y \<Longrightarrow> always (g y) Q) \<Longrightarrow>
   always (case r of Inl x \<Rightarrow> f x | Inr y \<Rightarrow> g y) Q"
  by (cases r) auto

lemmas always_leaves [always_intros] = always_ret always_panic always_call always_silent

text \<open>The external calls of a program all satisfy \<open>A\<close>.\<close>

definition emits :: "('e \<Rightarrow> bool) \<Rightarrow> ('w, 'e, 'a) prog \<Rightarrow> bool" where
  "emits A m \<longleftrightarrow> always m (\<lambda>out es. \<forall>e \<in> set es. A e)"

lemma emits_run: "emits A m \<Longrightarrow> m w = (out, es, w') \<Longrightarrow> e \<in> set es \<Longrightarrow> A e"
  using always_run unfolding emits_def by fastforce

lemma emits_ret [emits_intros]: "emits A (ret x)"
  by (simp add: emits_def always_ret)

lemma emits_panic [emits_intros]: "emits A (panic p)"
  by (simp add: emits_def always_panic)

lemma emits_call [emits_intros]: "(\<And>r. A (ev r)) \<Longrightarrow> emits A (call f ev)"
  by (simp add: emits_def always_call)

lemma emits_silent [emits_intros]: "emits A (silent f)"
  by (simp add: emits_def always_silent)

lemma emits_lift_outcome [emits_intros]: "emits A (lift_outcome out)"
  by (simp add: emits_def always_def wp_simps)

lemma emits_andThen [emits_intros]:
  assumes "emits A m" and f: "\<And>x. emits A (f x)"
  shows "emits A (andThen m f)"
  unfolding emits_def
proof (rule always_andThen)
  show "always m (\<lambda>out es. \<forall>e \<in> set es. A e)"
    using assms(1) by (simp add: emits_def)
  show "always (f x) (\<lambda>out es'. \<forall>e \<in> set (es @ es'). A e)" if "\<forall>e \<in> set es. A e" for x es
    using f [of x] that unfolding emits_def by (auto elim: always_mono)
qed

lemma emits_if [emits_intros]:
  "(b \<Longrightarrow> emits A m) \<Longrightarrow> (\<not> b \<Longrightarrow> emits A m') \<Longrightarrow> emits A (if b then m else m')"
  by simp

lemma emits_case_sum [emits_intros]:
  "(\<And>x. r = Inl x \<Longrightarrow> emits A (f x)) \<Longrightarrow> (\<And>y. r = Inr y \<Longrightarrow> emits A (g y)) \<Longrightarrow>
   emits A (case r of Inl x \<Rightarrow> f x | Inr y \<Rightarrow> g y)"
  by (cases r) auto

lemma emits_case_option [emits_intros]:
  "(r = None \<Longrightarrow> emits A m) \<Longrightarrow> (\<And>y. r = Some y \<Longrightarrow> emits A (g y)) \<Longrightarrow>
   emits A (case r of None \<Rightarrow> m | Some y \<Rightarrow> g y)"
  by (cases r) auto

lemma emits_case_prod [emits_intros]:
  "(\<And>x y. p = (x, y) \<Longrightarrow> emits A (f x y)) \<Longrightarrow> emits A (case p of (x, y) \<Rightarrow> f x y)"
  by (cases p) auto

lemma emits_mono: "emits A m \<Longrightarrow> (\<And>e. A e \<Longrightarrow> B e) \<Longrightarrow> emits B m"
  unfolding emits_def by (auto elim: always_mono)

text \<open>A program that never panics.\<close>

definition no_panic :: "('w, 'e, 'a) prog \<Rightarrow> bool" where
  "no_panic m \<longleftrightarrow> always m (\<lambda>out es. \<exists>x. out = Ret x)"

subsection \<open>Protocols: every external call is allowed by the calls before it\<close>

text \<open>
  \<open>justified ok past es\<close>: after the calls \<open>past\<close>, each call of \<open>es\<close> satisfies \<open>ok\<close> for the
  calls that came before it. \<open>runs ok past m Q\<close>: after \<open>past\<close>, every run of \<open>m\<close> keeps to the
  protocol \<open>ok\<close>, and ends with an outcome and a history that satisfy \<open>Q\<close>.
\<close>

fun justified :: "('e list \<Rightarrow> 'e \<Rightarrow> bool) \<Rightarrow> 'e list \<Rightarrow> 'e list \<Rightarrow> bool" where
  "justified ok past [] = True"
| "justified ok past (e # es) = (ok past e \<and> justified ok (past @ [e]) es)"

lemma justified_append:
  "justified ok past (es @ es') \<longleftrightarrow> justified ok past es \<and> justified ok (past @ es) es'"
  by (induction es arbitrary: past) auto

lemma justified_mono:
  assumes "justified ok past es"
    and "\<And>es' e. prefix past es' \<Longrightarrow> ok es' e \<Longrightarrow> ok' es' e"
  shows "justified ok' past es"
  using assms
proof (induction es arbitrary: past)
  case Nil
  then show ?case by simp
next
  case (Cons e es)
  have "justified ok' (past @ [e]) es"
    using Cons.prems by (intro Cons.IH) (auto dest: append_prefixD)
  then show ?case
    using Cons.prems by simp
qed

text \<open>What a justified run says of one of its calls.\<close>

lemma justified_nth:
  "justified ok past es \<Longrightarrow> i < length es \<Longrightarrow> ok (past @ take i es) (es ! i)"
proof (induction es arbitrary: past i)
  case Nil
  then show ?case by simp
next
  case (Cons e es)
  show ?case
  proof (cases i)
    case 0
    then show ?thesis using Cons.prems by simp
  next
    case (Suc j)
    then show ?thesis using Cons.IH [of "past @ [e]" j] Cons.prems by simp
  qed
qed

lemma justified_member:
  assumes "justified ok past es" "e \<in> set es"
  shows "\<exists>es1 es2. es = es1 @ e # es2 \<and> ok (past @ es1) e"
proof -
  obtain es1 es2 where es: "es = es1 @ e # es2"
    using assms(2) by (auto simp: in_set_conv_decomp)
  then show ?thesis
    using assms(1) by (auto simp: justified_append)
qed

definition runs :: "('e list \<Rightarrow> 'e \<Rightarrow> bool) \<Rightarrow> 'e list \<Rightarrow> ('w, 'e, 'a) prog \<Rightarrow>
    ('a outcome \<Rightarrow> 'e list \<Rightarrow> bool) \<Rightarrow> bool" where
  "runs ok past m Q \<longleftrightarrow> always m (\<lambda>out es. justified ok past es \<and> Q out (past @ es))"

lemma runs_mono:
  assumes "runs ok past m P"
    and "\<And>out es. justified ok past es \<Longrightarrow> P out (past @ es) \<Longrightarrow> Q out (past @ es)"
  shows "runs ok past m Q"
  using assms unfolding runs_def by (auto elim: always_mono)

text \<open>Weaken the protocol and the postcondition at once.\<close>

lemma runs_weaken:
  assumes "runs ok past m P"
    and "\<And>es e. prefix past es \<Longrightarrow> ok es e \<Longrightarrow> ok' es e"
    and "\<And>out es. justified ok past es \<Longrightarrow> P out (past @ es) \<Longrightarrow> Q out (past @ es)"
  shows "runs ok' past m Q"
proof -
  have "justified ok' past es" if "justified ok past es" for es
    using that assms(2) by (rule justified_mono)
  then show ?thesis
    using assms(1,3) unfolding runs_def by (auto elim!: always_mono)
qed

text \<open>
  A program that keeps to a protocol from an empty history does so after any history, if the
  protocol only asks for calls that have been made; its postcondition is then about its own
  calls.
\<close>

lemma runs_shift:
  assumes m: "runs ok [] m P"
    and ok: "\<And>es e. ok es e \<Longrightarrow> ok' (past @ es) e"
    and Q: "\<And>out es. justified ok [] es \<Longrightarrow> P out es \<Longrightarrow> Q out (past @ es)"
  shows "runs ok' past m Q"
proof -
  have shift: "justified ok' (past @ es) es'" if "justified ok es es'" for es es'
    using that
  proof (induction es' arbitrary: es)
    case Nil
    then show ?case by simp
  next
    case (Cons e es')
    then show ?case using Cons.IH [of "es @ [e]"] ok by simp
  qed
  show ?thesis
    unfolding runs_def
    by (rule always_mono [OF m [unfolded runs_def]]) (auto dest: shift Q)
qed

lemma runs_ret [runs_intros]: "Q (Ret x) past \<Longrightarrow> runs ok past (ret x) Q"
  by (simp add: runs_def always_ret)

lemma runs_panic [runs_intros]: "Q (Panic p) past \<Longrightarrow> runs ok past (panic p) Q"
  by (simp add: runs_def always_panic)

lemma runs_call [runs_intros]:
  "(\<And>r. ok past (ev r)) \<Longrightarrow> (\<And>r. Q (Ret r) (past @ [ev r])) \<Longrightarrow> runs ok past (call f ev) Q"
  by (simp add: runs_def always_call)

lemma runs_silent [runs_intros]: "(\<And>r. Q (Ret r) past) \<Longrightarrow> runs ok past (silent f) Q"
  by (simp add: runs_def always_silent)

lemma runs_lift_outcome [runs_intros]: "Q out past \<Longrightarrow> runs ok past (lift_outcome out) Q"
  by (simp add: runs_def always_def wp_simps)

lemma runs_andThen [runs_intros]:
  assumes "runs ok past m (\<lambda>out h. case out of Ret x \<Rightarrow> runs ok h (f x) Q
     | Panic p \<Rightarrow> Q (Panic p) h)"
  shows "runs ok past (andThen m f) Q"
  unfolding runs_def
proof (rule always_andThen [OF assms [unfolded runs_def]])
  fix x es
  assume "justified ok past es \<and> (case Ret x of Ret x \<Rightarrow>
      always (f x) (\<lambda>out es'. justified ok (past @ es) es' \<and> Q out ((past @ es) @ es'))
    | Panic p \<Rightarrow> Q (Panic p) (past @ es))"
  then show "always (f x) (\<lambda>out es'. justified ok past (es @ es') \<and> Q out (past @ es @ es'))"
    by (auto simp: justified_append elim!: always_mono)
qed simp

lemma runs_if [runs_intros]:
  "(b \<Longrightarrow> runs ok past m Q) \<Longrightarrow> (\<not> b \<Longrightarrow> runs ok past m' Q) \<Longrightarrow>
   runs ok past (if b then m else m') Q"
  by simp

lemma runs_case_sum [runs_intros]:
  "(\<And>x. r = Inl x \<Longrightarrow> runs ok past (f x) Q) \<Longrightarrow> (\<And>y. r = Inr y \<Longrightarrow> runs ok past (g y) Q) \<Longrightarrow>
   runs ok past (case r of Inl x \<Rightarrow> f x | Inr y \<Rightarrow> g y) Q"
  by (cases r) auto

lemma runs_case_option [runs_intros]:
  "(r = None \<Longrightarrow> runs ok past m Q) \<Longrightarrow> (\<And>y. r = Some y \<Longrightarrow> runs ok past (g y) Q) \<Longrightarrow>
   runs ok past (case r of None \<Rightarrow> m | Some y \<Rightarrow> g y) Q"
  by (cases r) auto

lemma runs_case_prod [runs_intros]:
  "(\<And>x y. p = (x, y) \<Longrightarrow> runs ok past (f x y) Q) \<Longrightarrow> runs ok past (case p of (x, y) \<Rightarrow> f x y) Q"
  by (cases p) auto

lemma runs_case_list [runs_intros]:
  "(xs = [] \<Longrightarrow> runs ok past m Q) \<Longrightarrow> (\<And>y ys. xs = y # ys \<Longrightarrow> runs ok past (g y ys) Q) \<Longrightarrow>
   runs ok past (case xs of [] \<Rightarrow> m | y # ys \<Rightarrow> g y ys) Q"
  by (cases xs) auto

text \<open>The outcome of a step, as the rule for \<open>andThen\<close> leaves it.\<close>

lemma outcome_RetI [runs_intros]: "F x \<Longrightarrow> (case Ret x of Ret y \<Rightarrow> F y | Panic p \<Rightarrow> G p)"
  by simp

lemma outcome_PanicI [runs_intros]: "G p \<Longrightarrow> (case Panic p of Ret y \<Rightarrow> F y | Panic q \<Rightarrow> G q)"
  by simp

lemma outcome_caseI:
  "(\<And>x. out = Ret x \<Longrightarrow> F x) \<Longrightarrow> (\<And>p. out = Panic p \<Longrightarrow> G p) \<Longrightarrow>
   (case out of Ret x \<Rightarrow> F x | Panic p \<Rightarrow> G p)"
  by (cases out) auto

lemma runs_run:
  "runs ok past m Q \<Longrightarrow> m w = (out, es, w') \<Longrightarrow> justified ok past es \<and> Q out (past @ es)"
  unfolding runs_def by (drule always_run) auto

subsection \<open>Go maps\<close>

text \<open>
  A Go map is an association list with distinct keys: the list is the order in which a
  \<open>range\<close> loop visits the map, which Go leaves open. A statement about every such list is
  a statement about every order. \<open>None\<close> is the nil map.
\<close>

type_synonym 'v gomap = "(string \<times> 'v) list"

definition gomap_ok :: "'v gomap \<Rightarrow> bool" where
  "gomap_ok m \<longleftrightarrow> distinct (map fst m)"

text \<open>Reading a key of a map: the nil map has none.\<close>

definition gomap_get :: "'v gomap option \<Rightarrow> string \<Rightarrow> 'v option" where
  "gomap_get m k = (case m of None \<Rightarrow> None | Some xs \<Rightarrow> map_of xs k)"

text \<open>The same map visited in another order.\<close>

definition same_map :: "'v gomap option \<Rightarrow> 'v gomap option \<Rightarrow> bool" where
  "same_map m m' \<longleftrightarrow> (case (m, m') of
      (None, None) \<Rightarrow> True
    | (Some xs, Some ys) \<Rightarrow> gomap_ok xs \<and> gomap_ok ys \<and> set xs = set ys
    | _ \<Rightarrow> False)"

lemma gomap_get_same: "same_map m m' \<Longrightarrow> gomap_get m k = gomap_get m' k"
  by (auto simp: same_map_def gomap_get_def gomap_ok_def split: option.splits
      dest: map_of_inject_set [THEN iffD2])

end
