(* ===== verification/GoStd.thy ===== *)
theory GoStd
  imports Prelude
begin

text \<open>
  What the program uses of Go's standard library: \<open>strings\<close>, \<open>strconv\<close>, the verbs of
  \<open>fmt\<close> for integers, bytes and durations, and \<open>time\<close>. A Go string is its list of bytes.
  Case folding and trimming act on ASCII bytes: the names and enumerations the program folds
  are ASCII by the rules of the API server.
\<close>

subsection \<open>strings\<close>

definition lowerChar :: "char \<Rightarrow> char" where
  "lowerChar c = (let n = (of_char c :: int) in
     if 65 \<le> n \<and> n \<le> 90 then char_of (n + 32) else c)"

definition ToLower :: "string \<Rightarrow> string" where
  "ToLower s = map lowerChar s"

definition isSpace :: "char \<Rightarrow> bool" where
  "isSpace c = (let n = (of_char c :: int) in n = 32 \<or> (9 \<le> n \<and> n \<le> 13))"

definition TrimSpace :: "string \<Rightarrow> string" where
  "TrimSpace s = rev (dropWhile isSpace (rev (dropWhile isSpace s)))"

definition TrimRight :: "string \<Rightarrow> char \<Rightarrow> string" where
  "TrimRight s c = rev (dropWhile (\<lambda>x. x = c) (rev s))"

definition ReplaceAllChar :: "string \<Rightarrow> char \<Rightarrow> char \<Rightarrow> string" where
  "ReplaceAllChar s old new = map (\<lambda>x. if x = old then new else x) s"

fun Join :: "string list \<Rightarrow> string \<Rightarrow> string" where
  "Join [] sep = ''''"
| "Join [x] sep = x"
| "Join (x # y # ys) sep = x @ sep @ Join (y # ys) sep"

text \<open>A slice expression \<open>s[lo:hi]\<close>: out of range is a run-time panic.\<close>

definition slice :: "string \<Rightarrow> nat \<Rightarrow> nat \<Rightarrow> string outcome" where
  "slice s lo hi = (if lo \<le> hi \<and> hi \<le> length s then Ret (take (hi - lo) (drop lo s))
     else Panic SliceBounds)"

subsection \<open>Decimal and hexadecimal\<close>

definition digitChar :: "int \<Rightarrow> char" where
  "digitChar d = char_of (48 + d)"

definition isDigit :: "char \<Rightarrow> bool" where
  "isDigit c = (let n = (of_char c :: int) in 48 \<le> n \<and> n \<le> 57)"

definition digitVal :: "char \<Rightarrow> int" where
  "digitVal c = of_char c - 48"

text \<open>The decimal digits of a number that is not negative.\<close>

function itoaPos :: "int \<Rightarrow> string" where
  "itoaPos n = (if n < 10 then [digitChar n] else itoaPos (n div 10) @ [digitChar (n mod 10)])"
  by pat_completeness auto
termination
  by (relation "measure nat") auto

declare itoaPos.simps [simp del]

definition itoa :: "int \<Rightarrow> string" where
  "itoa i = (if i < 0 then CHR ''-'' # itoaPos (- i) else itoaPos i)"

definition atoiDigits :: "string \<Rightarrow> int option" where
  "atoiDigits s = (if s \<noteq> [] \<and> list_all isDigit s
     then Some (foldl (\<lambda>n c. 10 * n + digitVal c) 0 s) else None)"

text \<open>\<open>strconv.Atoi\<close> on a 64-bit platform; \<open>None\<close> is an error (syntax or range).\<close>

definition Atoi :: "string \<Rightarrow> int option" where
  "Atoi s =
     (let (neg, ds) = (case s of c # cs \<Rightarrow>
              if c = CHR ''-'' then (True, cs) else if c = CHR ''+'' then (False, cs)
              else (False, s) | [] \<Rightarrow> (False, []))
      in case atoiDigits ds of None \<Rightarrow> None
         | Some n \<Rightarrow> (let i = (if neg then - n else n) in
             if - (2 ^ 63) \<le> i \<and> i < 2 ^ 63 then Some i else None))"

definition hexDigit :: "int \<Rightarrow> char" where
  "hexDigit d = (if d < 10 then char_of (48 + d) else char_of (87 + d))"

definition hexByte :: "8 word \<Rightarrow> string" where
  "hexByte b = [hexDigit (uint b div 16), hexDigit (uint b mod 16)]"

definition isHexDigit :: "char \<Rightarrow> bool" where
  "isHexDigit c = (let n = (of_char c :: int) in (48 \<le> n \<and> n \<le> 57) \<or> (97 \<le> n \<and> n \<le> 102))"

subsection \<open>time\<close>

text \<open>
  An instant is its number of nanoseconds since the Unix epoch, a \<open>time.Duration\<close> a signed
  64-bit number of nanoseconds. \<open>time.Until\<close> saturates at the ends of that type.
\<close>

type_synonym time = int

definition Seconds :: "int \<Rightarrow> int64" where
  "Seconds n = word_of_int (n * 1000000000)"

definition Minutes :: "int \<Rightarrow> int64" where
  "Minutes n = word_of_int (n * 60000000000)"

definition addDuration :: "time \<Rightarrow> int64 \<Rightarrow> time" where
  "addDuration t d = t + sint d"

definition minDuration :: int where "minDuration = - (2 ^ 63)"
definition maxDuration :: int where "maxDuration = 2 ^ 63 - 1"

definition untilTime :: "time \<Rightarrow> time \<Rightarrow> int64" where
  "untilTime t now = word_of_int (max minDuration (min maxDuration (t - now)))"

text \<open>\<open>Duration.String\<close>, the text that the verb \<open>%v\<close> gives a duration.\<close>

definition padZeros :: "nat \<Rightarrow> string \<Rightarrow> string" where
  "padZeros n s = replicate (n - length s) (CHR ''0'') @ s"

definition fmtFrac :: "int \<Rightarrow> nat \<Rightarrow> string" where
  "fmtFrac v prec = (let f = v mod 10 ^ prec in
     if f = 0 then '''' else CHR ''.'' # TrimRight (padZeros prec (itoaPos f)) (CHR ''0''))"

definition durationString :: "int64 \<Rightarrow> string" where
  "durationString d =
     (let u = \<bar>sint d\<bar>;
          body = (if u = 0 then ''0s''
            else if u < 1000 then itoaPos u @ ''ns''
            else if u < 1000000 then
              itoaPos (u div 1000) @ fmtFrac u 3 @ [CHR 0xC2, CHR 0xB5] @ ''s''
            else if u < 1000000000 then
              itoaPos (u div 1000000) @ fmtFrac u 6 @ ''ms''
            else
              (let secs = u div 1000000000; mins = secs div 60; hours = mins div 60 in
                (if hours > 0 then itoaPos hours @ ''h'' else '''') @
                (if mins > 0 then itoaPos (mins mod 60) @ ''m'' else '''') @
                itoaPos (secs mod 60) @ fmtFrac u 9 @ ''s''))
      in if sint d < 0 then CHR ''-'' # body else body)"

end
