(* ===== verification/Api_Types.thy ===== *)
theory Api_Types
  imports GoStd
begin

text \<open>
  The data of the program: the TfRun resource of \<open>api/v1alpha1/tfrun_types.go\<close>, and the
  fields that the program uses of the Kubernetes objects it builds and reads (metadata,
  conditions, Jobs, Secrets). A Go pointer to a struct is an option, a nil map or nil pointer
  is \<open>None\<close>. Where Go uses one field name in several structs, the name carries the struct's.
\<close>

subsection \<open>TfRun\<close>

text \<open>An \<open>apiextensionsv1.JSON\<close> is its \<open>Raw\<close> bytes.\<close>

type_synonym json = string

record TfProviderSpec =
  Provider_CredentialsSecretRef :: string

record Duration =
  Time :: int64
  Cron :: string

record TfEngine =
  Engine_Type :: string
  Engine_Version :: string

record TfSource =
  Module :: string
  Ref :: string
  Path :: string
  Source_CredentialsSecretRef :: string

record CloudBackend =
  Provider :: string
  Hostname :: string
  Organization :: string
  Workspace :: string
  EnvironmentID :: string
  AgentPoolID :: string
  DeleteProtection :: bool

record StorageAccountBackend =
  AccountName :: string
  ContainerName :: string
  Key :: string

record TfBackend =
  Cloud :: "CloudBackend option"
  StorageAccount :: "StorageAccountBackend option"

record TfRunSpec =
  ForProvider :: TfProviderSpec
  RunInterval :: "Duration option"
  Engine :: TfEngine
  Source :: TfSource
  Backend :: TfBackend
  Arguments :: "string gomap option"
  Vars :: "json option gomap option"

record Condition =
  Condition_Type :: string
  Condition_Status :: string
  Condition_Reason :: string
  Condition_Message :: string
  Condition_ObservedGeneration :: int64
  LastTransitionTime :: time

record TfRunStatus =
  ObservedGeneration :: int64
  Phase :: string
  ActiveJobName :: string
  ActiveDestroyJobName :: string
  WorkspaceID :: string
  WorkspaceReady :: bool
  WorkspaceImport :: bool
  RunID :: string
  LastSpecHash :: string
  PendingExecHash :: string
  PendingReason :: string
  LastRunTime :: "time option"
  NextRunTime :: "time option"
  Message :: string
  Conditions :: "Condition list"

record TfRun =
  Name :: string
  Namespace :: string
  UID :: string
  ResourceVersion :: string
  Generation :: int64
  Annotations :: "string gomap option"
  Finalizers :: "string list"
  DeletionTimestamp :: "time option"
  Spec :: TfRunSpec
  Status :: TfRunStatus

text \<open>\<open>metav1.Time.IsZero\<close>: the nil pointer, or the zero time of Go (January 1, year 1).\<close>

definition zeroTime :: time where
  "zeroTime = - 62135596800000000000"

definition IsZero :: "time option \<Rightarrow> bool" where
  "IsZero t = (case t of None \<Rightarrow> True | Some x \<Rightarrow> x = zeroTime)"

text \<open>\<open>types.NamespacedName\<close>: a namespace and a name.\<close>

type_synonym NamespacedName = "string \<times> string"

definition ObjectKeyFromObject :: "TfRun \<Rightarrow> NamespacedName" where
  "ObjectKeyFromObject t = (Namespace t, Name t)"

text \<open>Updates of the status in place, as the assignments \<open>tfRun.Status.F = v\<close> make them.\<close>

definition status_update :: "(TfRunStatus \<Rightarrow> TfRunStatus) \<Rightarrow> TfRun \<Rightarrow> TfRun" where
  "status_update f t = t\<lparr>Status := f (Status t)\<rparr>"

lemma status_update_fields [simp]:
  "Name (status_update f t) = Name t" "Namespace (status_update f t) = Namespace t"
  "UID (status_update f t) = UID t" "ResourceVersion (status_update f t) = ResourceVersion t"
  "Generation (status_update f t) = Generation t" "Spec (status_update f t) = Spec t"
  "Annotations (status_update f t) = Annotations t"
  "Finalizers (status_update f t) = Finalizers t"
  "DeletionTimestamp (status_update f t) = DeletionTimestamp t"
  "Status (status_update f t) = f (Status t)"
  by (simp_all add: status_update_def)

lemma status_update_twice [simp]:
  "status_update g (status_update f t) = status_update (\<lambda>s. g (f s)) t"
  by (simp add: status_update_def)

lemma status_update_id [simp]: "status_update (\<lambda>s. s) t = t"
  by (simp add: status_update_def)

subsection \<open>Jobs and Secrets\<close>

record SecretKeySelector =
  Secret_Name :: string
  Secret_Key :: string

record EnvVar =
  Env_Name :: string
  Env_Value :: string
  Env_ValueFrom :: "SecretKeySelector option"

record VolumeMount =
  Mount_Name :: string
  MountPath :: string

record Container =
  Container_Name :: string
  Image :: string
  Container_Command :: "string list"
  Container_Args :: "string list"
  WorkingDir :: string
  Env :: "EnvVar list"
  VolumeMounts :: "VolumeMount list"

text \<open>A volume of the pods the program builds is an \<open>emptyDir\<close>: its name says it all.\<close>

record PodSpec =
  RestartPolicy :: string
  InitContainers :: "Container list"
  Containers :: "Container list"
  Volumes :: "string list"

record JobSpec =
  BackoffLimit :: "int32 option"
  TTLSecondsAfterFinished :: "int32 option"
  Template_Labels :: "string gomap"
  Template_Spec :: PodSpec

record JobStatus =
  Active :: int32
  Succeeded :: int32
  Failed :: int32

record OwnerReference =
  Owner_Kind :: string
  Owner_Name :: string
  Owner_UID :: string
  Owner_Controller :: bool

record Job =
  Job_Name :: string
  Job_Namespace :: string
  Job_Labels :: "string gomap"
  Job_OwnerReferences :: "OwnerReference list"
  Job_Spec :: JobSpec
  Job_Status :: JobStatus

record Secret =
  Data :: "string gomap option"

text \<open>The status of a Job object that the program has just built: Go's zero value.\<close>

definition zeroJobStatus :: JobStatus where
  "zeroJobStatus = \<lparr>Active = 0, Succeeded = 0, Failed = 0\<rparr>"

end
