(* ===== verification/Effects.thy ===== *)
theory Effects
  imports Api_Types
begin

text \<open>
  The outside of the program: the Kubernetes client, the HTTP client, the clock, the process
  environment, and the third-party helpers the code calls. They are not code of this
  repository, so each is a field of the record \<open>ext\<close>, a parameter of every definition that
  uses it, over a world of any type. Every external call is recorded in the run's events
  together with the answer it got.
\<close>

subsection \<open>Errors\<close>

text \<open>
  An API error carries the reason that \<open>apierrors.IsNotFound\<close> and its kin read;
  \<open>Wrap p e\<close> is \<open>fmt.Errorf(p + "%w", e)\<close>, which keeps the reason.
\<close>

datatype reason = ReasonNotFound | ReasonAlreadyExists | ReasonConflict | ReasonOther

datatype goerr = ApiErr reason string | Err string | Wrap string goerr

fun errText :: "goerr \<Rightarrow> string" where
  "errText (ApiErr _ s) = s"
| "errText (Err s) = s"
| "errText (Wrap p e) = p @ errText e"

fun reasonForError :: "goerr \<Rightarrow> reason option" where
  "reasonForError (ApiErr rs _) = Some rs"
| "reasonForError (Err _) = None"
| "reasonForError (Wrap _ e) = reasonForError e"

definition IsNotFound :: "goerr \<Rightarrow> bool" where
  "IsNotFound e = (reasonForError e = Some ReasonNotFound)"

definition IsAlreadyExists :: "goerr \<Rightarrow> bool" where
  "IsAlreadyExists e = (reasonForError e = Some ReasonAlreadyExists)"

definition IsConflict :: "goerr \<Rightarrow> bool" where
  "IsConflict e = (reasonForError e = Some ReasonConflict)"

subsection \<open>HTTP\<close>

record HttpRequest =
  Method :: string
  URL :: string
  Header :: "string gomap"
  ReqBody :: "string option"

text \<open>\<open>Header.Set\<close> replaces the values of the key.\<close>

definition HeaderSet :: "string \<Rightarrow> string \<Rightarrow> HttpRequest \<Rightarrow> HttpRequest" where
  "HeaderSet k v q = q\<lparr>Header := (k, v) # filter (\<lambda>(k', _). k' \<noteq> k) (Header q)\<rparr>"

definition headerValue :: "HttpRequest \<Rightarrow> string \<Rightarrow> string option" where
  "headerValue q k = map_of (Header q) k"

lemma headerValue_Set [simp]:
  "headerValue (HeaderSet k v q) k' = (if k' = k then Some v else headerValue q k')"
proof -
  have "map_of (filter (\<lambda>(k'', _). k'' \<noteq> k) xs) k' = (if k' = k then None else map_of xs k')"
    for xs :: "string gomap"
    by (induction xs) auto
  then show ?thesis
    by (simp add: headerValue_def HeaderSet_def)
qed

lemma HeaderSet_fields [simp]:
  "Method (HeaderSet k v q) = Method q" "URL (HeaderSet k v q) = URL q"
  "ReqBody (HeaderSet k v q) = ReqBody q"
  by (simp_all add: HeaderSet_def)

text \<open>A response: its status code, and what reading its body to the end gives.\<close>

record HttpResponse =
  StatusCode :: int
  Body :: "goerr + string"

subsection \<open>The external services\<close>

text \<open>
  The clients may answer anything. A successful \<open>Update\<close>, \<open>Status().Update\<close> or \<open>Get\<close>
  yields the object as the server returned it, which the client decodes into the argument;
  after a failed one the argument is unchanged. \<open>UnmarshalError\<close> is the error, no more than a
  text, with which \<open>json.Unmarshal\<close> refuses a body; \<open>MarshalVar\<close> stands for the JSON text that
  the marshaller of \<open>apiextensionsv1.JSON\<close> contributes.
\<close>

record 'w ext =
  GetTfRun_of :: "NamespacedName \<Rightarrow> 'w \<Rightarrow> (goerr + TfRun) \<times> 'w"
  GetJob_of :: "NamespacedName \<Rightarrow> 'w \<Rightarrow> (goerr + Job) \<times> 'w"
  GetSecret_of :: "NamespacedName \<Rightarrow> 'w \<Rightarrow> (goerr + Secret) \<times> 'w"
  Update_of :: "TfRun \<Rightarrow> 'w \<Rightarrow> (goerr + TfRun) \<times> 'w"
  StatusUpdate_of :: "TfRun \<Rightarrow> 'w \<Rightarrow> (goerr + TfRun) \<times> 'w"
  CreateJob_of :: "Job \<Rightarrow> 'w \<Rightarrow> goerr option \<times> 'w"
  HttpDo_of :: "HttpRequest \<Rightarrow> 'w \<Rightarrow> (goerr + HttpResponse) \<times> 'w"
  Now_of :: "'w \<Rightarrow> time \<times> 'w"
  Getenv :: "string \<Rightarrow> string"
  UnmarshalError :: "string \<Rightarrow> goerr"
  MarshalVar :: "json \<Rightarrow> goerr + string"
  ContainsFinalizer :: "TfRun \<Rightarrow> string \<Rightarrow> bool"
  AddFinalizer :: "TfRun \<Rightarrow> string \<Rightarrow> TfRun"
  RemoveFinalizer :: "TfRun \<Rightarrow> string \<Rightarrow> TfRun"
  SetControllerReference :: "TfRun \<Rightarrow> Job \<Rightarrow> goerr + Job"
  SetStatusCondition_of :: "Condition list \<Rightarrow> Condition \<Rightarrow> 'w \<Rightarrow> Condition list \<times> 'w"

datatype event =
    EvGetTfRun NamespacedName "goerr + TfRun"
  | EvGetJob NamespacedName "goerr + Job"
  | EvGetSecret NamespacedName "goerr + Secret"
  | EvUpdate TfRun "goerr + TfRun"
  | EvStatusUpdate TfRun "goerr + TfRun"
  | EvCreateJob Job "goerr option"
  | EvHttp HttpRequest "goerr + HttpResponse"
  | EvNow time

type_synonym ('w, 'a) go = "('w, event, 'a) prog"

definition GetTfRun :: "'w ext \<Rightarrow> NamespacedName \<Rightarrow> ('w, goerr + TfRun) go" where
  "GetTfRun r k = call (GetTfRun_of r k) (EvGetTfRun k)"

definition GetJob :: "'w ext \<Rightarrow> NamespacedName \<Rightarrow> ('w, goerr + Job) go" where
  "GetJob r k = call (GetJob_of r k) (EvGetJob k)"

definition GetSecret :: "'w ext \<Rightarrow> NamespacedName \<Rightarrow> ('w, goerr + Secret) go" where
  "GetSecret r k = call (GetSecret_of r k) (EvGetSecret k)"

definition Update :: "'w ext \<Rightarrow> TfRun \<Rightarrow> ('w, goerr + TfRun) go" where
  "Update r t = call (Update_of r t) (EvUpdate t)"

definition StatusUpdate :: "'w ext \<Rightarrow> TfRun \<Rightarrow> ('w, goerr + TfRun) go" where
  "StatusUpdate r t = call (StatusUpdate_of r t) (EvStatusUpdate t)"

definition CreateJob :: "'w ext \<Rightarrow> Job \<Rightarrow> ('w, goerr option) go" where
  "CreateJob r j = call (CreateJob_of r j) (EvCreateJob j)"

definition HttpDo :: "'w ext \<Rightarrow> HttpRequest \<Rightarrow> ('w, goerr + HttpResponse) go" where
  "HttpDo r q = call (HttpDo_of r q) (EvHttp q)"

definition Now :: "'w ext \<Rightarrow> ('w, time) go" where
  "Now r = call (Now_of r) EvNow"

definition SetStatusCondition ::
  "'w ext \<Rightarrow> Condition list \<Rightarrow> Condition \<Rightarrow> ('w, Condition list) go" where
  "SetStatusCondition r cs c = silent (SetStatusCondition_of r cs c)"

lemmas ext_call_defs = GetTfRun_def GetJob_def GetSecret_def Update_def StatusUpdate_def
  CreateJob_def HttpDo_def Now_def SetStatusCondition_def

text \<open>\<open>_ = r.Status().Update(ctx, tfRun)\<close>: the error is dropped, the answer is decoded.\<close>

definition StatusUpdate_ignored :: "'w ext \<Rightarrow> TfRun \<Rightarrow> ('w, TfRun) go" where
  "StatusUpdate_ignored r t = andThen (StatusUpdate r t) (\<lambda>res. case res of
      Inl e \<Rightarrow> ret t
    | Inr t' \<Rightarrow> ret t')"

subsection \<open>Kinds of external calls\<close>

definition is_write :: "event \<Rightarrow> bool" where
  "is_write e = (case e of EvUpdate _ _ \<Rightarrow> True | EvStatusUpdate _ _ \<Rightarrow> True
     | EvCreateJob _ _ \<Rightarrow> True | _ \<Rightarrow> False)"

definition is_create :: "event \<Rightarrow> bool" where
  "is_create e = (case e of EvCreateJob _ _ \<Rightarrow> True | _ \<Rightarrow> False)"

definition is_http :: "event \<Rightarrow> bool" where
  "is_http e = (case e of EvHttp _ _ \<Rightarrow> True | _ \<Rightarrow> False)"

lemma is_write_simps [simp]:
  "\<not> is_write (EvGetTfRun k a)" "\<not> is_write (EvGetJob k b)" "\<not> is_write (EvGetSecret k c)"
  "is_write (EvUpdate t a)" "is_write (EvStatusUpdate t a)" "is_write (EvCreateJob j x)"
  "\<not> is_write (EvHttp q y)" "\<not> is_write (EvNow z)"
  by (simp_all add: is_write_def)

lemma is_create_simps [simp]:
  "\<not> is_create (EvGetTfRun k a)" "\<not> is_create (EvGetJob k b)" "\<not> is_create (EvGetSecret k c)"
  "\<not> is_create (EvUpdate t a)" "\<not> is_create (EvStatusUpdate t a)" "is_create (EvCreateJob j x)"
  "\<not> is_create (EvHttp q y)" "\<not> is_create (EvNow z)"
  by (simp_all add: is_create_def)

lemma is_http_simps [simp]:
  "\<not> is_http (EvGetTfRun k a)" "\<not> is_http (EvGetJob k b)" "\<not> is_http (EvGetSecret k c)"
  "\<not> is_http (EvUpdate t a)" "\<not> is_http (EvStatusUpdate t a)" "\<not> is_http (EvCreateJob j x)"
  "is_http (EvHttp q y)" "\<not> is_http (EvNow z)"
  by (simp_all add: is_http_def)

text \<open>The Jobs that a run created, in order.\<close>

fun created_jobs :: "event list \<Rightarrow> Job list" where
  "created_jobs [] = []"
| "created_jobs (EvCreateJob j res # es) =
     (if res = None then j # created_jobs es else created_jobs es)"
| "created_jobs (_ # es) = created_jobs es"

lemma created_jobs_append [simp]: "created_jobs (es @ es') = created_jobs es @ created_jobs es'"
  by (induction es rule: created_jobs.induct) auto

lemma created_jobs_none: "\<forall>e \<in> set es. \<not> is_create e \<Longrightarrow> created_jobs es = []"
  by (induction es rule: created_jobs.induct) auto

end
