(* ===== verification/GoJson.thy ===== *)
theory GoJson
  imports GoStd
begin

text \<open>
  The part of \<open>encoding/json.Marshal\<close> that the program uses: strings with Go's escapes
  (control characters, quotes, HTML characters, invalid UTF-8, the line separators), objects,
  and maps, which Go writes with their keys in byte order.
\<close>

subsection \<open>Strings\<close>

text \<open>
  The number of bytes of the UTF-8 sequence at the head of a string that starts with a byte
  of at least 0x80; 0 when the sequence is not valid.
\<close>

definition cont :: "int \<Rightarrow> bool" where
  "cont b \<longleftrightarrow> 128 \<le> b \<and> b \<le> 191"

fun runeLen :: "int list \<Rightarrow> nat" where
  "runeLen (a # b # rest) =
     (if 194 \<le> a \<and> a \<le> 223 then (if cont b then 2 else 0)
      else if 224 \<le> a \<and> a \<le> 239 then
        (case rest of [] \<Rightarrow> 0 | c # _ \<Rightarrow>
          if cont c \<and> (if a = 224 then 160 \<le> b \<and> b \<le> 191
                       else if a = 237 then 128 \<le> b \<and> b \<le> 159 else cont b) then 3 else 0)
      else if 240 \<le> a \<and> a \<le> 244 then
        (case rest of c # d # _ \<Rightarrow>
          if cont c \<and> cont d \<and> (if a = 240 then 144 \<le> b \<and> b \<le> 191
             else if a = 244 then 128 \<le> b \<and> b \<le> 143 else cont b) then 4 else 0 | _ \<Rightarrow> 0)
      else 0)"
| "runeLen _ = 0"

definition hexLower :: "int \<Rightarrow> char" where
  "hexLower d = (if d < 10 then char_of (48 + d) else char_of (87 + d))"

definition backslash :: char where "backslash = CHR 0x5C"
definition quote :: char where "quote = CHR 0x22"

text \<open>One ASCII byte inside a JSON string.\<close>

definition jsonAscii :: "char \<Rightarrow> string" where
  "jsonAscii c = (let n = (of_char c :: int) in
     if n = 34 \<or> n = 92 then [backslash, c]
     else if n = 8 then [backslash, CHR ''b'']
     else if n = 12 then [backslash, CHR ''f'']
     else if n = 10 then [backslash, CHR ''n'']
     else if n = 13 then [backslash, CHR ''r'']
     else if n = 9 then [backslash, CHR ''t'']
     else if n < 32 \<or> n = 38 \<or> n = 60 \<or> n = 62 then
       [backslash, CHR ''u'', CHR ''0'', CHR ''0'', hexLower (n div 16), hexLower (n mod 16)]
     else [c])"

function jsonChars :: "string \<Rightarrow> string" where
  "jsonChars [] = []"
| "jsonChars (c # cs) =
     (if (of_char c :: int) < 128 then jsonAscii c @ jsonChars cs
      else (let n = runeLen (map of_char (c # cs)) in
        if n = 0 then backslash # ''ufffd'' @ jsonChars cs
        else (let sq = take n (c # cs) in
          (if sq = [CHR 0xE2, CHR 0x80, CHR 0xA8] then backslash # ''u2028''
           else if sq = [CHR 0xE2, CHR 0x80, CHR 0xA9] then backslash # ''u2029''
           else sq) @ jsonChars (drop (n - 1) cs))))"
  by pat_completeness auto
termination
  by (relation "measure length") auto

definition jsonString :: "string \<Rightarrow> string" where
  "jsonString s = quote # jsonChars s @ [quote]"

subsection \<open>Objects and maps\<close>

definition jsonField :: "string \<Rightarrow> string \<Rightarrow> string" where
  "jsonField k v = jsonString k @ [CHR '':''] @ v"

definition jsonObject :: "string list \<Rightarrow> string" where
  "jsonObject fields = ''{'' @ Join fields '','' @ ''}''"

definition jsonBool :: "bool \<Rightarrow> string" where
  "jsonBool b = (if b then ''true'' else ''false'')"

text \<open>The entries of a map in the order in which \<open>Marshal\<close> writes them.\<close>

definition sortedEntries :: "'v gomap \<Rightarrow> 'v gomap" where
  "sortedEntries m = sort_key fst m"

definition jsonMap :: "('v \<Rightarrow> string) \<Rightarrow> 'v gomap option \<Rightarrow> string" where
  "jsonMap enc m = (case m of None \<Rightarrow> ''null''
     | Some xs \<Rightarrow> jsonObject (map (\<lambda>(k, v). jsonField k (enc v)) (sortedEntries xs)))"

text \<open>The order in which a map is visited does not show in its sorted entries.\<close>

lemma sortedEntries_order:
  assumes "gomap_ok xs" "gomap_ok ys" "set xs = set ys"
  shows "sortedEntries xs = sortedEntries ys"
proof -
  have d: "distinct xs" "distinct ys"
    using assms(1,2) by (auto simp: gomap_ok_def distinct_map)
  then have "mset xs = mset ys"
    using assms(3) by (simp add: set_eq_iff_mset_eq_distinct)
  moreover have "inj_on fst (set xs)"
    using assms(1) by (simp add: gomap_ok_def distinct_map)
  ultimately show ?thesis
    unfolding sortedEntries_def by (intro sort_key_inj_key_eq) simp_all
qed

lemma jsonMap_order: "same_map m m' \<Longrightarrow> jsonMap enc m = jsonMap enc m'"
  by (auto simp: same_map_def jsonMap_def split: option.splits dest: sortedEntries_order)

end
