(* ===== verification/GoSha256.thy ===== *)
theory GoSha256
  imports GoStd
begin

text \<open>
  \<open>crypto/sha256.Sum256\<close> of Go's standard library (FIPS 180-4), on lists of bytes, and the
  verb \<open>%x\<close> of \<open>fmt\<close> on a byte slice. The hash of the spec of a TfRun is built from them.
\<close>

unbundle bit_operations_syntax

subsection \<open>The hash\<close>

type_synonym byte = "8 word"
type_synonym sha_state = "int32 \<times> int32 \<times> int32 \<times> int32 \<times> int32 \<times> int32 \<times> int32 \<times> int32"

text \<open>
  The round constants and the initial state: the first 32 bits of the fractional parts of the
  cube roots of the first 64 primes, and of the square roots of the first eight.
\<close>

definition sha_K :: "int32 list" where
  "sha_K = [
    1116352408, 1899447441, 3049323471, 3921009573, 961987163, 1508970993, 2453635748, 2870763221,
    3624381080, 310598401, 607225278, 1426881987, 1925078388, 2162078206, 2614888103, 3248222580,
    3835390401, 4022224774, 264347078, 604807628, 770255983, 1249150122, 1555081692, 1996064986,
    2554220882, 2821834349, 2952996808, 3210313671, 3336571891, 3584528711, 113926993, 338241895,
    666307205, 773529912, 1294757372, 1396182291, 1695183700, 1986661051, 2177026350, 2456956037,
    2730485921, 2820302411, 3259730800, 3345764771, 3516065817, 3600352804, 4094571909, 275423344,
    430227734, 506948616, 659060556, 883997877, 958139571, 1322822218, 1537002063, 1747873779,
    1955562222, 2024104815, 2227730452, 2361852424, 2428436474, 2756734187, 3204031479, 3329325298]"

definition sha_init :: sha_state where
  "sha_init = (1779033703, 3144134277, 1013904242, 2773480762, 1359893119, 2600822924, 528734635, 1541459225)"

definition sha_pad :: "byte list \<Rightarrow> byte list" where
  "sha_pad m =
     (let l = length m;
          z = (119 - l mod 64) mod 64;
          bits = 8 * int l
      in m @ [0x80] @ replicate z 0 @
         map (\<lambda>i. word_of_int (bits div 2 ^ (8 * i))) [7, 6, 5, 4, 3, 2, 1, 0])"

definition be_word :: "byte \<Rightarrow> byte \<Rightarrow> byte \<Rightarrow> byte \<Rightarrow> int32" where
  "be_word a b c d = word_of_int (((uint a * 256 + uint b) * 256 + uint c) * 256 + uint d)"

fun be_words :: "byte list \<Rightarrow> int32 list" where
  "be_words (a # b # c # d # rest) = be_word a b c d # be_words rest"
| "be_words _ = []"

definition small_sigma0 :: "int32 \<Rightarrow> int32" where
  "small_sigma0 x = word_rotr 7 x XOR word_rotr 18 x XOR drop_bit 3 x"

definition small_sigma1 :: "int32 \<Rightarrow> int32" where
  "small_sigma1 x = word_rotr 17 x XOR word_rotr 19 x XOR drop_bit 10 x"

text \<open>The message schedule, newest word first.\<close>

fun sha_expand :: "nat \<Rightarrow> int32 list \<Rightarrow> int32 list" where
  "sha_expand 0 ws = ws"
| "sha_expand (Suc n) ws =
     sha_expand n ((small_sigma1 (ws ! 1) + ws ! 6 + small_sigma0 (ws ! 14) + ws ! 15) # ws)"

definition sha_round :: "sha_state \<Rightarrow> int32 \<times> int32 \<Rightarrow> sha_state" where
  "sha_round st kw = (case st of (a, b, c, d, e, f, g, h) \<Rightarrow> case kw of (k, w) \<Rightarrow>
     (let s1 = word_rotr 6 e XOR word_rotr 11 e XOR word_rotr 25 e;
          ch = (e AND f) XOR (NOT e AND g);
          t1 = h + s1 + ch + k + w;
          s0 = word_rotr 2 a XOR word_rotr 13 a XOR word_rotr 22 a;
          maj = (a AND b) XOR (a AND c) XOR (b AND c);
          t2 = s0 + maj
      in (t1 + t2, a, b, c, d + t1, e, f, g)))"

definition sha_add :: "sha_state \<Rightarrow> sha_state \<Rightarrow> sha_state" where
  "sha_add st st' = (case st of (a, b, c, d, e, f, g, h) \<Rightarrow>
     case st' of (a', b', c', d', e', f', g', h') \<Rightarrow>
     (a + a', b + b', c + c', d + d', e + e', f + f', g + g', h + h'))"

definition sha_block :: "sha_state \<Rightarrow> int32 list \<Rightarrow> sha_state" where
  "sha_block st ws = sha_add st
     (foldl sha_round st (zip sha_K (rev (sha_expand 48 (rev ws)))))"

fun sha_blocks :: "nat \<Rightarrow> sha_state \<Rightarrow> int32 list \<Rightarrow> sha_state" where
  "sha_blocks 0 st ws = st"
| "sha_blocks (Suc n) st ws = sha_blocks n (sha_block st (take 16 ws)) (drop 16 ws)"

definition word_bytes :: "int32 \<Rightarrow> byte list" where
  "word_bytes x = map (\<lambda>i. word_of_int (uint x div 2 ^ (8 * i))) [3, 2, 1, 0]"

definition Sum256 :: "byte list \<Rightarrow> byte list" where
  "Sum256 m = (let ws = be_words (sha_pad m) in
     case sha_blocks (length ws div 16) sha_init ws of (a, b, c, d, e, f, g, h) \<Rightarrow>
       concat (map word_bytes [a, b, c, d, e, f, g, h]))"

lemma length_Sum256 [simp]: "length (Sum256 m) = 32"
  by (simp add: Sum256_def word_bytes_def Let_def split: prod.splits)

subsection \<open>Strings as bytes, bytes as hexadecimal text\<close>

definition stringBytes :: "string \<Rightarrow> byte list" where
  "stringBytes s = map (\<lambda>c. word_of_int (of_char c)) s"

definition hexString :: "byte list \<Rightarrow> string" where
  "hexString bs = concat (map hexByte bs)"

lemma length_hexString [simp]: "length (hexString bs) = 2 * length bs"
  by (induction bs) (simp_all add: hexString_def hexByte_def)

end
