(* ===== verification/Common.thy ===== *)
theory Common
  imports Effects GoJson GoSha256
begin

text \<open>
  \<open>internal/controller/common.go\<close>: the hash of a spec, the three predicates on Jobs and the
  update of the status; with the results that a reconciliation returns.
\<close>

record Result =
  Requeue :: bool
  RequeueAfter :: int64

definition noResult :: Result where
  "noResult = \<lparr>Requeue = False, RequeueAfter = 0\<rparr>"

definition requeueNow :: Result where
  "requeueNow = \<lparr>Requeue = True, RequeueAfter = 0\<rparr>"

definition requeueAfter :: "int64 \<Rightarrow> Result" where
  "requeueAfter d = \<lparr>Requeue = False, RequeueAfter = d\<rparr>"

subsection \<open>The hash of a spec\<close>

definition omitempty :: "string \<Rightarrow> string \<Rightarrow> string list" where
  "omitempty k v = (if v = '''' then [] else [jsonField k (jsonString v)])"

definition marshalCloud :: "CloudBackend \<Rightarrow> string" where
  "marshalCloud c = jsonObject
     ([jsonField ''provider'' (jsonString (Provider c)),
       jsonField ''hostname'' (jsonString (Hostname c)),
       jsonField ''organization'' (jsonString (Organization c)),
       jsonField ''workspace'' (jsonString (Workspace c))] @
      omitempty ''environmentId'' (EnvironmentID c) @
      omitempty ''agentPoolId'' (AgentPoolID c) @
      (if DeleteProtection c then [jsonField ''deleteProtection'' (jsonBool True)] else []))"

definition marshalStorageAccount :: "StorageAccountBackend \<Rightarrow> string" where
  "marshalStorageAccount a = jsonObject
     [jsonField ''accountName'' (jsonString (AccountName a)),
      jsonField ''containerName'' (jsonString (ContainerName a)),
      jsonField ''key'' (jsonString (Key a))]"

definition marshalBackend :: "TfBackend \<Rightarrow> string" where
  "marshalBackend b = jsonObject
     ((case Cloud b of None \<Rightarrow> [] | Some c \<Rightarrow> [jsonField ''cloud'' (marshalCloud c)]) @
      (case StorageAccount b of None \<Rightarrow> []
       | Some a \<Rightarrow> [jsonField ''storageAccount'' (marshalStorageAccount a)]))"

text \<open>The entries of \<open>Vars\<close>: the marshaller of a value may fail, and the first failure ends it.\<close>

fun marshalVarFields :: "(json \<Rightarrow> goerr + string) \<Rightarrow> json option gomap \<Rightarrow> goerr + string list" where
  "marshalVarFields mv [] = Inr []"
| "marshalVarFields mv ((k, v) # rest) =
     (case (case v of None \<Rightarrow> Inr ''null'' | Some raw \<Rightarrow> mv raw) of
        Inl e \<Rightarrow> Inl e
      | Inr x \<Rightarrow> (case marshalVarFields mv rest of
           Inl e \<Rightarrow> Inl e
         | Inr xs \<Rightarrow> Inr (jsonField k x # xs)))"

definition marshalVars ::
  "(json \<Rightarrow> goerr + string) \<Rightarrow> json option gomap option \<Rightarrow> goerr + string" where
  "marshalVars mv m = (case m of None \<Rightarrow> Inr ''null''
     | Some xs \<Rightarrow> (case marshalVarFields mv (sortedEntries xs) of
         Inl e \<Rightarrow> Inl e | Inr fs \<Rightarrow> Inr (jsonObject fs)))"

text \<open>The struct \<open>hashInput\<close> as \<open>json.Marshal\<close> writes it.\<close>

definition hashInput :: "'w ext \<Rightarrow> TfRun \<Rightarrow> goerr + string" where
  "hashInput r tfRun =
     (case marshalVars (MarshalVar r) (Vars (Spec tfRun)) of
        Inl e \<Rightarrow> Inl e
      | Inr vars \<Rightarrow> Inr (jsonObject
          [jsonField ''Module'' (jsonString (Module (Source (Spec tfRun)))),
           jsonField ''Ref'' (jsonString (Ref (Source (Spec tfRun)))),
           jsonField ''Path'' (jsonString (Path (Source (Spec tfRun)))),
           jsonField ''Vars'' vars,
           jsonField ''Arguments'' (jsonMap jsonString (Arguments (Spec tfRun))),
           jsonField ''Backend'' (marshalBackend (Backend (Spec tfRun)))]))"

definition computeSpecHash :: "'w ext \<Rightarrow> TfRun \<Rightarrow> goerr + string" where
  "computeSpecHash r tfRun =
     (case hashInput r tfRun of
        Inl err \<Rightarrow> Inl (Wrap ''failed to marshal spec: '' err)
      | Inr data \<Rightarrow> Inr (hexString (take 8 (Sum256 (stringBytes data)))))"

subsection \<open>Jobs\<close>

definition isJobActive :: "Job \<Rightarrow> bool" where
  "isJobActive job \<longleftrightarrow> sint (Active (Job_Status job)) > 0"

definition isJobSucceeded :: "Job \<Rightarrow> bool" where
  "isJobSucceeded job \<longleftrightarrow> sint (Succeeded (Job_Status job)) > 0"

definition isJobFailed :: "Job \<Rightarrow> bool" where
  "isJobFailed job \<longleftrightarrow> sint (Failed (Job_Status job)) > 0"

subsection \<open>The status\<close>

definition updateStatus ::
  "'w ext \<Rightarrow> TfRun \<Rightarrow> ('w, TfRun \<times> Result \<times> goerr option) go" where
  "updateStatus r tfRun =
     andThen (StatusUpdate r tfRun) (\<lambda>res. case res of
       Inl err \<Rightarrow> ret (tfRun, requeueAfter (Seconds 5), Some err)
     | Inr tfRun \<Rightarrow> ret (tfRun, noResult, None))"

end
