(* ===== verification/GoJson_Decode.thy ===== *)
theory GoJson_Decode
  imports GoJson
begin

text \<open>
  The part of \<open>encoding/json.Unmarshal\<close> that the program uses, in the steps in which Go does it:
  a scanner that refuses every text that is not one JSON value (a state machine with one step
  per byte), the nesting limit of 10000, the values of string literals (escapes, surrogate
  pairs, invalid UTF-8), and the decoding into structs: a key matches a field exactly or up to
  case, an unknown key is skipped, \<open>null\<close> leaves a field alone, any other mismatch is an error.
\<close>

datatype jval =
    JNull
  | JBool bool
  | JNum string
  | JStr string
  | JArr "jval list"
  | JObj "(string \<times> jval) list"

subsection \<open>The value of a string literal\<close>

definition hexVal :: "char \<Rightarrow> int option" where
  "hexVal c = (let n = (of_char c :: int) in
     if 48 \<le> n \<and> n \<le> 57 then Some (n - 48)
     else if 97 \<le> n \<and> n \<le> 102 then Some (n - 87)
     else if 65 \<le> n \<and> n \<le> 70 then Some (n - 55)
     else None)"

text \<open>\<open>getu4\<close>: the four hexadecimal digits of an escape at the head of a string.\<close>

fun getu4 :: "string \<Rightarrow> int option" where
  "getu4 (b # u # h1 # h2 # h3 # h4 # _) =
     (if b = backslash \<and> u = CHR ''u'' then
        (case (hexVal h1, hexVal h2, hexVal h3, hexVal h4) of
           (Some a, Some b, Some c, Some d) \<Rightarrow> Some (((a * 16 + b) * 16 + c) * 16 + d)
         | _ \<Rightarrow> None)
      else None)"
| "getu4 _ = None"

text \<open>\<open>utf8.EncodeRune\<close>\<close>

definition runeError :: string where
  "runeError = [CHR 0xEF, CHR 0xBF, CHR 0xBD]"

definition encodeRune :: "int \<Rightarrow> string" where
  "encodeRune r =
     (if r < 128 then [char_of r]
      else if r < 2048 then [char_of (192 + r div 64), char_of (128 + r mod 64)]
      else if 55296 \<le> r \<and> r \<le> 57343 \<or> 1114111 < r then runeError
      else if r < 65536 then
        [char_of (224 + r div 4096), char_of (128 + r div 64 mod 64), char_of (128 + r mod 64)]
      else [char_of (240 + r div 262144), char_of (128 + r div 4096 mod 64),
        char_of (128 + r div 64 mod 64), char_of (128 + r mod 64)])"

text \<open>\<open>utf16.DecodeRune\<close> of two surrogates; \<open>None\<close> when they are no pair.\<close>

definition decodeSurrogates :: "int \<Rightarrow> int option \<Rightarrow> int option" where
  "decodeSurrogates hi lo = (case lo of None \<Rightarrow> None | Some l \<Rightarrow>
     if 55296 \<le> hi \<and> hi < 56320 \<and> 56320 \<le> l \<and> l < 57344
     then Some ((hi - 55296) * 1024 + (l - 56320) + 65536) else None)"

definition unescape :: "char \<Rightarrow> string" where
  "unescape c = (if c = CHR ''b'' then [CHR 0x08] else if c = CHR ''f'' then [CHR 0x0C]
     else if c = CHR ''n'' then [CHR 0x0A] else if c = CHR ''r'' then [CHR 0x0D]
     else if c = CHR ''t'' then [CHR 0x09] else [c])"

text \<open>The bytes between the quotes, which the scanner has accepted.\<close>

function unquote :: "string \<Rightarrow> string" where
  "unquote [] = []"
| "unquote (c # cs) =
     (if c = backslash then
        (case getu4 (c # cs) of
           Some rr \<Rightarrow>
             (if 55296 \<le> rr \<and> rr < 57344 then
                (case decodeSurrogates rr (getu4 (drop 5 cs)) of
                   Some r \<Rightarrow> encodeRune r @ unquote (drop 11 cs)
                 | None \<Rightarrow> runeError @ unquote (drop 5 cs))
              else encodeRune rr @ unquote (drop 5 cs))
         | None \<Rightarrow> (case cs of [] \<Rightarrow> [] | e # rest \<Rightarrow> unescape e @ unquote rest))
      else if (of_char c :: int) < 128 then c # unquote cs
      else (let n = runeLen (map of_char (c # cs)) in
        if n = 0 then runeError @ unquote cs
        else take n (c # cs) @ unquote (drop (n - 1) cs)))"
  by pat_completeness auto
termination
  by (relation "measure length") auto

declare unquote.simps(2) [simp del]

subsection \<open>The scanner\<close>

datatype token = TNull | TBool bool | TNum string | TStr string
  | TOpenArr | TCloseArr | TOpenObj | TCloseObj | TColon | TComma

text \<open>The scanner's states; the bytes of the current literal are kept last first.\<close>

datatype lex = Idle | InNum string | InWord string | InStr string | InEsc string
  | InHex nat string

definition isWhite :: "char \<Rightarrow> bool" where
  "isWhite c = (let n = (of_char c :: int) in n = 32 \<or> n = 9 \<or> n = 10 \<or> n = 13)"

definition isNumChar :: "char \<Rightarrow> bool" where
  "isNumChar c = (isDigit c \<or> c \<in> set ''+-.eE'')"

definition isWordChar :: "char \<Rightarrow> bool" where
  "isWordChar c = (let n = (of_char c :: int) in 97 \<le> n \<and> n \<le> 122)"

text \<open>The grammar of numbers: an optional sign, an integer without leading zeros, a fraction,
  an exponent.\<close>

definition isExponent :: "string \<Rightarrow> bool" where
  "isExponent s = (case s of [] \<Rightarrow> True
     | e # r \<Rightarrow> e \<in> {CHR ''e'', CHR ''E''} \<and>
        (let ds = (case r of c # r' \<Rightarrow> if c = CHR ''+'' \<or> c = CHR ''-'' then r' else r | [] \<Rightarrow> [])
         in ds \<noteq> [] \<and> list_all isDigit ds))"

definition isFraction :: "string \<Rightarrow> bool" where
  "isFraction s = (case s of [] \<Rightarrow> True
     | c # r \<Rightarrow> if c = CHR ''.'' then
          (case r of d # r' \<Rightarrow> isDigit d \<and> isExponent (dropWhile isDigit r') | [] \<Rightarrow> False)
        else isExponent s)"

definition isNumber :: "string \<Rightarrow> bool" where
  "isNumber s = (let u = (case s of c # r \<Rightarrow> if c = CHR ''-'' then r else s | [] \<Rightarrow> [])
     in case u of [] \<Rightarrow> False
        | c # r \<Rightarrow> if c = CHR ''0'' then isFraction r
            else isDigit c \<and> isFraction (dropWhile isDigit r))"

definition wordToken :: "string \<Rightarrow> token option" where
  "wordToken s = (if s = ''null'' then Some TNull else if s = ''true'' then Some (TBool True)
     else if s = ''false'' then Some (TBool False) else None)"

definition punctuation :: "char \<Rightarrow> token option" where
  "punctuation c = (if c = CHR ''['' then Some TOpenArr else if c = CHR '']'' then Some TCloseArr
     else if c = CHR ''{'' then Some TOpenObj else if c = CHR ''}'' then Some TCloseObj
     else if c = CHR '':'' then Some TColon else if c = CHR '','' then Some TComma else None)"

definition lexIdle :: "char \<Rightarrow> (token list \<times> lex) option" where
  "lexIdle c =
     (if isWhite c then Some ([], Idle)
      else if c = quote then Some ([], InStr [])
      else if isDigit c \<or> c = CHR ''-'' then Some ([], InNum [c])
      else if isWordChar c then Some ([], InWord [c])
      else map_option (\<lambda>t. ([t], Idle)) (punctuation c))"

text \<open>The token of a literal that ends here.\<close>

fun lexEnd :: "lex \<Rightarrow> token list option" where
  "lexEnd Idle = Some []"
| "lexEnd (InNum acc) = (if isNumber (rev acc) then Some [TNum (rev acc)] else None)"
| "lexEnd (InWord acc) = map_option (\<lambda>t. [t]) (wordToken (rev acc))"
| "lexEnd _ = None"

definition lexAfter :: "lex \<Rightarrow> char \<Rightarrow> (token list \<times> lex) option" where
  "lexAfter st c = (case lexEnd st of None \<Rightarrow> None
     | Some ts \<Rightarrow> map_option (\<lambda>(ts', st'). (ts @ ts', st')) (lexIdle c))"

fun lexStep :: "lex \<Rightarrow> char \<Rightarrow> (token list \<times> lex) option" where
  "lexStep Idle c = lexIdle c"
| "lexStep (InNum acc) c =
     (if isNumChar c then Some ([], InNum (c # acc)) else lexAfter (InNum acc) c)"
| "lexStep (InWord acc) c =
     (if isWordChar c then Some ([], InWord (c # acc)) else lexAfter (InWord acc) c)"
| "lexStep (InStr acc) c =
     (if c = quote then Some ([TStr (unquote (rev acc))], Idle)
      else if c = backslash then Some ([], InEsc (c # acc))
      else if (of_char c :: int) < 32 then None
      else Some ([], InStr (c # acc)))"
| "lexStep (InEsc acc) c =
     (if c = CHR ''u'' then Some ([], InHex 4 (c # acc))
      else if c \<in> set ''bfnrt/'' \<or> c = backslash \<or> c = quote then Some ([], InStr (c # acc))
      else None)"
| "lexStep (InHex n acc) c =
     (if hexVal c = None then None
      else Some ([], if n \<le> 1 then InStr (c # acc) else InHex (n - 1) (c # acc)))"

fun lexRun :: "lex \<Rightarrow> string \<Rightarrow> token list option" where
  "lexRun st [] = lexEnd st"
| "lexRun st (c # cs) = (case lexStep st c of None \<Rightarrow> None
     | Some (ts, st') \<Rightarrow> map_option ((@) ts) (lexRun st' cs))"

subsection \<open>The parser\<close>

text \<open>The containers that are open around the current position, with what they hold so far.\<close>

datatype frame = ArrFrame "jval list" | ObjFrame "(string \<times> jval) list" string

datatype mode =
    NeedValue
  | NeedValueOrClose
  | NeedKeyOrClose
  | NeedKey "(string \<times> jval) list"
  | NeedColon "(string \<times> jval) list" string
  | HaveValue jval

definition maxNestingDepth :: nat where "maxNestingDepth = 10000"

fun parseValue :: "token \<Rightarrow> frame list \<Rightarrow> (mode \<times> frame list) option" where
  "parseValue TNull st = Some (HaveValue JNull, st)"
| "parseValue (TBool b) st = Some (HaveValue (JBool b), st)"
| "parseValue (TNum n) st = Some (HaveValue (JNum n), st)"
| "parseValue (TStr s) st = Some (HaveValue (JStr s), st)"
| "parseValue TOpenArr st =
     (if length st < maxNestingDepth then Some (NeedValueOrClose, st) else None)"
| "parseValue TOpenObj st =
     (if length st < maxNestingDepth then Some (NeedKeyOrClose, st) else None)"
| "parseValue _ st = None"

text \<open>What follows a value depends on the innermost open container.\<close>

fun parseNext :: "jval \<Rightarrow> token \<Rightarrow> frame list \<Rightarrow> (mode \<times> frame list) option" where
  "parseNext v TComma (ArrFrame vs # st) = Some (NeedValue, ArrFrame (vs @ [v]) # st)"
| "parseNext v TCloseArr (ArrFrame vs # st) = Some (HaveValue (JArr (vs @ [v])), st)"
| "parseNext v TComma (ObjFrame fs k # st) = Some (NeedKey (fs @ [(k, v)]), st)"
| "parseNext v TCloseObj (ObjFrame fs k # st) = Some (HaveValue (JObj (fs @ [(k, v)])), st)"
| "parseNext v t st = None"

fun parseStep :: "mode \<Rightarrow> token \<Rightarrow> frame list \<Rightarrow> (mode \<times> frame list) option" where
  "parseStep NeedValue t st = parseValue t st"
| "parseStep NeedValueOrClose t st =
     (if t = TCloseArr then Some (HaveValue (JArr []), st) else parseValue t (ArrFrame [] # st))"
| "parseStep NeedKeyOrClose t st =
     (case t of TStr k \<Rightarrow> Some (NeedColon [] k, st)
      | TCloseObj \<Rightarrow> Some (HaveValue (JObj []), st) | _ \<Rightarrow> None)"
| "parseStep (NeedKey fs) t st = (case t of TStr k \<Rightarrow> Some (NeedColon fs k, st) | _ \<Rightarrow> None)"
| "parseStep (NeedColon fs k) t st =
     (if t = TColon then Some (NeedValue, ObjFrame fs k # st) else None)"
| "parseStep (HaveValue v) t st = parseNext v t st"

fun parseRun :: "mode \<Rightarrow> frame list \<Rightarrow> token list \<Rightarrow> jval option" where
  "parseRun m st [] = (case m of HaveValue v \<Rightarrow> if st = [] then Some v else None | _ \<Rightarrow> None)"
| "parseRun m st (t # ts) = (case parseStep m t st of None \<Rightarrow> None
     | Some (m', st') \<Rightarrow> parseRun m' st' ts)"

text \<open>The value of a text; \<open>None\<close> when \<open>Unmarshal\<close> refuses its syntax.\<close>

definition parseJSON :: "string \<Rightarrow> jval option" where
  "parseJSON s = (case lexRun Idle s of None \<Rightarrow> None | Some ts \<Rightarrow> parseRun NeedValue [] ts)"

subsection \<open>Decoding into Go values\<close>

text \<open>\<open>foldName\<close>: upper case, with the two letters outside ASCII that fold into it
  (the long s and the Kelvin sign).\<close>

fun foldName :: "string \<Rightarrow> string" where
  "foldName (a # b # c # rest) =
     (if a = CHR 0xC5 \<and> b = CHR 0xBF then CHR ''S'' # foldName (c # rest)
      else if a = CHR 0xE2 \<and> b = CHR 0x84 \<and> c = CHR 0xAA then CHR ''K'' # foldName rest
      else (if 97 \<le> (of_char a :: int) \<and> (of_char a :: int) \<le> 122
            then char_of ((of_char a :: int) - 32) else a) # foldName (b # c # rest))"
| "foldName [a, b] =
     (if a = CHR 0xC5 \<and> b = CHR 0xBF then ''S''
      else (if 97 \<le> (of_char a :: int) \<and> (of_char a :: int) \<le> 122
            then char_of ((of_char a :: int) - 32) else a) # foldName [b])"
| "foldName [a] = [if 97 \<le> (of_char a :: int) \<and> (of_char a :: int) \<le> 122
     then char_of ((of_char a :: int) - 32) else a]"
| "foldName [] = []"

definition isField :: "string \<Rightarrow> string \<Rightarrow> bool" where
  "isField name k = (k = name \<or> foldName k = foldName name)"

text \<open>A string field: the decoded value over the old one, or an error.\<close>

definition decodeString :: "jval \<Rightarrow> string \<Rightarrow> string option" where
  "decodeString v old = (case v of JStr s \<Rightarrow> Some s | JNull \<Rightarrow> Some old | _ \<Rightarrow> None)"

text \<open>A struct: its keys in the order of the text, so that the last of equal keys wins.\<close>

fun decodeFields :: "(string \<Rightarrow> jval \<Rightarrow> 'a \<Rightarrow> 'a option) \<Rightarrow> (string \<times> jval) list \<Rightarrow> 'a \<Rightarrow> 'a option" where
  "decodeFields f [] x = Some x"
| "decodeFields f ((k, v) # rest) x =
     (case f k v x of None \<Rightarrow> None | Some x' \<Rightarrow> decodeFields f rest x')"

definition decodeStruct ::
  "(string \<Rightarrow> jval \<Rightarrow> 'a \<Rightarrow> 'a option) \<Rightarrow> jval \<Rightarrow> 'a \<Rightarrow> 'a option" where
  "decodeStruct f v x = (case v of JObj fields \<Rightarrow> decodeFields f fields x
     | JNull \<Rightarrow> Some x | _ \<Rightarrow> None)"

text \<open>
  A slice: its length and the elements of its array. Decoding an array into a slice that an
  earlier key has filled decodes over the elements that are still there; an empty array and
  \<open>null\<close> drop them.
\<close>

type_synonym 'a goslice = "nat \<times> 'a list"

definition elems :: "'a goslice \<Rightarrow> 'a list" where
  "elems s = take (fst s) (snd s)"

fun decodeElems ::
  "(jval \<Rightarrow> 'a \<Rightarrow> 'a option) \<Rightarrow> 'a \<Rightarrow> jval list \<Rightarrow> 'a list \<Rightarrow> 'a list option" where
  "decodeElems f zero [] olds = Some olds"
| "decodeElems f zero (v # vs) olds =
     (case f v (case olds of [] \<Rightarrow> zero | x # _ \<Rightarrow> x) of None \<Rightarrow> None
      | Some y \<Rightarrow> map_option (Cons y) (decodeElems f zero vs (tl olds)))"

definition decodeSlice ::
  "(jval \<Rightarrow> 'a \<Rightarrow> 'a option) \<Rightarrow> 'a \<Rightarrow> jval \<Rightarrow> 'a goslice \<Rightarrow> 'a goslice option" where
  "decodeSlice f zero v s = (case v of
       JArr vs \<Rightarrow> (if vs = [] then Some (0, [])
         else map_option (Pair (length vs)) (decodeElems f zero vs (snd s)))
     | JNull \<Rightarrow> Some (0, []) | _ \<Rightarrow> None)"

subsection \<open>Evaluation\<close>

lemmas parse_defs = parseJSON_def lexIdle_def isWhite_def quote_def backslash_def isDigit_def
  isWordChar_def isNumChar_def punctuation_def unquote.simps(2) lexAfter_def wordToken_def
  isNumber_def isFraction_def isExponent_def maxNestingDepth_def
lemmas decode_defs = decodeStruct_def decodeSlice_def isField_def decodeString_def elems_def

end
