(* ===== verification/GoUrl.thy ===== *)
theory GoUrl
  imports GoStd
begin

text \<open>
  \<open>net/url\<close> as far as \<open>http.NewRequestWithContext\<close> uses it: \<open>url.Parse\<close> with its unescaping, its
  checks of host, port and user information, and the texts of its errors; and what becomes of the
  addresses that the program builds. The right sides follow Go 1.22. \<open>RawPath\<close>, \<open>RawFragment\<close>
  and \<open>OmitHost\<close>, which only matter when a URL is printed again, are left out.
\<close>

subsection \<open>Texts\<close>

text \<open>\<open>strings.Cut\<close> at a byte: the text before its first occurrence, and the text after it if
  there is one. \<open>cutLast\<close> cuts at the last occurrence.\<close>

definition cutAt :: "char \<Rightarrow> string \<Rightarrow> string \<times> string option" where
  "cutAt c s = (takeWhile (\<lambda>x. x \<noteq> c) s,
     case dropWhile (\<lambda>x. x \<noteq> c) s of [] \<Rightarrow> None | _ # rest \<Rightarrow> Some rest)"

definition cutLast :: "char \<Rightarrow> string \<Rightarrow> (string \<times> string) option" where
  "cutLast c s = (case cutAt c (rev s) of (_, None) \<Rightarrow> None | (b, Some a) \<Rightarrow> Some (rev a, rev b))"

definition optText :: "string option \<Rightarrow> string" where
  "optText x = (case x of None \<Rightarrow> '''' | Some s \<Rightarrow> s)"

text \<open>\<open>strconv.Quote\<close>; text that is not ASCII is taken to be printable.\<close>

definition quoteByte :: "char \<Rightarrow> string" where
  "quoteByte c = (let n = (of_char c :: int) in
     if n = 34 \<or> n = 92 then [CHR 0x5C, c]
     else if n = 7 then [CHR 0x5C, CHR ''a''] else if n = 8 then [CHR 0x5C, CHR ''b'']
     else if n = 9 then [CHR 0x5C, CHR ''t''] else if n = 10 then [CHR 0x5C, CHR ''n'']
     else if n = 11 then [CHR 0x5C, CHR ''v''] else if n = 12 then [CHR 0x5C, CHR ''f'']
     else if n = 13 then [CHR 0x5C, CHR ''r'']
     else if n < 32 \<or> n = 127 then [CHR 0x5C, CHR ''x'', hexDigit (n div 16), hexDigit (n mod 16)]
     else [c])"

definition Quote :: "string \<Rightarrow> string" where
  "Quote s = [CHR 0x22] @ concat (map quoteByte s) @ [CHR 0x22]"

subsection \<open>Bytes\<close>

definition isAlpha :: "char \<Rightarrow> bool" where
  "isAlpha c = (let n = (of_char c :: int) in (65 \<le> n \<and> n \<le> 90) \<or> (97 \<le> n \<and> n \<le> 122))"

definition isControl :: "char \<Rightarrow> bool" where
  "isControl c = (let n = (of_char c :: int) in n < 32 \<or> n = 127)"

definition unreserved :: "char \<Rightarrow> bool" where
  "unreserved c = (isAlpha c \<or> isDigit c \<or> c \<in> set ''-_.~'')"

definition ishex :: "char \<Rightarrow> bool" where
  "ishex c = (let n = (of_char c :: int) in isDigit c \<or> (97 \<le> n \<and> n \<le> 102) \<or> (65 \<le> n \<and> n \<le> 70))"

definition unhex :: "char \<Rightarrow> int" where
  "unhex c = (let n = of_char c in if isDigit c then n - 48 else if 97 \<le> n then n - 87 else n - 55)"

subsection \<open>Unescaping\<close>

datatype encoding = encodePath | encodeHost | encodeZone | encodeUserPassword | encodeFragment

text \<open>\<open>shouldEscape\<close> for the two modes in which the unescaping asks it. The letters, digits and
  the bytes that a host may hold stay; every other one has to be escaped.\<close>

definition shouldEscapeHost :: "char \<Rightarrow> bool" where
  "shouldEscapeHost c =
     (\<not> (isAlpha c \<or> isDigit c \<or> c \<in> set ''!$&()*+,;=:[]<>'' \<or> c = CHR 0x27 \<or> c = CHR 0x22 \<or>
       c \<in> set ''-_.~''))"

definition escapeError :: "string \<Rightarrow> string" where
  "escapeError s = ''invalid URL escape '' @ Quote s"

definition hostError :: "char \<Rightarrow> string" where
  "hostError c = ''invalid character '' @ Quote [c] @ '' in host name''"

text \<open>The value of an escape, and whether the mode refuses it: a host may escape only bytes that
  are not ASCII, or the percent sign; a zone only what it could also hold as it is.\<close>

definition escaped :: "char \<Rightarrow> char \<Rightarrow> char" where
  "escaped a b = char_of (16 * unhex a + unhex b)"

definition refusedEscape :: "encoding \<Rightarrow> char \<Rightarrow> char \<Rightarrow> bool" where
  "refusedEscape mode a b = (case mode of
      encodeHost \<Rightarrow> unhex a < 8 \<and> [a, b] \<noteq> ''25''
    | encodeZone \<Rightarrow> [a, b] \<noteq> ''25'' \<and> escaped a b \<noteq> CHR '' '' \<and> shouldEscapeHost (escaped a b)
    | _ \<Rightarrow> False)"

fun unescape :: "encoding \<Rightarrow> string \<Rightarrow> string + string" where
  "unescape mode [] = Inr []"
| "unescape mode (c # s) =
    (if c = CHR ''%'' then
       (case s of
          a # b # rest \<Rightarrow>
            if ishex a \<and> ishex b then
              if refusedEscape mode a b then Inl (escapeError [c, a, b])
              else map_sum id (\<lambda>t. escaped a b # t) (unescape mode rest)
            else Inl (escapeError [c, a, b])
        | _ \<Rightarrow> Inl (escapeError (c # s)))
     else if mode \<in> {encodeHost, encodeZone} \<and> (of_char c :: int) < 128 \<and> shouldEscapeHost c
     then Inl (hostError c)
     else map_sum id (\<lambda>t. c # t) (unescape mode s))"

subsection \<open>The authority\<close>

definition validOptionalPort :: "string \<Rightarrow> bool" where
  "validOptionalPort p = (case p of [] \<Rightarrow> True | c # ds \<Rightarrow> c = CHR '':'' \<and> list_all isDigit ds)"

definition validUserinfo :: "string \<Rightarrow> bool" where
  "validUserinfo s = list_all (\<lambda>c. isAlpha c \<or> isDigit c \<or> c \<in> set ''-._:~!$&()*+,;=%@'' \<or>
     c = CHR 0x27) s"

definition portError :: "string \<Rightarrow> string" where
  "portError p = ''invalid port '' @ Quote p @ '' after host''"

text \<open>The place of the escaped percent sign before a zone.\<close>

fun cutZone :: "string \<Rightarrow> (string \<times> string) option" where
  "cutZone [] = None"
| "cutZone (c # s) = (if take 3 (c # s) = ''%25'' then Some ([], c # s)
     else map_option (\<lambda>(a, b). (c # a, b)) (cutZone s))"

definition parseHost :: "string \<Rightarrow> string + string" where
  "parseHost host =
     (if take 1 host = ''['' then
        (case cutLast (CHR '']'') host of
           None \<Rightarrow> Inl (''missing '' @ [CHR 0x27] @ '']'' @ [CHR 0x27] @ '' in host'')
         | Some (addr, colonPort) \<Rightarrow>
             if \<not> validOptionalPort colonPort then Inl (portError colonPort)
             else (case cutZone addr of
                 None \<Rightarrow> unescape encodeHost host
               | Some (host1, zone) \<Rightarrow>
                   (case unescape encodeHost host1 of
                      Inl err \<Rightarrow> Inl err
                    | Inr host1 \<Rightarrow>
                      (case unescape encodeZone zone of
                         Inl err \<Rightarrow> Inl err
                       | Inr host2 \<Rightarrow>
                         (case unescape encodeHost ('']'' @ colonPort) of
                            Inl err \<Rightarrow> Inl err
                          | Inr host3 \<Rightarrow> Inr (host1 @ host2 @ host3))))))
      else (case cutLast (CHR '':'') host of
          None \<Rightarrow> unescape encodeHost host
        | Some (_, port) \<Rightarrow>
            if \<not> validOptionalPort ('':'' @ port) then Inl (portError ('':'' @ port))
            else unescape encodeHost host))"

type_synonym userinfo = "string \<times> string option"

definition parseUserinfo :: "string \<Rightarrow> string + userinfo" where
  "parseUserinfo userinfo =
     (if \<not> validUserinfo userinfo then Inl ''net/url: invalid userinfo''
      else (case cutAt (CHR '':'') userinfo of
          (_, None) \<Rightarrow> map_sum id (\<lambda>u. (u, None)) (unescape encodeUserPassword userinfo)
        | (username, Some password) \<Rightarrow>
            (case unescape encodeUserPassword username of
               Inl err \<Rightarrow> Inl err
             | Inr username \<Rightarrow> map_sum id (\<lambda>p. (username, Some p))
                 (unescape encodeUserPassword password))))"

definition parseAuthority :: "string \<Rightarrow> string + userinfo option \<times> string" where
  "parseAuthority authority = (case cutLast (CHR ''@'') authority of
      None \<Rightarrow> map_sum id (\<lambda>host. (None, host)) (parseHost authority)
    | Some (userinfo, host) \<Rightarrow>
        (case parseHost host of
           Inl err \<Rightarrow> Inl err
         | Inr host \<Rightarrow> map_sum id (\<lambda>u. (Some u, host)) (parseUserinfo userinfo)))"

subsection \<open>The URL\<close>

record GoURL =
  Scheme :: string
  Opaque :: string
  User :: "userinfo option"
  Host :: string
  URLPath :: string
  ForceQuery :: bool
  RawQuery :: string
  Fragment :: string

definition emptyURL :: GoURL where
  "emptyURL = \<lparr>Scheme = '''', Opaque = '''', User = None, Host = '''', URLPath = '''',
     ForceQuery = False, RawQuery = '''', Fragment = ''''\<rparr>"

text \<open>\<open>getScheme\<close>: the scheme with the rest after its colon. The first argument is the text read.\<close>

fun getScheme :: "string \<Rightarrow> string \<Rightarrow> string + string \<times> string" where
  "getScheme seen [] = Inr ('''', seen)"
| "getScheme seen (c # s) =
    (if isAlpha c then getScheme (seen @ [c]) s
     else if isDigit c \<or> c \<in> set ''+-.'' then
       (if seen = [] then Inr ('''', c # s) else getScheme (seen @ [c]) s)
     else if c = CHR '':'' then
       (if seen = [] then Inl ''missing protocol scheme'' else Inr (seen, s))
     else Inr ('''', seen @ c # s))"

definition splitQuery :: "string \<Rightarrow> string \<times> bool \<times> string" where
  "splitQuery rest = (case cutAt (CHR ''?'') rest of (p, q) \<Rightarrow> (p, q = Some '''', optText q))"

text \<open>\<open>parse\<close>, after the fragment has been cut off.\<close>

definition parseNoFragment :: "string \<Rightarrow> string + GoURL" where
  "parseNoFragment rawURL =
     (if list_ex isControl rawURL then Inl ''net/url: invalid control character in URL''
      else if rawURL = ''*'' then Inr (emptyURL\<lparr>URLPath := ''*''\<rparr>)
      else (case getScheme [] rawURL of
        Inl err \<Rightarrow> Inl err
      | Inr (scheme, rest) \<Rightarrow>
        (case splitQuery rest of (rest, force, query) \<Rightarrow>
         let url = emptyURL\<lparr>Scheme := ToLower scheme, ForceQuery := force, RawQuery := query\<rparr> in
         if take 1 rest \<noteq> ''/'' \<and> scheme \<noteq> '''' then Inr (url\<lparr>Opaque := rest\<rparr>)
         else if take 1 rest \<noteq> ''/'' \<and> CHR '':'' \<in> set (fst (cutAt (CHR ''/'') rest))
         then Inl ''first path segment in URL cannot contain colon''
         else if take 2 rest = ''//'' \<and> (scheme \<noteq> '''' \<or> take 3 rest \<noteq> ''///'') then
           (let authority = takeWhile (\<lambda>c. c \<noteq> CHR ''/'') (drop 2 rest);
                path = dropWhile (\<lambda>c. c \<noteq> CHR ''/'') (drop 2 rest)
            in case parseAuthority authority of
                 Inl err \<Rightarrow> Inl err
               | Inr (user, host) \<Rightarrow>
                   map_sum id (\<lambda>p. url\<lparr>User := user, Host := host, URLPath := p\<rparr>)
                     (unescape encodePath path))
         else map_sum id (\<lambda>p. url\<lparr>URLPath := p\<rparr>) (unescape encodePath rest))))"

definition parseError :: "string \<Rightarrow> string \<Rightarrow> string" where
  "parseError u err = ''parse '' @ Quote u @ '': '' @ err"

definition parseURL :: "string \<Rightarrow> string + GoURL" where
  "parseURL rawURL = (case cutAt (CHR ''#'') rawURL of (u, frag) \<Rightarrow>
     (case parseNoFragment u of
        Inl err \<Rightarrow> Inl (parseError u err)
      | Inr url \<Rightarrow>
          (case unescape encodeFragment (optText frag) of
             Inl err \<Rightarrow> Inl (parseError rawURL err)
           | Inr frag \<Rightarrow> Inr (url\<lparr>Fragment := frag\<rparr>))))"

subsection \<open>Addresses with a plain host\<close>

text \<open>A host name with an optional port, and text that a URL can hold without an escape.\<close>

definition plainHost :: "string \<Rightarrow> bool" where
  "plainHost h = validOptionalPort (dropWhile unreserved h)"

definition urlSafe :: "string \<Rightarrow> bool" where
  "urlSafe s = list_all (\<lambda>c. \<not> isControl c \<and> c \<noteq> CHR ''%'') s"

lemma urlSafe_simps [simp]:
  "urlSafe []" "urlSafe (s @ s') \<longleftrightarrow> urlSafe s \<and> urlSafe s'"
  "urlSafe (c # s) \<longleftrightarrow> \<not> isControl c \<and> c \<noteq> CHR ''%'' \<and> urlSafe s"
  by (auto simp: urlSafe_def)

lemma map_sum_Inr: "map_sum f g x = Inr z \<longleftrightarrow> (\<exists>y. x = Inr y \<and> z = g y)"
  by (cases x) auto

lemma unescape_plain:
  "mode \<notin> {encodeHost, encodeZone} \<Longrightarrow> CHR ''%'' \<notin> set s \<Longrightarrow> unescape mode s = Inr s"
  by (induction s) auto

lemma unescape_append:
  "CHR ''%'' \<notin> set a \<Longrightarrow> unescape encodePath (a @ s) = map_sum id ((@) a) (unescape encodePath s)"
proof (induction a)
  case Nil
  then show ?case
    by (cases "unescape encodePath s") simp_all
next
  case (Cons c a)
  then show ?case
    by (cases "unescape encodePath s") auto
qed

lemma unescape_host:
  "CHR ''%'' \<notin> set s \<Longrightarrow> \<forall>c \<in> set s. \<not> shouldEscapeHost c \<Longrightarrow> unescape encodeHost s = Inr s"
  by (induction s) auto

lemma cut_none: "c \<notin> set s \<Longrightarrow> cutAt c s = (s, None)"
  by (induction s) (auto simp: cutAt_def)

lemma cut_append: "c \<notin> set a \<Longrightarrow> cutAt c (a @ c # b) = (a, Some b)"
  by (induction a) (auto simp: cutAt_def)

lemma cutLast_none: "c \<notin> set s \<Longrightarrow> cutLast c s = None"
  by (simp add: cutLast_def cut_none)

lemma cutLast_append: "c \<notin> set b \<Longrightarrow> cutLast c (a @ c # b) = Some (a, b)"
  by (simp add: cutLast_def cut_append)

lemma unreserved_host: "unreserved c \<Longrightarrow> \<not> shouldEscapeHost c"
  by (auto simp: unreserved_def shouldEscapeHost_def)

lemma unreserved_not:
  "\<not> unreserved (CHR ''/'')" "\<not> unreserved (CHR ''?'')" "\<not> unreserved (CHR ''#'')"
  "\<not> unreserved (CHR ''%'')" "\<not> unreserved (CHR ''@'')" "\<not> unreserved (CHR ''['')"
  "\<not> unreserved (CHR '':'')"
  by (simp_all add: unreserved_def isAlpha_def isDigit_def)

lemma unreserved_not_control: "unreserved c \<Longrightarrow> \<not> isControl c"
  by (auto simp: unreserved_def isAlpha_def isDigit_def isControl_def Let_def)

lemma plainHost_cases:
  assumes "plainHost h"
  obtains (name) "\<forall>c \<in> set h. unreserved c"
  | (port) n p where "h = n @ CHR '':'' # p" "\<forall>c \<in> set n. unreserved c" "list_all isDigit p"
proof (cases "dropWhile unreserved h")
  case Nil
  then show ?thesis
    using name by (simp add: dropWhile_eq_Nil_conv)
next
  case (Cons c p)
  then have "h = takeWhile unreserved h @ CHR '':'' # p" "list_all isDigit p"
    using assms takeWhile_dropWhile_id [of unreserved h]
    by (simp_all add: plainHost_def validOptionalPort_def)
  then show ?thesis
    using port set_takeWhileD by metis
qed

lemma plainHost_bytes:
  assumes "plainHost h" "c \<in> set h"
  shows "unreserved c \<or> c = CHR '':''"
  using assms(1)
proof (cases rule: plainHost_cases)
  case (port n p)
  then show ?thesis
    using assms(2) by (auto simp: list_all_iff unreserved_def)
qed (use assms(2) in blast)

lemma plainHost_free: "plainHost h \<Longrightarrow> \<not> unreserved c \<Longrightarrow> c \<noteq> CHR '':'' \<Longrightarrow> c \<notin> set h"
  using plainHost_bytes by blast

lemma parseHost_plain:
  assumes "plainHost h"
  shows "parseHost h = Inr h"
proof -
  have "\<not> shouldEscapeHost (CHR '':'')"
    by (simp add: shouldEscapeHost_def)
  then have host: "unescape encodeHost h = Inr h"
    using plainHost_bytes [OF assms] unreserved_host unreserved_not(4)
    by (intro unescape_host) fastforce+
  have "take 1 h \<noteq> ''[''"
    using plainHost_free [OF assms unreserved_not(6)] by (cases h) auto
  with assms show ?thesis
  proof (cases rule: plainHost_cases)
    case name
    then have "cutLast (CHR '':'') h = None"
      using unreserved_not(7) by (intro cutLast_none) blast
    then show ?thesis
      using \<open>take 1 h \<noteq> ''[''\<close> by (simp add: parseHost_def host)
  next
    case (port n p)
    have "\<not> isDigit (CHR '':'')"
      by (simp add: isDigit_def)
    then have "CHR '':'' \<notin> set p"
      using port(3) by (auto simp: list_all_iff)
    then have "cutLast (CHR '':'') h = Some (n, p)"
      unfolding port(1) by (rule cutLast_append)
    then show ?thesis
      using port(3) \<open>take 1 h \<noteq> ''[''\<close> by (simp add: parseHost_def host validOptionalPort_def)
  qed
qed

lemma parseAuthority_plain: "plainHost h \<Longrightarrow> parseAuthority h = Inr (None, h)"
  using plainHost_free [OF _ unreserved_not(5)]
  by (simp add: parseAuthority_def cutLast_none parseHost_plain)

text \<open>What the parser makes of an address on such a host: the path up to a question mark or a
  number sign, the query between the first of each, the fragment.\<close>

lemma cut_prefix: "c \<notin> set a \<Longrightarrow> cutAt c (a @ s) = (a @ fst (cutAt c s), snd (cutAt c s))"
  by (induction a) (auto simp: cutAt_def)

lemma cut_parts: "set (fst (cutAt c s)) \<subseteq> set s" "set (optText (snd (cutAt c s))) \<subseteq> set s"
proof -
  show "set (fst (cutAt c s)) \<subseteq> set s"
    by (auto simp: cutAt_def dest: set_takeWhileD)
  show "set (optText (snd (cutAt c s))) \<subseteq> set s"
    using set_dropWhileD [of _ "\<lambda>x. x \<noteq> c" s]
    by (auto simp: cutAt_def optText_def split: list.split)
qed

lemma getScheme_https: "getScheme [] (''https:'' @ s) = Inr (''https'', s)"
  by (simp add: isAlpha_def isDigit_def)

lemma ToLower_https: "ToLower ''https'' = ''https''"
  by (simp add: ToLower_def lowerChar_def)

lemma parseNoFragment_plain:
  assumes "plainHost h"
  shows "parseNoFragment (''https://'' @ h @ CHR ''/'' # s) =
    (if list_ex isControl s then Inl ''net/url: invalid control character in URL''
     else map_sum id (\<lambda>p. \<lparr>Scheme = ''https'', Opaque = '''', User = None, Host = h,
       URLPath = CHR ''/'' # p, ForceQuery = (snd (cutAt (CHR ''?'') s) = Some ''''),
       RawQuery = optText (snd (cutAt (CHR ''?'') s)), Fragment = ''''\<rparr>)
       (unescape encodePath (fst (cutAt (CHR ''?'') s))))"
proof (cases "list_ex isControl s")
  case True
  then show ?thesis
    by (simp add: parseNoFragment_def)
next
  case False
  let ?p = "CHR ''/'' # fst (cutAt (CHR ''?'') s)"
  have "\<not> isControl (CHR '':'')" "\<not> isControl (CHR ''/'')"
    by (simp_all add: isControl_def)
  then have "\<not> list_ex isControl h"
    using plainHost_bytes [OF assms] unreserved_not_control by (auto simp: list_ex_iff)
  then have control: "\<not> list_ex isControl (''https://'' @ h @ CHR ''/'' # s)"
    using False by (auto simp: isControl_def list_ex_iff)
  have "CHR ''?'' \<notin> set (''//'' @ h @ ''/'')"
    using plainHost_free [OF assms unreserved_not(2)] by simp
  then have query: "splitQuery (''//'' @ h @ CHR ''/'' # s) =
      (''//'' @ h @ ?p, snd (cutAt (CHR ''?'') s) = Some '''', optText (snd (cutAt (CHR ''?'') s)))"
    using cut_prefix [of _ "''//'' @ h @ ''/''" s] by (simp add: splitQuery_def)
  have "CHR ''/'' \<notin> set h"
    using plainHost_free [OF assms unreserved_not(1)] by simp
  then have authority: "takeWhile (\<lambda>c. c \<noteq> CHR ''/'') (h @ ?p) = h"
      "dropWhile (\<lambda>c. c \<noteq> CHR ''/'') (h @ ?p) = ?p"
    by (induction h) auto
  have path: "unescape encodePath ?p = map_sum id (Cons (CHR ''/''))
      (unescape encodePath (fst (cutAt (CHR ''?'') s)))"
    by simp
  have "''https://'' @ x = ''https:'' @ ''//'' @ x" for x
    by simp
  then have scheme: "getScheme [] (''https://'' @ h @ CHR ''/'' # s) = Inr (''https'', ''//'' @ h @ CHR ''/'' # s)"
    using getScheme_https by metis
  show ?thesis
    unfolding parseNoFragment_def scheme if_not_P [OF control] if_not_P [OF False]
    using query parseAuthority_plain [OF assms] authority path
    by (cases "unescape encodePath (fst (cutAt (CHR ''?'') s))")
      (simp_all add: ToLower_https emptyURL_def del: unescape.simps)
qed

lemma cut_address:
  assumes "plainHost h"
  shows "cutAt (CHR ''#'') (''https://'' @ h @ CHR ''/'' # s) =
    (''https://'' @ h @ CHR ''/'' # fst (cutAt (CHR ''#'') s), snd (cutAt (CHR ''#'') s))"
proof -
  have "CHR ''#'' \<notin> set (''https://'' @ h @ ''/'')"
    using plainHost_free [OF assms unreserved_not(3)] by simp
  then show ?thesis
    using cut_prefix [of _ "''https://'' @ h @ ''/''" s] by simp
qed

lemma parseURL_plain:
  assumes "plainHost h" "urlSafe s"
  shows "parseURL (''https://'' @ h @ CHR ''/'' # s) =
    (let (u, frag) = cutAt (CHR ''#'') s; (path, query) = cutAt (CHR ''?'') u
     in Inr \<lparr>Scheme = ''https'', Opaque = '''', User = None, Host = h, URLPath = CHR ''/'' # path,
       ForceQuery = (query = Some ''''), RawQuery = optText query, Fragment = optText frag\<rparr>)"
proof -
  obtain u frag where cut: "cutAt (CHR ''#'') s = (u, frag)"
    by fastforce
  have "urlSafe u"
    using assms(2) cut_parts(1) [of "CHR ''#''" s] cut by (auto simp: urlSafe_def list_all_iff)
  then have "\<not> list_ex isControl u" "CHR ''%'' \<notin> set (fst (cutAt (CHR ''?'') u))"
    using cut_parts(1) [of "CHR ''?''" u] by (auto simp: urlSafe_def list_all_iff list_ex_iff)
  moreover have "CHR ''%'' \<notin> set (optText frag)"
    using assms(2) cut_parts(2) [of "CHR ''#''" s] cut by (auto simp: urlSafe_def list_all_iff)
  ultimately show ?thesis
    unfolding parseURL_def cut_address [OF assms(1)] cut prod.case fst_conv snd_conv
      parseNoFragment_plain [OF assms(1)] Let_def
    by (simp add: unescape_plain split: prod.split)
qed

text \<open>Whatever follows a plain host, a request that is made goes to this host, and a path that is
  written out stays in front.\<close>

lemma parseURL_address:
  assumes "parseURL (''https://'' @ h @ CHR ''/'' # s) = Inr url" "plainHost h"
  shows "Host url = h \<and> User url = None \<and> (\<exists>p. URLPath url = CHR ''/'' # p \<and>
    unescape encodePath (fst (cutAt (CHR ''?'') (fst (cutAt (CHR ''#'') s)))) = Inr p)"
  using assms(1) unfolding parseURL_def cut_address [OF assms(2)] prod.case parseNoFragment_plain [OF assms(2)]
  by (auto simp: map_sum_Inr split: sum.split_asm if_split_asm)

lemma parseURL_host:
  assumes "parseURL (''https://'' @ h @ CHR ''/'' # a @ s) = Inr url" "plainHost h"
    and "CHR ''%'' \<notin> set a" "CHR ''?'' \<notin> set a" "CHR ''#'' \<notin> set a"
  shows "Host url = h" "User url = None" "prefix (CHR ''/'' # a) (URLPath url)"
  using parseURL_address [OF assms(1,2)]
  by (auto simp: cut_prefix [OF assms(4)] cut_prefix [OF assms(5)] unescape_append [OF assms(3)] map_sum_Inr)

lemma parseNoFragment_scheme:
  assumes "parseNoFragment u = Inr url" "getScheme [] u = Inr (scheme, rest)" "u \<noteq> ''*''"
  shows "Scheme url = ToLower scheme"
proof -
  obtain p f q where query: "splitQuery rest = (p, f, q)"
    by (rule prod_cases3)
  show ?thesis
    using assms unfolding parseNoFragment_def Let_def
    by (simp add: query map_sum_Inr split: if_split_asm sum.split_asm prod.split_asm) auto
qed

lemma parseURL_https:
  assumes "parseURL (''https://'' @ x) = Inr url"
  shows "Scheme url = ''https''"
proof -
  obtain u frag where cut: "cutAt (CHR ''#'') (''https://'' @ x) = (''https:'' @ u, frag)"
    using cut_prefix [of "CHR ''#''" "''https:''" "''//'' @ x"] by auto
  then obtain url' where "parseNoFragment (''https:'' @ u) = Inr url'" "Scheme url = Scheme url'"
    using assms by (auto simp: parseURL_def split: sum.split_asm)
  then show ?thesis
    using parseNoFragment_scheme [OF _ getScheme_https] ToLower_https by fastforce
qed

end
