(* ===== verification/Scalr.thy ===== *)
theory Scalr
  imports Effects GoJson_Decode GoUrl
begin

text \<open>
  \<open>internal/scalr\<close>: the client of the Scalr API. A method reads the token from the TfRun's
  Secret, sends one request and decodes the answer. \<open>tfRun.Spec.Backend.Cloud\<close> is a pointer:
  the methods dereference it, and a nil one panics.
\<close>

definition errMissingCredentials :: string where
  "errMissingCredentials = ''missing credentials secret reference in TfRun spec''"
definition errGetEnvironmentFailed :: string where
  "errGetEnvironmentFailed = ''failed to get Scalr environment''"
definition errGetEnvironmentListFailed :: string where
  "errGetEnvironmentListFailed = ''failed to get Scalr environment list''"
definition errEnvironmentNotFound :: string where
  "errEnvironmentNotFound = ''scalr environment not found''"
definition errWorkspaceNotFound :: string where
  "errWorkspaceNotFound = ''scalr workspace not found''"
definition errWorkspaceCreationFailed :: string where
  "errWorkspaceCreationFailed = ''failed to create scalr workspace''"
definition errWorkspaceDeletionFailed :: string where
  "errWorkspaceDeletionFailed = ''failed to delete scalr workspace''"
definition requestHeaderAccept :: string where
  "requestHeaderAccept = ''application/vnd.api+json''"
definition IacPlatform :: string where
  "IacPlatform = ''opentofu''"

text \<open>\<open>fmt.Errorf("%s: %w", msg, err)\<close>\<close>

definition withCause :: "string \<Rightarrow> goerr \<Rightarrow> goerr" where
  "withCause msg err = Wrap (msg @ '': '') err"

text \<open>A message with a status code and a body.\<close>

definition statusError :: "string \<Rightarrow> HttpResponse \<Rightarrow> string \<Rightarrow> goerr" where
  "statusError what resp body =
     Err (what @ '' failed with status code '' @ itoa (StatusCode resp) @ '': '' @ body)"

record 'w Service =
  Service_K8s :: "'w ext"
  Timeout :: int64

definition NewService :: "'w ext \<Rightarrow> 'w Service" where
  "NewService k8s = \<lparr>Service_K8s = k8s, Timeout = Seconds 30\<rparr>"

subsection \<open>Token and headers\<close>

definition GetScalrToken :: "'w Service \<Rightarrow> TfRun \<Rightarrow> ('w, goerr + string) go" where
  "GetScalrToken s tfRun =
     (let secretName = Provider_CredentialsSecretRef (ForProvider (Spec tfRun)) in
      if secretName = '''' then ret (Inl (Err errMissingCredentials))
      else andThen (GetSecret (Service_K8s s) (Namespace tfRun, secretName)) (\<lambda>res. case res of
          Inl err \<Rightarrow> ret (Inl (Wrap (''failed to get remote state provider credentials from '' @
            Namespace tfRun @ '' of secret '' @ secretName @ '' with error '') err))
        | Inr secret \<Rightarrow>
           (case gomap_get (Data secret) ''token'' of
              None \<Rightarrow> ret (Inl (Err (''token not found in secret '' @ Namespace tfRun @ ''/'' @
                secretName)))
            | Some token \<Rightarrow>
                if length token = 0
                then ret (Inl (Err (''token not found in secret '' @ Namespace tfRun @ ''/'' @
                  secretName)))
                else ret (Inr token))))"

definition setAuthHeaders ::
  "'w Service \<Rightarrow> TfRun \<Rightarrow> HttpRequest \<Rightarrow> ('w, goerr + HttpRequest) go" where
  "setAuthHeaders s tfRun req =
     andThen (GetScalrToken s tfRun) (\<lambda>res. case res of
       Inl err \<Rightarrow> ret (Inl err)
     | Inr token \<Rightarrow> ret (Inr
         (HeaderSet ''Accept'' requestHeaderAccept
           (HeaderSet ''Authorization'' (''Bearer '' @ token) req))))"

text \<open>\<open>http.NewRequestWithContext\<close> with one of the three methods that the program uses: it parses
  the URL, which the request keeps here as the text it was given.\<close>

definition newRequest :: "string \<Rightarrow> string \<Rightarrow> string option \<Rightarrow> goerr + HttpRequest" where
  "newRequest method url body = (case parseURL url of
      Inl err \<Rightarrow> Inl (Err err)
    | Inr _ \<Rightarrow> Inr \<lparr>Method = method, URL = url, Header = [], ReqBody = body\<rparr>)"

text \<open>An address on a plain host is never refused.\<close>

lemma newRequest_plain:
  assumes "plainHost h" "urlSafe s"
  shows "newRequest m (''https://'' @ h @ CHR ''/'' # s) b =
    Inr \<lparr>Method = m, URL = ''https://'' @ h @ CHR ''/'' # s, Header = [], ReqBody = b\<rparr>"
  unfolding newRequest_def parseURL_plain [OF assms] Let_def by (simp split: prod.split)

lemmas newRequest_chars = newRequest_plain [simplified]

lemma newRequest_Inr:
  "newRequest m u b = Inr q \<longleftrightarrow> (\<exists>url. parseURL u = Inr url) \<and>
     q = \<lparr>Method = m, URL = u, Header = [], ReqBody = b\<rparr>"
  by (auto simp: newRequest_def split: sum.split)

definition buildAuthRequest ::
  "'w Service \<Rightarrow> TfRun \<Rightarrow> string \<Rightarrow> string \<Rightarrow> string option \<Rightarrow> ('w, goerr + HttpRequest) go" where
  "buildAuthRequest s tfRun method url body =
     (case newRequest method url body of
        Inl err \<Rightarrow> ret (Inl (Wrap ''failed to create HTTP request: '' err))
      | Inr req \<Rightarrow>
          andThen (setAuthHeaders s tfRun req) (\<lambda>res. case res of
            Inl err \<Rightarrow> ret (Inl err)
          | Inr req \<Rightarrow>
              if body \<noteq> None then ret (Inr (HeaderSet ''Content-Type'' requestHeaderAccept req))
              else ret (Inr req)))"

subsection \<open>The answers\<close>

record ScalrResponseAttributes =
  Response_Name :: string

record ScalrResponseData =
  Response_ID :: string
  Response_Type :: string
  Response_Attributes :: ScalrResponseAttributes

record ScalrEnvironmentListResponse =
  List_Data :: "ScalrResponseData goslice"

record ScalrWorkspaceResponse =
  Workspace_Data :: ScalrResponseData

definition zeroResponseData :: ScalrResponseData where
  "zeroResponseData = \<lparr>Response_ID = '''', Response_Type = '''',
     Response_Attributes = \<lparr>Response_Name = ''''\<rparr>\<rparr>"

definition decodeAttributes ::
  "jval \<Rightarrow> ScalrResponseAttributes \<Rightarrow> ScalrResponseAttributes option" where
  "decodeAttributes = decodeStruct (\<lambda>k v x.
     if isField ''name'' k
     then map_option (\<lambda>s. x\<lparr>Response_Name := s\<rparr>) (decodeString v (Response_Name x))
     else Some x)"

definition decodeData :: "jval \<Rightarrow> ScalrResponseData \<Rightarrow> ScalrResponseData option" where
  "decodeData = decodeStruct (\<lambda>k v x.
     if isField ''id'' k
     then map_option (\<lambda>s. x\<lparr>Response_ID := s\<rparr>) (decodeString v (Response_ID x))
     else if isField ''type'' k
     then map_option (\<lambda>s. x\<lparr>Response_Type := s\<rparr>) (decodeString v (Response_Type x))
     else if isField ''attributes'' k
     then map_option (\<lambda>a. x\<lparr>Response_Attributes := a\<rparr>) (decodeAttributes v (Response_Attributes x))
     else Some x)"

text \<open>\<open>json.Unmarshal(body, &response)\<close> into a fresh variable; \<open>None\<close> is an error.\<close>

definition UnmarshalEnvironmentList :: "string \<Rightarrow> ScalrEnvironmentListResponse option" where
  "UnmarshalEnvironmentList body = (case parseJSON body of None \<Rightarrow> None
     | Some j \<Rightarrow> decodeStruct (\<lambda>k v x. if isField ''data'' k
         then map_option (\<lambda>d. x\<lparr>List_Data := d\<rparr>)
           (decodeSlice decodeData zeroResponseData v (List_Data x))
         else Some x) j \<lparr>List_Data = (0, [])\<rparr>)"

definition UnmarshalWorkspace :: "string \<Rightarrow> ScalrWorkspaceResponse option" where
  "UnmarshalWorkspace body = (case parseJSON body of None \<Rightarrow> None
     | Some j \<Rightarrow> decodeStruct (\<lambda>k v x. if isField ''data'' k
         then map_option (\<lambda>d. x\<lparr>Workspace_Data := d\<rparr>) (decodeData v (Workspace_Data x))
         else Some x) j \<lparr>Workspace_Data = zeroResponseData\<rparr>)"

lemmas unmarshal_defs = UnmarshalEnvironmentList_def UnmarshalWorkspace_def decodeData_def
  decodeAttributes_def zeroResponseData_def

subsection \<open>Workspaces and environments\<close>

definition GetWorkspace ::
  "'w Service \<Rightarrow> TfRun \<Rightarrow> string \<Rightarrow> string \<Rightarrow> ('w, goerr + string) go" where
  "GetWorkspace s tfRun workspaceId environmentId =
     (case Cloud (Backend (Spec tfRun)) of
        None \<Rightarrow> panic NilDeref
      | Some backend \<Rightarrow>
        (let apiUrl = ''https://'' @ Hostname backend @
               ''/api/iacp/v3/workspaces?filter[environment]='' @ environmentId @
               ''&filter[workspace]='' @ workspaceId
         in case newRequest ''GET'' apiUrl None of
              Inl err \<Rightarrow> ret (Inl (withCause
                ''failed to create HTTP request for Scalr workspace'' err))
            | Inr req \<Rightarrow>
              andThen (setAuthHeaders s tfRun req) (\<lambda>res. case res of
                Inl err \<Rightarrow> ret (Inl err)
              | Inr req \<Rightarrow>
              andThen (HttpDo (Service_K8s s) req) (\<lambda>res. case res of
                Inl err \<Rightarrow> ret (Inl (withCause
                  ''failed to perform HTTP request for Scalr workspace'' err))
              | Inr resp \<Rightarrow>
                (case Body resp of
                   Inl err \<Rightarrow> ret (Inl (withCause
                     ''failed to read HTTP response body for Scalr workspace'' err))
                 | Inr body \<Rightarrow>
                   if StatusCode resp \<noteq> 200
                   then ret (Inl (statusError ''GET: scalr workspace retrieval'' resp body))
                   else (case UnmarshalEnvironmentList body of
                       None \<Rightarrow> ret (Inl (withCause
                         ''failed to unmarshal Scalr workspace response''
                         (UnmarshalError (Service_K8s s) body)))
                     | Some workspaceResponse \<Rightarrow>
                       (case elems (List_Data workspaceResponse) of
                          [] \<Rightarrow> ret (Inl (Err errEnvironmentNotFound))
                        | d # _ \<Rightarrow> ret (Inr (Response_ID d)))))))))"

definition GetScalrEnvironmentID :: "'w Service \<Rightarrow> TfRun \<Rightarrow> ('w, goerr + string) go" where
  "GetScalrEnvironmentID s tfRun =
     (case Cloud (Backend (Spec tfRun)) of
        None \<Rightarrow> panic NilDeref
      | Some backend \<Rightarrow>
        (let apiUrl = ''https://'' @ Hostname backend @
               ''/api/iacp/v3/environments?filter[name]='' @ Organization backend
         in case newRequest ''GET'' apiUrl None of
              Inl err \<Rightarrow> ret (Inl (withCause errGetEnvironmentFailed err))
            | Inr req \<Rightarrow>
              andThen (setAuthHeaders s tfRun req) (\<lambda>res. case res of
                Inl err \<Rightarrow> ret (Inl err)
              | Inr req \<Rightarrow>
              andThen (HttpDo (Service_K8s s) req) (\<lambda>res. case res of
                Inl err \<Rightarrow> ret (Inl (withCause errGetEnvironmentListFailed err))
              | Inr resp \<Rightarrow>
                (case Body resp of
                   Inl err \<Rightarrow> ret (Inl (withCause errGetEnvironmentFailed err))
                 | Inr body \<Rightarrow>
                   if StatusCode resp \<noteq> 200
                   then ret (Inl (statusError ''GET: scalr environment id'' resp body))
                   else (case UnmarshalEnvironmentList body of
                       None \<Rightarrow> ret (Inl (withCause errGetEnvironmentFailed
                         (UnmarshalError (Service_K8s s) body)))
                     | Some envListResponse \<Rightarrow>
                       (case elems (List_Data envListResponse) of
                          [] \<Rightarrow> ret (Inl (Err errEnvironmentNotFound))
                        | d # _ \<Rightarrow> ret (Inr (Response_ID d)))))))))"

subsection \<open>The payload of a new workspace\<close>

record ScalrWorkspaceAttributes =
  Attr_Name :: string
  AutoApply :: bool
  Attr_IacPlatform :: string
  IacVersion :: string

record ScalrRelation =
  Relation_Type :: string
  Relation_ID :: string

record ScalrWorkspaceRequest =
  Data_Type :: string
  Attributes :: ScalrWorkspaceAttributes
  AgentPool :: ScalrRelation
  Environment :: ScalrRelation

definition marshalRelation :: "ScalrRelation \<Rightarrow> string" where
  "marshalRelation x = jsonObject [jsonField ''data'' (jsonObject
     [jsonField ''type'' (jsonString (Relation_Type x)),
      jsonField ''id'' (jsonString (Relation_ID x))])]"

text \<open>\<open>omitempty\<close> on a struct field has no effect: the agent pool is always written.\<close>

definition marshalWorkspaceRequest :: "ScalrWorkspaceRequest \<Rightarrow> string" where
  "marshalWorkspaceRequest p = jsonObject [jsonField ''data'' (jsonObject
     [jsonField ''type'' (jsonString (Data_Type p)),
      jsonField ''attributes'' (jsonObject
        [jsonField ''name'' (jsonString (Attr_Name (Attributes p))),
         jsonField ''auto_apply'' (jsonBool (AutoApply (Attributes p))),
         jsonField ''iac-platform'' (jsonString (Attr_IacPlatform (Attributes p))),
         jsonField ''terraform-version'' (jsonString (IacVersion (Attributes p)))]),
      jsonField ''relationships'' (jsonObject
        [jsonField ''agent-pool'' (marshalRelation (AgentPool p)),
         jsonField ''environment'' (marshalRelation (Environment p))])])]"

definition workspacePayload :: "TfRun \<Rightarrow> CloudBackend \<Rightarrow> string \<Rightarrow> ScalrWorkspaceRequest" where
  "workspacePayload tfRun backend environmentID =
     (let workspaceName = Workspace backend;
          agentPoolId = AgentPoolID backend;
          iacPlatform = (if Engine_Type (Engine (Spec tfRun)) = '''' then IacPlatform
            else Engine_Type (Engine (Spec tfRun)));
          iacVersion = (if Engine_Version (Engine (Spec tfRun)) = '''' then ''latest''
            else Engine_Version (Engine (Spec tfRun)));
          autoApprove = (case gomap_get (Arguments (Spec tfRun)) ''autoApprove'' of
            Some v \<Rightarrow> v | None \<Rightarrow> ''true'');
          payload = \<lparr>Data_Type = ''workspaces'',
            Attributes = \<lparr>Attr_Name = workspaceName, AutoApply = (autoApprove = ''true''),
              Attr_IacPlatform = iacPlatform, IacVersion = iacVersion\<rparr>,
            AgentPool = \<lparr>Relation_Type = '''', Relation_ID = ''''\<rparr>,
            Environment = \<lparr>Relation_Type = ''environments'', Relation_ID = environmentID\<rparr>\<rparr>
      in if agentPoolId \<noteq> ''''
         then payload\<lparr>AgentPool := \<lparr>Relation_Type = ''agent-pools'', Relation_ID = agentPoolId\<rparr>\<rparr>
         else payload)"

definition CreateScalrWorkspace ::
  "'w Service \<Rightarrow> TfRun \<Rightarrow> string \<Rightarrow> ('w, goerr + string) go" where
  "CreateScalrWorkspace s tfRun environmentID =
     (case Cloud (Backend (Spec tfRun)) of
        None \<Rightarrow> panic NilDeref
      | Some backend \<Rightarrow>
        (let apiUrl = ''https://'' @ Hostname backend @ ''/api/iacp/v3/workspaces'' in
         if environmentID = '''' then ret (Inl (Err errEnvironmentNotFound))
         else (let payloadBytes = marshalWorkspaceRequest
                     (workspacePayload tfRun backend environmentID) in
           andThen (buildAuthRequest s tfRun ''POST'' apiUrl (Some payloadBytes)) (\<lambda>res. case res of
             Inl err \<Rightarrow> ret (Inl (withCause errWorkspaceCreationFailed err))
           | Inr req \<Rightarrow>
           andThen (HttpDo (Service_K8s s) req) (\<lambda>res. case res of
             Inl err \<Rightarrow> ret (Inl (withCause errWorkspaceCreationFailed err))
           | Inr resp \<Rightarrow>
             (case Body resp of
                Inl err \<Rightarrow> ret (Inl (withCause errWorkspaceCreationFailed err))
              | Inr body \<Rightarrow>
                if StatusCode resp \<noteq> 201
                then ret (Inl (statusError ''POST: scalr workspace creation'' resp body))
                else (case UnmarshalWorkspace body of
                    None \<Rightarrow> ret (Inl (withCause errWorkspaceCreationFailed
                      (UnmarshalError (Service_K8s s) body)))
                  | Some workspaceResponse \<Rightarrow>
                      ret (Inr (Response_ID (Workspace_Data workspaceResponse))))))))))"

definition DeleteScalrWorkspace ::
  "'w Service \<Rightarrow> TfRun \<Rightarrow> string \<Rightarrow> ('w, goerr option) go" where
  "DeleteScalrWorkspace s tfRun workspaceID =
     (if workspaceID = '''' then ret (Some (Err errWorkspaceNotFound))
      else (case Cloud (Backend (Spec tfRun)) of
        None \<Rightarrow> panic NilDeref
      | Some backend \<Rightarrow>
        andThen (GetScalrToken s tfRun) (\<lambda>res. case res of
          Inl err \<Rightarrow> ret (Some err)
        | Inr token \<Rightarrow>
          (let apiURL = ''https://'' @ Hostname backend @ ''/api/iacp/v3/workspaces/'' @ workspaceID
           in case newRequest ''DELETE'' apiURL None of
                Inl err \<Rightarrow> ret (Some (withCause errWorkspaceDeletionFailed err))
              | Inr req \<Rightarrow>
                (let req = HeaderSet ''Authorization'' (''Bearer '' @ token) req in
                 andThen (HttpDo (Service_K8s s) req) (\<lambda>res. case res of
                   Inl err \<Rightarrow> ret (Some (withCause errWorkspaceDeletionFailed err))
                 | Inr resp \<Rightarrow>
                   (case Body resp of
                      Inl err \<Rightarrow> ret (Some (withCause errWorkspaceDeletionFailed err))
                    | Inr body \<Rightarrow>
                      if StatusCode resp \<noteq> 204 \<and> StatusCode resp \<noteq> 200 \<and> StatusCode resp \<noteq> 404
                      then ret (Some (statusError ''DELETE: scalr workspace deletion'' resp body))
                      else ret None)))))))"

end
