(* ===== verification/Backends.thy ===== *)
theory Backends
  imports Scalr
begin

text \<open>
  \<open>internal/backend\<close>: the interface \<open>CloudBackend\<close> of the controller, its one implementation
  over the Scalr client, and the factory. An interface value is the record of its methods.
\<close>

record 'w CloudBackend_iface =
  be_EnsureWorkspace :: "TfRun \<Rightarrow> ('w, goerr + string) go"
  be_DeleteWorkspace :: "TfRun \<Rightarrow> string \<Rightarrow> ('w, goerr option) go"
  be_GetWorkspace :: "TfRun \<Rightarrow> string \<Rightarrow> ('w, goerr + string) go"

definition BackendScalr :: string where "BackendScalr = ''scalr''"

definition getEnvironmentId :: "'w Service \<Rightarrow> TfRun \<Rightarrow> ('w, goerr + string) go" where
  "getEnvironmentId s tfRun =
     (case Cloud (Backend (Spec tfRun)) of
        None \<Rightarrow> ret (Inl (Err ''backend configuration is nil''))
      | Some backend \<Rightarrow>
          if EnvironmentID backend = ''''
          then andThen (GetScalrEnvironmentID s tfRun) (\<lambda>res. case res of
              Inl err \<Rightarrow> ret (Inl err)
            | Inr environmentID \<Rightarrow> ret (Inr environmentID))
          else ret (Inr (EnvironmentID backend)))"

definition ScalrBackend_EnsureWorkspace ::
  "'w Service \<Rightarrow> TfRun \<Rightarrow> ('w, goerr + string) go" where
  "ScalrBackend_EnsureWorkspace s tfRun =
     andThen (getEnvironmentId s tfRun) (\<lambda>res. case res of
       Inl err \<Rightarrow> ret (Inl err)
     | Inr environmentID \<Rightarrow> CreateScalrWorkspace s tfRun environmentID)"

definition ScalrBackend_DeleteWorkspace ::
  "'w Service \<Rightarrow> TfRun \<Rightarrow> string \<Rightarrow> ('w, goerr option) go" where
  "ScalrBackend_DeleteWorkspace s tfRun workspaceID = DeleteScalrWorkspace s tfRun workspaceID"

definition ScalrBackend_GetWorkspace ::
  "'w Service \<Rightarrow> TfRun \<Rightarrow> string \<Rightarrow> ('w, goerr + string) go" where
  "ScalrBackend_GetWorkspace s tfRun workspaceID =
     andThen (getEnvironmentId s tfRun) (\<lambda>res. case res of
       Inl err \<Rightarrow> ret (Inl err)
     | Inr environmentID \<Rightarrow> GetWorkspace s tfRun workspaceID environmentID)"

definition ScalrBackend :: "'w Service \<Rightarrow> 'w CloudBackend_iface" where
  "ScalrBackend s = \<lparr>be_EnsureWorkspace = ScalrBackend_EnsureWorkspace s,
     be_DeleteWorkspace = ScalrBackend_DeleteWorkspace s,
     be_GetWorkspace = ScalrBackend_GetWorkspace s\<rparr>"

definition ForProvider_backend :: "'w ext \<Rightarrow> string \<Rightarrow> goerr + 'w CloudBackend_iface" where
  "ForProvider_backend k8s provider =
     (if ToLower (TrimSpace provider) = BackendScalr
      then Inr (ScalrBackend (NewService k8s))
      else Inl (Err (''unsupported cloud backend provider: '' @ provider)))"

end
