(* ===== verification/Workspace_Steps.thy ===== *)
theory Workspace_Steps
  imports Common Backends
begin

text \<open>
  \<open>internal/controller/tfrun_workspace.go\<close> and \<open>ensureWorkspaceIfNeeded\<close> of
  \<open>tfrun_controller.go\<close>: the remote workspace of a TfRun. A Go method mutates the TfRun that
  its pointer argument names; here it returns it, with the result and the error.
\<close>

definition PhasePending :: string where "PhasePending = ''Pending''"
definition PhaseRunning :: string where "PhaseRunning = ''Running''"
definition PhaseSucceeded :: string where "PhaseSucceeded = ''Succeeded''"
definition PhaseFailed :: string where "PhaseFailed = ''Failed''"

definition CloudBackendFailed :: string where
  "CloudBackendFailed = ''failed to get cloud backend implementation''"
definition CloudWorkspaceFailed :: string where
  "CloudWorkspaceFailed = ''failed to reconcile cloud workspace''"
definition CloudWorkspacePending :: string where
  "CloudWorkspacePending = ''cloud workspace creation pending''"
definition CloudWorkspaceImported :: string where
  "CloudWorkspaceImported = ''cloud workspace imported successfully''"
definition WorkspaceImportAnnotation :: string where
  "WorkspaceImportAnnotation = ''tfruns.infra.essity.com/scalr-workspace-id''"

definition getCloudBackend :: "'w ext \<Rightarrow> TfRun \<Rightarrow> goerr + 'w CloudBackend_iface" where
  "getCloudBackend r tfRun =
     (case Cloud (Backend (Spec tfRun)) of
        None \<Rightarrow> Inl (Err ''cloud backend configuration is required'')
      | Some c \<Rightarrow>
         (let provider = Provider c;
              provider = (if provider = '''' then BackendScalr else provider)
          in ForProvider_backend r provider))"

text \<open>Reading a missing key of a Go map gives the zero value.\<close>

definition importAnnotation :: "TfRun \<Rightarrow> string" where
  "importAnnotation tfRun =
     (case gomap_get (Annotations tfRun) WorkspaceImportAnnotation of
        None \<Rightarrow> '''' | Some v \<Rightarrow> v)"

definition importScalrWorkspace ::
  "'w ext \<Rightarrow> TfRun \<Rightarrow> ('w, TfRun \<times> Result \<times> goerr option) go" where
  "importScalrWorkspace r tfRun =
     (let workspaceId = importAnnotation tfRun in
      case getCloudBackend r tfRun of
        Inl err \<Rightarrow> panic NilDeref
      | Inr be \<Rightarrow>
        andThen (be_GetWorkspace be tfRun workspaceId) (\<lambda>res. case res of
          Inl err \<Rightarrow> updateStatus r (status_update (\<lambda>s. s\<lparr>Phase := PhaseFailed,
              Message := ''failed to get existing workspace from backend: '' @ errText err,
              WorkspaceReady := False\<rparr>) tfRun)
        | Inr existingWorkspaceId \<Rightarrow>
            updateStatus r (status_update (\<lambda>s. s\<lparr>WorkspaceID := existingWorkspaceId,
              WorkspaceReady := True, WorkspaceImport := True, Phase := PhasePending,
              Message := CloudWorkspaceImported,
              ObservedGeneration := Generation tfRun\<rparr>) tfRun)))"

definition reconcileWorkspace ::
  "'w ext \<Rightarrow> TfRun \<Rightarrow> ('w, TfRun \<times> Result \<times> goerr option) go" where
  "reconcileWorkspace r tfRun =
     (case getCloudBackend r tfRun of
        Inl err \<Rightarrow> updateStatus r (status_update (\<lambda>s. s\<lparr>Phase := PhaseFailed,
            Message := CloudBackendFailed @ '': '' @ errText err,
            WorkspaceReady := False\<rparr>) tfRun)
      | Inr be \<Rightarrow>
        if importAnnotation tfRun \<noteq> '''' then importScalrWorkspace r tfRun
        else andThen (be_EnsureWorkspace be tfRun) (\<lambda>res. case res of
          Inl err \<Rightarrow> updateStatus r (status_update (\<lambda>s. s\<lparr>Phase := PhaseFailed,
              Message := CloudWorkspaceFailed @ '': '' @ errText err,
              WorkspaceReady := False\<rparr>) tfRun)
        | Inr workspaceId \<Rightarrow>
            if workspaceId = ''''
            then updateStatus r (status_update (\<lambda>s. s\<lparr>Phase := PhasePending,
              Message := CloudWorkspacePending, WorkspaceReady := False,
              ObservedGeneration := Generation tfRun\<rparr>) tfRun)
            else updateStatus r (status_update (\<lambda>s. s\<lparr>WorkspaceID := workspaceId,
              WorkspaceReady := True, Phase := PhasePending, Message := CloudWorkspacePending,
              ObservedGeneration := Generation tfRun\<rparr>) tfRun)))"

definition ensureWorkspaceIfNeeded ::
  "'w ext \<Rightarrow> TfRun \<Rightarrow> ('w, TfRun \<times> Result \<times> goerr option) go" where
  "ensureWorkspaceIfNeeded r tfRun =
     (if Cloud (Backend (Spec tfRun)) = None then ret (tfRun, noResult, None)
      else if WorkspaceID (Status tfRun) \<noteq> '''' then
        (case getCloudBackend r tfRun of
           Inl err \<Rightarrow>
             andThen (StatusUpdate_ignored r (status_update (\<lambda>s. s\<lparr>Phase := PhaseFailed,
                 Message := CloudBackendFailed @ '': '' @ errText err,
                 WorkspaceReady := False\<rparr>) tfRun))
               (\<lambda>tfRun. ret (tfRun, requeueAfter (Seconds 60), Some err))
         | Inr be \<Rightarrow>
             andThen (be_GetWorkspace be tfRun (WorkspaceID (Status tfRun))) (\<lambda>res. case res of
               Inl err \<Rightarrow>
                 andThen (StatusUpdate_ignored r (status_update (\<lambda>s. s\<lparr>Phase := PhaseFailed,
                     WorkspaceID := '''',
                     Message := ''failed to get existing workspace remotely: '' @ errText err,
                     WorkspaceReady := False\<rparr>) tfRun))
                   (\<lambda>tfRun. ret (tfRun, requeueAfter (Seconds 60), Some err))
             | Inr _ \<Rightarrow> ret (tfRun, noResult, None)))
      else reconcileWorkspace r tfRun)"

end
