(* ===== verification/Engine_Commands.thy ===== *)
theory Engine_Commands
  imports GoStd
begin

text \<open>
  The engines of \<open>internal/engine\<close>: what command line a Job runs for each kind of job. A slice
  of arguments may be nil (\<open>None\<close>), which \<open>NewTerraform\<close> tells from an empty one.
\<close>

type_synonym args = "string list option"

definition slice_list :: "args \<Rightarrow> string list" where
  "slice_list a = (case a of None \<Rightarrow> [] | Some xs \<Rightarrow> xs)"

definition jobTypeApply :: string where "jobTypeApply = ''apply''"
definition jobTypeDestroy :: string where "jobTypeDestroy = ''destroy''"

subsection \<open>OpenTofu\<close>

record Opentofu =
  Tofu_Args :: args

definition NewOpentofu :: "args \<Rightarrow> Opentofu" where
  "NewOpentofu args =
     (let args = (if length (slice_list args) = 0 then Some [''-auto-approve''] else args)
      in \<lparr>Tofu_Args = args\<rparr>)"

definition Opentofu_Command :: "Opentofu \<Rightarrow> string \<Rightarrow> string" where
  "Opentofu_Command e jobType =
     (let args = Join (slice_list (Tofu_Args e)) '' '' in
      if jobType = jobTypeApply then ''tofu init && tofu apply '' @ args
      else if jobType = jobTypeDestroy then
        ''tofu init && tofu plan -destroy && tofu destroy '' @ args
      else ''tofu init && tofu apply -auto-approve'')"

subsection \<open>Terraform\<close>

record Terraform =
  Terraform_Args :: args

definition NewTerraform :: "args \<Rightarrow> Terraform" where
  "NewTerraform args =
     (let extraArgs = \<lparr>Terraform_Args = args\<rparr> in
      if Terraform_Args extraArgs = None
      then extraArgs\<lparr>Terraform_Args := Some [''-auto-approve'']\<rparr> else extraArgs)"

definition Terraform_Command :: "Terraform \<Rightarrow> string \<Rightarrow> string" where
  "Terraform_Command e jobType =
     (let args = (if Terraform_Args e = None
          then Join (slice_list (Terraform_Args e)) ''-auto-approve'' else '''') in
      if jobType = jobTypeApply then ''terraform init && terraform apply '' @ args
      else if jobType = jobTypeDestroy then
        ''terraform init && terraform plan -destroy && terraform destroy '' @ args
      else ''terraform init && terraform apply -auto-approve'')"

subsection \<open>The interface and its factory\<close>

datatype Engine_value = IsTerraform Terraform | IsOpentofu Opentofu

definition Engine_ForEngine :: "string \<Rightarrow> args \<Rightarrow> Engine_value" where
  "Engine_ForEngine engineType args =
     (if engineType = ''terraform'' then IsTerraform (NewTerraform args)
      else if engineType = ''opentofu'' then IsOpentofu (NewOpentofu args)
      else IsOpentofu (NewOpentofu args))"

fun Command :: "Engine_value \<Rightarrow> string \<Rightarrow> string" where
  "Command (IsTerraform e) jobType = Terraform_Command e jobType"
| "Command (IsOpentofu e) jobType = Opentofu_Command e jobType"

text \<open>
  What a caller of the interface relies on: a command initialises the working directory
  first, then destroys for a destroy job, after a plan, and applies for every other job.
\<close>

locale engine_contract =
  fixes bin :: string and cmd :: "string \<Rightarrow> string"
  assumes destroy_form:
      "\<exists>rest. cmd jobTypeDestroy =
         bin @ '' init && '' @ bin @ '' plan -destroy && '' @ bin @ '' destroy '' @ rest"
    and apply_form:
      "jt \<noteq> jobTypeDestroy \<Longrightarrow> \<exists>rest. cmd jt = bin @ '' init && '' @ bin @ '' apply '' @ rest"
begin

lemma init_first: "prefix (bin @ '' init && '') (cmd jt)"
proof (cases "jt = jobTypeDestroy")
  case True
  then show ?thesis
    using destroy_form by auto
next
  case False
  then obtain rest where "cmd jt = bin @ '' init && '' @ bin @ '' apply '' @ rest"
    using apply_form by blast
  then show ?thesis by simp
qed

text \<open>Only a destroy job gets the destroy command: the two forms part after the first verb.\<close>

lemma destroy_command_only: "cmd jt = cmd jobTypeDestroy \<longleftrightarrow> jt = jobTypeDestroy"
proof
  assume eq: "cmd jt = cmd jobTypeDestroy"
  show "jt = jobTypeDestroy"
  proof (rule ccontr)
    assume "jt \<noteq> jobTypeDestroy"
    then obtain r1 where "cmd jt = bin @ '' init && '' @ bin @ '' apply '' @ r1"
      using apply_form by blast
    moreover obtain r2 where "cmd jobTypeDestroy =
        bin @ '' init && '' @ bin @ '' plan -destroy && '' @ bin @ '' destroy '' @ r2"
      using destroy_form by blast
    ultimately show False
      using eq by simp
  qed
qed simp

end

lemma Opentofu_engine: "engine_contract ''tofu'' (Opentofu_Command e)"
  by unfold_locales (auto simp: Opentofu_Command_def Let_def jobTypeApply_def jobTypeDestroy_def)

lemma Terraform_engine: "engine_contract ''terraform'' (Terraform_Command e)"
  by unfold_locales (auto simp: Terraform_Command_def Let_def jobTypeApply_def jobTypeDestroy_def)

interpretation tofu: engine_contract "''tofu''" "Opentofu_Command e" for e
  by (rule Opentofu_engine)

interpretation terraform: engine_contract "''terraform''" "Terraform_Command e" for e
  by (rule Terraform_engine)

text \<open>The program name of an engine.\<close>

fun engine_bin :: "Engine_value \<Rightarrow> string" where
  "engine_bin (IsTerraform _) = ''terraform''"
| "engine_bin (IsOpentofu _) = ''tofu''"

lemma any_engine: "engine_contract (engine_bin v) (Command v)"
proof (cases v)
  case (IsTerraform e)
  then have "Command v = Terraform_Command e" by (simp add: fun_eq_iff)
  then show ?thesis using IsTerraform Terraform_engine by simp
next
  case (IsOpentofu e)
  then have "Command v = Opentofu_Command e" by (simp add: fun_eq_iff)
  then show ?thesis using IsOpentofu Opentofu_engine by simp
qed

interpretation eng: engine_contract "engine_bin v" "Command v" for v
  by (rule any_engine)

end
