(* ===== verification/Bootstrap.thy ===== *)
theory Bootstrap
  imports Effects Engine_Commands
begin

text \<open>
  \<open>internal/bootstrapjob\<close>: the Kubernetes Job that runs an engine for a TfRun. The builder
  reads one Secret and the process environment; it writes nothing.
\<close>

subsection \<open>The builder and its factory\<close>

record 'w BootstrapJob =
  K8s :: "'w ext"
  EngineType :: string
  EngineArgs :: args

definition tofuEngine :: string where "tofuEngine = ''opentofu''"
definition tfEngine :: string where "tfEngine = ''terraform''"
definition tguntEngine :: string where "tguntEngine = ''terragrunt''"
definition workdDir :: string where "workdDir = ''/workdDir''"
definition labelJobType :: string where "labelJobType = ''job-type''"
definition jobBackoffLimit :: int32 where "jobBackoffLimit = 3"
definition ttlSuccessDefault :: int32 where "ttlSuccessDefault = 300"
definition ttlFailureDefault :: int32 where "ttlFailureDefault = 300"
definition tofuImage :: string where "tofuImage = ''ghcr.io/opentofu/opentofu:latest''"

text \<open>Both results of the Go function: the interface value, nil or not, and the error.\<close>

definition ForEngine ::
  "'w ext \<Rightarrow> string \<Rightarrow> args \<Rightarrow> 'w BootstrapJob option \<times> goerr option" where
  "ForEngine k8s engine args =
     (if engine = tofuEngine then
        (Some \<lparr>K8s = k8s, EngineType = tofuEngine, EngineArgs = args\<rparr>, None)
      else if engine = tfEngine then
        (Some \<lparr>K8s = k8s, EngineType = tfEngine, EngineArgs = args\<rparr>, None)
      else if engine = tguntEngine then
        (None, Some (Err ''terragrunt engine is not yet implemented''))
      else
        (Some \<lparr>K8s = k8s, EngineType = tofuEngine, EngineArgs = args\<rparr>,
         Some (Err (''unsupported engine: defaulting to opentofu for engine: '' @ engine))))"

subsection \<open>Images and time to live\<close>

definition getEngineImage :: "string \<Rightarrow> string" where
  "getEngineImage engineType =
     (if engineType = tofuEngine then tofuImage
      else if engineType = tfEngine then ''hashicorp/terraform:latest''
      else tofuImage)"

definition getTfImageVersion :: "string \<Rightarrow> TfRun \<Rightarrow> string" where
  "getTfImageVersion engineType tfRun =
     (let version = (if Engine_Version (Engine (Spec tfRun)) \<noteq> ''''
          then Engine_Version (Engine (Spec tfRun)) else ''latest'') in
      if engineType = tofuEngine then ''ghcr.io/opentofu/opentofu:latest''
      else if engineType = tfEngine then ''hashicorp/terraform:'' @ version
      else tofuImage)"

text \<open>The conversion \<open>int32(ttl)\<close> keeps the low 32 bits.\<close>

definition getTTL :: "(string \<Rightarrow> string) \<Rightarrow> string \<Rightarrow> int32 \<Rightarrow> int32" where
  "getTTL getenv env defaultTTL =
     (let val = getenv env in
      if val \<noteq> '''' then
        (case Atoi val of
           Some ttl \<Rightarrow> if ttl \<ge> 600 then word_of_int ttl else defaultTTL
         | None \<Rightarrow> defaultTTL)
      else defaultTTL)"

subsection \<open>Environment variables\<close>

text \<open>The loop over \<open>tfRun.Spec.Vars\<close>, in the order in which \<open>range\<close> visits the map.\<close>

fun buildEnvVars_loop :: "json option gomap \<Rightarrow> EnvVar list \<Rightarrow> EnvVar list" where
  "buildEnvVars_loop [] envVars = envVars"
| "buildEnvVars_loop ((key, val) # rest) envVars =
     (case val of
        None \<Rightarrow> buildEnvVars_loop rest envVars
      | Some raw \<Rightarrow> buildEnvVars_loop rest
          (envVars @ [\<lparr>Env_Name = ''TF_VAR_'' @ key, Env_Value = raw, Env_ValueFrom = None\<rparr>]))"

definition buildEnvVars :: "TfRun \<Rightarrow> EnvVar list" where
  "buildEnvVars tfRun =
     buildEnvVars_loop (case Vars (Spec tfRun) of None \<Rightarrow> [] | Some m \<Rightarrow> m) []"

definition cloudBackend :: "TfRun \<Rightarrow> goerr + EnvVar list" where
  "cloudBackend tfRun = (case Cloud (Backend (Spec tfRun)) of
      None \<Rightarrow> Inl (Err ''the cloud backend does not exist'')
    | Some cb \<Rightarrow>
       (let envVars =
          [\<lparr>Env_Name = ''TF_CLOUD_HOSTNAME'', Env_Value = Hostname cb, Env_ValueFrom = None\<rparr>,
           \<lparr>Env_Name = ''TF_CLOUD_ORGANIZATION'', Env_Value = Organization cb,
             Env_ValueFrom = None\<rparr>,
           \<lparr>Env_Name = ''TF_WORKSPACE'', Env_Value = Workspace cb, Env_ValueFrom = None\<rparr>];
          ref = Provider_CredentialsSecretRef (ForProvider (Spec tfRun))
        in Inr (if ref \<noteq> '''' then
              envVars @
              [\<lparr>Env_Name = ''TF_TOKEN_'' @ ReplaceAllChar (Hostname cb) (CHR ''.'') (CHR ''_''),
                Env_Value = '''',
                Env_ValueFrom = Some \<lparr>Secret_Name = ref, Secret_Key = ''token''\<rparr>\<rparr>]
            else envVars)))"

subsection \<open>Git credentials\<close>

definition getGitCredentials ::
  "'w BootstrapJob \<Rightarrow> TfRun \<Rightarrow> string \<Rightarrow> ('w, goerr + string) go" where
  "getGitCredentials b tfRun secretName =
     (let secretName = (if secretName = '''' then ''git-credentials'' else secretName) in
      andThen (GetSecret (K8s b) (Namespace tfRun, secretName)) (\<lambda>res. case res of
        Inl err \<Rightarrow>
          if IsNotFound err
          then ret (Inl (Wrap ''failed to get git credentials secret: '' err))
          else ret (Inl (Wrap ''error retrieving git credentials secret: '' err))
      | Inr secret \<Rightarrow>
         (case gomap_get (Data secret) ''token'' of
            None \<Rightarrow> ret (Inl (Err
              (''token key not found in git credentials secret '' @ secretName)))
          | Some token \<Rightarrow>
              if length token = 0
              then ret (Inl (Err ''git credentials token is empty in secret''))
              else ret (Inr token))))"

subsection \<open>The Job\<close>

definition buildJobTemplate ::
  "'w BootstrapJob \<Rightarrow> TfRun \<Rightarrow> string \<Rightarrow> string \<Rightarrow> string \<Rightarrow> EnvVar list \<Rightarrow> string \<Rightarrow> Job" where
  "buildJobTemplate b tfRun jobName jobType tfCommand envVars gitCloneCmd =
     (let backoffLimit = jobBackoffLimit;
          imageVersion = getTfImageVersion (EngineType b) tfRun;
          ttlSeconds = (if jobType = jobTypeDestroy
            then getTTL (Getenv (K8s b)) ''JOB_TTL_DESTROY'' ttlFailureDefault
            else getTTL (Getenv (K8s b)) ''JOB_TTL_SUCCESS'' ttlSuccessDefault);
          workingDir = (if Path (Source (Spec tfRun)) \<noteq> ''''
            then workdDir @ ''/'' @ Path (Source (Spec tfRun)) else workdDir)
      in \<lparr>Job_Name = jobName,
          Job_Namespace = Namespace tfRun,
          Job_Labels = [(EngineType b, Name tfRun), (labelJobType, jobType)],
          Job_OwnerReferences = [],
          Job_Spec = \<lparr>
            BackoffLimit = Some backoffLimit,
            TTLSecondsAfterFinished = Some ttlSeconds,
            Template_Labels = [],
            Template_Spec = \<lparr>
              RestartPolicy = ''Never'',
              InitContainers = [\<lparr>
                Container_Name = ''git-clone'',
                Image = ''alpine/git:latest'',
                Container_Command = [''/bin/sh'', ''-c''],
                Container_Args = [gitCloneCmd],
                WorkingDir = '''',
                Env = [],
                VolumeMounts = [\<lparr>Mount_Name = ''workspace'', MountPath = workingDir\<rparr>]\<rparr>],
              Containers = [\<lparr>
                Container_Name = ''opentofu'',
                Image = imageVersion,
                Container_Command = [''/bin/sh'', ''-c''],
                Container_Args = [tfCommand],
                WorkingDir = workingDir,
                Env = envVars,
                VolumeMounts = [\<lparr>Mount_Name = ''workspace'', MountPath = workingDir\<rparr>]\<rparr>],
              Volumes = [''workspace'']\<rparr>\<rparr>,
          Job_Status = zeroJobStatus\<rparr>)"

text \<open>The URL to clone: the token goes in front of the host of an https URL.\<close>

definition authenticatedURL :: "string \<Rightarrow> string \<Rightarrow> string" where
  "authenticatedURL gitToken repoURL =
     (if gitToken \<noteq> '''' then
        (if length repoURL > 8 \<and> take 8 repoURL = ''https://''
         then ''https://'' @ gitToken @ ''@'' @ drop 8 repoURL else repoURL)
      else repoURL)"

definition gitCloneCommand :: "string \<Rightarrow> string \<Rightarrow> string" where
  "gitCloneCommand repoURL ref =
     (if ref \<noteq> '''' then
        ''git clone --depth 1 '' @ repoURL @ '' '' @ workdDir @ '' && cd '' @ workdDir @
        '' && git fetch --depth 1 origin '' @ ref
      else ''git clone --depth 1 '' @ repoURL @ '' '' @ workdDir)"

definition BuildJob ::
  "'w BootstrapJob \<Rightarrow> TfRun \<Rightarrow> string \<Rightarrow> string \<Rightarrow> ('w, goerr + Job) go" where
  "BuildJob b tfRun jobType jobName =
     (let engine = Engine_ForEngine (EngineType b) (Some []);
          tfCommand = Command engine jobType;
          envVars = buildEnvVars tfRun
      in case cloudBackend tfRun of
           Inl err \<Rightarrow> ret (Inl err)
         | Inr backendEnvVars \<Rightarrow>
            (let envVars = envVars @ backendEnvVars in
             andThen
               (getGitCredentials b tfRun (Source_CredentialsSecretRef (Source (Spec tfRun))))
               (\<lambda>res. case res of
                  Inl err \<Rightarrow> ret (Inl err)
                | Inr gitToken \<Rightarrow>
                   (let repoURL = authenticatedURL gitToken (Module (Source (Spec tfRun)));
                        gitCloneCmd = gitCloneCommand repoURL (Ref (Source (Spec tfRun)))
                    in ret (Inr (buildJobTemplate b tfRun jobName jobType tfCommand envVars
                         gitCloneCmd))))))"

end
