(* ===== verification/Controller.thy ===== *)
theory Controller
  imports Workspace_Steps Bootstrap
begin

text \<open>
  \<open>internal/controller/tfrun_controller.go\<close>: the reconciliation of one TfRun and its
  handlers, in the order of the source. Every handler takes the TfRun that its Go counterpart
  gets by pointer, and returns it again where the caller goes on to use it.
\<close>

definition finalizerName :: string where
  "finalizerName = ''infra.essity.com/tfrun-finalizer''"
definition ConditionTypeApplied :: string where "ConditionTypeApplied = ''Applied''"

type_synonym 'w reply = "('w, Result \<times> goerr option) go"

subsection \<open>Names\<close>

definition BuildRunID :: "int64 \<Rightarrow> string \<Rightarrow> string outcome" where
  "BuildRunID generation specHash =
     (case slice specHash 0 8 of
        Panic p \<Rightarrow> Panic p
      | Ret h \<Rightarrow> Ret (''gen-'' @ itoa (sint generation) @ ''-'' @ h))"

definition buildJobName :: "TfRun \<Rightarrow> string \<Rightarrow> string" where
  "buildJobName tfRun runID =
     (let jobName = ToLower (''apply-'' @ Name tfRun @ ''-'' @ runID);
          maxLen = 63
      in if length jobName > maxLen
         then TrimRight (take maxLen jobName) (CHR ''-'')
         else TrimRight jobName (CHR ''-''))"

subsection \<open>Completed Jobs\<close>

definition appliedCondition :: "string \<Rightarrow> string \<Rightarrow> string \<Rightarrow> int64 \<Rightarrow> Condition" where
  "appliedCondition st rs msg gen = \<lparr>Condition_Type = ConditionTypeApplied,
     Condition_Status = st, Condition_Reason = rs, Condition_Message = msg,
     Condition_ObservedGeneration = gen, LastTransitionTime = zeroTime\<rparr>"

definition markSucceeded :: "'w ext \<Rightarrow> TfRun \<Rightarrow> Job \<Rightarrow> ('w, TfRun) go" where
  "markSucceeded r tfRun job =
     (if isJobSucceeded job then
        andThen (Now r) (\<lambda>t.
        andThen (SetStatusCondition r (Conditions (Status tfRun))
            (appliedCondition ''True'' ''JobSucceeded'' ''tfrun job succeeded'' (Generation tfRun)))
          (\<lambda>cs. ret (status_update (\<lambda>s. s\<lparr>Phase := PhaseSucceeded,
             Message := ''Job '' @ Job_Name job @ '' succeeded'',
             LastRunTime := Some t, Conditions := cs\<rparr>) tfRun)))
      else ret tfRun)"

definition markFailed :: "'w ext \<Rightarrow> TfRun \<Rightarrow> Job \<Rightarrow> ('w, TfRun) go" where
  "markFailed r tfRun job =
     (if isJobFailed job then
        andThen (SetStatusCondition r (Conditions (Status tfRun))
            (appliedCondition ''False'' ''JobFailed'' ''tfrun job failed'' (Generation tfRun)))
          (\<lambda>cs. ret (status_update (\<lambda>s. s\<lparr>Phase := PhaseFailed,
             Message := ''Job '' @ Job_Name job @ '' failed'', Conditions := cs\<rparr>) tfRun))
      else ret tfRun)"

definition updateStatusBasedOnCompletedJob :: "'w ext \<Rightarrow> TfRun \<Rightarrow> Job \<Rightarrow> 'w reply" where
  "updateStatusBasedOnCompletedJob r tfRun job =
     andThen (markSucceeded r tfRun job) (\<lambda>tfRun.
     andThen (markFailed r tfRun job) (\<lambda>tfRun.
     andThen (StatusUpdate r tfRun) (\<lambda>res. case res of
       Inl err \<Rightarrow> ret (noResult, Some err)
     | Inr _ \<Rightarrow> ret (requeueAfter (Minutes 5), None))))"

definition getActiveJobIfAny :: "'w ext \<Rightarrow> TfRun \<Rightarrow> ('w, Job option \<times> bool) go" where
  "getActiveJobIfAny r tfRun =
     (if ActiveJobName (Status tfRun) = '''' then ret (None, False)
      else andThen (GetJob r (Namespace tfRun, ActiveJobName (Status tfRun))) (\<lambda>res. case res of
          Inl err \<Rightarrow> ret (None, False)
        | Inr job \<Rightarrow> if isJobActive job then ret (Some job, True) else ret (Some job, False)))"

subsection \<open>Creating a Job\<close>

definition createJobAndUpdateStatus ::
  "'w ext \<Rightarrow> TfRun \<Rightarrow> Job \<Rightarrow> string \<Rightarrow> string \<Rightarrow> string \<Rightarrow> 'w reply" where
  "createJobAndUpdateStatus r tfRun job currentSpecHash jobName jobType =
     andThen (CreateJob r job) (\<lambda>res. case res of
       Some err \<Rightarrow>
         if IsAlreadyExists err then
           andThen (GetTfRun r (ObjectKeyFromObject tfRun)) (\<lambda>res. case res of
             Inl err \<Rightarrow> ret (noResult, Some err)
           | Inr latest \<Rightarrow>
               andThen (updateStatus r (status_update (\<lambda>s. s\<lparr>ActiveJobName := jobName,
                   Phase := PhaseRunning, ObservedGeneration := Generation latest\<rparr>) latest))
                 (\<lambda>(_, result, err). ret (result, err)))
         else
           andThen (StatusUpdate_ignored r (status_update (\<lambda>s. s\<lparr>Phase := PhaseFailed,
               Message := ''Failed to create Job: '' @ errText err\<rparr>) tfRun))
             (\<lambda>_. ret (noResult, Some err))
     | None \<Rightarrow>
         andThen (lift_outcome (BuildRunID (Generation tfRun) currentSpecHash)) (\<lambda>runID.
         andThen (SetStatusCondition r (Conditions (Status tfRun))
             (appliedCondition ''False'' ''JobCreated'' ''tfrun job created'' (Generation tfRun)))
           (\<lambda>cs.
         let tfRun = status_update (\<lambda>s. s\<lparr>ActiveJobName := jobName, RunID := runID,
               LastSpecHash := currentSpecHash, Phase := PhaseRunning,
               ObservedGeneration := Generation tfRun, Message := ''Created Job '' @ jobName,
               PendingExecHash := '''', PendingReason := '''', Conditions := cs\<rparr>) tfRun
         in andThen (case RunInterval (Spec tfRun) of
                Some ri \<Rightarrow>
                  andThen (Now r) (\<lambda>lastRuntime.
                  andThen (Now r) (\<lambda>now.
                    ret (status_update (\<lambda>s. s\<lparr>LastRunTime := Some lastRuntime,
                      NextRunTime := Some (addDuration now (Time ri))\<rparr>) tfRun)))
              | None \<Rightarrow> ret (status_update (\<lambda>s. s\<lparr>NextRunTime := None\<rparr>) tfRun)) (\<lambda>tfRun.
         andThen (StatusUpdate r tfRun) (\<lambda>res. case res of
           Inl err \<Rightarrow> ret (noResult, Some err)
         | Inr tfRun \<Rightarrow>
             if RunInterval (Spec tfRun) \<noteq> None then
               (case NextRunTime (Status tfRun) of
                  None \<Rightarrow> panic NilDeref
                | Some next \<Rightarrow> andThen (Now r) (\<lambda>now.
                    ret (requeueAfter (untilTime next now), None)))
             else ret (noResult, None))))))"

definition createNewJob :: "'w ext \<Rightarrow> TfRun \<Rightarrow> string \<Rightarrow> string \<Rightarrow> 'w reply" where
  "createNewJob r tfRun currentSpecHash jobType =
     (case ForEngine r (ToLower (Engine_Type (Engine (Spec tfRun)))) (Some []) of
        (_, Some err) \<Rightarrow> ret (noResult, Some err)
      | (None, None) \<Rightarrow> panic NilDeref
      | (Some applyJob, None) \<Rightarrow>
          andThen (lift_outcome (BuildRunID (Generation tfRun) currentSpecHash)) (\<lambda>runId.
          let jobName = buildJobName tfRun runId in
          andThen (BuildJob applyJob tfRun jobType jobName) (\<lambda>res. case res of
            Inl err \<Rightarrow>
              andThen (updateStatus r (status_update (\<lambda>s. s\<lparr>Phase := PhaseFailed,
                  Message := ''failed to build job: '' @ errText err\<rparr>) tfRun))
                (\<lambda>(_, result, err). ret (result, err))
          | Inr job \<Rightarrow>
             (case SetControllerReference r tfRun job of
                Inl err \<Rightarrow> ret (noResult, Some err)
              | Inr job \<Rightarrow>
                  createJobAndUpdateStatus r tfRun job currentSpecHash jobName jobType))))"

subsection \<open>The steps of an apply\<close>

text \<open>The boolean of the Go results says whether the reconciliation ends here.\<close>

definition handleSpecChange ::
  "'w ext \<Rightarrow> TfRun \<Rightarrow> string \<Rightarrow> Job option \<Rightarrow> bool \<Rightarrow> ('w, Result \<times> bool \<times> goerr option) go" where
  "handleSpecChange r tfRun currentSpecHash activeJob activeJobRunning =
     (if LastSpecHash (Status tfRun) = currentSpecHash then ret (noResult, False, None)
      else if activeJobRunning then
        (case activeJob of
           None \<Rightarrow> panic NilDeref
         | Some _ \<Rightarrow>
             andThen (StatusUpdate r (status_update (\<lambda>s. s\<lparr>PendingExecHash := currentSpecHash,
                 PendingReason := ''SpecChange''\<rparr>) tfRun)) (\<lambda>res. case res of
               Inl err \<Rightarrow> ret (noResult, True, Some err)
             | Inr _ \<Rightarrow> ret (requeueAfter (Seconds 60), True, None)))
      else
        andThen (createNewJob r tfRun currentSpecHash jobTypeApply)
          (\<lambda>(result, err). ret (result, True, err)))"

definition handlePendingExecution ::
  "'w ext \<Rightarrow> TfRun \<Rightarrow> ('w, Result \<times> bool \<times> goerr option) go" where
  "handlePendingExecution r tfRun =
     (let pendingExists = (PendingExecHash (Status tfRun) \<noteq> '''' \<and>
            PendingExecHash (Status tfRun) \<noteq> LastSpecHash (Status tfRun)) in
      if \<not> pendingExists then ret (requeueNow, False, None)
      else andThen (createNewJob r tfRun (PendingExecHash (Status tfRun)) jobTypeApply)
        (\<lambda>(result, err). ret (result, True, err)))"

definition handleIntervalRun :: "'w ext \<Rightarrow> TfRun \<Rightarrow> string \<Rightarrow> 'w reply" where
  "handleIntervalRun r tfRun currentSpecHash =
     (case RunInterval (Spec tfRun) of
        None \<Rightarrow>
          if NextRunTime (Status tfRun) \<noteq> None then
            andThen (updateStatus r (status_update (\<lambda>s. s\<lparr>NextRunTime := None\<rparr>) tfRun))
              (\<lambda>(_, result, err). ret (result, err))
          else ret (noResult, None)
      | Some ri \<Rightarrow>
          if sint (Time ri) < sint (Minutes 45) then
            andThen (StatusUpdate_ignored r (status_update (\<lambda>s. s\<lparr>Phase := PhaseFailed,
                Message := ''runInterval must be at least 45 minutes, got '' @
                  durationString (Time ri)\<rparr>) tfRun))
              (\<lambda>_. ret (noResult, None))
          else
            (case NextRunTime (Status tfRun) of
               None \<Rightarrow> createNewJob r tfRun currentSpecHash jobTypeApply
             | Some next \<Rightarrow>
                 andThen (Now r) (\<lambda>now.
                   if now < next then
                     andThen (Now r) (\<lambda>now'. ret (requeueAfter (untilTime next now'), None))
                   else createNewJob r tfRun currentSpecHash jobTypeApply)))"

subsection \<open>Finalizer\<close>

definition ensureFinalizer :: "'w ext \<Rightarrow> TfRun \<Rightarrow> ('w, TfRun \<times> goerr option) go" where
  "ensureFinalizer r tfRun =
     (if \<not> ContainsFinalizer r tfRun finalizerName then
        (let tfRun = AddFinalizer r tfRun finalizerName in
         andThen (Update r tfRun) (\<lambda>res. case res of
           Inl err \<Rightarrow> ret (tfRun, Some (Wrap ''failed to add finalizer: '' err))
         | Inr tfRun \<Rightarrow> ret (tfRun, None)))
      else ret (tfRun, None))"

definition removeFinalizer :: "'w ext \<Rightarrow> TfRun \<Rightarrow> 'w reply" where
  "removeFinalizer r tfRun =
     andThen (GetTfRun r (ObjectKeyFromObject tfRun)) (\<lambda>res. case res of
       Inl err \<Rightarrow> if IsNotFound err then ret (noResult, None) else ret (noResult, Some err)
     | Inr latest \<Rightarrow>
         if ContainsFinalizer r latest finalizerName then
           andThen (Update r (RemoveFinalizer r latest finalizerName)) (\<lambda>res. case res of
             Inl err \<Rightarrow>
               if IsNotFound err then ret (noResult, None)
               else if IsConflict err then ret (requeueNow, None)
               else ret (noResult, Some err)
           | Inr _ \<Rightarrow> ret (noResult, None))
         else ret (noResult, None))"

subsection \<open>Deletion\<close>

definition deleteRemoteWorkspace :: "'w ext \<Rightarrow> TfRun \<Rightarrow> ('w, goerr option) go" where
  "deleteRemoteWorkspace r tfRun =
     (case getCloudBackend r tfRun of
        Inl err \<Rightarrow> ret (Some err)
      | Inr be \<Rightarrow> be_DeleteWorkspace be tfRun (WorkspaceID (Status tfRun)))"

definition cleanupWorkspaceAndRemoveFinalizer :: "'w ext \<Rightarrow> TfRun \<Rightarrow> 'w reply" where
  "cleanupWorkspaceAndRemoveFinalizer r tfRun =
     (if WorkspaceReady (Status tfRun) \<and> WorkspaceID (Status tfRun) \<noteq> '''' then
        andThen (deleteRemoteWorkspace r tfRun) (\<lambda>res. case res of
          Some err \<Rightarrow> ret (noResult, Some err)
        | None \<Rightarrow> removeFinalizer r tfRun)
      else removeFinalizer r tfRun)"

definition handleDestroyJob :: "'w ext \<Rightarrow> TfRun \<Rightarrow> 'w reply" where
  "handleDestroyJob r tfRun =
     andThen (GetJob r (Namespace tfRun, ActiveDestroyJobName (Status tfRun))) (\<lambda>res. case res of
       Inl err \<Rightarrow>
         if IsNotFound err then
           andThen (StatusUpdate_ignored r
               (status_update (\<lambda>s. s\<lparr>ActiveDestroyJobName := ''''\<rparr>) tfRun))
             (\<lambda>tfRun. cleanupWorkspaceAndRemoveFinalizer r tfRun)
         else ret (noResult, Some err)
     | Inr job \<Rightarrow>
         if isJobActive job then
           (let tfRun = status_update (\<lambda>s. s\<lparr>Phase := ''Destroying''\<rparr>) tfRun
            in ret (requeueAfter (Seconds 60), None))
         else if isJobSucceeded job then
           andThen (StatusUpdate_ignored r (status_update (\<lambda>s. s\<lparr>
               Message := ''Destroy job '' @ Job_Name job @ '' succeeded'',
               ActiveDestroyJobName := ''''\<rparr>) tfRun))
             (\<lambda>tfRun. cleanupWorkspaceAndRemoveFinalizer r tfRun)
         else if isJobFailed job then
           andThen (StatusUpdate_ignored r (status_update (\<lambda>s. s\<lparr>Phase := PhaseFailed,
               Message := ''destroy job '' @ Job_Name job @ '' has failed'',
               ActiveDestroyJobName := ''''\<rparr>) tfRun))
             (\<lambda>_. ret (noResult, None))
         else ret (requeueAfter (Seconds 600), None))"

definition adoptDestroyJob :: "'w ext \<Rightarrow> TfRun \<Rightarrow> string \<Rightarrow> 'w reply" where
  "adoptDestroyJob r tfRun jobName =
     andThen (GetTfRun r (ObjectKeyFromObject tfRun)) (\<lambda>res. case res of
       Inl err \<Rightarrow> ret (noResult, Some err)
     | Inr tfRun \<Rightarrow>
         andThen (StatusUpdate r (status_update (\<lambda>s. s\<lparr>ActiveDestroyJobName := jobName,
             Phase := PhasePending,
             Message := ''Destroy job '' @ jobName @ '' already exists; waiting''\<rparr>) tfRun))
           (\<lambda>res. case res of
              Inl err \<Rightarrow> ret (noResult, Some err)
            | Inr _ \<Rightarrow> ret (requeueAfter (Seconds 30), None)))"

definition createDestroyJob :: "'w ext \<Rightarrow> TfRun \<Rightarrow> Job \<Rightarrow> string \<Rightarrow> 'w reply" where
  "createDestroyJob r tfRun job jobName =
     andThen (CreateJob r job) (\<lambda>res. case res of
       Some err \<Rightarrow>
         if IsAlreadyExists err then
           andThen (StatusUpdate_ignored r (status_update (\<lambda>s. s\<lparr>
               ActiveDestroyJobName := jobName, Phase := PhasePending,
               ObservedGeneration := Generation tfRun,
               Message := ''Destroy job '' @ jobName @ '' already exists; waiting''\<rparr>) tfRun))
             (\<lambda>_. ret (requeueAfter (Seconds 60), None))
         else ret (noResult, Some err)
     | None \<Rightarrow>
         andThen (StatusUpdate r (status_update (\<lambda>s. s\<lparr>ActiveDestroyJobName := jobName,
             Phase := PhasePending, ObservedGeneration := Generation tfRun,
             Message := ''Created destroy Job '' @ jobName\<rparr>) tfRun)) (\<lambda>res. case res of
           Inl err \<Rightarrow> ret (noResult, Some err)
         | Inr _ \<Rightarrow> ret (noResult, None)))"

definition handleDeletion :: "'w ext \<Rightarrow> TfRun \<Rightarrow> 'w reply" where
  "handleDeletion r tfRun =
     (if ActiveDestroyJobName (Status tfRun) \<noteq> '''' then handleDestroyJob r tfRun
      else case ForEngine r (ToLower (Engine_Type (Engine (Spec tfRun)))) (Some []) of
        (_, Some err) \<Rightarrow> ret (noResult, Some err)
      | (None, None) \<Rightarrow> panic NilDeref
      | (Some destroyJob, None) \<Rightarrow>
         (let jobName = ToLower (Name tfRun @ ''-destroy'') in
          andThen (GetJob r (Namespace tfRun, jobName)) (\<lambda>res. case res of
            Inr _ \<Rightarrow> adoptDestroyJob r tfRun jobName
          | Inl _ \<Rightarrow>
            andThen (BuildJob destroyJob tfRun jobTypeDestroy jobName) (\<lambda>res. case res of
              Inl err \<Rightarrow>
                andThen (StatusUpdate_ignored r (status_update (\<lambda>s. s\<lparr>Phase := PhaseFailed,
                    Message := ''failed to build destroy job: '' @ errText err\<rparr>) tfRun))
                  (\<lambda>_. ret (noResult, Some err))
            | Inr job \<Rightarrow>
               (case SetControllerReference r tfRun job of
                  Inl err \<Rightarrow> ret (noResult, Some err)
                | Inr job \<Rightarrow> createDestroyJob r tfRun job jobName)))))"

subsection \<open>Reconcile\<close>

definition reconcileJobs :: "'w ext \<Rightarrow> TfRun \<Rightarrow> string \<Rightarrow> 'w reply" where
  "reconcileJobs r tfRun currentSpecHash =
     andThen (getActiveJobIfAny r tfRun) (\<lambda>(activeJob, activeJobRunning).
     andThen (handleSpecChange r tfRun currentSpecHash activeJob activeJobRunning)
       (\<lambda>(result, handled, err).
     if handled then ret (result, err)
     else if activeJobRunning then
       (case activeJob of
          None \<Rightarrow> panic NilDeref
        | Some _ \<Rightarrow> ret (requeueAfter (Seconds 60), None))
     else (case activeJob of
        Some job \<Rightarrow> updateStatusBasedOnCompletedJob r tfRun job
      | None \<Rightarrow>
          andThen (handlePendingExecution r tfRun) (\<lambda>(result, handled, err).
          if handled then ret (result, err)
          else handleIntervalRun r tfRun currentSpecHash))))"

definition Reconcile :: "'w ext \<Rightarrow> NamespacedName \<Rightarrow> 'w reply" where
  "Reconcile r req =
     andThen (GetTfRun r req) (\<lambda>res. case res of
       Inl err \<Rightarrow> if IsNotFound err then ret (noResult, None) else ret (noResult, Some err)
     | Inr tfRun \<Rightarrow>
       andThen (ensureFinalizer r tfRun) (\<lambda>(tfRun, err). case err of
         Some err \<Rightarrow> ret (requeueNow, Some err)
       | None \<Rightarrow>
         if \<not> IsZero (DeletionTimestamp tfRun) then handleDeletion r tfRun
         else (case computeSpecHash r tfRun of
           Inl err \<Rightarrow> ret (noResult, Some err)
         | Inr currentSpecHash \<Rightarrow>
           andThen (ensureWorkspaceIfNeeded r tfRun) (\<lambda>(tfRun, result, err).
             if err \<noteq> None \<or> Requeue result \<or> sint (RequeueAfter result) > 0
             then ret (result, err)
             else reconcileJobs r tfRun currentSpecHash))))"

end
