(* ===== verification/Cluster.thy ===== *)
theory Cluster
  imports Scalr
begin

text \<open>
  A small executable cluster that answers the calls of the program the way the Kubernetes API
  server and the helpers of controller-runtime are documented to: objects in association
  lists, a status subresource, finalizers that hold a deletion back, scripted HTTP replies, a
  clock that advances with each reading. \<open>Created\<close> remembers the Jobs that were ever created. It instantiates the parameter \<open>ext\<close> in the concrete
  runs; no property of the program is about it alone.
\<close>

record cluster =
  TfRuns :: "(NamespacedName \<times> TfRun) list"
  Jobs :: "(NamespacedName \<times> Job) list"
  Secrets :: "(NamespacedName \<times> Secret) list"
  Replies :: "(goerr + HttpResponse) list"
  Clock :: time
  Created :: "NamespacedName list"

definition notFound :: goerr where
  "notFound = ApiErr ReasonNotFound ''not found''"

definition store :: "'k \<Rightarrow> 'v \<Rightarrow> ('k \<times> 'v) list \<Rightarrow> ('k \<times> 'v) list" where
  "store k v xs = (k, v) # filter (\<lambda>(k', _). k' \<noteq> k) xs"

definition remove :: "'k \<Rightarrow> ('k \<times> 'v) list \<Rightarrow> ('k \<times> 'v) list" where
  "remove k xs = filter (\<lambda>(k', _). k' \<noteq> k) xs"

definition lookup_in :: "(NamespacedName \<times> 'v) list \<Rightarrow> NamespacedName \<Rightarrow> goerr + 'v" where
  "lookup_in xs k = (case map_of xs k of None \<Rightarrow> Inl notFound | Some v \<Rightarrow> Inr v)"

text \<open>An update of the resource keeps its status; one of the status keeps the rest.\<close>

definition kubeUpdate :: "TfRun \<Rightarrow> cluster \<Rightarrow> (goerr + TfRun) \<times> cluster" where
  "kubeUpdate t w = (let k = ObjectKeyFromObject t in
     case map_of (TfRuns w) k of
       None \<Rightarrow> (Inl notFound, w)
     | Some old \<Rightarrow> (let t' = t\<lparr>Status := Status old\<rparr> in
         (Inr t', w\<lparr>TfRuns := (if Finalizers t' = [] \<and> \<not> IsZero (DeletionTimestamp t')
            then remove k (TfRuns w) else store k t' (TfRuns w))\<rparr>)))"

definition kubeStatusUpdate :: "TfRun \<Rightarrow> cluster \<Rightarrow> (goerr + TfRun) \<times> cluster" where
  "kubeStatusUpdate t w = (let k = ObjectKeyFromObject t in
     case map_of (TfRuns w) k of
       None \<Rightarrow> (Inl notFound, w)
     | Some old \<Rightarrow> (let t' = old\<lparr>Status := Status t\<rparr> in
         (Inr t', w\<lparr>TfRuns := store k t' (TfRuns w)\<rparr>)))"

definition addJob :: "NamespacedName \<Rightarrow> Job \<Rightarrow> cluster \<Rightarrow> cluster" where
  "addJob k j w = w\<lparr>Jobs := store k j (Jobs w), Created := Created w @ [k]\<rparr>"

lemma addJob_simps [simp]:
  "TfRuns (addJob k j w) = TfRuns w" "Jobs (addJob k j w) = store k j (Jobs w)"
  "Secrets (addJob k j w) = Secrets w" "Replies (addJob k j w) = Replies w"
  "Clock (addJob k j w) = Clock w" "Created (addJob k j w) = Created w @ [k]"
  by (simp_all add: addJob_def)

definition kubeCreateJob :: "Job \<Rightarrow> cluster \<Rightarrow> goerr option \<times> cluster" where
  "kubeCreateJob j w = (let k = (Job_Namespace j, Job_Name j) in
     if map_of (Jobs w) k \<noteq> None then (Some (ApiErr ReasonAlreadyExists ''already exists''), w)
     else (None, addJob k j w))"

definition nextReply :: "HttpRequest \<Rightarrow> cluster \<Rightarrow> (goerr + HttpResponse) \<times> cluster" where
  "nextReply q w = (case Replies w of
       [] \<Rightarrow> (Inl (Err ''connection refused''), w)
     | x # xs \<Rightarrow> (x, w\<lparr>Replies := xs\<rparr>))"

definition setCondition :: "Condition list \<Rightarrow> Condition \<Rightarrow> cluster \<Rightarrow> Condition list \<times> cluster" where
  "setCondition cs c w =
     (c\<lparr>LastTransitionTime := Clock w\<rparr> #
        filter (\<lambda>c'. Condition_Type c' \<noteq> Condition_Type c) cs, w)"

definition kube :: "cluster ext" where
  "kube = \<lparr>
     GetTfRun_of = (\<lambda>k w. (lookup_in (TfRuns w) k, w)),
     GetJob_of = (\<lambda>k w. (lookup_in (Jobs w) k, w)),
     GetSecret_of = (\<lambda>k w. (lookup_in (Secrets w) k, w)),
     Update_of = kubeUpdate,
     StatusUpdate_of = kubeStatusUpdate,
     CreateJob_of = kubeCreateJob,
     HttpDo_of = nextReply,
     Now_of = (\<lambda>w. (Clock w, w\<lparr>Clock := Clock w + 1\<rparr>)),
     Getenv = (\<lambda>_. ''''),
     UnmarshalError = (\<lambda>_. Err ''invalid JSON''),
     MarshalVar = Inr,
     ContainsFinalizer = (\<lambda>t f. f \<in> set (Finalizers t)),
     AddFinalizer = (\<lambda>t f. t\<lparr>Finalizers := Finalizers t @ [f]\<rparr>),
     RemoveFinalizer = (\<lambda>t f. t\<lparr>Finalizers := filter (\<lambda>x. x \<noteq> f) (Finalizers t)\<rparr>),
     SetControllerReference = (\<lambda>t j. Inr (j\<lparr>Job_OwnerReferences :=
       [\<lparr>Owner_Kind = ''TfRun'', Owner_Name = Name t, Owner_UID = UID t,
         Owner_Controller = True\<rparr>]\<rparr>)),
     SetStatusCondition_of = setCondition\<rparr>"

lemma kube_simps [simp]:
  "GetTfRun_of kube k w = (lookup_in (TfRuns w) k, w)"
  "GetJob_of kube k w = (lookup_in (Jobs w) k, w)"
  "GetSecret_of kube k w = (lookup_in (Secrets w) k, w)"
  "Update_of kube = kubeUpdate" "StatusUpdate_of kube = kubeStatusUpdate"
  "CreateJob_of kube = kubeCreateJob" "HttpDo_of kube = nextReply"
  "Now_of kube w = (Clock w, w\<lparr>Clock := Clock w + 1\<rparr>)"
  "Getenv kube x = ''''"
  "UnmarshalError kube s = Err ''invalid JSON''" "MarshalVar kube = Inr"
  "ContainsFinalizer kube t f = (f \<in> set (Finalizers t))"
  "AddFinalizer kube t f = t\<lparr>Finalizers := Finalizers t @ [f]\<rparr>"
  "RemoveFinalizer kube t f = t\<lparr>Finalizers := filter (\<lambda>x. x \<noteq> f) (Finalizers t)\<rparr>"
  "SetControllerReference kube t j = Inr (j\<lparr>Job_OwnerReferences :=
     [\<lparr>Owner_Kind = ''TfRun'', Owner_Name = Name t, Owner_UID = UID t, Owner_Controller = True\<rparr>]\<rparr>)"
  "SetStatusCondition_of kube = setCondition"
  by (simp_all add: kube_def)

subsection \<open>Some objects\<close>

definition emptyStatus :: TfRunStatus where
  "emptyStatus = \<lparr>ObservedGeneration = 0, Phase = '''', ActiveJobName = '''',
     ActiveDestroyJobName = '''', WorkspaceID = '''', WorkspaceReady = False,
     WorkspaceImport = False, RunID = '''', LastSpecHash = '''', PendingExecHash = '''',
     PendingReason = '''', LastRunTime = None, NextRunTime = None, Message = '''',
     Conditions = []\<rparr>"

definition sampleCloud :: CloudBackend where
  "sampleCloud = \<lparr>Provider = ''scalr'', Hostname = ''acme.scalr.io'', Organization = ''acme'',
     Workspace = ''net'', EnvironmentID = ''env-1'', AgentPoolID = '''',
     DeleteProtection = False\<rparr>"

definition sampleSpec :: TfRunSpec where
  "sampleSpec = \<lparr>ForProvider = \<lparr>Provider_CredentialsSecretRef = ''scalr-token''\<rparr>,
     RunInterval = None,
     Engine = \<lparr>Engine_Type = ''opentofu'', Engine_Version = ''''\<rparr>,
     Source = \<lparr>Module = ''https://git.acme.io/net'', Ref = '''', Path = '''',
       Source_CredentialsSecretRef = ''''\<rparr>,
     Backend = \<lparr>Cloud = Some sampleCloud, StorageAccount = None\<rparr>,
     Arguments = None, Vars = None\<rparr>"

definition sampleRun :: TfRun where
  "sampleRun = \<lparr>Name = ''net'', Namespace = ''team'', UID = ''u-1'', ResourceVersion = ''7'',
     Generation = 1, Annotations = None, Finalizers = [''infra.essity.com/tfrun-finalizer''],
     DeletionTimestamp = None, Spec = sampleSpec, Status = emptyStatus\<rparr>"

definition sampleJob :: "string \<Rightarrow> JobStatus \<Rightarrow> Job" where
  "sampleJob n st = \<lparr>Job_Name = n, Job_Namespace = ''team'', Job_Labels = [],
     Job_OwnerReferences = [],
     Job_Spec = \<lparr>BackoffLimit = None, TTLSecondsAfterFinished = None, Template_Labels = [],
       Template_Spec = \<lparr>RestartPolicy = '''', InitContainers = [], Containers = [], Volumes = []\<rparr>\<rparr>,
     Job_Status = st\<rparr>"

definition tokenSecret :: Secret where
  "tokenSecret = \<lparr>Data = Some [(''token'', ''t0'')]\<rparr>"

definition sampleCluster :: "TfRun \<Rightarrow> (NamespacedName \<times> Job) list \<Rightarrow> (goerr + HttpResponse) list \<Rightarrow> cluster" where
  "sampleCluster t jobs replies = \<lparr>TfRuns = [((''team'', ''net''), t)], Jobs = jobs,
     Secrets = [((''team'', ''scalr-token''), tokenSecret),
       ((''team'', ''git-credentials''), tokenSecret)],
     Replies = replies, Clock = 1000, Created = []\<rparr>"

lemmas sample_defs = emptyStatus_def sampleCloud_def sampleSpec_def sampleRun_def sampleJob_def
  tokenSecret_def sampleCluster_def
lemmas cluster_defs = kubeUpdate_def kubeStatusUpdate_def kubeCreateJob_def nextReply_def
  setCondition_def lookup_in_def store_def remove_def notFound_def

text \<open>The requests to the host of the sample run.\<close>

lemma sample_host: "plainHost ''acme.scalr.io''"
  by (simp add: plainHost_def unreserved_def isAlpha_def isDigit_def validOptionalPort_def)

lemmas sample_request = newRequest_plain [OF sample_host, simplified]

end
