(* ===== verification/Names.thy ===== *)
theory Names
  imports Controller Cluster
begin

text \<open>
  The names that the controller makes: run ids, Job names and spec hashes. Decimal numbers
  parse back, hashes are lower-case hexadecimal, Job names are DNS labels, and two runs of a
  TfRun with a short name have two Job names.
\<close>

subsection \<open>Decimal numbers\<close>

lemma of_char_digit: "0 \<le> d \<Longrightarrow> d < 10 \<Longrightarrow> (of_char (digitChar d) :: int) = 48 + d"
proof -
  assume d: "0 \<le> d" "d < 10"
  have "(of_char (char_of (48 + d)) :: int) = (48 + d) mod 256"
    by simp
  then show ?thesis
    using d by (simp add: digitChar_def)
qed

lemma digitChar_simps:
  "0 \<le> d \<Longrightarrow> d < 10 \<Longrightarrow> isDigit (digitChar d)"
  "0 \<le> d \<Longrightarrow> d < 10 \<Longrightarrow> digitVal (digitChar d) = d"
  by (simp_all add: isDigit_def digitVal_def of_char_digit Let_def)

lemma itoaPos_digits: "0 \<le> n \<Longrightarrow> itoaPos n \<noteq> [] \<and> list_all isDigit (itoaPos n)"
proof (induction n rule: itoaPos.induct)
  case (1 n)
  show ?case
    using 1 by (subst (1 2) itoaPos.simps) (auto simp: digitChar_simps)
qed

lemma itoaPos_value: "0 \<le> n \<Longrightarrow> foldl (\<lambda>a c. 10 * a + digitVal c) 0 (itoaPos n) = n"
proof (induction n rule: itoaPos.induct)
  case (1 n)
  show ?case
    using 1 by (subst itoaPos.simps) (auto simp: digitChar_simps)
qed

lemma atoiDigits_itoaPos: "0 \<le> n \<Longrightarrow> atoiDigits (itoaPos n) = Some n"
  using itoaPos_digits itoaPos_value by (simp add: atoiDigits_def)

lemma not_digit [simp]: "\<not> isDigit (CHR ''-'')" "\<not> isDigit (CHR ''+'')"
  by (simp_all add: isDigit_def)

lemma Atoi_itoa_int: "- (2 ^ 63) \<le> i \<Longrightarrow> i < 2 ^ 63 \<Longrightarrow> Atoi (itoa i) = Some i"
proof (cases "i < 0")
  case True
  then show "- (2 ^ 63) \<le> i \<Longrightarrow> i < 2 ^ 63 \<Longrightarrow> Atoi (itoa i) = Some i"
    by (simp add: itoa_def Atoi_def atoiDigits_itoaPos)
next
  case False
  then obtain c cs where cs: "itoaPos i = c # cs" "isDigit c"
    using itoaPos_digits [of i] by (cases "itoaPos i") auto
  then have "c \<noteq> CHR ''-''" "c \<noteq> CHR ''+''"
    using not_digit by auto
  then show "- (2 ^ 63) \<le> i \<Longrightarrow> i < 2 ^ 63 \<Longrightarrow> Atoi (itoa i) = Some i"
    using False cs atoiDigits_itoaPos [of i] by (simp add: itoa_def Atoi_def)
qed

lemma sint_bounds: "- (2 ^ 63) \<le> sint (x :: int64)" "sint (x :: int64) < 2 ^ 63"
  using sint_ge [of x] sint_lt [of x] by simp_all

lemma itoa_inject: "itoa (sint (x :: int64)) = itoa (sint (y :: int64)) \<longleftrightarrow> x = y"
proof
  assume "itoa (sint x) = itoa (sint y)"
  then have "Some (sint x) = Some (sint y)"
    using Atoi_itoa_int [OF sint_bounds [of x]] Atoi_itoa_int [OF sint_bounds [of y]] by argo
  then have "sint x = sint y"
    by (rule option.inject [THEN iffD1])
  then show "x = y"
    by (metis scast_eq scast_id)
qed simp

subsection \<open>Lower case\<close>

lemma ToLower_append [simp]: "ToLower (s @ t) = ToLower s @ ToLower t"
  by (simp add: ToLower_def)

lemma length_ToLower [simp]: "length (ToLower s) = length s"
  by (simp add: ToLower_def)

lemma lowerChar_idem [simp]: "lowerChar (lowerChar c) = lowerChar c"
proof -
  have "(of_char (char_of (n + 32 :: int)) :: int) = n + 32" if "65 \<le> n" "n \<le> 90" for n
    using that by simp
  then show ?thesis
    by (simp add: lowerChar_def Let_def)
qed

lemma ToLower_idem [simp]: "ToLower (ToLower s) = ToLower s"
  by (simp add: ToLower_def)

lemma ToLower_take: "ToLower (take n s) = take n (ToLower s)"
  by (simp add: ToLower_def take_map)

lemma TrimRight_prefix: "\<exists>s'. s = TrimRight s c @ s' \<and> set s' \<subseteq> {c}"
proof -
  have "rev s = takeWhile (\<lambda>x. x = c) (rev s) @ dropWhile (\<lambda>x. x = c) (rev s)"
    by simp
  then have "s = TrimRight s c @ rev (takeWhile (\<lambda>x. x = c) (rev s))"
    unfolding TrimRight_def by (metis rev_append rev_rev_ident)
  moreover have "set (rev (takeWhile (\<lambda>x. x = c) (rev s))) \<subseteq> {c}"
    by (auto dest: set_takeWhileD)
  ultimately show ?thesis by blast
qed

lemma TrimRight_last: "TrimRight s c \<noteq> [] \<Longrightarrow> last (TrimRight s c) \<noteq> c"
  unfolding TrimRight_def using hd_dropWhile [of "\<lambda>x. x = c" "rev s"]
  by (simp add: last_rev)

lemma TrimRight_lower: "ToLower s = s \<Longrightarrow> ToLower (TrimRight s c) = TrimRight s c"
proof -
  assume low: "ToLower s = s"
  obtain s' where s': "s = TrimRight s c @ s'"
    using TrimRight_prefix by blast
  then have "ToLower (TrimRight s c) @ ToLower s' = TrimRight s c @ s'"
    using low by (metis ToLower_append)
  then show ?thesis
    by (simp add: append_eq_append_conv)
qed

lemma TrimRight_id: "s \<noteq> [] \<Longrightarrow> last s \<noteq> c \<Longrightarrow> TrimRight s c = s"
  by (cases s rule: rev_cases) (simp_all add: TrimRight_def)


subsection \<open>Hashes\<close>

lemma hexDigit_hex: "0 \<le> d \<Longrightarrow> d < 16 \<Longrightarrow> isHexDigit (hexDigit d)"
proof -
  assume d: "0 \<le> d" "d < 16"
  have "(of_char (char_of n) :: int) = n" if "0 \<le> n" "n < 256" for n :: int
    using that by simp
  then show ?thesis
    using d by (auto simp: isHexDigit_def hexDigit_def Let_def)
qed

lemma hexString_hex: "list_all isHexDigit (hexString bs)"
proof -
  have "uint b div 16 < 16" "0 \<le> uint b div 16" for b :: "8 word"
    using uint_lt2p [of b] by (simp_all add: pos_imp_zdiv_nonneg_iff)
  then have "list_all isHexDigit (hexByte b)" for b
    by (simp add: hexByte_def hexDigit_hex)
  then show ?thesis
    by (induction bs) (simp_all add: hexString_def)
qed

lemma hex_lower: "isHexDigit c \<Longrightarrow> lowerChar c = c" "\<not> isHexDigit (CHR ''-'')"
  by (auto simp: isHexDigit_def lowerChar_def Let_def)

lemma hex_ToLower: "list_all isHexDigit h \<Longrightarrow> ToLower h = h"
  by (induction h) (simp_all add: ToLower_def hex_lower)

lemma computeSpecHash_hex:
  "computeSpecHash r t = Inr h \<Longrightarrow> length h = 16 \<and> list_all isHexDigit h"
  by (auto simp: computeSpecHash_def hexString_hex split: sum.splits)

text \<open>The hash reads six parts of the spec, and a map only up to its order.\<close>

lemma marshalVars_order: "same_map m m' \<Longrightarrow> marshalVars mv m = marshalVars mv m'"
  by (auto simp: same_map_def marshalVars_def split: option.splits dest: sortedEntries_order)

subsection \<open>Run ids\<close>

lemma itoa_lower: "ToLower (itoa n) = itoa n"
proof -
  have "lowerChar c = c" if "isDigit c" for c
    using that by (auto simp: isDigit_def lowerChar_def Let_def)
  then have digits: "ToLower s = s" if "list_all isDigit s" for s
    using that by (induction s) (simp_all add: ToLower_def)
  have minus: "ToLower (CHR ''-'' # s) = CHR ''-'' # ToLower s" for s
    by (simp add: ToLower_def lowerChar_def)
  show ?thesis
    using itoaPos_digits [of n] itoaPos_digits [of "- n"] by (auto simp: itoa_def digits minus)
qed

lemma BuildRunID_Ret:
  "BuildRunID g h = Ret rid \<longleftrightarrow>
   8 \<le> length h \<and> rid = ''gen-'' @ itoa (sint g) @ ''-'' @ take 8 h"
  by (auto simp: BuildRunID_def slice_def)

lemma BuildRunID_length:
  "BuildRunID g h = Ret rid \<Longrightarrow> length rid = 13 + length (itoa (sint g))"
  by (simp add: BuildRunID_Ret)

text \<open>The last eight characters are the hash, what is left is the generation.\<close>

lemma BuildRunID_inject:
  assumes "BuildRunID g h = Ret rid" "BuildRunID g' h' = Ret rid"
  shows "g = g' \<and> take 8 h = take 8 h'"
proof -
  have eq: "(itoa (sint g) @ ''-'') @ take 8 h = (itoa (sint g') @ ''-'') @ take 8 h'"
    and l: "length (take 8 h) = length (take 8 h')"
    using assms by (simp_all add: BuildRunID_Ret)
  have "itoa (sint g) @ ''-'' = itoa (sint g') @ ''-'' \<and> take 8 h = take 8 h'"
    by (rule iffD1 [OF append_eq_append_conv [OF disjI2 [OF l]] eq])
  then show ?thesis
    by (simp add: itoa_inject)
qed

lemma BuildRunID_lower:
  assumes "BuildRunID g h = Ret rid" "list_all isHexDigit h"
  shows "ToLower rid = rid" "last rid \<noteq> CHR ''-''"
proof -
  have h: "list_all isHexDigit (take 8 h)" "take 8 h \<noteq> []"
    using assms by (auto simp: BuildRunID_Ret list_all_iff dest: in_set_takeD)
  have lower: "ToLower ''gen-'' = ''gen-''" "ToLower ''-'' = ''-''"
    by (simp_all add: ToLower_def lowerChar_def)
  show "ToLower rid = rid"
    using assms(1) h lower by (simp add: BuildRunID_Ret itoa_lower hex_ToLower del: append.simps)
  have "isHexDigit (last (take 8 h))"
    using h by (simp add: list_all_iff)
  then show "last rid \<noteq> CHR ''-''"
    using assms(1) h hex_lower(2) by (auto simp: BuildRunID_Ret)
qed

subsection \<open>Job names\<close>

lemma buildJobName_cut:
  "buildJobName t rid = TrimRight (take 63 (ToLower (''apply-'' @ Name t @ ''-'' @ rid))) (CHR ''-'')"
  by (simp add: buildJobName_def Let_def)

text \<open>A name that fits is kept as it is, up to case.\<close>

lemma buildJobName_short:
  assumes "length (Name t) + length rid \<le> 56" "ToLower rid = rid" "rid \<noteq> []" "last rid \<noteq> CHR ''-''"
  shows "buildJobName t rid = ToLower (''apply-'' @ Name t @ ''-'') @ rid"
proof -
  have "take 63 (ToLower (''apply-'' @ Name t @ ''-'' @ rid)) = ToLower (''apply-'' @ Name t @ ''-'') @ rid"
    using assms by (simp add: ToLower_def)
  then show ?thesis
    unfolding buildJobName_cut using assms(3,4) by (simp add: TrimRight_id)
qed

lemma TrimRight_keep:
  assumes "s = xs @ ys" "xs \<noteq> []" "last xs \<noteq> c"
  shows "prefix xs (TrimRight s c)"
  using assms
proof (induction ys arbitrary: s rule: rev_induct)
  case Nil
  then show ?case by (simp add: TrimRight_id)
next
  case (snoc y ys)
  show ?case
  proof (cases "y = c")
    case True
    then have "TrimRight s c = TrimRight (xs @ ys) c"
      using snoc.prems(1) by (simp add: TrimRight_def)
    then show ?thesis
      using snoc.IH [of "xs @ ys"] snoc.prems(2,3) by simp
  next
    case False
    then have "TrimRight s c = s"
      using snoc.prems(1) by (simp add: TrimRight_def)
    then show ?thesis
      using snoc.prems(1) by simp
  qed
qed

lemma buildJobName_prefix: "prefix ''apply'' (buildJobName t rid)"
  unfolding buildJobName_cut
  by (rule TrimRight_keep [where ys = "take 58 (ToLower (''-'' @ Name t @ ''-'' @ rid))"])
    (simp_all add: ToLower_def lowerChar_def)


text \<open>C25: A TfRun whose name has 57 characters or more gives all its apply Jobs one name: the
  generation and the hash are cut off, and the API server will find that the Job of the next
  spec already exists.\<close>

theorem long_names_collide:
  assumes "57 \<le> length (Name t)"
  shows "buildJobName t rid = buildJobName t rid'"
proof -
  have "take 63 (ToLower (''apply-'' @ Name t @ ''-'' @ x)) = ToLower (''apply-'' @ take 57 (Name t))" for x
    using assms by (simp add: ToLower_def take_map)
  then show ?thesis
    by (simp only: buildJobName_cut)
qed

theorem long_names_collide_witness:
  "buildJobName (sampleRun\<lparr>Name := replicate 57 (CHR ''a'')\<rparr>) ''gen-1-00000000'' =
   buildJobName (sampleRun\<lparr>Name := replicate 57 (CHR ''a'')\<rparr>) ''gen-2-11111111''"
  by (rule long_names_collide) simp

text \<open>C24: A TfRun with a short name gives two Jobs the same name only for the same generation
  and the same first eight characters of the hash.\<close>

theorem short_names_distinct:
  assumes "BuildRunID g h = Ret rid" "BuildRunID g' h' = Ret rid'"
    and "list_all isHexDigit h" "list_all isHexDigit h'"
    and "length (Name t) + length (itoa (sint g)) \<le> 43"
    and "length (Name t) + length (itoa (sint g')) \<le> 43"
  shows "buildJobName t rid = buildJobName t rid' \<longleftrightarrow> g = g' \<and> take 8 h = take 8 h'"
proof -
  have "rid \<noteq> []" "rid' \<noteq> []"
    using assms(1,2) by (auto simp: BuildRunID_Ret)
  then have "buildJobName t rid = ToLower (''apply-'' @ Name t @ ''-'') @ rid"
    "buildJobName t rid' = ToLower (''apply-'' @ Name t @ ''-'') @ rid'"
    using assms BuildRunID_lower BuildRunID_length [OF assms(1)] BuildRunID_length [OF assms(2)]
    by (simp_all add: buildJobName_short)
  then have "buildJobName t rid = buildJobName t rid' \<longleftrightarrow> rid = rid'"
    by simp
  also have "\<dots> \<longleftrightarrow> g = g' \<and> take 8 h = take 8 h'"
    using assms(1,2) BuildRunID_inject by (auto simp: BuildRunID_Ret)
  finally show ?thesis .
qed

theorem short_names_distinct_witness:
  "buildJobName sampleRun ''gen-1-00000000'' \<noteq> buildJobName sampleRun ''gen-2-00000000''"
proof -
  have itoa: "itoa 1 = ''1''" "itoa 2 = ''2''"
    by code_simp+
  have ids: "BuildRunID 1 ''0000000000000000'' = Ret ''gen-1-00000000''"
    "BuildRunID 2 ''0000000000000000'' = Ret ''gen-2-00000000''"
    by (simp_all add: BuildRunID_Ret itoa)
  have hex: "list_all isHexDigit ''0000000000000000''"
    by (simp add: isHexDigit_def)
  show ?thesis
    using short_names_distinct [OF ids hex hex] by (simp add: itoa sampleRun_def)
qed

text \<open>The hash of a spec, when it can be computed, is sixteen lower-case hexadecimal
  characters, so that every generation has a run id for it.\<close>

lemma spec_hash_format:
  "case computeSpecHash r t of Inl _ \<Rightarrow> True
   | Inr h \<Rightarrow> length h = 16 \<and> list_all isHexDigit h \<and>
       BuildRunID g h = Ret (''gen-'' @ itoa (sint g) @ ''-'' @ take 8 h)"
  by (auto dest: computeSpecHash_hex simp: BuildRunID_Ret split: sum.split)

text \<open>C22: The hash of a spec depends on nothing but the source, the backend, the variables and
  the arguments, and not on the order in which Go visits the two maps: it ignores the metadata,
  the status, the engine, the interval and both references to Secrets.\<close>

theorem spec_hash_reads:
  assumes "Source (Spec t') = (Source (Spec t))\<lparr>Source_CredentialsSecretRef := c\<rparr>"
    and "Backend (Spec t') = Backend (Spec t)"
    and "same_map (Vars (Spec t)) (Vars (Spec t'))"
    and "same_map (Arguments (Spec t)) (Arguments (Spec t'))"
  shows "computeSpecHash r t' = computeSpecHash r t"
proof -
  have "hashInput r t' = hashInput r t"
    using assms(1,2) marshalVars_order [OF assms(3)] jsonMap_order [OF assms(4)]
    by (simp add: hashInput_def split: sum.split)
  then show ?thesis
    by (simp add: computeSpecHash_def)
qed

theorem spec_hash_reads_witness:
  "computeSpecHash kube (sampleRun\<lparr>Generation := 9, Status := emptyStatus\<lparr>Phase := ''Failed''\<rparr>,
     Spec := sampleSpec\<lparr>Engine := \<lparr>Engine_Type = ''terraform'', Engine_Version = ''1.9''\<rparr>,
       Arguments := Some [(''b'', ''2''), (''a'', ''1'')]\<rparr>\<rparr>) =
   computeSpecHash kube (sampleRun\<lparr>Spec := sampleSpec\<lparr>
     Arguments := Some [(''a'', ''1''), (''b'', ''2'')]\<rparr>\<rparr>)"
  by (rule spec_hash_reads [where c = "''''"])
    (auto simp: sample_defs same_map_def gomap_ok_def)

end
