(* ===== verification/Webhook.thy ===== *)
theory Webhook
  imports Effects
begin

text \<open>
  The admission webhook of \<open>api/v1alpha1/tfrun_webhook.go\<close>: the defaulter, which changes
  nothing, and the three validators, which return the error of the admission (no warnings).
\<close>

definition Default :: "TfRun \<Rightarrow> TfRun" where
  "Default t = t"

definition minInterval :: int64 where
  "minInterval = Minutes 45"

text \<open>The message that the validators and the controller share.\<close>

definition intervalMessage :: "int64 \<Rightarrow> string" where
  "intervalMessage d = ''runInterval must be at least 45 minutes, got '' @ durationString d"

definition ValidateCreate :: "TfRun \<Rightarrow> goerr option" where
  "ValidateCreate t = (case RunInterval (Spec t) of
      None \<Rightarrow> None
    | Some ri \<Rightarrow> if sint (Time ri) < sint minInterval
        then Some (Err (intervalMessage (Time ri))) else None)"

definition ValidateUpdate :: "TfRun \<Rightarrow> TfRun \<Rightarrow> goerr option" where
  "ValidateUpdate old t = (case RunInterval (Spec t) of
      None \<Rightarrow> None
    | Some ri \<Rightarrow> if sint (Time ri) < sint minInterval
        then Some (Err (intervalMessage (Time ri))) else None)"

definition ValidateDelete :: "TfRun \<Rightarrow> goerr option" where
  "ValidateDelete t = None"

lemma sint_Minutes_45 [simp]: "sint (Minutes 45) = 2700000000000"
  by (simp add: Minutes_def)

lemma sint_minInterval [simp]: "sint minInterval = 2700000000000"
  by (simp add: minInterval_def)

text \<open>The interval of a TfRun is long enough, as the webhook and the controller ask.\<close>

definition interval_ok :: "TfRun \<Rightarrow> bool" where
  "interval_ok t = (case RunInterval (Spec t) of None \<Rightarrow> True
     | Some ri \<Rightarrow> 2700000000000 \<le> sint (Time ri))"

lemma ValidateCreate_iff: "ValidateCreate t = None \<longleftrightarrow> interval_ok t"
  by (auto simp: ValidateCreate_def interval_ok_def split: option.splits)

lemma ValidateUpdate_iff: "ValidateUpdate old t = None \<longleftrightarrow> interval_ok t"
  by (auto simp: ValidateUpdate_def interval_ok_def split: option.splits)

end
