(* ===== verification/Decisions.thy ===== *)
theory Decisions
  imports Controller Webhook Cluster
begin

text \<open>
  The abstract specification of the Job steps of a reconciliation: a table that decides, from
  the TfRun, the hash of its spec and the Job it names, which one action to take. The code
  spreads the table over four handlers that pass flags to each other; \<open>reconcileJobs\<close> is
  proved equal to looking the Job up and performing the decision.
\<close>

subsection \<open>The table\<close>

datatype action =
    RecordPending
  | StartApply string
  | AwaitJob
  | FinishJob Job
  | StopSchedule
  | Idle
  | RefuseInterval int64
  | RunWhenDue time

definition decideSchedule :: "TfRun \<Rightarrow> string \<Rightarrow> action" where
  "decideSchedule t hash = (case RunInterval (Spec t) of
      None \<Rightarrow> if NextRunTime (Status t) = None then Idle else StopSchedule
    | Some ri \<Rightarrow>
        if sint (Time ri) < 2700000000000 then RefuseInterval (Time ri)
        else (case NextRunTime (Status t) of None \<Rightarrow> StartApply hash | Some tm \<Rightarrow> RunWhenDue tm))"

definition decide :: "TfRun \<Rightarrow> string \<Rightarrow> Job option \<Rightarrow> action" where
  "decide t hash job = (case job of
      Some j \<Rightarrow>
        if isJobActive j then (if LastSpecHash (Status t) = hash then AwaitJob else RecordPending)
        else if LastSpecHash (Status t) = hash then FinishJob j else StartApply hash
    | None \<Rightarrow>
        if LastSpecHash (Status t) \<noteq> hash then StartApply hash
        else if PendingExecHash (Status t) \<notin> {'''', hash} then
          StartApply (PendingExecHash (Status t))
        else decideSchedule t hash)"

fun perform :: "'w ext \<Rightarrow> TfRun \<Rightarrow> string \<Rightarrow> action \<Rightarrow> 'w reply" where
  "perform r t hash RecordPending =
     andThen (StatusUpdate r (status_update (\<lambda>s. s\<lparr>PendingExecHash := hash,
         PendingReason := ''SpecChange''\<rparr>) t))
       (\<lambda>res. ret (case res of Inl err \<Rightarrow> (noResult, Some err)
          | Inr _ \<Rightarrow> (requeueAfter (Seconds 60), None)))"
| "perform r t hash (StartApply h) = createNewJob r t h jobTypeApply"
| "perform r t hash AwaitJob = ret (requeueAfter (Seconds 60), None)"
| "perform r t hash (FinishJob j) = updateStatusBasedOnCompletedJob r t j"
| "perform r t hash StopSchedule =
     andThen (StatusUpdate r (status_update (\<lambda>s. s\<lparr>NextRunTime := None\<rparr>) t))
       (\<lambda>res. ret (case res of Inl err \<Rightarrow> (requeueAfter (Seconds 5), Some err)
          | Inr _ \<Rightarrow> (noResult, None)))"
| "perform r t hash Idle = ret (noResult, None)"
| "perform r t hash (RefuseInterval d) =
     andThen (StatusUpdate r (status_update (\<lambda>s. s\<lparr>Phase := ''Failed'',
         Message := ''runInterval must be at least 45 minutes, got '' @ durationString d\<rparr>) t))
       (\<lambda>_. ret (noResult, None))"
| "perform r t hash (RunWhenDue tm) =
     andThen (Now r) (\<lambda>now. if now < tm
       then andThen (Now r) (\<lambda>now'. ret (requeueAfter (untilTime tm now'), None))
       else createNewJob r t hash jobTypeApply)"

subsection \<open>The handlers implement it\<close>

lemma andThen_cong: "(\<And>x. f x = g x) \<Longrightarrow> andThen m f = andThen m g"
  by (metis ext)

lemma andThen_ret_sum:
  "andThen m (\<lambda>res. case res of Inl e \<Rightarrow> ret (f e) | Inr x \<Rightarrow> ret (g x)) =
   andThen m (\<lambda>res. ret (case res of Inl e \<Rightarrow> f e | Inr x \<Rightarrow> g x))"
  by (rule andThen_cong) (simp split: sum.split)

lemma status_ignored_const:
  "andThen (StatusUpdate_ignored r t) (\<lambda>_. ret x) = andThen (StatusUpdate r t) (\<lambda>_. ret x)"
  unfolding StatusUpdate_ignored_def andThen_assoc
  by (rule andThen_cong) (simp split: sum.split)

lemma updateStatus_result:
  "andThen (updateStatus r t) (\<lambda>(_, result, err). ret (result, err)) =
   andThen (StatusUpdate r t) (\<lambda>res. ret (case res of
     Inl err \<Rightarrow> (requeueAfter (Seconds 5), Some err) | Inr _ \<Rightarrow> (noResult, None)))"
  unfolding updateStatus_def andThen_assoc
  by (rule andThen_cong) (simp split: sum.split)

lemma interval_decision: "handleIntervalRun r t hash = perform r t hash (decideSchedule t hash)"
  unfolding handleIntervalRun_def decideSchedule_def status_ignored_const updateStatus_result
  by (simp split: option.split add: PhaseFailed_def)

text \<open>The lookup as the code makes it, reduced to the Job that it found.\<close>

definition lookupActiveJob :: "'w ext \<Rightarrow> TfRun \<Rightarrow> ('w, Job option) go" where
  "lookupActiveJob r t =
     (if ActiveJobName (Status t) = '''' then ret None
      else andThen (GetJob r (Namespace t, ActiveJobName (Status t)))
        (\<lambda>res. ret (case res of Inl err \<Rightarrow> None | Inr job \<Rightarrow> Some job)))"

lemma getActiveJob_lookup:
  "getActiveJobIfAny r t = andThen (lookupActiveJob r t)
     (\<lambda>job. ret (job, case job of None \<Rightarrow> False | Some j \<Rightarrow> isJobActive j))"
  by (simp add: getActiveJobIfAny_def lookupActiveJob_def andThen_assoc)
    (rule impI, rule andThen_cong, simp split: sum.split)

lemma handlers_decide:
  "andThen (handleSpecChange r t hash job (case job of None \<Rightarrow> False | Some j \<Rightarrow> isJobActive j))
     (\<lambda>(result, handled, err).
       if handled then ret (result, err)
       else if (case job of None \<Rightarrow> False | Some j \<Rightarrow> isJobActive j) then
         (case job of None \<Rightarrow> panic NilDeref | Some _ \<Rightarrow> ret (requeueAfter (Seconds 60), None))
       else (case job of Some j \<Rightarrow> updateStatusBasedOnCompletedJob r t j
         | None \<Rightarrow> andThen (handlePendingExecution r t) (\<lambda>(result, handled, err).
             if handled then ret (result, err) else handleIntervalRun r t hash)))
   = perform r t hash (decide t hash job)"
proof -
  have through: "andThen (handlePendingExecution r t) (\<lambda>(result, handled, err).
      if handled then ret (result, err) else handleIntervalRun r t hash) =
    (if PendingExecHash (Status t) \<notin> {'''', LastSpecHash (Status t)}
     then createNewJob r t (PendingExecHash (Status t)) jobTypeApply
     else perform r t hash (decideSchedule t hash))"
    by (simp add: handlePendingExecution_def interval_decision andThen_assoc case_prod_unfold
        andThen_ret_right)
  show ?thesis
    unfolding through
    by (cases job)
      (auto simp: handleSpecChange_def decide_def andThen_assoc case_prod_unfold andThen_ret_right
        andThen_ret_sum intro!: andThen_cong split: sum.split)
qed

text \<open>C13: The Job steps of a reconciliation are the decision table: look up the Job that the status
  names, then perform the one action that the table gives for the TfRun, the hash of its spec
  and the Job found.\<close>

theorem reconcileJobs_decides:
  "reconcileJobs r t hash =
     andThen (lookupActiveJob r t) (\<lambda>job. perform r t hash (decide t hash job))"
  unfolding reconcileJobs_def getActiveJob_lookup andThen_assoc
  by (rule andThen_cong) (simp add: handlers_decide)

subsection \<open>Consequences\<close>




text \<open>An interval run can be lost: when the next run falls due between the two readings of the
  clock, the reconciliation starts no Job and asks for no requeue either.\<close>

lemma tick_lost:
  assumes "RunInterval (Spec t) = Some ri" "2700000000000 \<le> sint (Time ri)"
    and "NextRunTime (Status t) = Some tm"
    and "Now_of r w = (now, w1)" "now < tm" "Now_of r w1 = (tm, w2)"
  shows "handleIntervalRun r t hash w = (Ret (noResult, None), [EvNow now, EvNow tm], w2)"
  using assms
  by (simp add: handleIntervalRun_def Now_def run_simps untilTime_def minDuration_def
      maxDuration_def noResult_def requeueAfter_def)

text \<open>C17: What the status says of a Job that is not running: a Job that has any failed pod is
  recorded as failed, even when it has succeeded on a retry; a Job with neither leaves the
  phase as it is. One status update is made, and the next look is five minutes later.\<close>

theorem completed_job_status:
  "always (updateStatusBasedOnCompletedJob r t job) (\<lambda>out es. \<exists>t' res.
     filter is_write es = [EvStatusUpdate t' res] \<and> t' = t\<lparr>Status := Status t'\<rparr> \<and>
     Phase (Status t') = (if isJobFailed job then ''Failed''
       else if isJobSucceeded job then ''Succeeded'' else Phase (Status t)) \<and>
     ActiveJobName (Status t') = ActiveJobName (Status t) \<and>
     out = Ret (case res of Inl err \<Rightarrow> (noResult, Some err)
       | Inr _ \<Rightarrow> (requeueAfter (Minutes 5), None)))"
proof (cases "isJobSucceeded job"; cases "isJobFailed job")
qed (auto simp: updateStatusBasedOnCompletedJob_def markSucceeded_def markFailed_def andThen_assoc
      Now_def SetStatusCondition_def StatusUpdate_def PhaseFailed_def PhaseSucceeded_def
      status_update_def intro!: always_intros)

end
