(* ===== verification/Bootstrap_Laws.thy ===== *)
theory Bootstrap_Laws
  imports Bootstrap Cluster
begin

text \<open>
  What the builder of Jobs promises: it reads one Secret of the TfRun's namespace, never
  panics, and a Job it returns carries the name, namespace and kind of job it was asked for.
  The promise is the locale \<open>job_builder\<close>; \<open>BuildJob\<close> is an interpretation of it.
\<close>

subsection \<open>The contract of a builder\<close>

definition built_for :: "TfRun \<Rightarrow> string \<Rightarrow> string \<Rightarrow> Job \<Rightarrow> bool" where
  "built_for t jobType jobName j \<longleftrightarrow> Job_Name j = jobName \<and> Job_Namespace j = Namespace t \<and>
     map_of (Job_Labels j) labelJobType = Some jobType \<and> Job_OwnerReferences j = [] \<and>
     Job_Status j = zeroJobStatus"

definition reads_secret_of :: "TfRun \<Rightarrow> event list \<Rightarrow> event \<Rightarrow> bool" where
  "reads_secret_of t past e \<longleftrightarrow> (\<exists>s res. e = EvGetSecret (Namespace t, s) res)"

lemma justified_secrets:
  "justified (reads_secret_of t) past es \<Longrightarrow> e \<in> set es \<Longrightarrow>
   \<exists>s res. e = EvGetSecret (Namespace t, s) res"
  by (auto simp: reads_secret_of_def dest: justified_member)

locale job_builder =
  fixes build :: "TfRun \<Rightarrow> string \<Rightarrow> string \<Rightarrow> ('w, goerr + Job) go"
  assumes build_law: "runs (reads_secret_of t) [] (build t jobType jobName)
    (\<lambda>out es. \<exists>res. out = Ret res \<and> (\<forall>j. res = Inr j \<longrightarrow> built_for t jobType jobName j))"
begin

lemma build_runs:
  assumes "\<And>es s res. ok (past @ es) (EvGetSecret (Namespace t, s) res)"
    and "\<And>err es. (\<forall>e \<in> set es. \<exists>s res. e = EvGetSecret (Namespace t, s) res) \<Longrightarrow>
      Q (Ret (Inl err)) (past @ es)"
    and "\<And>j es. (\<forall>e \<in> set es. \<exists>s res. e = EvGetSecret (Namespace t, s) res) \<Longrightarrow>
      built_for t jobType jobName j \<Longrightarrow> Q (Ret (Inr j)) (past @ es)"
  shows "runs ok past (build t jobType jobName) Q"
proof (rule runs_shift [OF build_law])
  show "ok (past @ es) e" if "reads_secret_of t es e" for es e
    using that assms(1) by (auto simp: reads_secret_of_def)
  fix out :: "(goerr + Job) outcome" and es
  assume j: "justified (reads_secret_of t) [] es"
    and out: "\<exists>res. out = Ret res \<and> (\<forall>j. res = Inr j \<longrightarrow> built_for t jobType jobName j)"
  have es: "\<forall>e \<in> set es. \<exists>s res. e = EvGetSecret (Namespace t, s) res"
    using justified_secrets [OF j] by blast
  obtain res where res: "out = Ret res" "\<forall>j. res = Inr j \<longrightarrow> built_for t jobType jobName j"
    using out by blast
  show "Q out (past @ es)"
  proof (cases res)
    case (Inl err)
    then show ?thesis using assms(2) [OF es] res by simp
  next
    case (Inr j)
    then show ?thesis using assms(3) [OF es] res by simp
  qed
qed

lemma build_no_panic: "no_panic (build t jobType jobName)"
  unfolding no_panic_def
  by (rule always_mono [OF build_law [of t jobType jobName, unfolded runs_def]]) auto

lemma build_writes_nothing: "emits (\<lambda>e. \<not> is_write e) (build t jobType jobName)"
  unfolding emits_def
  by (rule always_mono [OF build_law [of t jobType jobName, unfolded runs_def]])
    (auto dest: justified_secrets)

end

subsection \<open>The builder of the program keeps it\<close>

lemma getGitCredentials_runs:
  "runs (reads_secret_of t) past (getGitCredentials b t s) (\<lambda>out h. \<exists>res. out = Ret res)"
  unfolding getGitCredentials_def Let_def ext_call_defs
  by (intro runs_intros) (auto simp: reads_secret_of_def)

lemma buildJobTemplate_built:
  "EngineType b \<noteq> labelJobType \<Longrightarrow>
   built_for t jobType jobName (buildJobTemplate b t jobName jobType tfCommand envVars gitCloneCmd)"
  by (simp add: built_for_def buildJobTemplate_def Let_def)

text \<open>The builders that \<open>ForEngine\<close> makes are for an engine whose name is no label of the Job.\<close>

lemma ForEngine_type:
  "ForEngine k8s eng args = (Some b, err) \<Longrightarrow>
   EngineType b = ''opentofu'' \<or> EngineType b = ''terraform''"
  by (auto simp: ForEngine_def tofuEngine_def tfEngine_def split: if_splits)

lemma ForEngine_None:
  "ForEngine k8s eng args \<noteq> (None, None)"
  by (auto simp: ForEngine_def)

lemma BuildJob_builder:
  assumes "EngineType b = ''opentofu'' \<or> EngineType b = ''terraform''"
  shows "job_builder (BuildJob b)"
proof
  fix t jobType jobName
  have label: "EngineType b \<noteq> labelJobType"
    using assms by (auto simp: labelJobType_def)
  show "runs (reads_secret_of t) [] (BuildJob b t jobType jobName)
    (\<lambda>out es. \<exists>res. out = Ret res \<and> (\<forall>j. res = Inr j \<longrightarrow> built_for t jobType jobName j))"
    unfolding BuildJob_def Let_def
    by (intro runs_intros runs_mono [OF getGitCredentials_runs])
      (auto intro!: runs_intros simp: buildJobTemplate_built [OF label])
qed

interpretation tofu_builder: job_builder
  "BuildJob \<lparr>K8s = k8s, EngineType = ''opentofu'', EngineArgs = args\<rparr>" for k8s args
  by (rule BuildJob_builder) simp

interpretation terraform_builder: job_builder
  "BuildJob \<lparr>K8s = k8s, EngineType = ''terraform'', EngineArgs = args\<rparr>" for k8s args
  by (rule BuildJob_builder) simp

text \<open>Whatever builder \<open>ForEngine\<close> returns, the contract holds.\<close>

lemma ForEngine_builder:
  assumes "ForEngine k8s eng args = (Some b, None)"
  shows "job_builder (BuildJob b)"
  using ForEngine_type [OF assms] by (rule BuildJob_builder)

subsection \<open>The contract of every accepted engine\<close>

text \<open>C26: For every engine that the factory accepts, building a Job reads Secrets of the TfRun's
  namespace and makes no other external call, never panics, and a Job that it returns has the
  name, the namespace and the job-type label that were asked for, no owner and no status. The
  factory never returns neither a builder nor an error.\<close>

theorem builder_contract:
  "case ForEngine k8s engine args of
     (Some b, None) \<Rightarrow> runs (reads_secret_of t) [] (BuildJob b t jobType jobName)
       (\<lambda>out es. \<exists>res. out = Ret res \<and>
          (case res of Inl err \<Rightarrow> True | Inr j \<Rightarrow> built_for t jobType jobName j))
   | (None, None) \<Rightarrow> False
   | _ \<Rightarrow> True"
proof -
  have "runs (reads_secret_of t) [] (BuildJob b t jobType jobName)
       (\<lambda>out es. \<exists>res. out = Ret res \<and>
          (case res of Inl err \<Rightarrow> True | Inr j \<Rightarrow> built_for t jobType jobName j))"
    if "ForEngine k8s engine args = (Some b, None)" for b
    by (rule runs_mono [OF job_builder.build_law [OF ForEngine_builder [OF that]]])
      (auto split: sum.split)
  then show ?thesis
    by (auto simp: ForEngine_None split: prod.split option.split)
qed

subsection \<open>Commands\<close>

text \<open>C32: The command of a Job, as the builder makes it with its empty argument list, for every
  engine name and kind of job: OpenTofu applies and destroys without asking; Terraform's two
  commands lack \<open>-auto-approve\<close> and would wait for an approval that nobody gives in a pod; an
  engine of another name runs OpenTofu, a kind of job of another name is applied.\<close>

theorem job_commands:
  "Command (Engine_ForEngine engine (Some [])) jobType =
     (let bin = (if engine = ''terraform'' then ''terraform'' else ''tofu'') in
      bin @ '' init && '' @
      (if jobType = jobTypeDestroy then bin @ '' plan -destroy && '' @ bin @ '' destroy ''
       else bin @ '' apply '') @
      (if engine = ''terraform'' \<and> jobType \<in> {jobTypeApply, jobTypeDestroy} then ''''
       else ''-auto-approve''))"
  by (simp add: Engine_ForEngine_def NewTerraform_def NewOpentofu_def Terraform_Command_def
      Opentofu_Command_def slice_list_def Let_def jobTypeApply_def jobTypeDestroy_def)


definition sampleBuilder :: "cluster BootstrapJob" where
  "sampleBuilder = \<lparr>K8s = kube, EngineType = tofuEngine, EngineArgs = Some []\<rparr>"



subsection \<open>Environment variables\<close>

lemma buildEnvVars_loop_map:
  "buildEnvVars_loop m acc = acc @
     map (\<lambda>(k, v). \<lparr>Env_Name = ''TF_VAR_'' @ k, Env_Value = the v, Env_ValueFrom = None\<rparr>)
       (filter (\<lambda>(k, v). v \<noteq> None) m)"
  by (induction m acc rule: buildEnvVars_loop.induct) (auto split: option.split)

text \<open>C31: The variables of a TfRun reach the engine once each and with their value: the environment
  has exactly one entry for every variable that is not null, and no other, in whatever order
  Go visits the map.\<close>

theorem env_vars_exact:
  assumes "Vars (Spec t) = Some m" "gomap_ok m"
  shows "distinct (map Env_Name (buildEnvVars t)) \<and>
    set (buildEnvVars t) = {\<lparr>Env_Name = ''TF_VAR_'' @ k, Env_Value = raw, Env_ValueFrom = None\<rparr>
      | k raw. map_of m k = Some (Some raw)}"
proof -
  have d: "distinct (map fst m)"
    using assms(2) by (simp add: gomap_ok_def)
  have "distinct (map fst (filter (\<lambda>(k, v). v \<noteq> None) m))"
    using d by (rule distinct_map_filter)
  then have "distinct (map Env_Name (buildEnvVars t))"
    using assms(1)
    by (auto simp: buildEnvVars_def buildEnvVars_loop_map comp_def case_prod_unfold distinct_map
        inj_on_def)
  moreover have "x \<in> set (buildEnvVars t) \<longleftrightarrow> (\<exists>k raw. map_of m k = Some (Some raw) \<and>
      x = \<lparr>Env_Name = ''TF_VAR_'' @ k, Env_Value = raw, Env_ValueFrom = None\<rparr>)" for x
    using assms(1) map_of_is_SomeI [OF d] map_of_SomeD
    by (fastforce simp: buildEnvVars_def buildEnvVars_loop_map image_iff)
  ultimately show ?thesis
    by blast
qed

theorem env_vars_exact_witness:
  "set (buildEnvVars (sampleRun\<lparr>Spec := sampleSpec\<lparr>Vars :=
      Some [(''b'', None), (''a'', Some ''1'')]\<rparr>\<rparr>)) =
   {\<lparr>Env_Name = ''TF_VAR_a'', Env_Value = ''1'', Env_ValueFrom = None\<rparr>}"
  using env_vars_exact [of "sampleRun\<lparr>Spec := sampleSpec\<lparr>Vars :=
      Some [(''b'', None), (''a'', Some ''1'')]\<rparr>\<rparr>" "[(''b'', None), (''a'', Some ''1'')]"]
  by (auto simp: gomap_ok_def)

subsection \<open>Time to live\<close>

lemma Atoi_Nil [simp]: "Atoi '''' = None"
  by (simp add: Atoi_def atoiDigits_def)

text \<open>C34: The time to live of a finished Job: the default, unless the environment holds a decimal
  number of at least 600, which is then cut to 32 bits with its sign. From 2147483648 on the
  value is not the one that was configured, and may be negative.\<close>

theorem ttl_value:
  "sint (getTTL getenv env defaultTTL) = (case Atoi (getenv env) of
     None \<Rightarrow> sint defaultTTL
   | Some n \<Rightarrow> if n < 600 then sint defaultTTL
       else if n < 2147483648 then n else signed_take_bit 31 n)"
proof -
  have "signed_take_bit 31 n = n" if "600 \<le> n" "n < 2147483648" for n :: int
    using that by (simp add: signed_take_bit_int_eq_self)
  then show ?thesis
    by (cases "getenv env = ''''")
      (auto simp: getTTL_def Let_def sint_sbintrunc' split: option.split)
qed

text \<open>A configured time to live of 2147483648 seconds becomes a negative one, which the API
  server refuses in a Job.\<close>

lemma ttl_overflow:
  "sint (getTTL (\<lambda>_. ''2147483648'') ''JOB_TTL_SUCCESS'' ttlSuccessDefault) = - 2147483648"
  by code_simp

end
