(* ===== verification/Scalr_Laws.thy ===== *)
theory Scalr_Laws
  imports Backends
begin

text \<open>
  What the Scalr client promises to its callers: which requests it may send, and with which
  credentials. \<open>scalr_call t ms\<close> is the protocol: read the Secret that the TfRun names, in the
  TfRun's namespace; send a request only to the host of the TfRun, with a method of \<open>ms\<close>, and
  with a bearer token that was read before from that Secret.
\<close>

definition credentials_key :: "TfRun \<Rightarrow> NamespacedName" where
  "credentials_key t = (Namespace t, Provider_CredentialsSecretRef (ForProvider (Spec t)))"

definition token_read :: "TfRun \<Rightarrow> event list \<Rightarrow> string \<Rightarrow> bool" where
  "token_read t past token \<longleftrightarrow> token \<noteq> [] \<and>
     (\<exists>sec. EvGetSecret (credentials_key t) (Inr sec) \<in> set past \<and>
       gomap_get (Data sec) ''token'' = Some token)"

text \<open>The addresses of the remote API of a backend: they parse.\<close>

definition scalr_address :: "CloudBackend \<Rightarrow> string \<Rightarrow> bool" where
  "scalr_address cb u \<longleftrightarrow> prefix (''https://'' @ Hostname cb @ ''/api/iacp/v3/'') u \<and>
     (\<exists>url. parseURL u = Inr url)"

definition scalr_request :: "TfRun \<Rightarrow> string set \<Rightarrow> event list \<Rightarrow> HttpRequest \<Rightarrow> bool" where
  "scalr_request t ms past q \<longleftrightarrow> Method q \<in> ms \<and>
     (\<exists>cb. Cloud (Backend (Spec t)) = Some cb \<and> scalr_address cb (URL q)) \<and>
     (\<exists>token. token_read t past token \<and>
       headerValue q ''Authorization'' = Some (''Bearer '' @ token))"

definition scalr_call :: "TfRun \<Rightarrow> string set \<Rightarrow> event list \<Rightarrow> event \<Rightarrow> bool" where
  "scalr_call t ms past e = (case e of
      EvGetSecret k res \<Rightarrow> k = credentials_key t
    | EvHttp q res \<Rightarrow> scalr_request t ms past q
    | _ \<Rightarrow> False)"

text \<open>Where such a request goes, as the parser of the HTTP client reads its address.\<close>

definition goes_to :: "CloudBackend \<Rightarrow> GoURL \<Rightarrow> bool" where
  "goes_to cb url \<longleftrightarrow> Scheme url = ''https'' \<and> (plainHost (Hostname cb) \<longrightarrow>
     Host url = Hostname cb \<and> User url = None \<and> prefix ''/api/iacp/v3/'' (URLPath url))"

lemma scalr_address_goes_to:
  assumes "scalr_address cb u"
  shows "\<exists>url. parseURL u = Inr url \<and> goes_to cb url"
proof -
  obtain s url where u: "u = ''https://'' @ Hostname cb @ CHR ''/'' # ''api/iacp/v3/'' @ s"
      "parseURL u = Inr url"
    using assms by (auto simp: scalr_address_def prefix_def)
  have "prefix (CHR ''/'' # ''api/iacp/v3/'') (URLPath url)" "Host url = Hostname cb" "User url = None"
    if "plainHost (Hostname cb)"
    by (rule parseURL_host [OF u(2) [unfolded u(1)] that]; simp)+
  then show ?thesis
    using u parseURL_https by (auto simp: goes_to_def)
qed

lemma token_read_mono: "token_read t past tok \<Longrightarrow> set past \<subseteq> set past' \<Longrightarrow> token_read t past' tok"
  by (auto simp: token_read_def)

lemma scalr_request_mono:
  "scalr_request t ms past q \<Longrightarrow> set past \<subseteq> set past' \<Longrightarrow> ms \<subseteq> ms' \<Longrightarrow> scalr_request t ms' past' q"
  unfolding scalr_request_def by (meson subsetD token_read_mono)

lemma scalr_call_mono:
  "scalr_call t ms past e \<Longrightarrow> set past \<subseteq> set past' \<Longrightarrow> ms \<subseteq> ms' \<Longrightarrow> scalr_call t ms' past' e"
  by (cases e) (auto simp: scalr_call_def intro: scalr_request_mono)

lemma scalr_call_not_write: "scalr_call t ms past e \<Longrightarrow> \<not> is_write e"
  by (cases e) (auto simp: scalr_call_def)

text \<open>An answer to a request of the given method and URL, with a status code of the set.\<close>

definition answered :: "event list \<Rightarrow> string \<Rightarrow> (string \<Rightarrow> bool) \<Rightarrow> int set \<Rightarrow> bool" where
  "answered es method url codes \<longleftrightarrow> (\<exists>q resp. EvHttp q (Inr resp) \<in> set es \<and>
     Method q = method \<and> url (URL q) \<and> StatusCode resp \<in> codes)"

lemma answered_mono: "answered es m u c \<Longrightarrow> set es \<subseteq> set es' \<Longrightarrow> answered es' m u c"
  unfolding answered_def by blast

lemma answered_simps [simp]:
  "\<not> answered [] m u c"
  "answered (es @ es') m u c \<longleftrightarrow> answered es m u c \<or> answered es' m u c"
  "answered (EvHttp q res # es) m u c \<longleftrightarrow>
     (\<exists>resp. res = Inr resp \<and> Method q = m \<and> u (URL q) \<and> StatusCode resp \<in> c) \<or>
     answered es m u c"
  by (auto simp: answered_def)

subsection \<open>The token\<close>

lemma GetScalrToken_runs:
  "runs (scalr_call t ms) past (GetScalrToken s t)
     (\<lambda>out h. \<exists>res. out = Ret res \<and> (\<forall>tok. res = Inr tok \<longrightarrow> token_read t h tok))"
  unfolding GetScalrToken_def Let_def ext_call_defs
  by (intro runs_intros)
    (auto simp: scalr_call_def credentials_key_def token_read_def)

lemma setAuthHeaders_runs:
  "runs (scalr_call t ms) past (setAuthHeaders s t q)
     (\<lambda>out h. \<exists>res. out = Ret res \<and> (\<forall>q'. res = Inr q' \<longrightarrow> Method q' = Method q \<and>
        URL q' = URL q \<and> (\<exists>tok. token_read t h tok \<and>
          headerValue q' ''Authorization'' = Some (''Bearer '' @ tok))))"
  unfolding setAuthHeaders_def
  by (intro runs_intros runs_mono [OF GetScalrToken_runs]) (auto intro!: runs_intros)

lemma buildAuthRequest_runs:
  "runs (scalr_call t ms) past (buildAuthRequest s t m u b)
     (\<lambda>out h. \<exists>res. out = Ret res \<and> (\<forall>q'. res = Inr q' \<longrightarrow> Method q' = m \<and> URL q' = u \<and>
        (\<exists>url. parseURL u = Inr url) \<and> (\<exists>tok. token_read t h tok \<and> headerValue q' ''Authorization'' = Some (''Bearer '' @ tok))))"
  unfolding buildAuthRequest_def
  by (intro runs_intros runs_mono [OF setAuthHeaders_runs]) (auto intro!: runs_intros simp: newRequest_Inr)

subsection \<open>The four requests\<close>

lemma GetWorkspace_runs:
  assumes "Cloud (Backend (Spec t)) \<noteq> None" "''GET'' \<in> ms"
  shows "runs (scalr_call t ms) past (GetWorkspace s t wid eid)
     (\<lambda>out h. \<exists>res. out = Ret res \<and> (\<forall>id. res = Inr id \<longrightarrow> answered h ''GET'' (\<lambda>u. True) {200}))"
  using assms unfolding GetWorkspace_def Let_def ext_call_defs
  by (intro runs_intros runs_mono [OF setAuthHeaders_runs])
    (auto intro!: runs_intros simp: scalr_call_def scalr_request_def scalr_address_def newRequest_Inr)

lemma GetScalrEnvironmentID_runs:
  assumes "Cloud (Backend (Spec t)) \<noteq> None" "''GET'' \<in> ms"
  shows "runs (scalr_call t ms) past (GetScalrEnvironmentID s t) (\<lambda>out h. \<exists>res. out = Ret res)"
  using assms unfolding GetScalrEnvironmentID_def Let_def ext_call_defs
  by (intro runs_intros runs_mono [OF setAuthHeaders_runs])
    (auto intro!: runs_intros simp: scalr_call_def scalr_request_def scalr_address_def newRequest_Inr)

lemma CreateScalrWorkspace_runs:
  assumes "Cloud (Backend (Spec t)) \<noteq> None" "''POST'' \<in> ms"
  shows "runs (scalr_call t ms) past (CreateScalrWorkspace s t eid)
     (\<lambda>out h. \<exists>res. out = Ret res \<and> (\<forall>id. res = Inr id \<longrightarrow> answered h ''POST'' (\<lambda>u. True) {201}))"
  using assms unfolding CreateScalrWorkspace_def Let_def ext_call_defs
  by (intro runs_intros runs_mono [OF buildAuthRequest_runs])
    (auto intro!: runs_intros simp: scalr_call_def scalr_request_def scalr_address_def newRequest_Inr)

definition workspace_url :: "TfRun \<Rightarrow> string \<Rightarrow> string \<Rightarrow> bool" where
  "workspace_url t wid u \<longleftrightarrow> (\<exists>cb. Cloud (Backend (Spec t)) = Some cb \<and>
     u = ''https://'' @ Hostname cb @ ''/api/iacp/v3/workspaces/'' @ wid)"

text \<open>A deletion is the request for one workspace.\<close>

definition delete_call :: "TfRun \<Rightarrow> string \<Rightarrow> event list \<Rightarrow> event \<Rightarrow> bool" where
  "delete_call t wid past e \<longleftrightarrow> scalr_call t {''DELETE''} past e \<and>
     (case e of EvHttp q _ \<Rightarrow> workspace_url t wid (URL q) | _ \<Rightarrow> True)"

lemma GetScalrToken_delete_runs:
  "runs (delete_call t wid) past (GetScalrToken s t)
     (\<lambda>out h. \<exists>res. out = Ret res \<and> (\<forall>tok. res = Inr tok \<longrightarrow> token_read t h tok))"
  unfolding GetScalrToken_def Let_def ext_call_defs
  by (intro runs_intros)
    (auto simp: delete_call_def scalr_call_def credentials_key_def token_read_def)

lemma DeleteScalrWorkspace_runs:
  assumes "Cloud (Backend (Spec t)) \<noteq> None"
  shows "runs (delete_call t wid) past (DeleteScalrWorkspace s t wid)
     (\<lambda>out h. \<exists>res. out = Ret res \<and> (res = None \<longrightarrow>
        wid \<noteq> [] \<and> answered h ''DELETE'' (workspace_url t wid) {200, 204, 404}))"
  using assms unfolding DeleteScalrWorkspace_def Let_def ext_call_defs
  by (intro runs_intros runs_mono [OF GetScalrToken_delete_runs])
    (auto intro!: runs_intros
      simp: delete_call_def scalr_call_def scalr_request_def scalr_address_def newRequest_Inr workspace_url_def)

end
