(* ===== verification/Backend_Laws.thy ===== *)
theory Backend_Laws
  imports Scalr_Laws
begin

text \<open>
  The contract of the interface \<open>CloudBackend\<close>, as the controller relies on it, and its
  interpretation by the Scalr backend. For a TfRun with a cloud block no operation panics; the
  operations keep to the protocol of the Scalr client, each with its own methods; an operation
  that succeeds has seen a success status of the remote API.
\<close>

subsection \<open>The contract\<close>

definition backend_event :: "string set \<Rightarrow> event \<Rightarrow> bool" where
  "backend_event ms e \<longleftrightarrow> (\<exists>k res. e = EvGetSecret k res) \<or> (\<exists>q res. e = EvHttp q res \<and> Method q \<in> ms)"

lemma backend_event_call: "scalr_call t ms past e \<Longrightarrow> backend_event ms e"
  by (cases e) (auto simp: scalr_call_def backend_event_def scalr_request_def)

lemma justified_backend:
  "justified (scalr_call t ms) past es \<Longrightarrow> \<forall>e \<in> set es. backend_event ms e"
  by (auto dest: justified_member backend_event_call)

lemma justified_delete:
  "justified (delete_call t wid) past es \<Longrightarrow> \<forall>e \<in> set es. backend_event {''DELETE''} e"
  by (auto simp: delete_call_def dest!: justified_member intro: backend_event_call)

locale cloud_backend =
  fixes be :: "'w CloudBackend_iface"
  assumes ensure_law: "Cloud (Backend (Spec t)) \<noteq> None \<Longrightarrow>
      runs (scalr_call t {''GET'', ''POST''}) [] (be_EnsureWorkspace be t)
        (\<lambda>out es. \<exists>res. out = Ret res \<and>
           (\<forall>id. res = Inr id \<longrightarrow> answered es ''POST'' (\<lambda>u. True) {201}))"
    and get_law: "Cloud (Backend (Spec t)) \<noteq> None \<Longrightarrow>
      runs (scalr_call t {''GET''}) [] (be_GetWorkspace be t wid)
        (\<lambda>out es. \<exists>res. out = Ret res \<and>
           (\<forall>id. res = Inr id \<longrightarrow> answered es ''GET'' (\<lambda>u. True) {200}))"
    and delete_law: "Cloud (Backend (Spec t)) \<noteq> None \<Longrightarrow>
      runs (delete_call t wid) [] (be_DeleteWorkspace be t wid)
        (\<lambda>out es. \<exists>res. out = Ret res \<and> (res = None \<longrightarrow>
           wid \<noteq> [] \<and> answered es ''DELETE'' (workspace_url t wid) {200, 204, 404}))"
begin

lemma ensure_runs:
  assumes "Cloud (Backend (Spec t)) \<noteq> None"
    and ok: "\<And>es e. scalr_call t {''GET'', ''POST''} es e \<Longrightarrow> ok (past @ es) e"
    and Q: "\<And>res es. \<forall>e \<in> set es. backend_event {''GET'', ''POST''} e \<Longrightarrow>
      \<forall>id. res = Inr id \<longrightarrow> answered es ''POST'' (\<lambda>u. True) {201} \<Longrightarrow> Q (Ret res) (past @ es)"
  shows "runs ok past (be_EnsureWorkspace be t) Q"
  by (rule runs_shift [OF ensure_law [OF assms(1)]]) (auto dest: ok justified_backend intro!: Q)

lemma get_runs:
  assumes "Cloud (Backend (Spec t)) \<noteq> None"
    and ok: "\<And>es e. scalr_call t {''GET''} es e \<Longrightarrow> ok (past @ es) e"
    and Q: "\<And>res es. \<forall>e \<in> set es. backend_event {''GET''} e \<Longrightarrow>
      \<forall>id. res = Inr id \<longrightarrow> answered es ''GET'' (\<lambda>u. True) {200} \<Longrightarrow> Q (Ret res) (past @ es)"
  shows "runs ok past (be_GetWorkspace be t wid) Q"
  by (rule runs_shift [OF get_law [OF assms(1)]]) (auto dest: ok justified_backend intro!: Q)

lemma delete_runs:
  assumes "Cloud (Backend (Spec t)) \<noteq> None"
    and ok: "\<And>es e. delete_call t wid es e \<Longrightarrow> ok (past @ es) e"
    and Q: "\<And>res es. \<forall>e \<in> set es. backend_event {''DELETE''} e \<Longrightarrow>
      res = None \<longrightarrow> wid \<noteq> [] \<and> answered es ''DELETE'' (workspace_url t wid) {200, 204, 404} \<Longrightarrow>
      Q (Ret res) (past @ es)"
  shows "runs ok past (be_DeleteWorkspace be t wid) Q"
  by (rule runs_shift [OF delete_law [OF assms(1)]]) (auto dest: ok justified_delete intro!: Q)

end

subsection \<open>The Scalr backend keeps it\<close>

lemma getEnvironmentId_runs:
  assumes "Cloud (Backend (Spec t)) \<noteq> None" "''GET'' \<in> ms"
  shows "runs (scalr_call t ms) past (getEnvironmentId s t) (\<lambda>out h. \<exists>res. out = Ret res)"
  using assms unfolding getEnvironmentId_def
  by (intro runs_intros runs_mono [OF GetScalrEnvironmentID_runs]) (auto intro!: runs_intros)

lemma ScalrBackend_contract: "cloud_backend (ScalrBackend s)"
proof
  fix t :: TfRun and wid :: string
  assume cloud: "Cloud (Backend (Spec t)) \<noteq> None"
  show "runs (scalr_call t {''GET'', ''POST''}) [] (be_EnsureWorkspace (ScalrBackend s) t)
      (\<lambda>out es. \<exists>res. out = Ret res \<and>
         (\<forall>id. res = Inr id \<longrightarrow> answered es ''POST'' (\<lambda>u. True) {201}))"
    unfolding ScalrBackend_def ScalrBackend_EnsureWorkspace_def using cloud
    by (auto intro!: runs_intros runs_mono [OF getEnvironmentId_runs]
        runs_mono [OF CreateScalrWorkspace_runs])
  show "runs (scalr_call t {''GET''}) [] (be_GetWorkspace (ScalrBackend s) t wid)
      (\<lambda>out es. \<exists>res. out = Ret res \<and>
         (\<forall>id. res = Inr id \<longrightarrow> answered es ''GET'' (\<lambda>u. True) {200}))"
    unfolding ScalrBackend_def ScalrBackend_GetWorkspace_def using cloud
    by (auto intro!: runs_intros runs_mono [OF getEnvironmentId_runs]
        runs_mono [OF GetWorkspace_runs])
  show "runs (delete_call t wid) [] (be_DeleteWorkspace (ScalrBackend s) t wid)
      (\<lambda>out es. \<exists>res. out = Ret res \<and> (res = None \<longrightarrow>
         wid \<noteq> [] \<and> answered es ''DELETE'' (workspace_url t wid) {200, 204, 404}))"
    unfolding ScalrBackend_def ScalrBackend_DeleteWorkspace_def using cloud
    by (auto intro!: runs_mono [OF DeleteScalrWorkspace_runs])
qed

interpretation scalr: cloud_backend "ScalrBackend s" for s
  by (rule ScalrBackend_contract)

text \<open>Every backend that the factory returns is the Scalr backend over the same client.\<close>

lemma ForProvider_backend_Inr:
  "ForProvider_backend k8s provider = Inr be \<Longrightarrow> be = ScalrBackend (NewService k8s)"
  by (simp add: ForProvider_backend_def split: if_splits)

end
