(* ===== verification/Protocol.thy ===== *)
theory Protocol
  imports Controller Bootstrap_Laws Backend_Laws
begin

text \<open>
  The abstract specification of a reconciliation: which external calls the controller may
  make, given the calls it has made and the answers it has got. \<open>status_step\<close> is the state
  machine of the status, one rule for each write of the code with the observation that
  justifies it; \<open>allowed\<close> adds the rules for Jobs, finalizers, Secrets and remote requests.
\<close>

subsection \<open>What a history tells\<close>

fun observed_in :: "event \<Rightarrow> TfRun set" where
  "observed_in (EvGetTfRun _ (Inr t)) = {t}"
| "observed_in (EvUpdate _ (Inr t)) = {t}"
| "observed_in (EvStatusUpdate _ (Inr t)) = {t}"
| "observed_in _ = {}"

text \<open>The TfRuns that the server has returned.\<close>

definition observed :: "event list \<Rightarrow> TfRun set" where
  "observed past = (\<Union>e \<in> set past. observed_in e)"

lemma observed_simps [simp]:
  "observed [] = {}"
  "observed (e # es) = observed_in e \<union> observed es"
  "observed (es @ es') = observed es \<union> observed es'"
  by (auto simp: observed_def)

text \<open>No Job has been created, and no running Job has been seen.\<close>

definition quiet_event :: "event \<Rightarrow> bool" where
  "quiet_event e \<longleftrightarrow> \<not> is_create e \<and> (case e of
     EvGetJob _ (Inr job) \<Rightarrow> \<not> isJobActive job | _ \<Rightarrow> True)"

definition quiet :: "event list \<Rightarrow> bool" where
  "quiet past \<longleftrightarrow> (\<forall>e \<in> set past. quiet_event e)"

lemma quiet_simps [simp]:
  "quiet []" "quiet (e # es) \<longleftrightarrow> quiet_event e \<and> quiet es"
  "quiet (es @ es') \<longleftrightarrow> quiet es \<and> quiet es'"
  by (auto simp: quiet_def)

lemma quiet_event_simps [simp]:
  "quiet_event (EvGetTfRun k a)" "quiet_event (EvGetSecret k c)" "quiet_event (EvUpdate t a)"
  "quiet_event (EvStatusUpdate t a)" "\<not> quiet_event (EvCreateJob j x)"
  "quiet_event (EvHttp q y)" "quiet_event (EvNow z)"
  "quiet_event (EvGetJob k (Inl err))"
  "quiet_event (EvGetJob k (Inr job)) \<longleftrightarrow> \<not> isJobActive job"
  by (simp_all add: quiet_event_def)

lemma quiet_backend: "\<forall>e \<in> set es. backend_event ms e \<Longrightarrow> quiet es"
  by (auto simp: quiet_def backend_event_def)

lemma observed_backend: "\<forall>e \<in> set es. backend_event ms e \<Longrightarrow> observed es = {}"
  by (auto simp: observed_def backend_event_def)

lemma quiet_secrets: "\<forall>e \<in> set es. \<exists>s res. e = EvGetSecret (n, s) res \<Longrightarrow> quiet es"
  by (fastforce simp: quiet_def)

lemma observed_secrets: "\<forall>e \<in> set es. \<exists>s res. e = EvGetSecret (n, s) res \<Longrightarrow> observed es = {}"
  by (fastforce simp: observed_def)

text \<open>The destroy Job of a TfRun is gone or has succeeded.\<close>

definition destroy_done :: "event list \<Rightarrow> bool" where
  "destroy_done past \<longleftrightarrow> (\<exists>t \<in> observed past. ActiveDestroyJobName (Status t) \<noteq> [] \<and>
     (\<exists>res. EvGetJob (Namespace t, ActiveDestroyJobName (Status t)) res \<in> set past \<and>
       (case res of Inl err \<Rightarrow> IsNotFound err
        | Inr job \<Rightarrow> \<not> isJobActive job \<and> isJobSucceeded job)))"

lemma destroy_done_mono: "destroy_done past \<Longrightarrow> set past \<subseteq> set past' \<Longrightarrow> destroy_done past'"
  unfolding destroy_done_def observed_def by blast

text \<open>The remote workspace of a TfRun, if it has one, has been deleted.\<close>

definition workspace_gone :: "event list \<Rightarrow> TfRun \<Rightarrow> bool" where
  "workspace_gone past t \<longleftrightarrow> (WorkspaceReady (Status t) \<and> WorkspaceID (Status t) \<noteq> [] \<longrightarrow>
     answered past ''DELETE'' (workspace_url t (WorkspaceID (Status t))) {200, 204, 404})"

lemma workspace_gone_mono:
  "workspace_gone past t \<Longrightarrow> set past \<subseteq> set past' \<Longrightarrow> workspace_gone past' t"
  unfolding workspace_gone_def by (blast intro: answered_mono)

text \<open>
  The hash of a spec that the server has returned; and a hash that an apply may be started
  for, which may also be the one that was left pending.
\<close>

definition spec_hash_of :: "'w ext \<Rightarrow> event list \<Rightarrow> string \<Rightarrow> bool" where
  "spec_hash_of r past h \<longleftrightarrow> (\<exists>t \<in> observed past. computeSpecHash r t = Inr h)"

definition known_hash :: "'w ext \<Rightarrow> event list \<Rightarrow> TfRun \<Rightarrow> string \<Rightarrow> bool" where
  "known_hash r past t h \<longleftrightarrow> spec_hash_of r past h \<or> h = PendingExecHash (Status t)"

lemma spec_hash_of_append: "spec_hash_of r past h \<Longrightarrow> spec_hash_of r (past @ es) h"
  by (auto simp: spec_hash_of_def)

lemma known_hash_append: "known_hash r past t h \<Longrightarrow> known_hash r (past @ es) t h"
  by (auto simp: known_hash_def spec_hash_of_append)

subsection \<open>The state machine of the status\<close>

inductive status_step :: "'w ext \<Rightarrow> event list \<Rightarrow> TfRun \<Rightarrow> TfRunStatus \<Rightarrow> bool"
  for r past t where
  backend_failed: "Cloud (Backend (Spec t)) \<noteq> None \<Longrightarrow>
    status_step r past t ((Status t)\<lparr>Phase := PhaseFailed, Message := m, WorkspaceReady := False\<rparr>)"
| workspace_lost: "Cloud (Backend (Spec t)) \<noteq> None \<Longrightarrow> WorkspaceID (Status t) \<noteq> [] \<Longrightarrow>
    status_step r past t ((Status t)\<lparr>Phase := PhaseFailed, WorkspaceID := '''', Message := m,
      WorkspaceReady := False\<rparr>)"
| workspace_pending: "WorkspaceID (Status t) = [] \<Longrightarrow> answered past ''POST'' (\<lambda>u. True) {201} \<Longrightarrow>
    status_step r past t ((Status t)\<lparr>Phase := PhasePending, Message := m,
      WorkspaceReady := False, ObservedGeneration := Generation t\<rparr>)"
| workspace_created: "WorkspaceID (Status t) = [] \<Longrightarrow> answered past ''POST'' (\<lambda>u. True) {201} \<Longrightarrow>
    wid \<noteq> [] \<Longrightarrow>
    status_step r past t ((Status t)\<lparr>WorkspaceID := wid, WorkspaceReady := True,
      Phase := PhasePending, Message := m, ObservedGeneration := Generation t\<rparr>)"
| workspace_imported: "WorkspaceID (Status t) = [] \<Longrightarrow> importAnnotation t \<noteq> [] \<Longrightarrow>
    answered past ''GET'' (\<lambda>u. True) {200} \<Longrightarrow>
    status_step r past t ((Status t)\<lparr>WorkspaceID := wid, WorkspaceReady := True,
      WorkspaceImport := True, Phase := PhasePending, Message := m,
      ObservedGeneration := Generation t\<rparr>)"
| job_succeeded: "EvGetJob k (Inr job) \<in> set past \<Longrightarrow> \<not> isJobActive job \<Longrightarrow>
    isJobSucceeded job \<Longrightarrow> \<not> isJobFailed job \<Longrightarrow>
    status_step r past t ((Status t)\<lparr>Phase := PhaseSucceeded, Message := m,
      LastRunTime := Some tm, Conditions := cs\<rparr>)"
| job_failed: "EvGetJob k (Inr job) \<in> set past \<Longrightarrow> \<not> isJobActive job \<Longrightarrow> isJobFailed job \<Longrightarrow>
    status_step r past t ((Status t)\<lparr>Phase := PhaseFailed, Message := m, Conditions := cs\<rparr>)"
| job_failed_after_success: "EvGetJob k (Inr job) \<in> set past \<Longrightarrow> \<not> isJobActive job \<Longrightarrow>
    isJobFailed job \<Longrightarrow> isJobSucceeded job \<Longrightarrow>
    status_step r past t ((Status t)\<lparr>LastRunTime := Some tm, Phase := PhaseFailed, Message := m,
      Conditions := cs\<rparr>)"
| job_unfinished: "EvGetJob k (Inr job) \<in> set past \<Longrightarrow> \<not> isJobActive job \<Longrightarrow>
    \<not> isJobSucceeded job \<Longrightarrow> \<not> isJobFailed job \<Longrightarrow> status_step r past t (Status t)"
| spec_pending: "EvGetJob k (Inr job) \<in> set past \<Longrightarrow> isJobActive job \<Longrightarrow>
    h \<noteq> LastSpecHash (Status t) \<Longrightarrow> spec_hash_of r past h \<Longrightarrow>
    status_step r past t ((Status t)\<lparr>PendingExecHash := h, PendingReason := ''SpecChange''\<rparr>)"
| apply_started: "EvCreateJob j None \<in> set past \<Longrightarrow> SetControllerReference r t jb = Inr j \<Longrightarrow>
    built_for t jobTypeApply n jb \<Longrightarrow> BuildRunID (Generation t) h = Ret rid \<Longrightarrow>
    n = buildJobName t rid \<Longrightarrow> known_hash r past t h \<Longrightarrow> RunInterval (Spec t) = None \<Longrightarrow>
    status_step r past t ((Status t)\<lparr>ActiveJobName := n, RunID := rid, LastSpecHash := h,
      Phase := PhaseRunning, ObservedGeneration := Generation t, Message := m,
      PendingExecHash := '''', PendingReason := '''', Conditions := cs, NextRunTime := None\<rparr>)"
| apply_scheduled: "EvCreateJob j None \<in> set past \<Longrightarrow> SetControllerReference r t jb = Inr j \<Longrightarrow>
    built_for t jobTypeApply n jb \<Longrightarrow> BuildRunID (Generation t) h = Ret rid \<Longrightarrow>
    n = buildJobName t rid \<Longrightarrow> known_hash r past t h \<Longrightarrow>
    RunInterval (Spec t) = Some ri \<Longrightarrow> EvNow now \<in> set past \<Longrightarrow>
    status_step r past t ((Status t)\<lparr>ActiveJobName := n, RunID := rid, LastSpecHash := h,
      Phase := PhaseRunning, ObservedGeneration := Generation t, Message := m,
      PendingExecHash := '''', PendingReason := '''', Conditions := cs,
      LastRunTime := Some tm, NextRunTime := Some (addDuration now (Time ri))\<rparr>)"
| apply_adopted: "EvCreateJob j (Some err) \<in> set past \<Longrightarrow> IsAlreadyExists err \<Longrightarrow>
    SetControllerReference r t' jb = Inr j \<Longrightarrow> built_for t' jobTypeApply n jb \<Longrightarrow>
    status_step r past t ((Status t)\<lparr>ActiveJobName := n, Phase := PhaseRunning,
      ObservedGeneration := Generation t\<rparr>)"
| refused: "status_step r past t ((Status t)\<lparr>Phase := PhaseFailed, Message := m\<rparr>)"
| interval_off: "RunInterval (Spec t) = None \<Longrightarrow>
    status_step r past t ((Status t)\<lparr>NextRunTime := None\<rparr>)"
| destroy_gone: "EvGetJob (Namespace t, ActiveDestroyJobName (Status t)) (Inl err) \<in> set past \<Longrightarrow>
    IsNotFound err \<Longrightarrow>
    status_step r past t ((Status t)\<lparr>ActiveDestroyJobName := ''''\<rparr>)"
| destroy_succeeded:
    "EvGetJob (Namespace t, ActiveDestroyJobName (Status t)) (Inr job) \<in> set past \<Longrightarrow>
    \<not> isJobActive job \<Longrightarrow> isJobSucceeded job \<Longrightarrow>
    status_step r past t ((Status t)\<lparr>Message := m, ActiveDestroyJobName := ''''\<rparr>)"
| destroy_failed:
    "EvGetJob (Namespace t, ActiveDestroyJobName (Status t)) (Inr job) \<in> set past \<Longrightarrow>
    \<not> isJobActive job \<Longrightarrow> \<not> isJobSucceeded job \<Longrightarrow> isJobFailed job \<Longrightarrow>
    status_step r past t ((Status t)\<lparr>Phase := PhaseFailed, Message := m,
      ActiveDestroyJobName := ''''\<rparr>)"
| destroy_started: "EvCreateJob j res \<in> set past \<Longrightarrow>
    (case res of None \<Rightarrow> True | Some err \<Rightarrow> IsAlreadyExists err) \<Longrightarrow>
    SetControllerReference r t jb = Inr j \<Longrightarrow> built_for t jobTypeDestroy n jb \<Longrightarrow>
    status_step r past t ((Status t)\<lparr>ActiveDestroyJobName := n, Phase := PhasePending,
      ObservedGeneration := Generation t, Message := m\<rparr>)"
| destroy_adopted: "EvGetJob k (Inr job) \<in> set past \<Longrightarrow> snd k = n \<Longrightarrow>
    status_step r past t ((Status t)\<lparr>ActiveDestroyJobName := n, Phase := PhasePending,
      Message := m\<rparr>)"

subsection \<open>The calls that a reconciliation may make\<close>

definition write_allowed :: "'w ext \<Rightarrow> event list \<Rightarrow> TfRun \<Rightarrow> bool" where
  "write_allowed r past t \<longleftrightarrow> (\<exists>t0 \<in> observed past.
     t = t0\<lparr>Status := Status t\<rparr> \<and> status_step r past t0 (Status t))"

definition finalizer_added :: "'w ext \<Rightarrow> event list \<Rightarrow> TfRun \<Rightarrow> bool" where
  "finalizer_added r past t \<longleftrightarrow> (\<exists>t0 \<in> observed past.
     \<not> ContainsFinalizer r t0 finalizerName \<and> t = AddFinalizer r t0 finalizerName)"

definition finalizer_removed :: "'w ext \<Rightarrow> event list \<Rightarrow> TfRun \<Rightarrow> bool" where
  "finalizer_removed r past t \<longleftrightarrow>
     (\<exists>t0 \<in> observed past. ContainsFinalizer r t0 finalizerName \<and>
        t = RemoveFinalizer r t0 finalizerName) \<and>
     destroy_done past \<and> (\<exists>t1 \<in> observed past. workspace_gone past t1)"

definition apply_allowed :: "'w ext \<Rightarrow> event list \<Rightarrow> Job \<Rightarrow> bool" where
  "apply_allowed r past j \<longleftrightarrow> quiet past \<and>
     (\<exists>t0 \<in> observed past. IsZero (DeletionTimestamp t0)) \<and>
     (\<exists>t \<in> observed past. \<exists>h rid jb. known_hash r past t h \<and> BuildRunID (Generation t) h = Ret rid \<and>
        built_for t jobTypeApply (buildJobName t rid) jb \<and> SetControllerReference r t jb = Inr j)"

definition destroy_allowed :: "'w ext \<Rightarrow> event list \<Rightarrow> Job \<Rightarrow> bool" where
  "destroy_allowed r past j \<longleftrightarrow> (\<forall>e \<in> set past. \<not> is_create e) \<and>
     (\<exists>t \<in> observed past. \<not> IsZero (DeletionTimestamp t) \<and>
        ActiveDestroyJobName (Status t) = [] \<and>
        (\<exists>jb. built_for t jobTypeDestroy (ToLower (Name t @ ''-destroy'')) jb \<and>
           SetControllerReference r t jb = Inr j))"

definition request_allowed :: "event list \<Rightarrow> HttpRequest \<Rightarrow> bool" where
  "request_allowed past q \<longleftrightarrow>
     (\<exists>t. (\<exists>t0 \<in> observed past. t = t0\<lparr>Status := Status t\<rparr>) \<and>
        scalr_request t {''GET'', ''POST'', ''DELETE''} past q) \<and>
     (Method q = ''DELETE'' \<longrightarrow> destroy_done past \<and>
        (\<exists>t \<in> observed past. WorkspaceReady (Status t) \<and>
           workspace_url t (WorkspaceID (Status t)) (URL q)))"

definition secret_allowed :: "event list \<Rightarrow> NamespacedName \<Rightarrow> bool" where
  "secret_allowed past k \<longleftrightarrow> (\<exists>t \<in> observed past. fst k = Namespace t)"

fun allowed :: "'w ext \<Rightarrow> event list \<Rightarrow> event \<Rightarrow> bool" where
  "allowed r past (EvGetTfRun k _) = True"
| "allowed r past (EvGetJob k _) = (\<exists>t \<in> observed past. fst k = Namespace t)"
| "allowed r past (EvGetSecret k _) = secret_allowed past k"
| "allowed r past (EvUpdate t _) = (finalizer_added r past t \<or> finalizer_removed r past t)"
| "allowed r past (EvStatusUpdate t _) = write_allowed r past t"
| "allowed r past (EvCreateJob j _) = (apply_allowed r past j \<or> destroy_allowed r past j)"
| "allowed r past (EvHttp q _) = request_allowed past q"
| "allowed r past (EvNow _) = True"

end
