(* ===== verification/Protocol_Workspace.thy ===== *)
theory Protocol_Workspace
  imports Protocol
begin

text \<open>
  The writes of the status and the workspace steps keep to the protocol, whatever the
  services answer, and never panic.
\<close>

subsection \<open>Single calls\<close>

lemma write_allowedI:
  "t0 \<in> observed past \<Longrightarrow> status_step r past t0 (f (Status t0)) \<Longrightarrow>
   write_allowed r past (status_update f t0)"
  by (auto simp: write_allowed_def status_update_def intro!: bexI [of _ t0])

lemma StatusUpdate_runs [runs_intros]:
  assumes "write_allowed r past t"
    and "\<And>res. Q (Ret res) (past @ [EvStatusUpdate t res])"
  shows "runs (allowed r) past (StatusUpdate r t) Q"
  unfolding StatusUpdate_def using assms by (intro runs_intros) auto

lemma StatusUpdate_ignored_runs [runs_intros]:
  assumes "write_allowed r past t"
    and "\<And>err. Q (Ret t) (past @ [EvStatusUpdate t (Inl err)])"
    and "\<And>t'. Q (Ret t') (past @ [EvStatusUpdate t (Inr t')])"
  shows "runs (allowed r) past (StatusUpdate_ignored r t) Q"
  unfolding StatusUpdate_ignored_def using assms by (intro runs_intros) auto

lemma updateStatus_runs [runs_intros]:
  assumes "write_allowed r past t"
    and "\<And>err. Q (Ret (t, requeueAfter (Seconds 5), Some err)) (past @ [EvStatusUpdate t (Inl err)])"
    and "\<And>t'. Q (Ret (t', noResult, None)) (past @ [EvStatusUpdate t (Inr t')])"
  shows "runs (allowed r) past (updateStatus r t) Q"
  unfolding updateStatus_def using assms by (intro runs_intros) auto

lemma GetTfRun_runs [runs_intros]:
  "(\<And>res. Q (Ret res) (past @ [EvGetTfRun k res])) \<Longrightarrow> runs (allowed r) past (GetTfRun r k) Q"
  unfolding GetTfRun_def by (intro runs_intros) auto

lemma GetJob_runs [runs_intros]:
  assumes "t \<in> observed past" "fst k = Namespace t"
    and "\<And>res. Q (Ret res) (past @ [EvGetJob k res])"
  shows "runs (allowed r) past (GetJob r k) Q"
  unfolding GetJob_def using assms by (intro runs_intros) auto

lemma Now_runs [runs_intros]:
  "(\<And>t. Q (Ret t) (past @ [EvNow t])) \<Longrightarrow> runs (allowed r) past (Now r) Q"
  unfolding Now_def by (intro runs_intros) auto

lemma SetStatusCondition_runs [runs_intros]:
  "(\<And>cs. Q (Ret cs) past) \<Longrightarrow> runs (allowed r) past (SetStatusCondition r c0 c) Q"
  unfolding SetStatusCondition_def by (intro runs_intros) auto

subsection \<open>Requests to the backend\<close>

text \<open>
  A backend call that deletes nothing is allowed for a TfRun that differs from an observed
  one at most in its status.
\<close>

lemma scalr_call_allowed:
  assumes "scalr_call t ms es e" "t0 \<in> observed past" "t = t0\<lparr>Status := Status t\<rparr>"
    and "ms \<subseteq> {''GET'', ''POST'', ''DELETE''}"
    and del: "\<And>q res. e = EvHttp q res \<Longrightarrow> Method q = ''DELETE'' \<Longrightarrow> destroy_done past \<and>
      (\<exists>t \<in> observed past. WorkspaceReady (Status t) \<and>
         workspace_url t (WorkspaceID (Status t)) (URL q))"
  shows "allowed r (past @ es) e"
proof (cases e)
  case (EvGetSecret k res)
  have "Namespace t = Namespace t0"
    using assms(3) by (metis TfRun.select_convs(2) TfRun.surjective TfRun.update_convs(10))
  then show ?thesis
    using assms(1,2) EvGetSecret
    by (auto simp: scalr_call_def secret_allowed_def credentials_key_def)
next
  case (EvHttp q res)
  then have q: "scalr_request t ms es q"
    using assms(1) by (simp add: scalr_call_def)
  then have "scalr_request t {''GET'', ''POST'', ''DELETE''} (past @ es) q"
    using assms(4) by (auto elim: scalr_request_mono)
  moreover have "destroy_done (past @ es) \<and> (\<exists>t \<in> observed (past @ es).
      WorkspaceReady (Status t) \<and> workspace_url t (WorkspaceID (Status t)) (URL q))"
    if "Method q = ''DELETE''"
    using del [OF EvHttp that] by (auto intro: destroy_done_mono)
  ultimately show ?thesis
    using assms(2,3) EvHttp by (auto simp: request_allowed_def)
qed (use assms(1) in \<open>auto simp: scalr_call_def\<close>)

lemma getCloudBackend_Inr:
  "getCloudBackend r t = Inr be \<Longrightarrow>
   Cloud (Backend (Spec t)) \<noteq> None \<and> be = ScalrBackend (NewService r)"
  by (auto simp: getCloudBackend_def Let_def dest: ForProvider_backend_Inr split: option.splits)

lemma getCloudBackend_status [simp]: "getCloudBackend r (status_update f t) = getCloudBackend r t"
  by (simp add: getCloudBackend_def)

subsection \<open>The workspace steps\<close>

text \<open>What the workspace steps leave to the rest of the reconciliation.\<close>

definition workspace_post :: "event list \<Rightarrow> (TfRun \<times> Result \<times> goerr option) outcome \<Rightarrow>
    event list \<Rightarrow> bool" where
  "workspace_post past out h \<longleftrightarrow> quiet h \<and> observed past \<subseteq> observed h \<and>
     (\<exists>t' res err. out = Ret (t', res, err) \<and> (err = None \<longrightarrow> t' \<in> observed h))"

lemma importScalrWorkspace_runs:
  assumes t: "t \<in> observed past" and q: "quiet past" and w: "WorkspaceID (Status t) = []"
    and be: "getCloudBackend r t = Inr be" and a: "importAnnotation t \<noteq> []"
  shows "runs (allowed r) past (importScalrWorkspace r t) (workspace_post past)"
proof -
  note cloud = getCloudBackend_Inr [OF be]
  have ok: "allowed r (past @ es) e" if "scalr_call t {''GET''} es e" for es e
    using that t by (auto intro!: scalr_call_allowed simp: scalr_call_def scalr_request_def)
  show ?thesis
    unfolding importScalrWorkspace_def Let_def be sum.case
    using cloud w a t q ok
    by (auto intro!: runs_intros scalr.get_runs write_allowedI
        status_step.backend_failed status_step.workspace_imported
        simp: workspace_post_def quiet_backend observed_backend)
qed

lemma reconcileWorkspace_runs:
  assumes t: "t \<in> observed past" and q: "quiet past" and w: "WorkspaceID (Status t) = []"
    and c: "Cloud (Backend (Spec t)) \<noteq> None"
  shows "runs (allowed r) past (reconcileWorkspace r t) (workspace_post past)"
proof (cases "getCloudBackend r t")
  case (Inl err)
  then show ?thesis
    unfolding reconcileWorkspace_def using t q c
    by (auto intro!: runs_intros write_allowedI status_step.backend_failed
        simp: workspace_post_def)
next
  case (Inr be)
  note cloud = getCloudBackend_Inr [OF Inr]
  have ok: "allowed r (past @ es) e" if "scalr_call t {''GET'', ''POST''} es e" for es e
    using that t by (auto intro!: scalr_call_allowed simp: scalr_call_def scalr_request_def)
  show ?thesis
    unfolding reconcileWorkspace_def Inr sum.case
    using cloud w t q ok importScalrWorkspace_runs [OF t q w Inr]
    by (auto intro!: runs_intros scalr.ensure_runs write_allowedI
        status_step.backend_failed status_step.workspace_created status_step.workspace_pending
        simp: workspace_post_def quiet_backend observed_backend)
qed

lemma ensureWorkspaceIfNeeded_runs:
  assumes t: "t \<in> observed past" and q: "quiet past"
  shows "runs (allowed r) past (ensureWorkspaceIfNeeded r t) (workspace_post past)"
proof -
  have ok: "allowed r (past @ es) e" if "scalr_call t {''GET''} es e" for es e
    using that t by (auto intro!: scalr_call_allowed simp: scalr_call_def scalr_request_def)
  show ?thesis
    unfolding ensureWorkspaceIfNeeded_def
    using t q ok
    by (intro runs_intros reconcileWorkspace_runs)
      (auto intro!: runs_intros scalr.get_runs write_allowedI
        status_step.backend_failed status_step.workspace_lost
        simp: workspace_post_def quiet_backend observed_backend dest!: getCloudBackend_Inr)
qed

end
