(* ===== verification/Protocol_Jobs.thy ===== *)
theory Protocol_Jobs
  imports Protocol_Workspace
begin

text \<open>
  The apply side of the controller keeps to the protocol. A panic has one of two causes, which
  the postconditions name: a hash that is too short to cut, or a server that answers a status
  update without the next run time it was sent.
\<close>

definition lossy_event :: "event \<Rightarrow> bool" where
  "lossy_event e \<longleftrightarrow> (case e of
     EvStatusUpdate t (Inr t') \<Rightarrow>
       RunInterval (Spec t') \<noteq> None \<and> NextRunTime (Status t') = None \<and>
       (RunInterval (Spec t) = None \<or> NextRunTime (Status t) \<noteq> None)
   | _ \<Rightarrow> False)"

definition lossy_reply :: "event list \<Rightarrow> bool" where
  "lossy_reply h \<longleftrightarrow> (\<exists>e \<in> set h. lossy_event e)"

lemma lossy_reply_simps [simp]:
  "\<not> lossy_reply []" "lossy_reply (e # es) \<longleftrightarrow> lossy_event e \<or> lossy_reply es"
  "lossy_reply (es @ es') \<longleftrightarrow> lossy_reply es \<or> lossy_reply es'"
  by (auto simp: lossy_reply_def)

definition panic_cause :: "string \<Rightarrow> 'a outcome \<Rightarrow> event list \<Rightarrow> bool" where
  "panic_cause specHash out h \<longleftrightarrow>
     (\<forall>p. out = Panic p \<longrightarrow> length specHash < 8 \<or> lossy_reply h)"

lemma panic_cause_Ret [simp]: "panic_cause h (Ret x) es"
  by (simp add: panic_cause_def)

lemma BuildRunID_Panic: "BuildRunID g h = Panic p \<longleftrightarrow> p = SliceBounds \<and> length h < 8"
  by (auto simp: BuildRunID_def slice_def)

subsection \<open>Completed Jobs\<close>

lemma completed_runs:
  assumes t: "t \<in> observed past" and j: "EvGetJob k (Inr job) \<in> set past" "\<not> isJobActive job"
    and Q: "\<And>x h. Q (Ret x) h"
  shows "runs (allowed r) past (updateStatusBasedOnCompletedJob r t job) Q"
proof -
  have unchanged: "write_allowed r past t" if "\<not> isJobSucceeded job" "\<not> isJobFailed job"
    using write_allowedI [OF t, of r "\<lambda>s. s"] status_step.job_unfinished [OF j that, of r t]
    by simp
  have seen: "t \<in> observed (past @ es)" "EvGetJob k (Inr job) \<in> set (past @ es)" for es
    using t j by auto
  note ends = status_step.job_succeeded [OF seen(2) j(2)] status_step.job_failed [OF seen(2) j(2)]
    status_step.job_failed_after_success [OF seen(2) j(2)]
  have written: "write_allowed r (past @ es) (status_update (\<lambda>s. s\<lparr>Phase := PhaseSucceeded,
      Message := m, LastRunTime := Some tm, Conditions := cs\<rparr>) t)"
    if "isJobSucceeded job" "\<not> isJobFailed job" for es m tm cs
    by (rule write_allowedI [OF seen(1)], rule ends(1) [OF that])
  have written': "write_allowed r (past @ es) (status_update (\<lambda>s. s\<lparr>LastRunTime := Some tm,
      Phase := PhaseFailed, Message := m, Conditions := cs\<rparr>) t)"
    if "isJobFailed job" "isJobSucceeded job" for es m tm cs
    by (rule write_allowedI [OF seen(1)], rule ends(3) [OF that])
  show ?thesis
    unfolding updateStatusBasedOnCompletedJob_def markSucceeded_def markFailed_def
    using t j Q unchanged
    by (auto intro!: runs_intros written written'
        intro: write_allowedI status_step.job_failed [of k job])
qed

subsection \<open>Creating a Job\<close>

lemma CreateJob_runs [runs_intros]:
  assumes "apply_allowed r past j \<or> destroy_allowed r past j"
    and "\<And>res. Q (Ret res) (past @ [EvCreateJob j res])"
  shows "runs (allowed r) past (CreateJob r j) Q"
  unfolding CreateJob_def using assms by (intro runs_intros) auto

text \<open>What a run knows when it starts an apply.\<close>

definition apply_ready :: "event list \<Rightarrow> TfRun \<Rightarrow> bool" where
  "apply_ready past t \<longleftrightarrow> t \<in> observed past \<and> quiet past \<and>
     (\<exists>t0 \<in> observed past. IsZero (DeletionTimestamp t0))"

lemma createJobAndUpdateStatus_runs:
  assumes ready: "apply_ready past t" and h: "BuildRunID (Generation t) h = Ret rid"
    and b: "built_for t jobTypeApply (buildJobName t rid) jb"
    and c: "SetControllerReference r t jb = Inr j" and known: "known_hash r past t h"
  shows "runs (allowed r) past
    (createJobAndUpdateStatus r t j h (buildJobName t rid) jobType) (panic_cause h)"
proof -
  have t: "t \<in> observed past"
    using ready by (simp add: apply_ready_def)
  have create: "apply_allowed r past j"
    using ready h b c known by (auto simp: apply_allowed_def apply_ready_def)
  have adopted: "write_allowed r (past @ [EvCreateJob j (Some err), EvGetTfRun k (Inr latest)])
      (status_update (\<lambda>s. s\<lparr>ActiveJobName := buildJobName t rid, Phase := PhaseRunning,
         ObservedGeneration := Generation latest\<rparr>) latest)" if "IsAlreadyExists err" for err k latest
    by (rule write_allowedI) (simp, rule status_step.apply_adopted [OF _ that c b], simp)
  have refused: "write_allowed r (past @ es)
      (status_update (\<lambda>s. s\<lparr>Phase := PhaseFailed, Message := m\<rparr>) t)" for m es
    using t by (intro write_allowedI status_step.refused) simp
  have started: "write_allowed r (past @ [EvCreateJob j None])
      (status_update (\<lambda>s. s\<lparr>ActiveJobName := buildJobName t rid, RunID := rid,
         LastSpecHash := h, Phase := PhaseRunning, ObservedGeneration := Generation t, Message := m,
         PendingExecHash := '''', PendingReason := '''', Conditions := cs, NextRunTime := None\<rparr>) t)"
    if "RunInterval (Spec t) = None" for m cs
    by (rule write_allowedI)
      (use t in simp, rule status_step.apply_started [OF _ c b h refl
        known_hash_append [OF known] that], simp)
  have scheduled: "write_allowed r (past @ [EvCreateJob j None, EvNow tm, EvNow now])
      (status_update (\<lambda>s. s\<lparr>ActiveJobName := buildJobName t rid, RunID := rid,
         LastSpecHash := h, Phase := PhaseRunning, ObservedGeneration := Generation t, Message := m,
         PendingExecHash := '''', PendingReason := '''', Conditions := cs, LastRunTime := Some tm,
         NextRunTime := Some (addDuration now (Time ri))\<rparr>) t)"
    if "RunInterval (Spec t) = Some ri" for ri m cs tm now
    by (rule write_allowedI)
      (use t in simp, rule status_step.apply_scheduled [OF _ c b h refl
        known_hash_append [OF known] that], simp_all)
  show ?thesis
    unfolding createJobAndUpdateStatus_def Let_def
    by (intro runs_intros disjI1 create)
      (auto intro!: runs_intros adopted refused started scheduled simp: h panic_cause_def lossy_event_def)
qed

lemma createNewJob_runs:
  assumes ready: "apply_ready past t" and known: "known_hash r past t h"
  shows "runs (allowed r) past (createNewJob r t h jobTypeApply) (panic_cause h)"
proof -
  have t: "t \<in> observed past"
    using ready by (simp add: apply_ready_def)
  have refused: "write_allowed r (past @ es)
      (status_update (\<lambda>s. s\<lparr>Phase := PhaseFailed, Message := m\<rparr>) t)" for m es
    using t by (intro write_allowedI status_step.refused) simp
  have secrets: "apply_ready (past @ es) t"
    if "\<forall>e \<in> set es. \<exists>s res. e = EvGetSecret (Namespace t, s) res" for es
    using ready quiet_secrets [OF that] observed_secrets [OF that] by (simp add: apply_ready_def)
  have secret: "allowed r (past @ es) (EvGetSecret (Namespace t, s) res)" for es s res
    using t by (auto simp: secret_allowed_def)
  have build: "runs (allowed r) past
      (andThen (BuildJob b t jobTypeApply (buildJobName t rid)) (\<lambda>res. case res of
         Inl err \<Rightarrow>
           andThen (updateStatus r (status_update (\<lambda>s. s\<lparr>Phase := PhaseFailed,
               Message := ''failed to build job: '' @ errText err\<rparr>) t))
             (\<lambda>(_, result, err). ret (result, err))
       | Inr job \<Rightarrow> (case SetControllerReference r t job of
           Inl err \<Rightarrow> ret (noResult, Some err)
         | Inr job \<Rightarrow> createJobAndUpdateStatus r t job h (buildJobName t rid) jobTypeApply)))
      (panic_cause h)"
    if "ForEngine r eng args = (Some b, None)" "BuildRunID (Generation t) h = Ret rid"
    for b rid eng args
    by (intro runs_intros job_builder.build_runs [OF ForEngine_builder [OF that(1)]] secret)
      (auto intro!: runs_intros refused intro: createJobAndUpdateStatus_runs [OF secrets that(2)]
        known_hash_append [OF known])
  show ?thesis
    unfolding createNewJob_def Let_def
    by (intro runs_case_prod runs_case_option build runs_andThen runs_lift_outcome outcome_caseI;
        (assumption | auto intro!: runs_intros simp: ForEngine_None panic_cause_def BuildRunID_Panic)?)
qed

subsection \<open>The steps of an apply\<close>

text \<open>What the lookup of the active Job has found.\<close>

definition found ::
  "'w ext \<Rightarrow> string \<Rightarrow> event list \<Rightarrow> TfRun \<Rightarrow> Job option \<Rightarrow> bool \<Rightarrow> bool" where
  "found r hash h t activeJob running \<longleftrightarrow> t \<in> observed h \<and> spec_hash_of r h hash \<and>
     (\<forall>job. activeJob = Some job \<longrightarrow> (\<exists>k. EvGetJob k (Inr job) \<in> set h) \<and>
        isJobActive job = running) \<and>
     (if running then activeJob \<noteq> None else apply_ready h t)"

lemma getActiveJobIfAny_runs:
  assumes ready: "apply_ready past t" and hash: "spec_hash_of r past hash"
    and Q: "\<And>activeJob running h. found r hash h t activeJob running \<Longrightarrow> Q (Ret (activeJob, running)) h"
  shows "runs (allowed r) past (getActiveJobIfAny r t) Q"
proof -
  have t: "t \<in> observed past"
    using ready by (simp add: apply_ready_def)
  show ?thesis
    unfolding getActiveJobIfAny_def using ready t hash
    by (intro runs_intros Q) (auto intro!: runs_intros Q simp: found_def apply_ready_def spec_hash_of_append)
qed

lemma handleSpecChange_runs:
  assumes f: "found r hash h t activeJob running"
    and handled: "\<And>res err h'. Q (Ret (res, True, err)) h'"
    and panics: "\<And>p h'. length hash < 8 \<or> lossy_reply h' \<Longrightarrow> Q (Panic p) h'"
    and through: "\<And>err. Q (Ret (noResult, False, err)) h"
  shows "runs (allowed r) h (handleSpecChange r t hash activeJob running) Q"
proof -
  have t: "t \<in> observed h"
    using f by (simp add: found_def)
  have pending: "write_allowed r h (status_update (\<lambda>s. s\<lparr>PendingExecHash := hash,
      PendingReason := ''SpecChange''\<rparr>) t)"
    if "LastSpecHash (Status t) \<noteq> hash" "activeJob = Some job" running for job
    using f that
    by (intro write_allowedI [OF t]) (auto simp: found_def intro: status_step.spec_pending)
  have ready: "\<not> running \<Longrightarrow> apply_ready h t" and some: "running \<Longrightarrow> activeJob \<noteq> None"
    and known: "known_hash r h t hash"
    using f by (simp_all add: found_def known_hash_def)
  show ?thesis
    unfolding handleSpecChange_def using some
    by (intro runs_if runs_case_option runs_ret runs_andThen
        runs_mono [OF createNewJob_runs [OF ready known]];
      (auto intro!: runs_intros pending handled panics through simp: panic_cause_def
        split: outcome.split)?)
qed

lemma handlePendingExecution_runs:
  assumes ready: "apply_ready h t"
    and handled: "\<And>res err h'. Q (Ret (res, True, err)) h'"
    and panics: "\<And>p h'. PendingExecHash (Status t) \<noteq> [] \<Longrightarrow>
      length (PendingExecHash (Status t)) < 8 \<or> lossy_reply h' \<Longrightarrow> Q (Panic p) h'"
    and through: "\<And>err. Q (Ret (requeueNow, False, err)) h"
  shows "runs (allowed r) h (handlePendingExecution r t) Q"
  unfolding handlePendingExecution_def Let_def
  by (intro runs_if runs_ret runs_andThen runs_mono [OF createNewJob_runs [OF ready]];
    (auto simp: known_hash_def intro!: runs_intros handled panics through simp: panic_cause_def
      split: outcome.split)?)

lemma handleIntervalRun_runs:
  assumes ready: "apply_ready h t" and hash: "spec_hash_of r h hash"
  shows "runs (allowed r) h (handleIntervalRun r t hash) (panic_cause hash)"
proof -
  have t: "t \<in> observed h"
    using ready by (simp add: apply_ready_def)
  have later: "apply_ready (h @ [EvNow now]) t" for now
    using ready by (simp add: apply_ready_def)
  have known: "known_hash r h t hash"
    using hash by (simp add: known_hash_def)
  have off: "write_allowed r h (status_update (\<lambda>s. s\<lparr>NextRunTime := None\<rparr>) t)"
    if "RunInterval (Spec t) = None"
    using that by (intro write_allowedI [OF t] status_step.interval_off)
  have refused: "write_allowed r h
      (status_update (\<lambda>s. s\<lparr>Phase := PhaseFailed, Message := m\<rparr>) t)" for m
    by (intro write_allowedI [OF t] status_step.refused)
  show ?thesis
    unfolding handleIntervalRun_def
    by (auto intro!: runs_intros off refused createNewJob_runs ready later known
        known_hash_append)
qed

text \<open>Why the Job steps of a TfRun may panic.\<close>

definition short_hash :: "string \<Rightarrow> TfRun \<Rightarrow> bool" where
  "short_hash hash t \<longleftrightarrow> length hash < 8 \<or>
     PendingExecHash (Status t) \<noteq> [] \<and> length (PendingExecHash (Status t)) < 8"

definition jobs_post :: "string \<Rightarrow> TfRun \<Rightarrow> 'a outcome \<Rightarrow> event list \<Rightarrow> bool" where
  "jobs_post hash t out h \<longleftrightarrow> (\<forall>p. out = Panic p \<longrightarrow> short_hash hash t \<or> lossy_reply h)"

lemma jobs_post_Ret [simp]: "jobs_post hash t (Ret x) h"
  by (simp add: jobs_post_def)

lemma reconcileJobs_runs:
  assumes ready: "apply_ready past t" and hash: "spec_hash_of r past hash"
  shows "runs (allowed r) past (reconcileJobs r t hash) (jobs_post hash t)"
proof -
  have interval: "runs (allowed r) h (handleIntervalRun r t hash) (jobs_post hash t)"
    if "apply_ready h t" "spec_hash_of r h hash" for h
    by (rule runs_mono [OF handleIntervalRun_runs [OF that]])
      (auto simp: panic_cause_def jobs_post_def short_hash_def)
  have rest: "runs (allowed r) h
      (andThen (handlePendingExecution r t) (\<lambda>(result, handled, err).
         if handled then ret (result, err) else handleIntervalRun r t hash))
      (jobs_post hash t)" if "apply_ready h t" "spec_hash_of r h hash" for h
    using that
    by (intro runs_andThen handlePendingExecution_runs)
      (auto intro!: runs_intros interval simp: jobs_post_def short_hash_def)
  have completed: "runs (allowed r) h (updateStatusBasedOnCompletedJob r t job) (jobs_post hash t)"
    if "t \<in> observed h" "\<exists>k. EvGetJob k (Inr job) \<in> set h" "\<not> isJobActive job" for h job
    using that by (auto intro!: completed_runs)
  show ?thesis
    unfolding reconcileJobs_def
    by (intro runs_andThen getActiveJobIfAny_runs [OF ready hash] outcome_RetI runs_case_prod, clarify,
        intro runs_andThen handleSpecChange_runs, assumption)
      (auto intro!: runs_if runs_case_option runs_ret runs_panic rest completed
        simp: jobs_post_def short_hash_def found_def)
qed

end
