(* ===== verification/Protocol_Deletion.thy ===== *)
theory Protocol_Deletion
  imports Protocol_Jobs
begin

text \<open>
  The deletion side of the controller, and the reconciliation as a whole, keep to the
  protocol.
\<close>

subsection \<open>The finalizer\<close>

lemma Update_runs [runs_intros]:
  assumes "finalizer_added r past t \<or> finalizer_removed r past t"
    and "\<And>res. Q (Ret res) (past @ [EvUpdate t res])"
  shows "runs (allowed r) past (Update r t) Q"
  unfolding Update_def using assms by (intro runs_intros) auto

lemma ensureFinalizer_runs:
  assumes t: "t \<in> observed past"
    and Q: "\<And>t' err es. err = None \<longrightarrow> t' \<in> observed (past @ es) \<Longrightarrow>
      quiet es \<Longrightarrow> Q (Ret (t', err)) (past @ es)"
  shows "runs (allowed r) past (ensureFinalizer r t) Q"
proof -
  have "finalizer_added r past (AddFinalizer r t finalizerName)"
    if "\<not> ContainsFinalizer r t finalizerName"
    using t that by (auto simp: finalizer_added_def)
  then show ?thesis
    unfolding ensureFinalizer_def Let_def using Q [where es = "[]"] t
    by (auto intro!: runs_intros Q)
qed

text \<open>No panic.\<close>

definition returned :: "'a outcome \<Rightarrow> event list \<Rightarrow> bool" where
  "returned out h \<longleftrightarrow> (\<forall>p. out \<noteq> Panic p)"

lemma returned_Ret [simp]: "returned (Ret x) h"
  by (simp add: returned_def)

text \<open>What must hold before the finalizer may go.\<close>

definition cleaned :: "event list \<Rightarrow> bool" where
  "cleaned past \<longleftrightarrow> destroy_done past \<and> (\<exists>t \<in> observed past. workspace_gone past t)"

lemma cleaned_append: "cleaned past \<Longrightarrow> cleaned (past @ es)"
  unfolding cleaned_def using workspace_gone_mono [of past _ "past @ es"]
  by (auto intro: destroy_done_mono)

lemma removeFinalizer_runs:
  assumes "cleaned past"
  shows "runs (allowed r) past (removeFinalizer r t) returned"
proof -
  have "finalizer_removed r (past @ [EvGetTfRun (ObjectKeyFromObject t) (Inr latest)])
      (RemoveFinalizer r latest finalizerName)"
    if "ContainsFinalizer r latest finalizerName" for latest
    using that cleaned_append [OF assms, of "[EvGetTfRun (ObjectKeyFromObject t) (Inr latest)]"]
    by (auto simp: finalizer_removed_def cleaned_def)
  then show ?thesis
    unfolding removeFinalizer_def by (auto intro!: runs_intros)
qed

subsection \<open>The end of a destroy Job\<close>

text \<open>
  The TfRun that the cleanup works on: the one that the server returned for the last status
  update, or the controller's own copy with the same spec and workspace when that failed.
\<close>

definition cleanup_of :: "event list \<Rightarrow> TfRun \<Rightarrow> bool" where
  "cleanup_of past t \<longleftrightarrow> (\<exists>t0 \<in> observed past. t = t0\<lparr>Status := Status t\<rparr> \<and>
     WorkspaceReady (Status t) = WorkspaceReady (Status t0) \<and>
     WorkspaceID (Status t) = WorkspaceID (Status t0))"

lemma cleanupWorkspaceAndRemoveFinalizer_runs:
  assumes fin: "destroy_done past" and t: "cleanup_of past t"
  shows "runs (allowed r) past (cleanupWorkspaceAndRemoveFinalizer r t) returned"
proof -
  obtain t0 where t0: "t0 \<in> observed past" "t = t0\<lparr>Status := Status t\<rparr>"
      "WorkspaceReady (Status t) = WorkspaceReady (Status t0)"
      "WorkspaceID (Status t) = WorkspaceID (Status t0)"
    using t by (auto simp: cleanup_of_def)
  have "Spec t = Spec t0"
    using t0(2) by (metis TfRun.select_convs(9) TfRun.surjective TfRun.update_convs(10))
  then have url: "workspace_url t = workspace_url t0"
    by (auto simp: workspace_url_def fun_eq_iff)
  have ok: "allowed r (past @ es) e"
    if "delete_call t (WorkspaceID (Status t)) es e" "WorkspaceReady (Status t)" for es e
  proof (rule scalr_call_allowed [OF _ t0(1,2)])
    show "scalr_call t {''DELETE''} es e"
      using that by (simp add: delete_call_def)
    show "destroy_done past \<and> (\<exists>t \<in> observed past. WorkspaceReady (Status t) \<and>
        workspace_url t (WorkspaceID (Status t)) (URL q))" if "e = EvHttp q res" for q res
      using that \<open>delete_call t (WorkspaceID (Status t)) es e\<close> \<open>WorkspaceReady (Status t)\<close> t0 fin url
      by (auto simp: delete_call_def)
  qed simp
  have gone: "cleaned (past @ es)"
    if "answered es ''DELETE'' (workspace_url t (WorkspaceID (Status t))) {200, 204, 404}" for es
    unfolding cleaned_def using that t0 fin
    by (intro conjI bexI [of _ t0])
      (auto simp: workspace_gone_def url intro: destroy_done_mono)
  have none: "cleaned past" if "\<not> (WorkspaceReady (Status t) \<and> WorkspaceID (Status t) \<noteq> [])"
    using that t0 fin by (auto simp: cleaned_def workspace_gone_def)
  show ?thesis
    unfolding cleanupWorkspaceAndRemoveFinalizer_def deleteRemoteWorkspace_def
    by (auto intro!: runs_intros scalr.delete_runs removeFinalizer_runs gone none ok
        dest!: getCloudBackend_Inr)
qed

lemma handleDestroyJob_runs:
  assumes t: "t \<in> observed past" and n: "ActiveDestroyJobName (Status t) \<noteq> []"
  shows "runs (allowed r) past (handleDestroyJob r t) returned"
proof -
  let ?k = "(Namespace t, ActiveDestroyJobName (Status t))"
  have gone: "write_allowed r (past @ [EvGetJob ?k (Inl err)])
      (status_update (\<lambda>s. s\<lparr>ActiveDestroyJobName := ''''\<rparr>) t)" if "IsNotFound err" for err
    by (rule write_allowedI) (use t in simp, rule status_step.destroy_gone [OF _ that], simp)
  have succeeded: "write_allowed r (past @ [EvGetJob ?k (Inr job)])
      (status_update (\<lambda>s. s\<lparr>Message := m, ActiveDestroyJobName := ''''\<rparr>) t)"
    if "\<not> isJobActive job" "isJobSucceeded job" for job m
    by (rule write_allowedI)
      (use t in simp, rule status_step.destroy_succeeded [OF _ that], simp)
  have failed: "write_allowed r (past @ [EvGetJob ?k (Inr job)])
      (status_update (\<lambda>s. s\<lparr>Phase := PhaseFailed, Message := m, ActiveDestroyJobName := ''''\<rparr>) t)"
    if "\<not> isJobActive job" "\<not> isJobSucceeded job" "isJobFailed job" for job m
    by (rule write_allowedI) (use t in simp, rule status_step.destroy_failed [OF _ that], simp)
  have fin: "destroy_done (past @ EvGetJob ?k res # es)"
    if "case res of Inl err \<Rightarrow> IsNotFound err | Inr job \<Rightarrow> \<not> isJobActive job \<and> isJobSucceeded job"
    for res es
    unfolding destroy_done_def using that t n
    by (intro bexI [of _ t] conjI exI [of _ res]) auto
  have own: "cleanup_of (past @ es) (status_update f t)"
    if "WorkspaceReady (f (Status t)) = WorkspaceReady (Status t)"
      "WorkspaceID (f (Status t)) = WorkspaceID (Status t)" for f es
    unfolding cleanup_of_def using t that
    by (intro bexI [of _ t]) (auto simp: status_update_def)
  have server: "cleanup_of past' t'" if "t' \<in> observed past'" for past' t'
    unfolding cleanup_of_def using that by (intro bexI [of _ t']) auto
  show ?thesis
    unfolding handleDestroyJob_def Let_def using t
    by (auto intro!: runs_intros gone succeeded failed cleanupWorkspaceAndRemoveFinalizer_runs
        fin own intro: server)
qed

subsection \<open>Starting a destroy Job\<close>

lemma adoptDestroyJob_runs:
  assumes j: "EvGetJob (ns, jobName) (Inr job) \<in> set past"
  shows "runs (allowed r) past (adoptDestroyJob r t jobName) returned"
proof -
  have "write_allowed r (past @ [EvGetTfRun (ObjectKeyFromObject t) (Inr latest)])
      (status_update (\<lambda>s. s\<lparr>ActiveDestroyJobName := jobName, Phase := PhasePending,
         Message := m\<rparr>) latest)" for latest m
    by (rule write_allowedI)
      (simp, rule status_step.destroy_adopted [of "(ns, jobName)" job], use j in simp_all)
  then show ?thesis
    unfolding adoptDestroyJob_def by (auto intro!: runs_intros)
qed

lemma createDestroyJob_runs:
  assumes t: "t \<in> observed past" and j: "destroy_allowed r past j"
    and b: "built_for t jobTypeDestroy n jb" and c: "SetControllerReference r t jb = Inr j"
  shows "runs (allowed r) past (createDestroyJob r t j n) returned"
proof -
  have "write_allowed r (past @ [EvCreateJob j res])
      (status_update (\<lambda>s. s\<lparr>ActiveDestroyJobName := n, Phase := PhasePending,
         ObservedGeneration := Generation t, Message := m\<rparr>) t)"
    if "case res of None \<Rightarrow> True | Some err \<Rightarrow> IsAlreadyExists err" for res m
    by (rule write_allowedI)
      (use t in simp, rule status_step.destroy_started [OF _ that c b], simp)
  then show ?thesis
    unfolding createDestroyJob_def using j
    by (auto intro!: runs_intros CreateJob_runs)
qed

lemma handleDeletion_runs:
  assumes t: "t \<in> observed past" and d: "\<not> IsZero (DeletionTimestamp t)" and q: "quiet past"
  shows "runs (allowed r) past (handleDeletion r t) returned"
proof (cases "ActiveDestroyJobName (Status t) = []")
  case False
  then show ?thesis
    unfolding handleDeletion_def using handleDestroyJob_runs [OF t False] by simp
next
  case True
  let ?n = "ToLower (Name t @ ''-destroy'')"
  have creates: "\<forall>e \<in> set past. \<not> is_create e"
    using q by (auto simp: quiet_def quiet_event_def)
  have build: "runs (allowed r) (past @ [EvGetJob k (Inl e)])
      (andThen (BuildJob b t jobTypeDestroy ?n) (\<lambda>res. case res of
         Inl err \<Rightarrow>
           andThen (StatusUpdate_ignored r (status_update (\<lambda>s. s\<lparr>Phase := PhaseFailed,
               Message := ''failed to build destroy job: '' @ errText err\<rparr>) t))
             (\<lambda>_. ret (noResult, Some err))
       | Inr job \<Rightarrow> (case SetControllerReference r t job of
           Inl err \<Rightarrow> ret (noResult, Some err)
         | Inr job \<Rightarrow> createDestroyJob r t job ?n))) returned"
    if "ForEngine r eng args = (Some b, None)" for b eng args k e
  proof -
    have refused: "write_allowed r ((past @ [EvGetJob k (Inl e)]) @ es)
        (status_update (\<lambda>s. s\<lparr>Phase := PhaseFailed, Message := m\<rparr>) t)" for m es
      using t by (intro write_allowedI status_step.refused) simp
    have secret: "allowed r (past' @ es) (EvGetSecret (Namespace t, s) res)"
      if "t \<in> observed past'" for past' es s res
      using that by (auto simp: secret_allowed_def)
    have create: "destroy_allowed r ((past @ [EvGetJob k (Inl e)]) @ es) j"
      if "\<forall>e \<in> set es. \<exists>s res. e = EvGetSecret (Namespace t, s) res"
        "built_for t jobTypeDestroy ?n jb" "SetControllerReference r t jb = Inr j" for es jb j
      unfolding destroy_allowed_def using that creates t d True
      by (intro conjI bexI [of _ t]) fastforce+
    show ?thesis
      by (intro runs_intros job_builder.build_runs [OF ForEngine_builder [OF that]] secret)
        (use t refused create in \<open>auto intro!: runs_intros intro: createDestroyJob_runs\<close>)
  qed
  have lookup: "runs (allowed r) past (andThen (GetJob r k) (\<lambda>res. case res of
      Inr _ \<Rightarrow> adoptDestroyJob r t ?n | Inl _ \<Rightarrow> m)) returned"
    if "k = (Namespace t, ?n)" "\<And>err. runs (allowed r) (past @ [EvGetJob k (Inl err)]) m returned"
    for k m
    using that t by (auto intro!: runs_intros adoptDestroyJob_runs)
  show ?thesis
    unfolding handleDeletion_def Let_def using True
    by (intro runs_if runs_case_prod runs_case_option lookup [OF refl] build)
      (auto intro!: runs_intros simp: ForEngine_None)
qed

subsection \<open>The reconciliation\<close>

text \<open>
  A reconciliation panics only on a pending hash of the server's TfRun that is too short to
  cut, or after a lossy reply; the spec hash that it computes itself is long enough.
\<close>

definition panics_for :: "'a outcome \<Rightarrow> event list \<Rightarrow> bool" where
  "panics_for out h \<longleftrightarrow> (\<forall>p. out = Panic p \<longrightarrow> lossy_reply h \<or>
     (\<exists>t \<in> observed h. PendingExecHash (Status t) \<noteq> [] \<and> length (PendingExecHash (Status t)) < 8))"

lemma panics_for_Ret [simp]: "panics_for (Ret x) h"
  by (simp add: panics_for_def)

lemma computeSpecHash_length: "computeSpecHash r t = Inr h \<Longrightarrow> length h = 16"
  by (auto simp: computeSpecHash_def split: sum.splits)

lemma jobs_panics_for:
  assumes t: "t \<in> observed past" and h: "length hash = 16"
    and post: "jobs_post hash t out (past @ es)"
  shows "panics_for out (past @ es)"
  unfolding panics_for_def
proof (intro allI impI)
  fix p
  assume "out = Panic p"
  then have "short_hash hash t \<or> lossy_reply (past @ es)"
    using post by (simp add: jobs_post_def)
  then show "lossy_reply (past @ es) \<or> (\<exists>t \<in> observed (past @ es).
      PendingExecHash (Status t) \<noteq> [] \<and> length (PendingExecHash (Status t)) < 8)"
    using t h by (auto simp: short_hash_def)
qed

lemma apply_part_runs:
  assumes t: "t \<in> observed past" and z: "IsZero (DeletionTimestamp t)" and q: "quiet past"
    and h: "computeSpecHash r t = Inr hash"
  shows "runs (allowed r) past (andThen (ensureWorkspaceIfNeeded r t) (\<lambda>(tfRun, result, err).
      if err \<noteq> None \<or> Requeue result \<or> sint (RequeueAfter result) > 0
      then ret (result, err) else reconcileJobs r tfRun hash)) panics_for"
proof -
  have jobs: "runs (allowed r) h (reconcileJobs r t' hash) panics_for"
    if "quiet h" "observed past \<subseteq> observed h" "t' \<in> observed h" for h t'
  proof -
    have "apply_ready h t'"
      using that t z by (auto simp: apply_ready_def)
    moreover have "spec_hash_of r h hash"
      using that(2) t assms(4) by (auto simp: spec_hash_of_def)
    ultimately show ?thesis
      by (rule runs_mono [OF reconcileJobs_runs])
        (rule jobs_panics_for [OF that(3) computeSpecHash_length [OF h]])
  qed
  show ?thesis
    by (intro runs_andThen runs_mono [OF ensureWorkspaceIfNeeded_runs [OF t q]])
      (auto simp: workspace_post_def intro!: runs_intros jobs)
qed

lemma Reconcile_runs: "runs (allowed r) [] (Reconcile r req) panics_for"
proof -
  have deletion: "runs (allowed r) h (handleDeletion r t) panics_for"
    if "t \<in> observed h" "\<not> IsZero (DeletionTimestamp t)" "quiet h" for h t
    by (rule runs_mono [OF handleDeletion_runs [OF that]]) (simp add: returned_def panics_for_def)
  show ?thesis
    unfolding Reconcile_def
    by (intro runs_andThen GetTfRun_runs outcome_RetI runs_case_sum runs_if runs_ret
        ensureFinalizer_runs)
      (auto intro!: runs_case_option runs_case_sum runs_if runs_ret deletion apply_part_runs)
qed

end
