(* ===== verification/Safety.thy ===== *)
theory Safety
  imports Protocol_Deletion Cluster
begin

text \<open>
  What the protocol of a reconciliation says of its single concerns: Jobs, finalizers, remote
  requests, credentials and the fields of the status. The statements are about every run,
  whatever the API server, the remote API and the clock answer.
\<close>

subsection \<open>From the protocol to its consequences\<close>

text \<open>Each external call of a program has a property that the calls before it justify.\<close>

definition each_call :: "('w, 'a) go \<Rightarrow> (event list \<Rightarrow> event \<Rightarrow> bool) \<Rightarrow> bool" where
  "each_call m P \<longleftrightarrow> always m (\<lambda>out es. justified P [] es)"

lemma each_call_run: "each_call m P \<Longrightarrow> m w = (out, es, w') \<Longrightarrow> justified P [] es"
  unfolding each_call_def by (rule always_run)

lemma each_call_mono:
  "each_call m P \<Longrightarrow> (\<And>past e. P past e \<Longrightarrow> P' past e) \<Longrightarrow> each_call m P'"
  unfolding each_call_def by (erule always_mono) (blast intro: justified_mono)

lemma Reconcile_allowed: "each_call (Reconcile r req) (allowed r)"
  unfolding each_call_def
  by (rule always_mono [OF Reconcile_runs [unfolded runs_def]]) simp

lemma Reconcile_each:
  "(\<And>past e. allowed r past e \<Longrightarrow> P past e) \<Longrightarrow> each_call (Reconcile r req) P"
  by (rule each_call_mono [OF Reconcile_allowed])

lemma Reconcile_always:
  assumes "\<And>es. justified (allowed r) [] es \<Longrightarrow> Q es"
  shows "always (Reconcile r req) (\<lambda>out es. Q es)"
  by (rule always_mono [OF Reconcile_allowed [unfolded each_call_def]]) (rule assms)

subsection \<open>Jobs\<close>

lemma creation_after_none:
  "allowed r past e \<Longrightarrow> is_create e \<Longrightarrow> filter is_create past = []"
  by (cases e)
    (auto simp: apply_allowed_def destroy_allowed_def quiet_def quiet_event_def filter_empty_conv)

lemma justified_one_create:
  "justified (allowed r) [] es \<Longrightarrow> length (filter is_create es) \<le> 1"
proof (induction es rule: rev_induct)
  case Nil
  then show ?case by simp
next
  case (snoc e es)
  then have "length (filter is_create es) \<le> 1" "allowed r es e"
    by (simp_all add: justified_append)
  then show ?case
    using creation_after_none [of r es e] by auto
qed

text \<open>
  The documented behaviour of \<open>controllerutil.SetControllerReference\<close> that the code relies
  on: it changes nothing of the object but its owner references.
\<close>

definition owner_ref_only :: "'w ext \<Rightarrow> bool" where
  "owner_ref_only r \<longleftrightarrow> (\<forall>t jb j. SetControllerReference r t jb = Inr j \<longrightarrow>
     j = jb\<lparr>Job_OwnerReferences := Job_OwnerReferences j\<rparr>)"

lemma owner_ref_fields:
  assumes "owner_ref_only r" "SetControllerReference r t jb = Inr j"
  shows "Job_Name j = Job_Name jb" "Job_Namespace j = Job_Namespace jb" "Job_Labels j = Job_Labels jb"
proof -
  have "j = jb\<lparr>Job_OwnerReferences := Job_OwnerReferences j\<rparr>"
    using assms by (auto simp: owner_ref_only_def)
  then show "Job_Name j = Job_Name jb" "Job_Namespace j = Job_Namespace jb" "Job_Labels j = Job_Labels jb"
    by (metis Job.select_convs Job.surjective Job.update_convs(4))+
qed

text \<open>What a reconciliation knows when it asks the API server to create a Job.\<close>

definition job_creation :: "'w ext \<Rightarrow> event list \<Rightarrow> Job \<Rightarrow> bool" where
  "job_creation r past j \<longleftrightarrow> (\<exists>t \<in> observed past. Job_Namespace j = Namespace t \<and>
     (case map_of (Job_Labels j) labelJobType of
        None \<Rightarrow> False
      | Some jt \<Rightarrow>
          if jt = jobTypeDestroy then
            \<not> IsZero (DeletionTimestamp t) \<and> ActiveDestroyJobName (Status t) = [] \<and>
            Job_Name j = ToLower (Name t @ ''-destroy'')
          else jt = jobTypeApply \<and> quiet past \<and>
            (\<exists>t0 \<in> observed past. IsZero (DeletionTimestamp t0)) \<and>
            (\<exists>h rid. known_hash r past t h \<and> BuildRunID (Generation t) h = Ret rid \<and>
              Job_Name j = buildJobName t rid)))"

lemma job_creation_allowed:
  assumes law: "owner_ref_only r" and "allowed r past (EvCreateJob j res)"
  shows "job_creation r past j"
proof -
  have types: "jobTypeApply \<noteq> jobTypeDestroy"
    by (simp add: jobTypeApply_def jobTypeDestroy_def)
  from assms(2) consider "apply_allowed r past j" | "destroy_allowed r past j"
    by auto
  then show ?thesis
  proof cases
    case 1
    then obtain t h rid jb where t: "t \<in> observed past" "BuildRunID (Generation t) h = Ret rid"
        "built_for t jobTypeApply (buildJobName t rid) jb" "SetControllerReference r t jb = Inr j"
      and idle: "known_hash r past t h" "quiet past" "\<exists>t0 \<in> observed past. IsZero (DeletionTimestamp t0)"
      unfolding apply_allowed_def by blast
    show ?thesis
      unfolding job_creation_def using t idle types owner_ref_fields [OF law t(4)]
      by (intro bexI [of _ t]) (auto simp: built_for_def)
  next
    case 2
    then obtain t jb where t: "t \<in> observed past" "\<not> IsZero (DeletionTimestamp t)"
        "ActiveDestroyJobName (Status t) = []"
        "built_for t jobTypeDestroy (ToLower (Name t @ ''-destroy'')) jb"
        "SetControllerReference r t jb = Inr j"
      unfolding destroy_allowed_def by blast
    show ?thesis
      unfolding job_creation_def using t owner_ref_fields [OF law t(5)]
      by (intro bexI [of _ t]) (auto simp: built_for_def)
  qed
qed

subsection \<open>Finalizers\<close>

text \<open>The documented behaviour of the three finalizer helpers of \<open>controllerutil\<close>.\<close>

definition finalizer_laws :: "'w ext \<Rightarrow> bool" where
  "finalizer_laws r \<longleftrightarrow> (\<forall>t f. ContainsFinalizer r t f = (f \<in> set (Finalizers t)) \<and>
     AddFinalizer r t f = t\<lparr>Finalizers := Finalizers t @ [f]\<rparr> \<and>
     RemoveFinalizer r t f = t\<lparr>Finalizers := filter (\<lambda>x. x \<noteq> f) (Finalizers t)\<rparr>)"

definition finalizer_kept :: "event list \<Rightarrow> TfRun \<Rightarrow> bool" where
  "finalizer_kept past t \<longleftrightarrow>
     (if finalizerName \<in> set (Finalizers t) then True
      else destroy_done past \<and> (\<exists>t1 \<in> observed past. workspace_gone past t1))"

lemma finalizer_kept_allowed:
  "finalizer_laws r \<Longrightarrow> allowed r past (EvUpdate t res) \<Longrightarrow> finalizer_kept past t"
  by (auto simp: finalizer_laws_def finalizer_kept_def finalizer_added_def finalizer_removed_def)

lemma kube_laws [simp]: "owner_ref_only kube" "finalizer_laws kube"
  by (simp_all add: owner_ref_only_def finalizer_laws_def)

subsection \<open>Requests\<close>

definition request_confined :: "event list \<Rightarrow> HttpRequest \<Rightarrow> bool" where
  "request_confined past q \<longleftrightarrow> (\<exists>t \<in> observed past. \<exists>cb.
     Cloud (Backend (Spec t)) = Some cb \<and>
     prefix (''https://'' @ Hostname cb @ ''/api/iacp/v3/'') (URL q) \<and>
     (\<exists>url. parseURL (URL q) = Inr url \<and> goes_to cb url) \<and>
     (\<exists>token. token_read t past token \<and>
        headerValue q ''Authorization'' = Some (''Bearer '' @ token)))"

lemma request_confined_allowed: "allowed r past (EvHttp q res) \<Longrightarrow> request_confined past q"
proof -
  assume "allowed r past (EvHttp q res)"
  then obtain t t0 where t0: "t0 \<in> observed past" "t = t0\<lparr>Status := Status t\<rparr>"
      and q: "scalr_request t {''GET'', ''POST'', ''DELETE''} past q"
    by (auto simp: request_allowed_def)
  have same: "Spec t = Spec t0" "Namespace t = Namespace t0"
    using t0(2) by (metis TfRun.select_convs TfRun.surjective TfRun.update_convs(10))+
  then obtain cb where "Cloud (Backend (Spec t0)) = Some cb" "scalr_address cb (URL q)"
    using q by (auto simp: scalr_request_def)
  then show ?thesis
    using q t0(1) same scalr_address_goes_to [of cb "URL q"] unfolding request_confined_def
    by (intro bexI [of _ t0] exI [of _ cb])
      (auto simp: scalr_request_def scalr_address_def token_read_def credentials_key_def)
qed

subsection \<open>The fields of the status\<close>

lemma phase_step:
  assumes "status_step r past t s"
  shows "Phase s \<in> {Phase (Status t), ''Pending'', ''Running'', ''Succeeded'', ''Failed''}"
  using assms
  by (cases rule: status_step.cases)
    (simp_all add: PhaseFailed_def PhasePending_def PhaseRunning_def PhaseSucceeded_def)

text \<open>
  A new \<open>LastSpecHash\<close> is the hash of a spec that was seen, or the pending one, and comes with
  a Job that was created for it.
\<close>

definition hash_recorded :: "'w ext \<Rightarrow> event list \<Rightarrow> TfRun \<Rightarrow> TfRunStatus \<Rightarrow> bool" where
  "hash_recorded r past t s \<longleftrightarrow> known_hash r past t (LastSpecHash s) \<and>
     (\<exists>j jb rid. EvCreateJob j None \<in> set past \<and>
     BuildRunID (Generation t) (LastSpecHash s) = Ret rid \<and> RunID s = rid \<and>
     ActiveJobName s = buildJobName t rid \<and> Phase s = ''Running'' \<and> PendingExecHash s = [] \<and>
     built_for t jobTypeApply (buildJobName t rid) jb \<and> SetControllerReference r t jb = Inr j)"

definition hash_kept :: "'w ext \<Rightarrow> event list \<Rightarrow> TfRun \<Rightarrow> TfRunStatus \<Rightarrow> bool" where
  "hash_kept r past t s \<longleftrightarrow>
     (if LastSpecHash s = LastSpecHash (Status t) then True else hash_recorded r past t s)"

lemma hash_step: "status_step r past t s \<Longrightarrow> hash_kept r past t s"
  by (erule status_step.cases)
    (simp_all add: hash_kept_def hash_recorded_def PhaseRunning_def, blast+)

text \<open>A new workspace id comes from the remote API; a known one is only ever cleared.\<close>

definition workspace_kept :: "event list \<Rightarrow> TfRun \<Rightarrow> TfRunStatus \<Rightarrow> bool" where
  "workspace_kept past t s \<longleftrightarrow>
     (if WorkspaceID s = WorkspaceID (Status t) then True
      else if WorkspaceID s = '''' then \<not> WorkspaceReady s \<and> Phase s = ''Failed''
      else WorkspaceID (Status t) = '''' \<and> WorkspaceReady s \<and>
        (answered past ''POST'' (\<lambda>u. True) {201} \<or>
         importAnnotation t \<noteq> '''' \<and> answered past ''GET'' (\<lambda>u. True) {200}))"

lemma workspace_step: "status_step r past t s \<Longrightarrow> workspace_kept past t s"
  by (erule status_step.cases) (auto simp: workspace_kept_def PhaseFailed_def)

text \<open>What every step of the status machine satisfies, every written status satisfies.\<close>

lemma Reconcile_writes:
  assumes "\<And>past t s. status_step r past t s \<Longrightarrow> P past t s"
  shows "each_call (Reconcile r req) (\<lambda>past e. case e of
     EvStatusUpdate t _ \<Rightarrow>
       (\<exists>t0 \<in> observed past. t = t0\<lparr>Status := Status t\<rparr> \<and> P past t0 (Status t))
   | _ \<Rightarrow> True)"
proof (rule Reconcile_each)
  fix past e
  assume "allowed r past e"
  then show "case e of EvStatusUpdate t _ \<Rightarrow>
       (\<exists>t0 \<in> observed past. t = t0\<lparr>Status := Status t\<rparr> \<and> P past t0 (Status t))
   | _ \<Rightarrow> True"
    by (cases e) (auto simp: write_allowed_def dest: assms)
qed

end
