(* ===== verification/Remote_Workspace.thy ===== *)
theory Remote_Workspace
  imports Workspace_Steps Backend_Laws Cluster Decisions
begin

text \<open>
  What the workspace steps do to the remote API and to the status, call by call: the answers
  that count as a deletion, and what the controller keeps and forgets when the remote API fails.
\<close>

subsection \<open>Deleting a workspace\<close>

text \<open>With its token at hand and an address that needs no escapes, deleting a workspace sends
  one DELETE for it to the TfRun's host, and succeeds exactly for the status codes 200, 204 and 404: a workspace that is gone
  already counts as deleted, and every other answer is an error.\<close>

lemma delete_succeeds_iff:
  assumes "Cloud (Backend (Spec t)) = Some cb" "wid \<noteq> ''''"
    and "Provider_CredentialsSecretRef (ForProvider (Spec t)) \<noteq> ''''"
    and "GetSecret_of k (Namespace t, Provider_CredentialsSecretRef (ForProvider (Spec t))) w =
      (Inr sec, w1)"
    and "gomap_get (Data sec) ''token'' = Some tok" "tok \<noteq> ''''"
    and "plainHost (Hostname cb)" "urlSafe wid"
    and "HttpDo_of k \<lparr>Method = ''DELETE'',
        URL = ''https://'' @ Hostname cb @ ''/api/iacp/v3/workspaces/'' @ wid,
        Header = [(''Authorization'', ''Bearer '' @ tok)], ReqBody = None\<rparr> w1 = (Inr resp, w2)"
    and "Body resp = Inr body"
  shows "case DeleteScalrWorkspace (NewService k) t wid w of (out, es, w') \<Rightarrow>
    w' = w2 \<and> length (filter is_http es) = 1 \<and>
    (\<exists>res. out = Ret res \<and> (res = None) = (StatusCode resp \<in> {200, 204, 404}))"
  using assms
  by (auto simp: DeleteScalrWorkspace_def GetScalrToken_def NewService_def GetSecret_def HttpDo_def
      isControl_def newRequest_chars HeaderSet_def run_simps Let_def)

subsection \<open>An answer of the remote API\<close>

definition workspaceReply :: string where
  \<open>workspaceReply = ''{"data":[{"type":"workspaces", "id":"ws-1","attributes":{"name":"net"}}]}''\<close>

lemma UnmarshalEnvironmentList_workspaceReply:
  "UnmarshalEnvironmentList workspaceReply = Some \<lparr>List_Data = (1, [\<lparr>Response_ID = ''ws-1'',
     Response_Type = ''workspaces'', Response_Attributes = \<lparr>Response_Name = ''net''\<rparr>\<rparr>])\<rparr>"
  by (simp add: workspaceReply_def unmarshal_defs parse_defs decode_defs)

subsection \<open>A remote API that refuses every connection\<close>

definition readyRun :: TfRun where
  "readyRun = sampleRun\<lparr>Status := emptyStatus\<lparr>WorkspaceID := ''ws-1'', WorkspaceReady := True\<rparr>\<rparr>"

definition refused :: "string \<Rightarrow> goerr" where
  "refused msg = withCause msg (Err ''connection refused'')"

lemma refused_GetWorkspace:
  "\<exists>es. be_GetWorkspace (ScalrBackend (NewService kube)) readyRun ''ws-1''
      (sampleCluster readyRun [] []) =
    (Ret (Inl (refused ''failed to perform HTTP request for Scalr workspace'')), es,
     sampleCluster readyRun [] [])"
  by (simp add: ScalrBackend_def ScalrBackend_GetWorkspace_def getEnvironmentId_def
      GetWorkspace_def setAuthHeaders_def GetScalrToken_def GetSecret_def HttpDo_def run_simps
      readyRun_def refused_def sample_defs NewService_def lookup_in_def nextReply_def
      gomap_get_def Let_def sample_request isControl_def HeaderSet_def)

lemma refused_EnsureWorkspace:
  "\<exists>es. be_EnsureWorkspace (ScalrBackend (NewService kube)) sampleRun
      (sampleCluster sampleRun [] []) =
    (Ret (Inl (refused errWorkspaceCreationFailed)), es, sampleCluster sampleRun [] [])"
  by (simp add: ScalrBackend_def ScalrBackend_EnsureWorkspace_def getEnvironmentId_def
      CreateScalrWorkspace_def buildAuthRequest_def setAuthHeaders_def GetScalrToken_def
      GetSecret_def HttpDo_def run_simps refused_def sample_defs NewService_def lookup_in_def
      nextReply_def gomap_get_def Let_def sample_request isControl_def HeaderSet_def)

lemma sample_backend: "getCloudBackend kube (sampleRun\<lparr>Status := s\<rparr>) = Inr (ScalrBackend (NewService kube))"
  by (simp add: getCloudBackend_def sample_defs ForProvider_backend_def BackendScalr_def
      TrimSpace_def ToLower_def lowerChar_def isSpace_def)

subsection \<open>The controller's copy of the workspace\<close>





end
