(* ===== verification/Outcomes.thy ===== *)
theory Outcomes
  imports Names Decisions Safety Remote_Workspace
begin

text \<open>
  Whole runs of \<open>Reconcile\<close> and of its longer handlers, call by call, for given answers of the
  services: what happens when the TfRun is gone, when nothing is left to do, when a Job of
  the same name exists, and when a deletion comes to its end.
\<close>

subsection \<open>Nothing to do\<close>

text \<open>When the TfRun cannot be read, a reconciliation makes no further call; it ends quietly
  when the TfRun does not exist, and with the error otherwise.\<close>

lemma reconcile_unreadable:
  assumes "GetTfRun_of r req w = (Inl err, w')"
  shows "Reconcile r req w =
    (Ret (noResult, if IsNotFound err then None else Some err), [EvGetTfRun req (Inl err)], w')"
  using assms by (simp add: Reconcile_def GetTfRun_def run_simps)

text \<open>C16: A TfRun whose spec has been applied, whose workspace is still there and which has no Job,
  no pending hash and no interval is left alone: the reconciliation writes nothing, and asks
  for no requeue.\<close>

theorem reconcile_idle:
  assumes "GetTfRun_of r req w = (Inr t, w1)" "ContainsFinalizer r t finalizerName"
    and "IsZero (DeletionTimestamp t)" "computeSpecHash r t = Inr (LastSpecHash (Status t))"
    and "WorkspaceID (Status t) \<noteq> ''''" and be: "getCloudBackend r t = Inr be"
    and get: "be_GetWorkspace be t (WorkspaceID (Status t)) w1 = (Ret (Inr wid), es, w2)"
    and "ActiveJobName (Status t) = ''''"
    and "PendingExecHash (Status t) \<in> {'''', LastSpecHash (Status t)}"
    and "RunInterval (Spec t) = None" "NextRunTime (Status t) = None"
  shows "Reconcile r req w = (Ret (noResult, None), EvGetTfRun req (Inr t) # es, w2) \<and>
    filter is_write es = []"
proof
  note cloud = getCloudBackend_Inr [OF be]
  have "always (be_GetWorkspace be t (WorkspaceID (Status t)))
      (\<lambda>out es. justified (scalr_call t {''GET''}) [] es)"
    using cloud scalr.get_law [of t "NewService r" "WorkspaceID (Status t)", unfolded runs_def]
    by (auto elim!: always_mono)
  then have "justified (scalr_call t {''GET''}) [] es"
    using get by (rule always_run)
  then show "filter is_write es = []"
    by (auto simp: filter_empty_conv dest!: justified_member dest: scalr_call_not_write)
  show "Reconcile r req w = (Ret (noResult, None), EvGetTfRun req (Inr t) # es, w2)"
    using assms cloud
    by (auto simp: Reconcile_def GetTfRun_def ensureFinalizer_def ensureWorkspaceIfNeeded_def
        reconcileJobs_def getActiveJobIfAny_def handleSpecChange_def handlePendingExecution_def
        handleIntervalRun_def run_simps noResult_def Let_def)
qed

definition appliedRun :: TfRun where
  "appliedRun = readyRun\<lparr>Status := (Status readyRun)\<lparr>
     LastSpecHash := (case computeSpecHash kube readyRun of Inl _ \<Rightarrow> '''' | Inr h \<Rightarrow> h)\<rparr>\<rparr>"

lemma appliedRun_hash: "computeSpecHash kube appliedRun = Inr (LastSpecHash (Status appliedRun))"
proof -
  have "hashInput kube appliedRun = hashInput kube readyRun"
    by (simp add: hashInput_def appliedRun_def split: sum.split)
  moreover obtain x where "hashInput kube readyRun = Inr x"
    by (simp add: hashInput_def marshalVars_def readyRun_def sample_defs)
  ultimately show ?thesis
    by (simp add: computeSpecHash_def appliedRun_def)
qed

theorem reconcile_idle_witness:
  "\<exists>es. Reconcile kube (''team'', ''net'')
      (sampleCluster appliedRun [] [Inr \<lparr>StatusCode = 200, Body = Inr workspaceReply\<rparr>]) =
    (Ret (noResult, None), es, sampleCluster appliedRun [] []) \<and> filter is_write es = []"
proof -
  let ?w = "sampleCluster appliedRun [] [Inr \<lparr>StatusCode = 200, Body = Inr workspaceReply\<rparr>]"
  have fields: "Spec appliedRun = sampleSpec" "Namespace appliedRun = ''team''"
    "Finalizers appliedRun = [''infra.essity.com/tfrun-finalizer'']"
    "DeletionTimestamp appliedRun = None" "WorkspaceID (Status appliedRun) = ''ws-1''"
    "ActiveJobName (Status appliedRun) = ''''" "PendingExecHash (Status appliedRun) = ''''"
    "NextRunTime (Status appliedRun) = None"
    by (simp_all add: appliedRun_def readyRun_def sample_defs)
  have read: "GetTfRun_of kube (''team'', ''net'') ?w = (Inr appliedRun, ?w)"
    by (simp add: sampleCluster_def lookup_in_def)
  obtain es where get: "be_GetWorkspace (ScalrBackend (NewService kube)) appliedRun ''ws-1'' ?w =
      (Ret (Inr ''ws-1''), es, sampleCluster appliedRun [] [])"
    by (simp add: ScalrBackend_def ScalrBackend_GetWorkspace_def getEnvironmentId_def
        GetWorkspace_def setAuthHeaders_def GetScalrToken_def GetSecret_def HttpDo_def run_simps
        fields sampleSpec_def sampleCloud_def sampleCluster_def tokenSecret_def NewService_def
        lookup_in_def nextReply_def gomap_get_def Let_def sample_request isControl_def HeaderSet_def
        UnmarshalEnvironmentList_workspaceReply elems_def)
  have be: "getCloudBackend kube appliedRun = Inr (ScalrBackend (NewService kube))"
    by (simp add: appliedRun_def readyRun_def sample_backend)
  have "Reconcile kube (''team'', ''net'') ?w = (Ret (noResult, None),
      EvGetTfRun (''team'', ''net'') (Inr appliedRun) # es, sampleCluster appliedRun [] []) \<and>
    filter is_write es = []"
    by (rule reconcile_idle [OF read _ _ appliedRun_hash _ be])
      (simp_all add: fields finalizerName_def IsZero_def get sampleSpec_def)
  then show ?thesis
    by (auto intro!: exI [of _ "EvGetTfRun (''team'', ''net'') (Inr appliedRun) # es"])
qed

subsection \<open>A Job that exists already\<close>

text \<open>When the API server has a Job of the same name, the controller takes it for its own: it
  re-reads the TfRun and records the Job as running, but not the hash that it stands for, so
  that the spec still counts as changed when that Job has finished. \<open>Lost_Writes\<close> shows what this
  leads to.\<close>

lemma adopted_hash_lost:
  assumes "CreateJob_of r j w = (Some err, w1)" "IsAlreadyExists err"
    and "GetTfRun_of r (ObjectKeyFromObject t) w1 = (Inr latest, w2)"
    and "s = (Status latest)\<lparr>ActiveJobName := n, Phase := PhaseRunning,
        ObservedGeneration := Generation latest\<rparr>"
    and "StatusUpdate_of r (latest\<lparr>Status := s\<rparr>) w2 = (Inr t', w3)"
  shows "createJobAndUpdateStatus r t j h n jobType w = (Ret (noResult, None),
      [EvCreateJob j (Some err), EvGetTfRun (ObjectKeyFromObject t) (Inr latest),
       EvStatusUpdate (latest\<lparr>Status := s\<rparr>) (Inr t')], w3) \<and>
    LastSpecHash s = LastSpecHash (Status latest) \<and>
    decide (latest\<lparr>Status := s\<rparr>) h (Some finished) =
      (if isJobActive finished
       then (if LastSpecHash (Status latest) = h then AwaitJob else RecordPending)
       else if LastSpecHash (Status latest) = h then FinishJob finished else StartApply h)"
  using assms
  by (simp add: createJobAndUpdateStatus_def CreateJob_def GetTfRun_def StatusUpdate_def
      updateStatus_def run_simps status_update_def decide_def)

subsection \<open>The end of a deletion\<close>

text \<open>When the destroy Job has succeeded and the services do as they are asked, one
  reconciliation ends the deletion: it clears the Job's name, deletes the workspace, re-reads
  the TfRun and removes the finalizer, in this order. \<open>Deletion_Ends\<close> has the whole course.\<close>

lemma deletion_completes:
  assumes "GetTfRun_of r req w = (Inr t, w1)" "ContainsFinalizer r t finalizerName"
    and "\<not> IsZero (DeletionTimestamp t)" "ActiveDestroyJobName (Status t) \<noteq> ''''"
    and "GetJob_of r (Namespace t, ActiveDestroyJobName (Status t)) w1 = (Inr job, w2)"
    and "\<not> isJobActive job" "isJobSucceeded job"
    and "StatusUpdate_of r (status_update (\<lambda>s. s\<lparr>
        Message := ''Destroy job '' @ Job_Name job @ '' succeeded'',
        ActiveDestroyJobName := ''''\<rparr>) t) w2 = (Inr t1, w3)"
    and "WorkspaceReady (Status t1)" "WorkspaceID (Status t1) \<noteq> ''''"
    and "getCloudBackend r t1 = Inr be"
    and "be_DeleteWorkspace be t1 (WorkspaceID (Status t1)) w3 = (Ret None, es, w4)"
    and "GetTfRun_of r (ObjectKeyFromObject t1) w4 = (Inr t2, w5)"
    and "ContainsFinalizer r t2 finalizerName"
    and "Update_of r (RemoveFinalizer r t2 finalizerName) w5 = (Inr t3, w6)"
  shows "\<exists>t'. Reconcile r req w = (Ret (noResult, None),
      [EvGetTfRun req (Inr t),
       EvGetJob (Namespace t, ActiveDestroyJobName (Status t)) (Inr job),
       EvStatusUpdate t' (Inr t1)] @ es @
      [EvGetTfRun (ObjectKeyFromObject t1) (Inr t2),
       EvUpdate (RemoveFinalizer r t2 finalizerName) (Inr t3)], w6) \<and>
    ActiveDestroyJobName (Status t') = ''''"
  using assms
  by (simp add: Reconcile_def GetTfRun_def GetJob_def StatusUpdate_def StatusUpdate_ignored_def
      Update_def ensureFinalizer_def handleDeletion_def handleDestroyJob_def
      cleanupWorkspaceAndRemoveFinalizer_def deleteRemoteWorkspace_def removeFinalizer_def
      run_simps)

subsection \<open>A deletion that cannot end\<close>

lemma BuildJob_no_backend:
  "Cloud (Backend (Spec t)) = None \<Longrightarrow>
   BuildJob b t jobType jobName = ret (Inl (Err ''the cloud backend does not exist''))"
  by (simp add: BuildJob_def cloudBackend_def)



end
