(* ===== verification/Lifecycle.thy ===== *)
theory Lifecycle
  imports Safety Names
begin

text \<open>
  The life of a status over any number of reconciliations: it starts empty, and each write is
  a step of the status machine. What holds of every status in a life is proved by rule
  induction; that the controller's writes keep to it comes from the protocol.
\<close>

subsection \<open>The statuses that the controller can bring about\<close>

inductive life :: "'w ext \<Rightarrow> TfRunStatus \<Rightarrow> bool" for r where
  created: "life r emptyStatus"
| written: "life r (Status t) \<Longrightarrow> status_step r past t s \<Longrightarrow> life r s"

text \<open>A hash as the controller writes it: none, or sixteen hexadecimal characters.\<close>

definition hash_ok :: "string \<Rightarrow> bool" where
  "hash_ok h \<longleftrightarrow> h = '''' \<or> length h = 16 \<and> list_all isHexDigit h"

definition status_ok :: "TfRunStatus \<Rightarrow> bool" where
  "status_ok s \<longleftrightarrow>
     Phase s \<in> {'''', ''Pending'', ''Running'', ''Succeeded'', ''Failed''} \<and>
     hash_ok (LastSpecHash s) \<and> hash_ok (PendingExecHash s) \<and>
     PendingReason s = (if PendingExecHash s = '''' then '''' else ''SpecChange'') \<and>
     (if LastSpecHash s = '''' then RunID s = ''''
      else \<exists>g. BuildRunID g (LastSpecHash s) = Ret (RunID s)) \<and>
     (WorkspaceReady s \<longrightarrow> WorkspaceID s \<noteq> '''' \<or> WorkspaceImport s)"

lemma status_ok_empty: "status_ok emptyStatus"
  by (simp add: status_ok_def hash_ok_def emptyStatus_def)

lemma spec_hash_ok: "spec_hash_of r past h \<Longrightarrow> hash_ok h \<and> h \<noteq> ''''"
  by (auto simp: spec_hash_of_def hash_ok_def dest!: computeSpecHash_hex)

lemma status_ok_step:
  assumes "status_ok (Status t)" "status_step r past t s"
  shows "status_ok s"
  using assms(2)
proof (cases rule: status_step.cases)
  case (spec_pending k job h)
  then show ?thesis
    using assms(1) spec_hash_ok [of r past h] by (auto simp: status_ok_def)
next
  case (apply_started j jb n h rid m cs)
  then have "hash_ok h" "h \<noteq> ''''"
    using assms(1) spec_hash_ok [of r past h]
    by (auto simp: known_hash_def status_ok_def BuildRunID_Ret)
  then show ?thesis
    using assms(1) apply_started by (auto simp: status_ok_def hash_ok_def PhaseRunning_def)
next
  case (apply_scheduled j jb n h rid ri now m cs tm)
  then have "hash_ok h" "h \<noteq> ''''"
    using assms(1) spec_hash_ok [of r past h]
    by (auto simp: known_hash_def status_ok_def BuildRunID_Ret)
  then show ?thesis
    using assms(1) apply_scheduled by (auto simp: status_ok_def hash_ok_def PhaseRunning_def)
qed (use assms(1) in \<open>auto simp: status_ok_def PhaseFailed_def PhasePending_def
  PhaseRunning_def PhaseSucceeded_def split: if_splits\<close>)

lemma life_ok: "life r s \<Longrightarrow> status_ok s"
  by (induction rule: life.induct) (auto intro: status_ok_empty status_ok_step)

subsection \<open>The reconciliation stays within the life of the status\<close>

lemma Reconcile_write_step:
  assumes "Reconcile r req w = (out, es, w')" "EvStatusUpdate t res \<in> set es"
  shows "\<exists>t0 past. t0 \<in> observed es \<and> status_step r past t0 (Status t)"
proof -
  obtain es1 es2 where es: "es = es1 @ EvStatusUpdate t res # es2"
    and "allowed r es1 (EvStatusUpdate t res)"
    using justified_member [OF each_call_run [OF Reconcile_allowed assms(1)] assms(2)] by auto
  then show ?thesis
    by (auto simp: write_allowed_def)
qed

text \<open>C11: Over any number of reconciliations, a status that only the controller writes has a phase
  of the CRD's enumeration (or none yet), hashes of the right form, a reason exactly when a
  hash is pending, the run id of its hash, and no ready workspace without an id unless it was
  imported: the statuses that a reconciliation writes, when it is shown such statuses only.\<close>

theorem written_statuses_ok:
  assumes "Reconcile r req w = (out, es, w')" "\<And>t. t \<in> observed es \<Longrightarrow> life r (Status t)"
    and "EvStatusUpdate t res \<in> set es"
  shows "life r (Status t) \<and> status_ok (Status t)"
proof -
  obtain t0 past where t0: "t0 \<in> observed es" "status_step r past t0 (Status t)"
    using Reconcile_write_step [OF assms(1,3)] by blast
  then have "life r (Status t)"
    using assms(2) by (blast intro: life.written)
  then show ?thesis
    using life_ok by blast
qed


subsection \<open>A run over two statuses of a life\<close>

text \<open>A TfRun that is being deleted, whose destroy Job exists already.\<close>

definition adoptingRun :: TfRun where
  "adoptingRun = sampleRun\<lparr>DeletionTimestamp := Some 900\<rparr>"

definition adoptedStatus :: TfRunStatus where
  "adoptedStatus = emptyStatus\<lparr>ActiveDestroyJobName := ''net-destroy'', Phase := PhasePending,
     Message := ''Destroy job net-destroy already exists; waiting''\<rparr>"

definition adoptingEvents :: "event list" where
  "adoptingEvents =
     [EvGetTfRun (''team'', ''net'') (Inr adoptingRun),
      EvGetJob (''team'', ''net-destroy'') (Inr (sampleJob ''net-destroy'' zeroJobStatus)),
      EvGetTfRun (''team'', ''net'') (Inr adoptingRun),
      EvStatusUpdate (adoptingRun\<lparr>Status := adoptedStatus\<rparr>)
        (Inr (adoptingRun\<lparr>Status := adoptedStatus\<rparr>))]"

lemma adopting_run:
  "\<exists>w'. Reconcile kube (''team'', ''net'') (sampleCluster adoptingRun
      [((''team'', ''net-destroy''), sampleJob ''net-destroy'' zeroJobStatus)] []) =
    (Ret (requeueAfter (Seconds 30), None), adoptingEvents, w')"
  by (simp add: Reconcile_def GetTfRun_def ensureFinalizer_def handleDeletion_def GetJob_def
      adoptDestroyJob_def StatusUpdate_def run_simps adoptingEvents_def adoptingRun_def
      adoptedStatus_def sample_defs cluster_defs finalizerName_def IsZero_def zeroTime_def
      ForEngine_def tofuEngine_def ToLower_def lowerChar_def ObjectKeyFromObject_def
      status_update_def Let_def)

lemma adopting_life:
  "t \<in> observed adoptingEvents \<Longrightarrow> life kube (Status t)"
proof -
  have empty: "life kube (Status adoptingRun)"
    by (simp add: adoptingRun_def sampleRun_def life.created)
  have "status_step kube adoptingEvents adoptingRun ((Status adoptingRun)\<lparr>
      ActiveDestroyJobName := ''net-destroy'', Phase := PhasePending,
      Message := ''Destroy job net-destroy already exists; waiting''\<rparr>)"
    by (rule status_step.destroy_adopted [of "(''team'', ''net-destroy'')"])
      (simp_all add: adoptingEvents_def)
  then have "life kube adoptedStatus"
    using life.written [OF empty]
    by (simp add: adoptedStatus_def adoptingRun_def sampleRun_def)
  then show "t \<in> observed adoptingEvents \<Longrightarrow> life kube (Status t)"
    using empty by (auto simp: adoptingEvents_def)
qed

theorem written_statuses_ok_witness:
  "life kube adoptedStatus \<and> status_ok adoptedStatus"
proof -
  obtain w' where run: "Reconcile kube (''team'', ''net'') (sampleCluster adoptingRun
      [((''team'', ''net-destroy''), sampleJob ''net-destroy'' zeroJobStatus)] []) =
    (Ret (requeueAfter (Seconds 30), None), adoptingEvents, w')"
    using adopting_run by blast
  show ?thesis
    using written_statuses_ok [OF run adopting_life, of "adoptingRun\<lparr>Status := adoptedStatus\<rparr>"
        "Inr (adoptingRun\<lparr>Status := adoptedStatus\<rparr>)"]
    by (simp add: adoptingEvents_def)
qed


end
