(* ===== verification/GoJson_Roundtrip.thy ===== *)
theory GoJson_Roundtrip
  imports GoJson_Decode
begin

text \<open>
  What \<open>Marshal\<close> writes, \<open>Unmarshal\<close> reads. \<open>reads d x v\<close> says that the text \<open>x\<close>, followed by a
  delimiter or by nothing, is read as the value \<open>v\<close> in any context that leaves room for
  \<open>d\<close> nested containers; one rule per constructor of JSON builds it up. Invalid UTF-8 does not
  survive: each bad byte of a string is read back as U+FFFD.
\<close>

named_theorems reads_intros \<open>rules that read a marshalled text\<close>

subsection \<open>Strings\<close>

text \<open>A string with each byte that is not part of valid UTF-8 replaced.\<close>

function toValidUTF8 :: "string \<Rightarrow> string" where
  "toValidUTF8 [] = []"
| "toValidUTF8 (c # cs) =
     (if (of_char c :: int) < 128 then c # toValidUTF8 cs
      else (let n = runeLen (map of_char (c # cs)) in
        if n = 0 then runeError @ toValidUTF8 cs
        else take n (c # cs) @ toValidUTF8 (drop (n - 1) cs)))"
  by pat_completeness auto
termination
  by (relation "measure length") auto

declare toValidUTF8.simps(2) [simp del] jsonChars.simps(2) [simp del]

text \<open>ASCII text is valid, the names of fields among it.\<close>

lemma toValidUTF8_Cons [simp]:
  "(of_char c :: int) < 128 \<Longrightarrow> toValidUTF8 (c # cs) = c # toValidUTF8 cs"
  by (simp add: toValidUTF8.simps(2))

definition validUTF8 :: "string \<Rightarrow> bool" where
  "validUTF8 s \<longleftrightarrow> toValidUTF8 s = s"

lemma runeLen_head:
  assumes "runeLen xs = n" "0 < n"
  shows "runeLen (take n xs @ ys) = n" "n \<le> length xs" "n \<in> {2, 3, 4}"
proof -
  consider "xs = []" | a where "xs = [a]" | a b where "xs = [a, b]" | a b c where "xs = [a, b, c]"
    | a b c d rest where "xs = a # b # c # d # rest"
    by (metis list.exhaust)
  then have "runeLen (take n xs @ ys) = n \<and> n \<le> length xs \<and> n \<in> {2, 3, 4}"
    using assms by cases (auto split: if_splits)
  then show "runeLen (take n xs @ ys) = n" "n \<le> length xs" "n \<in> {2, 3, 4}"
    by auto
qed

lemma runeLen_cont:
  assumes "runeLen xs = n" "0 < n" "x \<in> set (tl (take n xs))"
  shows "128 \<le> x"
proof -
  consider "xs = []" | a where "xs = [a]" | a b where "xs = [a, b]" | a b c where "xs = [a, b, c]"
    | a b c d rest where "xs = a # b # c # d # rest"
    by (metis list.exhaust)
  then show ?thesis
    using assms by cases (auto simp: cont_def split: if_splits)
qed

lemma of_char_range: "0 \<le> (of_char c :: int)" "(of_char c :: int) < 256"
proof -
  have "(of_char c :: int) mod 256 = of_char c"
    by simp
  then show "0 \<le> (of_char c :: int)" "(of_char c :: int) < 256"
    by (metis pos_mod_sign zero_less_numeral, metis pos_mod_bound zero_less_numeral)
qed

lemma char_ge_128: "128 \<le> (of_char c :: int) \<Longrightarrow> c \<noteq> backslash \<and> c \<noteq> quote"
  by (auto simp: backslash_def quote_def)

lemma map_option_append_Nil [simp]: "map_option ((@) []) x = x"
  by (cases x) simp_all

lemma map_option_append [simp]:
  "map_option ((@) xs) (map_option ((@) ys) z) = map_option ((@) (xs @ ys)) z"
  by (cases z) simp_all

lemma lex_high:
  "\<forall>c \<in> set xs. 128 \<le> (of_char c :: int) \<Longrightarrow>
   lexRun (InStr acc) (xs @ rest) = lexRun (InStr (rev xs @ acc)) rest"
  by (induction xs arbitrary: acc) (auto simp: char_ge_128 split: option.split)

lemma hexVal_hexLower: "0 \<le> d \<Longrightarrow> d < 16 \<Longrightarrow> hexVal (hexLower d) = Some d"
  by (auto simp: hexVal_def hexLower_def Let_def)

lemma lex_plain:
  "c \<noteq> backslash \<Longrightarrow> c \<noteq> quote \<Longrightarrow> 32 \<le> (of_char c :: int) \<Longrightarrow>
   lexRun (InStr acc) (c # rest) = lexRun (InStr (c # acc)) rest"
  by simp

lemma lex_escape:
  "e \<in> set ''bfnrt/'' \<or> e = backslash \<or> e = quote \<Longrightarrow>
   lexRun (InStr acc) (backslash # e # rest) = lexRun (InStr (e # backslash # acc)) rest"
  by (auto simp: backslash_def quote_def)

lemma lex_unicode:
  "hexVal a \<noteq> None \<Longrightarrow> hexVal b \<noteq> None \<Longrightarrow> hexVal c \<noteq> None \<Longrightarrow> hexVal d \<noteq> None \<Longrightarrow>
   lexRun (InStr acc) (backslash # CHR ''u'' # a # b # c # d # rest) =
   lexRun (InStr (d # c # b # a # CHR ''u'' # backslash # acc)) rest"
  by (auto simp: backslash_def quote_def)

lemma char_codes:
  "char_of (34 :: int) = quote" "char_of (92 :: int) = backslash" "char_of (8 :: int) = CHR 0x08"
  "char_of (12 :: int) = CHR 0x0C" "char_of (10 :: int) = CHR 0x0A" "char_of (13 :: int) = CHR 0x0D"
  "char_of (9 :: int) = CHR 0x09"
  by (simp_all add: quote_def backslash_def char_of_eq_iff)

lemma special:
  "jsonAscii quote = [backslash, quote]" "unescape quote = [quote]"
  "jsonAscii backslash = [backslash, backslash]" "unescape backslash = [backslash]"
  "jsonAscii (CHR 0x08) = [backslash, CHR ''b'']" "unescape (CHR ''b'') = [CHR 0x08]"
  "jsonAscii (CHR 0x0C) = [backslash, CHR ''f'']" "unescape (CHR ''f'') = [CHR 0x0C]"
  "jsonAscii (CHR 0x0A) = [backslash, CHR ''n'']" "unescape (CHR ''n'') = [CHR 0x0A]"
  "jsonAscii (CHR 0x0D) = [backslash, CHR ''r'']" "unescape (CHR ''r'') = [CHR 0x0D]"
  "jsonAscii (CHR 0x09) = [backslash, CHR ''t'']" "unescape (CHR ''t'') = [CHR 0x09]"
  by (simp_all add: jsonAscii_def unescape_def quote_def backslash_def)

lemma jsonAscii_cases:
  assumes "(of_char c :: int) < 128"
  obtains (plain) "jsonAscii c = [c]" "c \<noteq> backslash" "c \<noteq> quote" "32 \<le> (of_char c :: int)"
  | (escape) e where "jsonAscii c = [backslash, e]" "unescape e = [c]"
      "e \<in> set ''bfnrt'' \<or> e = backslash \<or> e = quote"
  | (unicode) h l where "jsonAscii c = backslash # ''u00'' @ [h, l]"
      "hexVal h = Some ((of_char c :: int) div 16)" "hexVal l = Some ((of_char c :: int) mod 16)"
proof -
  let ?n = "of_char c :: int"
  let ?special = "{quote, backslash, CHR 0x08, CHR 0x0C, CHR 0x0A, CHR 0x0D, CHR 0x09}"
  have hex: "hexVal (hexLower (?n div 16)) = Some (?n div 16)"
      "hexVal (hexLower (?n mod 16)) = Some (?n mod 16)"
    using assms of_char_range [of c] by (simp_all add: hexVal_hexLower)
  have code: "?n = m \<Longrightarrow> char_of m = d \<Longrightarrow> c = d" for m d
    by (metis char_of_char)
  show thesis
  proof (cases "c \<in> ?special")
    case True
    then have "c = quote \<or> c = backslash \<or> c = CHR 0x08 \<or> c = CHR 0x0C \<or> c = CHR 0x0A \<or>
        c = CHR 0x0D \<or> c = CHR 0x09"
      by blast
    then show ?thesis
      using escape [of quote] escape [of backslash] escape [of "CHR ''b''"] escape [of "CHR ''f''"]
        escape [of "CHR ''n''"] escape [of "CHR ''r''"] escape [of "CHR ''t''"]
      by (elim disjE) (simp_all add: special)
  next
    case False
    then have no: "?n \<noteq> 34" "?n \<noteq> 92" "?n \<noteq> 8" "?n \<noteq> 12" "?n \<noteq> 10" "?n \<noteq> 13" "?n \<noteq> 9"
        "c \<noteq> quote" "c \<noteq> backslash"
      using code [OF _ char_codes(1)] code [OF _ char_codes(2)] code [OF _ char_codes(3)]
        code [OF _ char_codes(4)] code [OF _ char_codes(5)] code [OF _ char_codes(6)]
        code [OF _ char_codes(7)] by blast+
    show ?thesis
    proof (cases "?n < 32 \<or> ?n = 38 \<or> ?n = 60 \<or> ?n = 62")
      case True
      with no have "jsonAscii c = backslash # ''u00'' @ [hexLower (?n div 16), hexLower (?n mod 16)]"
        by (simp add: jsonAscii_def Let_def)
      then show ?thesis
        using unicode hex by blast
    next
      case 2: False
      with no have "jsonAscii c = [c]"
        by (simp add: jsonAscii_def Let_def)
      then show ?thesis
        using plain no 2 by simp
    qed
  qed
qed

lemma lex_jsonAscii:
  assumes "(of_char c :: int) < 128"
  shows "lexRun (InStr acc) (jsonAscii c @ rest) = lexRun (InStr (rev (jsonAscii c) @ acc)) rest"
  using assms
proof (cases rule: jsonAscii_cases)
  case plain
  then show ?thesis
    by (simp add: lex_plain del: lexRun.simps)
next
  case (escape e)
  from escape(3) have "lexRun (InStr acc) (backslash # e # rest) =
      lexRun (InStr (e # backslash # acc)) rest"
    by (intro lex_escape) auto
  then show ?thesis
    by (simp add: escape(1) del: lexRun.simps)
next
  case (unicode h l)
  moreover have "hexVal (CHR ''0'') = Some 0"
    by (simp add: hexVal_def)
  ultimately show ?thesis
    by (simp add: lex_unicode del: lexRun.simps)
qed

lemma high_sequence:
  assumes "128 \<le> (of_char c :: int)" "runeLen (map of_char (c # cs)) = n" "n \<noteq> 0"
  shows "\<forall>x \<in> set (take n (c # cs)). 128 \<le> (of_char x :: int)"
proof
  fix x assume "x \<in> set (take n (c # cs))"
  moreover have "take n (c # cs) = c # tl (take n (c # cs))"
    using assms(3) by (cases n) auto
  ultimately consider "x = c" | "x \<in> set (tl (take n (c # cs)))"
    by (metis set_ConsD)
  then show "128 \<le> (of_char x :: int)"
  proof cases
    case 2
    then have "(of_char x :: int) \<in> set (tl (take n (map of_char (c # cs))))"
      by (metis (no_types, lifting) image_eqI list.set_map map_tl take_map)
    then show ?thesis
      using runeLen_cont [OF assms(2)] assms(3) by blast
  qed (simp add: assms(1))
qed

text \<open>How a string that starts with a byte of at least 0x80 is written.\<close>

lemma jsonChars_cases:
  obtains (nil) "s = []" | (ascii) c cs where "s = c # cs" "(of_char c :: int) < 128"
      "jsonChars s = jsonAscii c @ jsonChars cs" "toValidUTF8 s = c # toValidUTF8 cs"
  | (bad) c cs where "s = c # cs" "jsonChars s = backslash # ''ufffd'' @ jsonChars cs"
      "toValidUTF8 s = runeError @ toValidUTF8 cs"
  | (sep) l cs where "s = [CHR 0xE2, CHR 0x80, l] @ cs" "jsonChars s = backslash # ''u202'' @
        (if l = CHR 0xA8 then CHR ''8'' else CHR ''9'') # jsonChars cs"
      "l \<in> {CHR 0xA8, CHR 0xA9}" "toValidUTF8 s = [CHR 0xE2, CHR 0x80, l] @ toValidUTF8 cs"
  | (rune) sq cs where "s = sq @ cs" "runeLen (map of_char s) = length sq" "sq \<noteq> []"
      "\<forall>x \<in> set sq. 128 \<le> (of_char x :: int)" "jsonChars s = sq @ jsonChars cs"
      "toValidUTF8 s = sq @ toValidUTF8 cs"
proof (cases s)
  case (Cons c cs)
  let ?n = "runeLen (map of_char (c # cs))"
  let ?sq = "take ?n (c # cs)"
  consider "(of_char c :: int) < 128" | "128 \<le> (of_char c :: int)" "?n = 0"
    | "128 \<le> (of_char c :: int)" "?n \<noteq> 0"
    by linarith
  then show thesis
  proof cases
    case 1
    then show ?thesis
      using ascii Cons by (simp add: jsonChars.simps(2) toValidUTF8.simps(2))
  next
    case 2
    then show ?thesis
      using bad Cons by (simp add: jsonChars.simps(2) toValidUTF8.simps(2) Let_def)
  next
    case 3
    have len: "?n \<le> length (c # cs)"
      using runeLen_head(2) [OF refl, of "map of_char (c # cs)"] 3(2) by simp
    have "drop (?n - 1) cs = drop ?n (c # cs)"
      using 3(2) by (simp add: drop_Cons')
    then have split: "c # cs = ?sq @ drop (?n - 1) cs" "length ?sq = ?n"
      using len by (metis append_take_drop_id, simp)
    have valid: "toValidUTF8 (c # cs) = ?sq @ toValidUTF8 (drop (?n - 1) cs)"
      using 3 by (simp add: toValidUTF8.simps(2) Let_def)
    have json: "jsonChars (c # cs) =
      (if ?sq = [CHR 0xE2, CHR 0x80, CHR 0xA8] then backslash # ''u2028''
       else if ?sq = [CHR 0xE2, CHR 0x80, CHR 0xA9] then backslash # ''u2029'' else ?sq) @
      jsonChars (drop (?n - 1) cs)"
      using 3 by (simp add: jsonChars.simps(2) Let_def)
    show ?thesis
    proof (cases "\<exists>l \<in> {CHR 0xA8, CHR 0xA9}. ?sq = [CHR 0xE2, CHR 0x80, l]")
      case True
      then obtain l where l: "l \<in> {CHR 0xA8, CHR 0xA9}" "?sq = [CHR 0xE2, CHR 0x80, l]"
        by blast
      show ?thesis
        by (rule sep [of l "drop (?n - 1) cs"])
          (use l split(1) valid json Cons in \<open>auto simp del: take_Suc_Cons\<close>)
    next
      case False
      show ?thesis
        by (rule rune [of ?sq "drop (?n - 1) cs"])
          (use False split valid json Cons 3 high_sequence [OF 3(1) refl 3(2)] in auto)
    qed
  qed
qed (rule nil)

lemma hexVal_digits:
  "hexVal (CHR ''0'') = Some 0" "hexVal (CHR ''2'') = Some 2" "hexVal (CHR ''8'') = Some 8"
  "hexVal (CHR ''9'') = Some 9" "hexVal (CHR ''d'') = Some 13" "hexVal (CHR ''f'') = Some 15"
  by (simp_all add: hexVal_def)

lemma lex_jsonChars:
  "lexRun (InStr acc) (jsonChars s @ rest) = lexRun (InStr (rev (jsonChars s) @ acc)) rest"
proof (induction "length s" arbitrary: s acc rule: less_induct)
  case less
  show ?case
  proof (cases s rule: jsonChars_cases)
    case (ascii c cs)
    then show ?thesis
      using less [of cs] by (simp add: lex_jsonAscii del: lexRun.simps)
  next
    case (bad c cs)
    then show ?thesis
      using less [of cs] by (simp add: lex_unicode hexVal_digits del: lexRun.simps)
  next
    case (sep l cs)
    then show ?thesis
      using less [of cs] by (simp add: lex_unicode hexVal_digits del: lexRun.simps)
  next
    case (rune sq cs)
    then show ?thesis
      using less [of cs] by (simp add: lex_high del: lexRun.simps)
  qed simp
qed

subsection \<open>The value of what was written\<close>

lemma unquote_escape: "getu4 (backslash # e # r) = None \<Longrightarrow> unquote (backslash # e # r) = unescape e @ unquote r"
  by (simp add: unquote.simps(2))

lemma unquote_unicode:
  "getu4 (backslash # CHR ''u'' # a # b # c # d # r) = Some n \<Longrightarrow> n < 55296 \<or> 57344 \<le> n \<Longrightarrow>
   unquote (backslash # CHR ''u'' # a # b # c # d # r) = encodeRune n @ unquote r"
  by (subst unquote.simps(2)) auto

lemma unquote_high:
  assumes "128 \<le> (of_char c :: int)" "runeLen (map of_char (c # cs)) = n" "n \<noteq> 0"
  shows "unquote (take n (c # cs) @ rest) = take n (c # cs) @ unquote rest"
proof -
  let ?sq = "take n (c # cs)"
  obtain sq where sq: "?sq = c # sq"
    using assms(3) by (cases n) auto
  have "n \<le> length (c # cs)" "runeLen (map of_char (?sq @ rest)) = n"
    using runeLen_head(1,2) [OF assms(2)] assms(3) by (simp, simp only: map_append flip: take_map)
  moreover from this(1) have "length sq = n - 1"
    using sq by (metis length_take min.absorb2 length_Cons diff_Suc_1)
  ultimately show ?thesis
    using sq assms(1,3) char_ge_128 [of c]
    by (simp add: unquote.simps(2) Let_def take_Cons')
qed

lemma unquote_jsonAscii:
  assumes "(of_char c :: int) < 128"
  shows "unquote (jsonAscii c @ rest) = c # unquote rest"
  using assms
proof (cases rule: jsonAscii_cases)
  case plain
  then show ?thesis
    using assms by (simp add: unquote.simps(2))
next
  case (escape e)
  then have "getu4 (backslash # e # rest) = None"
    by (cases rest rule: getu4.cases) (auto simp: backslash_def quote_def)
  then show ?thesis
    using escape by (simp add: unquote_escape)
next
  case (unicode h l)
  have "getu4 (backslash # CHR ''u'' # CHR ''0'' # CHR ''0'' # h # l # rest) = Some (of_char c)"
    using unicode(2,3) by (simp add: hexVal_digits)
  then show ?thesis
    using unicode(1) assms by (simp add: unquote_unicode encodeRune_def)
qed

lemma unquote_jsonChars: "unquote (jsonChars s @ rest) = toValidUTF8 s @ unquote rest"
proof (induction "length s" arbitrary: s rule: less_induct)
  case less
  show ?case
  proof (cases s rule: jsonChars_cases)
    case (ascii c cs)
    then show ?thesis
      using less [of cs] by (simp add: unquote_jsonAscii)
  next
    case (bad c cs)
    then show ?thesis
      using less [of cs]
      by (simp add: unquote_unicode hexVal_digits encodeRune_def runeError_def char_of_eq_iff)
  next
    case (sep l cs)
    then show ?thesis
      using less [of cs]
      by (auto simp: unquote_unicode hexVal_digits encodeRune_def char_of_eq_iff)
  next
    case (rune sq cs)
    obtain c sq' where sq: "sq = c # sq'"
      using rune(3) by (cases sq) auto
    have "unquote (sq @ jsonChars cs @ rest) = sq @ unquote (jsonChars cs @ rest)"
      using unquote_high [of c "sq' @ cs" "length sq" "jsonChars cs @ rest"] rune(1,2,4) sq by simp
    then show ?thesis
      using less [of cs] rune(1,3,5,6) by simp
  qed simp
qed

lemma lex_jsonString:
  "lexRun Idle (jsonString s @ rest) = map_option ((@) [TStr (toValidUTF8 s)]) (lexRun Idle rest)"
proof -
  have "lexIdle quote = Some ([], InStr [])"
    by (simp add: lexIdle_def isWhite_def quote_def)
  moreover have "unquote (jsonChars s) = toValidUTF8 s"
    using unquote_jsonChars [of s "[]"] by simp
  ultimately show ?thesis
    by (simp add: jsonString_def lex_jsonChars)
qed

subsection \<open>Values in context\<close>

definition delimited :: "string \<Rightarrow> bool" where
  "delimited rest \<longleftrightarrow> rest = [] \<or> hd rest \<in> set '',]}''"

definition lexes :: "string \<Rightarrow> token list \<Rightarrow> bool" where
  "lexes x ts \<longleftrightarrow> (\<forall>rest. delimited rest \<longrightarrow>
     lexRun Idle (x @ rest) = map_option ((@) ts) (lexRun Idle rest))"

definition parses :: "nat \<Rightarrow> token list \<Rightarrow> jval \<Rightarrow> bool" where
  "parses d ts v \<longleftrightarrow> (\<forall>st ts'. length st + d \<le> maxNestingDepth \<longrightarrow>
     parseRun NeedValue st (ts @ ts') = parseRun (HaveValue v) st ts')"

definition reads :: "nat \<Rightarrow> string \<Rightarrow> jval \<Rightarrow> bool" where
  "reads d x v \<longleftrightarrow> (\<exists>ts. lexes x ts \<and> parses d ts v)"

lemma reads_mono: "reads d x v \<Longrightarrow> d \<le> d' \<Longrightarrow> reads d' x v"
  unfolding reads_def parses_def by (meson add_le_cancel_left order_trans)

text \<open>A text that is read so in any context is a text of its own.\<close>

lemma reads_parse:
  assumes "reads d x v" "d \<le> maxNestingDepth"
  shows "parseJSON x = Some v"
proof -
  obtain ts where ts: "lexes x ts" "parses d ts v"
    using assms(1) by (auto simp: reads_def)
  have "lexRun Idle (x @ []) = Some (ts @ [])"
    using ts(1) unfolding lexes_def delimited_def by simp
  moreover have "parseRun NeedValue [] (ts @ []) = Some v"
    using ts(2) [unfolded parses_def, rule_format, of "[]" "[]"] assms(2) by simp
  ultimately show ?thesis
    by (simp add: parseJSON_def)
qed

lemma reads_string [reads_intros]: "reads d (jsonString s) (JStr (toValidUTF8 s))"
  unfolding reads_def lexes_def parses_def
  by (intro exI [of _ "[TStr (toValidUTF8 s)]"]) (simp add: lex_jsonString)

lemma delimited_step:
  assumes "delimited rest" "lexEnd st = Some ts"
    and "\<And>c. c \<in> set '',]}'' \<Longrightarrow> lexStep st c = lexAfter st c"
  shows "lexRun st rest = map_option ((@) ts) (lexRun Idle rest)"
proof (cases rest)
  case (Cons c cs)
  then have "lexStep st c = lexAfter st c"
    using assms(1,3) by (simp add: delimited_def)
  then show ?thesis
    using assms(2) Cons by (auto simp: lexAfter_def split: option.split)
qed (use assms(2) in simp)

lemma reads_word:
  assumes "wordToken s = Some t" "s \<noteq> []" "list_all isWordChar s" "parses d [t] v"
  shows "reads d s v"
proof -
  have run: "list_all isWordChar xs \<Longrightarrow> lexRun (InWord acc) (xs @ rest) = lexRun (InWord (rev xs @ acc)) rest"
    for xs acc rest
    by (induction xs arbitrary: acc) auto
  obtain c cs where s: "s = c # cs"
    using assms(2) by (cases s) auto
  have "97 \<le> (of_char c :: int)"
    using assms(3) s by (simp add: isWordChar_def Let_def)
  then have "\<not> isWhite c" "\<not> isDigit c" "c \<noteq> quote" "c \<noteq> CHR ''-''"
    by (auto simp: isWhite_def isDigit_def quote_def Let_def)
  then have "lexRun Idle (s @ rest) = lexRun (InWord (rev s)) rest" for rest
    using assms(3) s run [of cs "[c]" rest] by (simp add: lexIdle_def)
  then have "lexes s [t]"
    unfolding lexes_def using assms(1)
    by (auto intro!: delimited_step simp: isWordChar_def)
  then show ?thesis
    using assms(4) reads_def by blast
qed

lemma reads_bool [reads_intros]: "reads d (jsonBool b) (JBool b)"
  by (rule reads_word [of _ "TBool b"])
    (auto simp: jsonBool_def wordToken_def isWordChar_def parses_def)

lemma reads_null [reads_intros]: "reads d ''null'' JNull"
  by (rule reads_word [of _ TNull]) (auto simp: wordToken_def isWordChar_def parses_def)

subsection \<open>Objects\<close>

inductive reads_fields :: "nat \<Rightarrow> string list \<Rightarrow> (string \<times> jval) list \<Rightarrow> bool" for d where
  fields_Nil [reads_intros]: "reads_fields d [] []"
| fields_Cons [reads_intros]: "reads d x v \<Longrightarrow> k' = toValidUTF8 k \<Longrightarrow> reads_fields d fs kvs \<Longrightarrow>
    reads_fields d (jsonField k x # fs) ((k', v) # kvs)"

inductive_simps fields_Nil_iff [simp]: "reads_fields d [] kvs"

lemma fields_append [reads_intros]:
  "reads_fields d fs kvs \<Longrightarrow> reads_fields d fs' kvs' \<Longrightarrow> reads_fields d (fs @ fs') (kvs @ kvs')"
  by (induction rule: reads_fields.induct) (auto intro: reads_intros)

lemma lexIdle_marks:
  "lexIdle (CHR ''{'') = Some ([TOpenObj], Idle)" "lexIdle (CHR ''}'') = Some ([TCloseObj], Idle)"
  "lexIdle (CHR '':'') = Some ([TColon], Idle)" "lexIdle (CHR '','') = Some ([TComma], Idle)"
  by (simp_all add: lexIdle_def isWhite_def quote_def isDigit_def isWordChar_def punctuation_def)

lemma lexes_field: "lexes x ts \<Longrightarrow> lexes (jsonField k x) (TStr (toValidUTF8 k) # TColon # ts)"
  unfolding lexes_def jsonField_def by (simp add: lex_jsonString lexIdle_marks)

lemma lexes_then:
  assumes "lexes x ts" "c \<in> set '',]}''"
  shows "lexRun Idle (x @ c # rest) = map_option ((@) ts) (lexRun Idle (c # rest))"
  using assms unfolding lexes_def delimited_def by (metis list.sel(1) insertCI list.set(2) insertE)

definition field_tokens :: "nat \<Rightarrow> string list \<Rightarrow> (string \<times> jval) list \<Rightarrow> token list \<Rightarrow> bool" where
  "field_tokens d fs kvs ts \<longleftrightarrow>
     (\<forall>rest. lexRun Idle (Join fs '','' @ CHR ''}'' # rest) =
        map_option ((@) (ts @ [TCloseObj])) (lexRun Idle rest)) \<and>
     (\<forall>st acc ts'. length st + Suc d \<le> maxNestingDepth \<longrightarrow>
        parseRun (NeedKey acc) st (ts @ TCloseObj # ts') =
        parseRun (HaveValue (JObj (acc @ kvs))) st ts') \<and> (\<exists>k ts'. ts = TStr k # ts')"

lemma fields_read: "reads_fields d fs kvs \<Longrightarrow> fs \<noteq> [] \<Longrightarrow> \<exists>ts. field_tokens d fs kvs ts"
proof (induction rule: reads_fields.induct)
  case (fields_Cons x v k' k fs kvs)
  obtain ts where ts: "lexes x ts" "parses d ts v"
    using fields_Cons(1) by (auto simp: reads_def)
  let ?f = "TStr k' # TColon # ts"
  have lex: "lexes (jsonField k x) ?f"
    using lexes_field [OF ts(1)] fields_Cons(2) by simp
  have key: "parseRun (NeedKey acc) st (?f @ ts') = parseRun (HaveValue v) (ObjFrame acc k' # st) ts'"
    if "length st + Suc d \<le> maxNestingDepth" for acc st ts'
    using ts(2) [unfolded parses_def, rule_format, of "ObjFrame acc k' # st" ts'] that by simp
  show ?case
  proof (cases "fs = []")
    case True
    moreover have "kvs = []"
      using fields_Cons(3) True by simp
    ultimately have "field_tokens d (jsonField k x # fs) ((k', v) # kvs) ?f"
      unfolding field_tokens_def using key lexes_then [OF lex] by (simp add: lexIdle_marks)
    then show ?thesis ..
  next
    case False
    then obtain us where us: "field_tokens d fs kvs us"
      using fields_Cons(4) by blast
    have "Join (jsonField k x # fs) '','' = jsonField k x @ CHR '','' # Join fs '',''"
      using False by (cases fs) simp_all
    then have "field_tokens d (jsonField k x # fs) ((k', v) # kvs) (?f @ TComma # us)"
      using us key lexes_then [OF lex]
      by (simp add: field_tokens_def lexIdle_marks)
    then show ?thesis ..
  qed
qed simp

lemma reads_object_Suc:
  assumes "reads_fields d fs kvs"
  shows "reads (Suc d) (jsonObject fs) (JObj kvs)"
proof (cases "fs = []")
  case True
  then have "kvs = []"
    using assms by simp
  then have "lexes (jsonObject fs) [TOpenObj, TCloseObj]" "parses (Suc d) [TOpenObj, TCloseObj] (JObj kvs)"
    using True by (simp_all add: jsonObject_def lexes_def parses_def lexIdle_marks)
  then show ?thesis
    using reads_def by blast
next
  case False
  then obtain ts where ts: "field_tokens d fs kvs ts"
    using fields_read [OF assms] by blast
  then have "lexes (jsonObject fs) (TOpenObj # ts @ [TCloseObj])"
    by (simp add: field_tokens_def lexes_def jsonObject_def lexIdle_marks)
  moreover have "parses (Suc d) (TOpenObj # ts @ [TCloseObj]) (JObj kvs)"
    using ts by (auto simp: field_tokens_def parses_def)
  ultimately show ?thesis
    using reads_def by blast
qed

lemma reads_object [reads_intros]:
  "reads_fields (d - 1) fs kvs \<Longrightarrow> 0 < d \<Longrightarrow> reads d (jsonObject fs) (JObj kvs)"
  using reads_object_Suc [of "d - 1"] by simp

lemma fields_map [reads_intros]:
  "(\<And>k v. (k, v) \<in> set xs \<Longrightarrow> reads d (enc v) (val v)) \<Longrightarrow>
   reads_fields d (map (\<lambda>(k, v). jsonField k (enc v)) xs) (map (\<lambda>(k, v). (toValidUTF8 k, val v)) xs)"
  by (induction xs) (auto intro!: reads_intros)

subsection \<open>Arrays\<close>

definition jsonArray :: "string list \<Rightarrow> string" where
  "jsonArray xs = ''['' @ Join xs '','' @ '']''"

lemma lexIdle_brackets:
  "lexIdle (CHR ''['') = Some ([TOpenArr], Idle)" "lexIdle (CHR '']'') = Some ([TCloseArr], Idle)"
  by (simp_all add: lexIdle_def isWhite_def quote_def isDigit_def isWordChar_def punctuation_def)

definition elem_tokens :: "nat \<Rightarrow> string list \<Rightarrow> jval list \<Rightarrow> token list \<Rightarrow> bool" where
  "elem_tokens d xs vs ts \<longleftrightarrow>
     (\<forall>rest. lexRun Idle (Join xs '','' @ CHR '']'' # rest) =
        map_option ((@) (ts @ [TCloseArr])) (lexRun Idle rest)) \<and>
     (\<forall>st acc ts'. length st + Suc d \<le> maxNestingDepth \<longrightarrow>
        parseRun NeedValue (ArrFrame acc # st) (ts @ TCloseArr # ts') =
        parseRun (HaveValue (JArr (acc @ vs))) st ts')"

lemma elems_read: "list_all2 (reads d) xs vs \<Longrightarrow> xs \<noteq> [] \<Longrightarrow> \<exists>ts. elem_tokens d xs vs ts"
proof (induction rule: list_all2_induct)
  case (Cons x xs v vs)
  obtain ts where ts: "lexes x ts" "parses d ts v"
    using Cons(1) by (auto simp: reads_def)
  have val: "parseRun NeedValue (ArrFrame acc # st) (ts @ ts') =
      parseRun (HaveValue v) (ArrFrame acc # st) ts'"
    if "length st + Suc d \<le> maxNestingDepth" for acc st ts'
    using ts(2) [unfolded parses_def, rule_format, of "ArrFrame acc # st" ts'] that by simp
  show ?case
  proof (cases "xs = []")
    case True
    moreover have "vs = []"
      using Cons(2) True by simp
    ultimately have "elem_tokens d (x # xs) (v # vs) ts"
      unfolding elem_tokens_def using val lexes_then [OF ts(1)]
      by (simp add: lexIdle_brackets)
    then show ?thesis ..
  next
    case False
    then obtain us where us: "elem_tokens d xs vs us"
      using Cons(3) by blast
    have "Join (x # xs) '','' = x @ CHR '','' # Join xs '',''"
      using False by (cases xs) simp_all
    then have "elem_tokens d (x # xs) (v # vs) (ts @ TComma # us)"
      using us val lexes_then [OF ts(1)]
      by (simp add: elem_tokens_def lexIdle_marks)
    then show ?thesis ..
  qed
qed simp

text \<open>An array that is not empty starts with a value, not with a bracket that closes it.\<close>

lemma reads_array [reads_intros]:
  assumes "list_all2 (reads (d - 1)) xs vs" "0 < d"
  shows "reads d (jsonArray xs) (JArr vs)"
proof (cases "xs = []")
  case True
  then have "lexes (jsonArray xs) [TOpenArr, TCloseArr]" "parses d [TOpenArr, TCloseArr] (JArr vs)"
    using assms by (simp_all add: jsonArray_def lexes_def parses_def lexIdle_brackets)
  then show ?thesis
    using reads_def by blast
next
  case False
  then obtain ts where ts: "elem_tokens (d - 1) xs vs ts"
    using elems_read assms(1) by blast
  have "\<exists>t us. ts = t # us \<and> t \<noteq> TCloseArr" if "d \<le> maxNestingDepth"
  proof -
    have "parseRun NeedValue [ArrFrame []] (ts @ [TCloseArr]) = Some (JArr vs)"
      using ts that assms(2) unfolding elem_tokens_def by simp
    then show ?thesis
      by (cases ts) (auto split: option.splits)
  qed
  then have "parses d (TOpenArr # ts @ [TCloseArr]) (JArr vs)"
    using ts assms(2) by (auto simp: elem_tokens_def parses_def)
  moreover have "lexes (jsonArray xs) (TOpenArr # ts @ [TCloseArr])"
    using ts by (simp add: elem_tokens_def lexes_def jsonArray_def lexIdle_brackets)
  ultimately show ?thesis
    using reads_def by blast
qed

subsection \<open>A text of its own, inside another\<close>

fun depth :: "jval \<Rightarrow> nat" where
  "depth (JArr vs) = Suc (foldr max (map depth vs) 0)"
| "depth (JObj fs) = Suc (foldr max (map (\<lambda>(k, v). depth v) fs) 0)"
| "depth _ = 0"

text \<open>What is nested in a state of the parser: it never shrinks, and ends as the value's depth.\<close>

definition vals_depth :: "jval list \<Rightarrow> nat" where
  "vals_depth vs = foldr max (map depth vs) 0"

definition fields_depth :: "(string \<times> jval) list \<Rightarrow> nat" where
  "fields_depth fs = vals_depth (map snd fs)"

lemma vals_depth_simps [simp]:
  "vals_depth [] = 0" "vals_depth (vs @ us) = max (vals_depth vs) (vals_depth us)"
  "vals_depth (v # vs) = max (depth v) (vals_depth vs)"
proof -
  have "foldr max xs (m :: nat) = max (foldr max xs 0) m" for xs m
    by (induction xs) (auto simp: max.assoc)
  then show "vals_depth (vs @ us) = max (vals_depth vs) (vals_depth us)"
    unfolding vals_depth_def by (metis foldr_append map_append)
qed (simp_all add: vals_depth_def)

lemma fields_depth_simps [simp]:
  "fields_depth [] = 0" "fields_depth (fs @ [(k, v)]) = max (fields_depth fs) (depth v)"
  by (simp_all add: fields_depth_def)

lemma depth_simps [simp]:
  "depth (JArr vs) = Suc (vals_depth vs)" "depth (JObj fs) = Suc (fields_depth fs)"
  by (simp_all add: vals_depth_def fields_depth_def comp_def case_prod_unfold)

declare depth.simps(1,2) [simp del]

fun mode_depth :: "mode \<Rightarrow> nat" where
  "mode_depth NeedValue = 0"
| "mode_depth NeedValueOrClose = 1"
| "mode_depth NeedKeyOrClose = 1"
| "mode_depth (NeedKey fs) = Suc (fields_depth fs)"
| "mode_depth (NeedColon fs k) = Suc (fields_depth fs)"
| "mode_depth (HaveValue v) = depth v"

fun frames_depth :: "frame list \<Rightarrow> nat" where
  "frames_depth [] = 0"
| "frames_depth (ArrFrame vs # st) = max (length st + Suc (vals_depth vs)) (frames_depth st)"
| "frames_depth (ObjFrame fs k # st) = max (length st + Suc (fields_depth fs)) (frames_depth st)"

definition state_depth :: "mode \<Rightarrow> frame list \<Rightarrow> nat" where
  "state_depth m st = max (mode_depth m + length st) (frames_depth st)"

lemma parseValue_depth:
  "parseValue t st = Some (m', st') \<Longrightarrow> state_depth NeedValue st \<le> state_depth m' st'"
  by (induction t st rule: parseValue.induct) (auto simp: state_depth_def split: if_splits)

lemma parseNext_depth:
  "parseNext v t st = Some (m', st') \<Longrightarrow> state_depth (HaveValue v) st \<le> state_depth m' st'"
  by (induction v t st rule: parseNext.induct) (auto simp: state_depth_def)

lemma parseStep_depth:
  "parseStep m t st = Some (m', st') \<Longrightarrow> state_depth m st \<le> state_depth m' st'"
proof (induction m t st rule: parseStep.induct)
  case (2 t st)
  then show ?case
    using parseValue_depth [of t "ArrFrame [] # st" m' st']
    by (auto simp: state_depth_def split: if_splits)
qed (auto simp: state_depth_def parseValue_depth parseNext_depth split: token.splits if_splits
      dest: parseValue_depth [unfolded state_depth_def] parseNext_depth [unfolded state_depth_def])

lemma parseRun_depth: "parseRun m st ts = Some v \<Longrightarrow> state_depth m st \<le> depth v"
proof (induction m st ts rule: parseRun.induct)
  case (2 m st t ts)
  then obtain m' st' where "parseStep m t st = Some (m', st')" "parseRun m' st' ts = Some v"
    by (auto split: option.splits)
  then show ?case
    using 2(1) parseStep_depth order_trans by fastforce
qed (auto simp: state_depth_def split: mode.splits if_splits)

text \<open>A run on its own is a run above any open containers that leave room for its depth.\<close>

lemma parseValue_base:
  "parseValue t st = Some (m', st') \<Longrightarrow> state_depth m' st' + length base \<le> maxNestingDepth \<Longrightarrow>
   parseValue t (st @ base) = Some (m', st' @ base)"
  by (induction t st rule: parseValue.induct) (auto simp: state_depth_def split: if_splits)

lemma parseNext_base:
  "parseNext v t st = Some (m', st') \<Longrightarrow> parseNext v t (st @ base) = Some (m', st' @ base)"
  by (induction v t st rule: parseNext.induct) auto

lemma parseStep_base:
  assumes "parseStep m t st = Some (m', st')" "state_depth m' st' + length base \<le> maxNestingDepth"
  shows "parseStep m t (st @ base) = Some (m', st' @ base)"
  using assms parseValue_base [of t "ArrFrame [] # st"]
  by (induction m t st rule: parseStep.induct)
    (auto simp: parseValue_base parseNext_base split: token.splits if_splits)

lemma parseRun_base:
  assumes "parseRun m st ts = Some v" "depth v + length base \<le> maxNestingDepth"
  shows "parseRun m (st @ base) (ts @ ts') = parseRun (HaveValue v) base ts'"
  using assms
proof (induction m st ts rule: parseRun.induct)
  case (2 m st t ts)
  then obtain m' st' where s: "parseStep m t st = Some (m', st')" "parseRun m' st' ts = Some v"
    by (auto split: option.splits)
  then have "state_depth m' st' + length base \<le> maxNestingDepth"
    using parseRun_depth [OF s(2)] 2(3) by simp
  from parseStep_base [OF s(1) this] show ?case
    using 2(1) [OF s(1) refl s(2) 2(3)] by simp
qed (auto split: mode.splits if_splits)

lemma lexRun_delimited:
  assumes "lexRun st x = Some ts" "delimited rest"
  shows "lexRun st (x @ rest) = map_option ((@) ts) (lexRun Idle rest)"
  using assms(1)
proof (induction st x arbitrary: ts rule: lexRun.induct)
  case (1 st)
  have "lexStep st c = lexAfter st c" if "c \<in> set '',]}''" for c
    using 1 that
    by (cases st) (auto simp: lexAfter_def isNumChar_def isDigit_def isWordChar_def
        map_option_case split: option.split)
  then show ?case
    using 1 delimited_step [OF assms(2)] by simp
next
  case (2 st c cs)
  then obtain us st' us' where s: "lexStep st c = Some (us, st')" "lexRun st' cs = Some us'"
      "ts = us @ us'"
    by (auto split: option.splits)
  then show ?case
    using 2(1) [OF s(1) refl s(2)] by (cases "lexRun Idle rest") simp_all
qed

lemma parseJSON_reads: "parseJSON x = Some v \<Longrightarrow> reads (depth v) x v"
  unfolding parseJSON_def reads_def lexes_def parses_def
  using parseRun_base [where st = "[]"] lexRun_delimited
  by (auto split: option.splits simp: add.commute)

end
