(* ===== verification/Json_Texts.thy ===== *)
theory Json_Texts
  imports GoJson_Roundtrip Names Remote_Workspace
begin

text \<open>
  The JSON texts of the program, read back: the payload of a new workspace, the answers of the
  remote API, and the text that the spec hash is computed from. For each there is the value
  that the text stands for, and a theorem that the text is read as that value.
\<close>

subsection \<open>The payload of a new workspace\<close>

abbreviation text_value :: "string \<Rightarrow> jval" where
  "text_value s \<equiv> JStr (toValidUTF8 s)"

definition relation_value :: "ScalrRelation \<Rightarrow> jval" where
  "relation_value x = JObj [(''data'', JObj
     [(''type'', text_value (Relation_Type x)), (''id'', text_value (Relation_ID x))])]"

definition payload_value :: "ScalrWorkspaceRequest \<Rightarrow> jval" where
  "payload_value p = JObj [(''data'', JObj
     [(''type'', text_value (Data_Type p)),
      (''attributes'', JObj
        [(''name'', text_value (Attr_Name (Attributes p))),
         (''auto_apply'', JBool (AutoApply (Attributes p))),
         (''iac-platform'', text_value (Attr_IacPlatform (Attributes p))),
         (''terraform-version'', text_value (IacVersion (Attributes p)))]),
      (''relationships'', JObj
        [(''agent-pool'', relation_value (AgentPool p)),
         (''environment'', relation_value (Environment p))])])]"

lemma reads_relation [reads_intros]:
  "2 \<le> d \<Longrightarrow> reads d (marshalRelation x) (relation_value x)"
  unfolding marshalRelation_def relation_value_def by (intro reads_intros) auto

lemma reads_payload: "reads 5 (marshalWorkspaceRequest p) (payload_value p)"
  unfolding marshalWorkspaceRequest_def payload_value_def by (intro reads_intros) auto

text \<open>C19: The payload that creates a workspace is JSON, and its reader gets exactly what the
  program means: the name of the workspace, auto-apply exactly when the argument
  \<open>autoApprove\<close> is missing or ''true'', the platform and version of the engine with their
  defaults, the environment, and an agent pool that without an id in the TfRun has an empty
  type and an empty id, since \<open>omitempty\<close> has no effect on a struct.\<close>

theorem workspace_payload_read:
  "parseJSON (marshalWorkspaceRequest (workspacePayload t cb environmentID)) =
   Some (JObj [(''data'', JObj
     [(''type'', JStr ''workspaces''),
      (''attributes'', JObj
        [(''name'', text_value (Workspace cb)),
         (''auto_apply'', JBool (gomap_get (Arguments (Spec t)) ''autoApprove'' \<in> {None, Some ''true''})),
         (''iac-platform'', text_value (if Engine_Type (Engine (Spec t)) = '''' then ''opentofu''
           else Engine_Type (Engine (Spec t)))),
         (''terraform-version'', text_value (if Engine_Version (Engine (Spec t)) = '''' then ''latest''
           else Engine_Version (Engine (Spec t))))]),
      (''relationships'', JObj
        [(''agent-pool'', JObj [(''data'', JObj
            [(''type'', JStr (if AgentPoolID cb = '''' then '''' else ''agent-pools'')),
             (''id'', text_value (AgentPoolID cb))])]),
         (''environment'', JObj [(''data'', JObj
            [(''type'', JStr ''environments''), (''id'', text_value environmentID)])])])])])"
proof -
  show ?thesis
    using reads_parse [OF reads_payload]
    by (auto simp: payload_value_def relation_value_def workspacePayload_def Let_def IacPlatform_def
        maxNestingDepth_def split: option.split)
qed

subsection \<open>The answers of the remote API\<close>

text \<open>A list of resources as a JSON:API server writes it, with members of its own that the
  program does not know.\<close>

definition answerData :: "string \<Rightarrow> ScalrResponseData \<Rightarrow> string" where
  "answerData link d = jsonObject
     [jsonField ''type'' (jsonString (Response_Type d)),
      jsonField ''attributes'' (jsonObject
        [jsonField ''created-at'' (jsonString link),
         jsonField ''name'' (jsonString (Response_Name (Response_Attributes d)))]),
      jsonField ''id'' (jsonString (Response_ID d)),
      jsonField ''links'' (jsonObject [jsonField ''self'' (jsonString link)])]"

definition answerList :: "string \<Rightarrow> ScalrResponseData list \<Rightarrow> string" where
  "answerList link ds = jsonObject
     [jsonField ''meta'' (jsonObject []), jsonField ''data'' (jsonArray (map (answerData link) ds))]"

definition valid_data :: "ScalrResponseData \<Rightarrow> bool" where
  "valid_data d \<longleftrightarrow> validUTF8 (Response_ID d) \<and> validUTF8 (Response_Type d) \<and>
     validUTF8 (Response_Name (Response_Attributes d))"

definition data_value :: "string \<Rightarrow> ScalrResponseData \<Rightarrow> jval" where
  "data_value link d = JObj
     [(''type'', text_value (Response_Type d)),
      (''attributes'', JObj [(''created-at'', text_value link),
         (''name'', text_value (Response_Name (Response_Attributes d)))]),
      (''id'', text_value (Response_ID d)),
      (''links'', JObj [(''self'', text_value link)])]"

lemma reads_data: "2 \<le> n \<Longrightarrow> reads n (answerData link d) (data_value link d)"
  unfolding answerData_def data_value_def by (intro reads_intros) auto

lemma reads_answerList:
  "reads 4 (answerList link ds) (JObj [(''meta'', JObj []), (''data'', JArr (map (data_value link) ds))])"
  unfolding answerList_def
  by (intro reads_intros) (auto intro!: reads_data simp: list_all2_map1 list_all2_map2 list_all2_same)

lemma decode_data: "valid_data d \<Longrightarrow> decodeData (data_value link d) old = Some d"
  by (cases d) (auto simp: valid_data_def validUTF8_def unmarshal_defs decode_defs data_value_def)

lemma decode_all:
  "\<forall>d \<in> set ds. valid_data d \<Longrightarrow> length olds \<le> length ds \<Longrightarrow>
   decodeElems decodeData zero (map (data_value link) ds) olds = Some ds"
  by (induction ds arbitrary: olds) (auto simp: decode_data split: list.split)

text \<open>C20: A list answer of the remote API is read back as the list that the server wrote, members
  that the program does not know skipped, so the id that the program takes for the workspace
  or the environment is the one of the first element; the answer to a creation likewise.\<close>

theorem answers_read_back:
  assumes "\<forall>d \<in> set ds. valid_data d"
  shows "map_option (\<lambda>resp. elems (List_Data resp)) (UnmarshalEnvironmentList (answerList link ds)) =
      Some ds \<and>
    (\<forall>d \<in> set ds. UnmarshalWorkspace (jsonObject [jsonField ''data'' (answerData link d)]) =
      Some \<lparr>Workspace_Data = d\<rparr>)"
proof (intro conjI ballI)
  have "parseJSON (answerList link ds) =
      Some (JObj [(''meta'', JObj []), (''data'', JArr (map (data_value link) ds))])"
    using reads_parse [OF reads_answerList] by (simp add: maxNestingDepth_def)
  then show "map_option (\<lambda>resp. elems (List_Data resp))
      (UnmarshalEnvironmentList (answerList link ds)) = Some ds"
    using decode_all [OF assms, of "[]"]
    by (simp add: UnmarshalEnvironmentList_def decode_defs)
next
  fix d assume "d \<in> set ds"
  moreover have "reads 3 (jsonObject [jsonField ''data'' (answerData link d)])
      (JObj [(''data'', data_value link d)])"
    by (intro reads_intros reads_data) auto
  then have "parseJSON (jsonObject [jsonField ''data'' (answerData link d)]) =
      Some (JObj [(''data'', data_value link d)])"
    by (rule reads_parse) (simp add: maxNestingDepth_def)
  ultimately show "UnmarshalWorkspace (jsonObject [jsonField ''data'' (answerData link d)]) =
      Some \<lparr>Workspace_Data = d\<rparr>"
    using assms by (simp add: UnmarshalWorkspace_def decode_defs decode_data)
qed

theorem answers_read_back_witness:
  "map_option (\<lambda>resp. elems (List_Data resp)) (UnmarshalEnvironmentList
      (answerList ''/ws'' [\<lparr>Response_ID = ''ws-1'', Response_Type = ''workspaces'',
        Response_Attributes = \<lparr>Response_Name = ''net''\<rparr>\<rparr>])) =
    Some [\<lparr>Response_ID = ''ws-1'', Response_Type = ''workspaces'',
        Response_Attributes = \<lparr>Response_Name = ''net''\<rparr>\<rparr>]"
  using answers_read_back [of "[\<lparr>Response_ID = ''ws-1'', Response_Type = ''workspaces'',
        Response_Attributes = \<lparr>Response_Name = ''net''\<rparr>\<rparr>]" "''/ws''"]
  by (simp add: valid_data_def validUTF8_def)

subsection \<open>The text of the spec hash\<close>

definition omit_value :: "string \<Rightarrow> string \<Rightarrow> (string \<times> jval) list" where
  "omit_value k v = (if v = '''' then [] else [(k, text_value v)])"

definition cloud_value :: "CloudBackend \<Rightarrow> jval" where
  "cloud_value c = JObj
     ([(''provider'', text_value (Provider c)), (''hostname'', text_value (Hostname c)),
       (''organization'', text_value (Organization c)), (''workspace'', text_value (Workspace c))] @
      omit_value ''environmentId'' (EnvironmentID c) @ omit_value ''agentPoolId'' (AgentPoolID c) @
      (if DeleteProtection c then [(''deleteProtection'', JBool True)] else []))"

definition storage_value :: "StorageAccountBackend \<Rightarrow> jval" where
  "storage_value a = JObj [(''accountName'', text_value (AccountName a)),
     (''containerName'', text_value (ContainerName a)), (''key'', text_value (Key a))]"

definition backend_value :: "TfBackend \<Rightarrow> jval" where
  "backend_value b = JObj
     ((case Cloud b of None \<Rightarrow> [] | Some c \<Rightarrow> [(''cloud'', cloud_value c)]) @
      (case StorageAccount b of None \<Rightarrow> [] | Some a \<Rightarrow> [(''storageAccount'', storage_value a)]))"

definition map_value :: "('v \<Rightarrow> jval) \<Rightarrow> 'v gomap option \<Rightarrow> jval" where
  "map_value val m = (case m of None \<Rightarrow> JNull
     | Some xs \<Rightarrow> JObj (map (\<lambda>(k, v). (toValidUTF8 k, val v)) (sortedEntries xs)))"

definition var_value :: "'w ext \<Rightarrow> json option \<Rightarrow> jval" where
  "var_value r v = (case v of None \<Rightarrow> JNull | Some raw \<Rightarrow>
     (case MarshalVar r raw of Inl _ \<Rightarrow> JNull
      | Inr x \<Rightarrow> (case parseJSON x of None \<Rightarrow> JNull | Some j \<Rightarrow> j)))"

definition hash_value :: "'w ext \<Rightarrow> TfRun \<Rightarrow> jval" where
  "hash_value r t = JObj
     [(''Module'', text_value (Module (Source (Spec t)))),
      (''Ref'', text_value (Ref (Source (Spec t)))),
      (''Path'', text_value (Path (Source (Spec t)))),
      (''Vars'', map_value (var_value r) (Vars (Spec t))),
      (''Arguments'', map_value text_value (Arguments (Spec t))),
      (''Backend'', backend_value (Backend (Spec t)))]"

text \<open>What the marshaller of a variable contributes is JSON, nested less deep than the limit: it
  refuses anything else.\<close>

definition vars_are_json :: "'w ext \<Rightarrow> TfRun \<Rightarrow> bool" where
  "vars_are_json r t \<longleftrightarrow> (\<forall>xs k raw x. Vars (Spec t) = Some xs \<longrightarrow> (k, Some raw) \<in> set xs \<longrightarrow>
     MarshalVar r raw = Inr x \<longrightarrow> (\<exists>j. parseJSON x = Some j \<and> depth j \<le> 9998))"

lemma reads_omit [reads_intros]:
  "k' = toValidUTF8 k \<Longrightarrow> reads_fields d (omitempty k v) (omit_value k' v)"
  by (auto simp: omitempty_def omit_value_def intro!: reads_intros)

lemma reads_cloud [reads_intros]: "0 < d \<Longrightarrow> reads d (marshalCloud c) (cloud_value c)"
  unfolding marshalCloud_def cloud_value_def by (intro reads_intros) (auto intro!: reads_intros)

lemma reads_storage [reads_intros]: "0 < d \<Longrightarrow> reads d (marshalStorageAccount a) (storage_value a)"
  unfolding marshalStorageAccount_def storage_value_def by (intro reads_intros) auto

lemma reads_backend [reads_intros]: "1 < d \<Longrightarrow> reads d (marshalBackend b) (backend_value b)"
  unfolding marshalBackend_def backend_value_def
  by (intro reads_intros) (auto intro!: reads_intros split: option.split)

lemma reads_map [reads_intros]: "0 < d \<Longrightarrow> reads d (jsonMap jsonString m) (map_value text_value m)"
  unfolding jsonMap_def map_value_def
  by (cases m) (auto intro!: reads_intros fields_map [where enc = jsonString])

lemma sortedEntries_set [simp]: "set (sortedEntries xs) = set xs"
  by (simp add: sortedEntries_def)

lemma reads_var_fields:
  assumes "marshalVarFields (MarshalVar r) xs = Inr fs"
    and "\<And>k raw x. (k, Some raw) \<in> set xs \<Longrightarrow> MarshalVar r raw = Inr x \<Longrightarrow>
      \<exists>j. parseJSON x = Some j \<and> depth j \<le> d"
  shows "reads_fields d fs (map (\<lambda>(k, v). (toValidUTF8 k, var_value r v)) xs)"
  using assms
proof (induction xs arbitrary: fs)
  case (Cons e xs)
  obtain k v where e: "e = (k, v)"
    by (cases e)
  from Cons(2) obtain x fs' where x: "(case v of None \<Rightarrow> Inr ''null'' | Some raw \<Rightarrow> MarshalVar r raw) = Inr x"
      "marshalVarFields (MarshalVar r) xs = Inr fs'" "fs = jsonField k x # fs'"
    using e by (auto split: sum.splits)
  have "reads d x (var_value r v)"
  proof (cases v)
    case None
    then show ?thesis
      using x(1) by (auto simp: var_value_def intro: reads_intros)
  next
    case (Some raw)
    then obtain j where "parseJSON x = Some j" "depth j \<le> d" "MarshalVar r raw = Inr x"
      using Cons(3) [of k raw x] x(1) e by auto
    then show ?thesis
      using Some parseJSON_reads reads_mono by (fastforce simp: var_value_def)
  qed
  moreover have "reads_fields d fs' (map (\<lambda>(k, v). (toValidUTF8 k, var_value r v)) xs)"
    by (rule Cons(1) [OF x(2)]) (use Cons(3) in auto)
  ultimately show ?case
    using x(3) e by (auto intro: reads_intros)
qed (auto intro: reads_intros)

lemma reads_vars:
  assumes "marshalVars (MarshalVar r) (Vars (Spec t)) = Inr x" "vars_are_json r t"
  shows "reads 9999 x (map_value (var_value r) (Vars (Spec t)))"
proof (cases "Vars (Spec t)")
  case None
  then show ?thesis
    using assms(1) by (auto simp: marshalVars_def map_value_def intro: reads_intros)
next
  case (Some xs)
  then obtain fs where fs: "marshalVarFields (MarshalVar r) (sortedEntries xs) = Inr fs"
      "x = jsonObject fs"
    using assms(1) by (auto simp: marshalVars_def split: sum.splits)
  have "reads_fields 9998 fs (map (\<lambda>(k, v). (toValidUTF8 k, var_value r v)) (sortedEntries xs))"
    by (rule reads_var_fields [OF fs(1)]) (use assms(2) Some in \<open>auto simp: vars_are_json_def\<close>)
  then show ?thesis
    using Some fs(2) by (auto simp: map_value_def intro!: reads_object)
qed

lemma hash_text_read:
  assumes "hashInput r t = Inr x" "vars_are_json r t"
  shows "parseJSON x = Some (hash_value r t)"
proof -
  obtain vars where vars: "marshalVars (MarshalVar r) (Vars (Spec t)) = Inr vars"
    using assms(1) by (auto simp: hashInput_def split: sum.splits)
  have "reads 10000 x (hash_value r t)"
    using assms(1) reads_vars [OF vars assms(2)] vars
    by (auto simp: hashInput_def hash_value_def intro!: reads_intros)
  then show ?thesis
    by (rule reads_parse) (simp add: maxNestingDepth_def)
qed

text \<open>The strings of a spec, valid UTF-8 as they are in every object that the API server
  decodes, in maps whose keys are distinct.\<close>

definition backend_strings :: "TfBackend \<Rightarrow> string list" where
  "backend_strings b =
     (case Cloud b of None \<Rightarrow> [] | Some c \<Rightarrow> [Provider c, Hostname c, Organization c, Workspace c,
        EnvironmentID c, AgentPoolID c]) @
     (case StorageAccount b of None \<Rightarrow> [] | Some a \<Rightarrow> [AccountName a, ContainerName a, Key a])"

definition map_strings :: "('v \<Rightarrow> string list) \<Rightarrow> 'v gomap option \<Rightarrow> string list" where
  "map_strings val m = (case m of None \<Rightarrow> [] | Some xs \<Rightarrow> concat (map (\<lambda>(k, v). k # val v) xs))"

definition valid_strings :: "TfRun \<Rightarrow> bool" where
  "valid_strings t \<longleftrightarrow> list_all validUTF8
     ([Module (Source (Spec t)), Ref (Source (Spec t)), Path (Source (Spec t))] @
      backend_strings (Backend (Spec t)) @ map_strings (\<lambda>v. [v]) (Arguments (Spec t)) @
      map_strings (\<lambda>_. []) (Vars (Spec t)))"

definition maps_ok :: "TfRun \<Rightarrow> bool" where
  "maps_ok t \<longleftrightarrow> (\<forall>xs. Arguments (Spec t) = Some xs \<longrightarrow> gomap_ok xs) \<and>
     (\<forall>xs. Vars (Spec t) = Some xs \<longrightarrow> gomap_ok xs)"

lemma backend_value_inject:
  assumes "backend_value b = backend_value b'"
    and "list_all validUTF8 (backend_strings b)" "list_all validUTF8 (backend_strings b')"
  shows "b = b'"
proof -
  have cloud: "c = c'" if "cloud_value c = cloud_value c'"
      "list_all validUTF8 [Provider c, Hostname c, Organization c, Workspace c, EnvironmentID c, AgentPoolID c]"
      "list_all validUTF8 [Provider c', Hostname c', Organization c', Workspace c', EnvironmentID c', AgentPoolID c']"
    for c c' :: CloudBackend
    using that by (cases c; cases c') (auto simp: cloud_value_def omit_value_def validUTF8_def split: if_splits)
  have storage: "a = a'" if "storage_value a = storage_value a'"
      "list_all validUTF8 [AccountName a, ContainerName a, Key a]"
      "list_all validUTF8 [AccountName a', ContainerName a', Key a']" for a a' :: StorageAccountBackend
    using that by (cases a; cases a') (auto simp: storage_value_def validUTF8_def)
  show ?thesis
    using assms by (cases b; cases b')
      (auto simp: backend_value_def backend_strings_def intro!: cloud storage split: option.splits)
qed

lemma map_value_entries:
  assumes "map_value val (Some xs) = map_value val' (Some ys)"
    and "\<forall>(k, v) \<in> set xs. validUTF8 k" "\<forall>(k, v) \<in> set ys. validUTF8 k"
  shows "(\<lambda>(k, v). (k, val v)) ` set xs = (\<lambda>(k, v). (k, val' v)) ` set ys"
proof -
  have a: "map (\<lambda>(k, v). (k, val v)) (sortedEntries xs) =
      map (\<lambda>(k, v). (toValidUTF8 k, val v)) (sortedEntries xs)"
    using assms(2) by (auto simp: validUTF8_def)
  have b: "map (\<lambda>(k, v). (k, val' v)) (sortedEntries ys) =
      map (\<lambda>(k, v). (toValidUTF8 k, val' v)) (sortedEntries ys)"
    using assms(3) by (auto simp: validUTF8_def)
  have "map (\<lambda>(k, v). (k, val v)) (sortedEntries xs) = map (\<lambda>(k, v). (k, val' v)) (sortedEntries ys)"
    using assms(1) unfolding a b by (simp add: map_value_def)
  from arg_cong [OF this, of set] show ?thesis
    by simp
qed

lemma map_strings_valid:
  "list_all validUTF8 (map_strings f (Some xs)) \<longleftrightarrow>
   (\<forall>(k, v) \<in> set xs. validUTF8 k \<and> list_all validUTF8 (f v))"
  by (induction xs) (auto simp: map_strings_def)

lemma arguments_inject:
  assumes "map_value text_value m = map_value text_value m'"
    and "list_all validUTF8 (map_strings (\<lambda>v. [v]) m)" "list_all validUTF8 (map_strings (\<lambda>v. [v]) m')"
    and "\<forall>xs. m = Some xs \<longrightarrow> gomap_ok xs" "\<forall>xs. m' = Some xs \<longrightarrow> gomap_ok xs"
  shows "same_map m m'"
proof (cases m; cases m')
  fix xs ys assume m: "m = Some xs" "m' = Some ys"
  have valid: "\<forall>(k, v) \<in> set xs. validUTF8 k \<and> validUTF8 v" "\<forall>(k, v) \<in> set ys. validUTF8 k \<and> validUTF8 v"
    using assms(2,3) m by (simp_all add: map_strings_valid)
  have "(\<lambda>(k, v). (k, text_value v)) ` set xs = (\<lambda>(k, v). (k, text_value v)) ` set ys"
    by (rule map_value_entries) (use assms(1) m valid in auto)
  moreover have "(\<lambda>(k, v). (k, text_value v)) ` set zs = (\<lambda>(k, v). (k, JStr v)) ` set zs"
    if "\<forall>(k, v) \<in> set zs. validUTF8 k \<and> validUTF8 v" for zs
    using that by (intro image_cong) (auto simp: validUTF8_def)
  ultimately have "(\<lambda>(k, v). (k, JStr v)) ` set xs = (\<lambda>(k, v). (k, JStr v)) ` set ys"
    using valid by metis
  moreover have "inj (\<lambda>(k :: string, v). (k, JStr v))"
    by (auto intro!: injI)
  ultimately have "set xs = set ys"
    by (simp add: inj_image_eq_iff)
  then show ?thesis
    using m assms(4,5) by (simp add: same_map_def)
qed (use assms in \<open>auto simp: map_value_def same_map_def\<close>)

text \<open>C21: The text under the spec hash determines what is hashed: two TfRuns with the same text have
  the same module, ref, path and backend, the same arguments, and variables with the same
  names and the same JSON values. So two specs that differ in one of these get the same hash
  only by a collision of the first eight bytes of SHA-256.\<close>

theorem same_text_same_spec:
  assumes "hashInput r t = Inr x" "hashInput r t' = Inr x"
    and "vars_are_json r t" "vars_are_json r t'" "valid_strings t" "valid_strings t'"
    and "maps_ok t" "maps_ok t'"
  shows "Module (Source (Spec t)) = Module (Source (Spec t')) \<and>
    Ref (Source (Spec t)) = Ref (Source (Spec t')) \<and> Path (Source (Spec t)) = Path (Source (Spec t')) \<and>
    Backend (Spec t) = Backend (Spec t') \<and> same_map (Arguments (Spec t)) (Arguments (Spec t')) \<and>
    map_option (\<lambda>xs. (\<lambda>(k, v). (k, var_value r v)) ` set xs) (Vars (Spec t)) =
    map_option (\<lambda>xs. (\<lambda>(k, v). (k, var_value r v)) ` set xs) (Vars (Spec t'))"
proof -
  have "hash_value r t = hash_value r t'"
    using hash_text_read [OF assms(1,3)] hash_text_read [OF assms(2,4)] by simp
  then have parts: "text_value (Module (Source (Spec t))) = text_value (Module (Source (Spec t')))"
      "text_value (Ref (Source (Spec t))) = text_value (Ref (Source (Spec t')))"
      "text_value (Path (Source (Spec t))) = text_value (Path (Source (Spec t')))"
      "backend_value (Backend (Spec t)) = backend_value (Backend (Spec t'))"
      "map_value text_value (Arguments (Spec t)) = map_value text_value (Arguments (Spec t'))"
      "map_value (var_value r) (Vars (Spec t)) = map_value (var_value r) (Vars (Spec t'))"
    by (simp_all add: hash_value_def)
  have "map_option (\<lambda>xs. (\<lambda>(k, v). (k, var_value r v)) ` set xs) (Vars (Spec t)) =
    map_option (\<lambda>xs. (\<lambda>(k, v). (k, var_value r v)) ` set xs) (Vars (Spec t'))"
  proof (cases "Vars (Spec t)"; cases "Vars (Spec t')")
    fix xs ys assume v: "Vars (Spec t) = Some xs" "Vars (Spec t') = Some ys"
    have "\<forall>(k, v) \<in> set xs. validUTF8 k" "\<forall>(k, v) \<in> set ys. validUTF8 k"
      using assms(5,6) v by (simp_all add: valid_strings_def map_strings_valid)
    then show ?thesis
      using map_value_entries [of "var_value r" xs "var_value r" ys] parts(6) v by simp
  qed (use parts(6) in \<open>auto simp: map_value_def\<close>)
  moreover have "same_map (Arguments (Spec t)) (Arguments (Spec t'))"
    using arguments_inject [OF parts(5)] assms(5-8) by (simp add: valid_strings_def maps_ok_def)
  moreover have "Backend (Spec t) = Backend (Spec t')"
    using backend_value_inject [OF parts(4)] assms(5,6) by (simp add: valid_strings_def)
  ultimately show ?thesis
    using parts(1-3) assms(5,6) by (simp add: valid_strings_def validUTF8_def)
qed

definition varRun :: "string gomap \<Rightarrow> TfRun" where
  "varRun args = sampleRun\<lparr>Spec := sampleSpec\<lparr>Arguments := Some args,
     Vars := Some [(''region'', Some (jsonString ''eu''))]\<rparr>\<rparr>"

theorem same_text_same_spec_witness:
  "\<exists>x. hashInput kube (varRun [(''a'', ''1''), (''b'', ''2'')]) = Inr x \<and>
     hashInput kube (varRun [(''b'', ''2''), (''a'', ''1'')]) = Inr x \<and>
     same_map (Some [(''a'', ''1''), (''b'', ''2'')]) (Some [(''b'', ''2''), (''a'', ''1'')])"
proof -
  let ?a = "[(''a'', ''1''), (''b'', ''2'')] :: string gomap"
  let ?b = "[(''b'', ''2''), (''a'', ''1'')] :: string gomap"
  have "\<exists>x. hashInput kube (varRun ?a) = Inr x \<and> hashInput kube (varRun ?b) = Inr x"
    by (simp add: hashInput_def varRun_def sampleSpec_def sampleRun_def marshalVars_def
        sortedEntries_def jsonMap_def)
  then obtain x where x: "hashInput kube (varRun ?a) = Inr x" "hashInput kube (varRun ?b) = Inr x"
    by blast
  have json: "vars_are_json kube (varRun args)" for args
    using reads_parse [OF reads_string [of 0 "''eu''"]]
    by (simp add: vars_are_json_def varRun_def sampleSpec_def sampleRun_def)
  have ok: "valid_strings (varRun ?a)" "valid_strings (varRun ?b)" "maps_ok (varRun ?a)" "maps_ok (varRun ?b)"
    by (simp_all add: valid_strings_def maps_ok_def gomap_ok_def varRun_def sample_defs
        backend_strings_def map_strings_def validUTF8_def)
  from same_text_same_spec [OF x json json ok] x show ?thesis
    by (auto simp: varRun_def sample_defs)
qed

end
