(* ===== verification/Manager.thy ===== *)
theory Manager
  imports Effects
begin

text \<open>
  \<open>cmd/main.go\<close>, the entry point, with the registrations of \<open>api/v1alpha1/groupversion_info.go\<close>,
  \<open>SetupWithManager\<close> and \<open>SetupWebhookWithManager\<close>: the scheme, the command line, the options of
  the manager, the registration of controller, webhook and checks, and the start. The calls
  into controller-runtime are a parameter, the record \<open>lib\<close>; the flag package of Go is modelled.
\<close>

subsection \<open>The command line\<close>

record Flags =
  MetricsAddr :: string
  ProbeAddr :: string
  EnableLeaderElection :: bool
  SecureMetrics :: bool
  EnableHTTP2 :: bool

definition defaultFlags :: Flags where
  "defaultFlags = \<lparr>MetricsAddr = ''0'', ProbeAddr = '':8081'', EnableLeaderElection = False,
     SecureMetrics = True, EnableHTTP2 = False\<rparr>"

text \<open>\<open>strconv.ParseBool\<close>\<close>

definition ParseBool :: "string \<Rightarrow> bool option" where
  "ParseBool s = (if s \<in> {''1'', ''t'', ''T'', ''true'', ''TRUE'', ''True''} then Some True
     else if s \<in> {''0'', ''f'', ''F'', ''false'', ''FALSE'', ''False''} then Some False else None)"

text \<open>A flag: whether it is boolean, and how a value sets it; \<open>None\<close> is a refused value.\<close>

type_synonym flag = "bool \<times> (string \<Rightarrow> Flags \<Rightarrow> Flags option)"

definition stringFlag :: "(string \<Rightarrow> Flags \<Rightarrow> Flags) \<Rightarrow> flag" where
  "stringFlag f = (False, \<lambda>v fs. Some (f v fs))"

definition boolFlag :: "(bool \<Rightarrow> Flags \<Rightarrow> Flags) \<Rightarrow> flag" where
  "boolFlag f = (True, \<lambda>v fs. map_option (\<lambda>b. f b fs) (ParseBool v))"

text \<open>The flags that the program defines; \<open>others\<close> are those that the libraries define (the
  options of zap and the path of a kubeconfig), by whether they are boolean and which values
  they accept.\<close>

definition formal :: "(string \<Rightarrow> (bool \<times> (string \<Rightarrow> bool)) option) \<Rightarrow> string \<Rightarrow> flag option" where
  "formal others name =
     (if name = ''metrics-bind-address''
      then Some (stringFlag (\<lambda>v fs. fs\<lparr>MetricsAddr := v\<rparr>))
      else if name = ''health-probe-bind-address''
      then Some (stringFlag (\<lambda>v fs. fs\<lparr>ProbeAddr := v\<rparr>))
      else if name = ''leader-elect''
      then Some (boolFlag (\<lambda>b fs. fs\<lparr>EnableLeaderElection := b\<rparr>))
      else if name = ''metrics-secure''
      then Some (boolFlag (\<lambda>b fs. fs\<lparr>SecureMetrics := b\<rparr>))
      else if name = ''enable-http2''
      then Some (boolFlag (\<lambda>b fs. fs\<lparr>EnableHTTP2 := b\<rparr>))
      else map_option (\<lambda>(b, ok). (b, \<lambda>v fs. if ok v then Some fs else None)) (others name))"

text \<open>The text of an argument after its dashes, split at the first equals sign that is not its
  first character.\<close>

definition splitFlag :: "string \<Rightarrow> string \<times> string option" where
  "splitFlag s = (let n = takeWhile (\<lambda>c. c \<noteq> CHR ''='') (tl s); r = drop (Suc (length n)) s
     in (take (Suc (length n)) s, case r of [] \<Rightarrow> None | _ # v \<Rightarrow> Some v))"

text \<open>\<open>flag.Parse\<close>: the flags, or the status with which the process exits (0 after a request for
  help, 2 after an error).\<close>

fun parseFlags ::
  "(string \<Rightarrow> (bool \<times> (string \<Rightarrow> bool)) option) \<Rightarrow> string list \<Rightarrow> Flags \<Rightarrow> int + Flags" where
  "parseFlags others [] fs = Inr fs"
| "parseFlags others (s # args) fs =
     (if length s < 2 \<or> hd s \<noteq> CHR ''-'' \<or> s = ''--'' then Inr fs
      else (let name = (if s ! 1 = CHR ''-'' then drop 2 s else drop 1 s) in
        if hd name = CHR ''-'' \<or> hd name = CHR ''='' then Inl 2
        else (case splitFlag name of (name, value) \<Rightarrow>
          case formal others name of
            None \<Rightarrow> Inl (if name = ''help'' \<or> name = ''h'' then 0 else 2)
          | Some (isBool, assign) \<Rightarrow>
              if isBool then
                (case assign (case value of None \<Rightarrow> ''true'' | Some v \<Rightarrow> v) fs of
                   None \<Rightarrow> Inl 2 | Some fs' \<Rightarrow> parseFlags others args fs')
              else (case value of
                  Some v \<Rightarrow> (case assign v fs of None \<Rightarrow> Inl 2
                    | Some fs' \<Rightarrow> parseFlags others args fs')
                | None \<Rightarrow> (case args of [] \<Rightarrow> Inl 2
                    | v # args' \<Rightarrow> (case assign v fs of None \<Rightarrow> Inl 2
                        | Some fs' \<Rightarrow> parseFlags others args' fs'))))))"

subsection \<open>The options of the manager\<close>

record TlsConfig =
  NextProtos :: "string list"

definition disableHTTP2 :: "TlsConfig \<Rightarrow> TlsConfig" where
  "disableHTTP2 c = c\<lparr>NextProtos := [''http/1.1'']\<rparr>"

definition tlsOpts :: "Flags \<Rightarrow> (TlsConfig \<Rightarrow> TlsConfig) list" where
  "tlsOpts fs = (if \<not> EnableHTTP2 fs then [disableHTTP2] else [])"

datatype Filter = WithAuthenticationAndAuthorization

record MetricsOptions =
  BindAddress :: string
  SecureServing :: bool
  Metrics_TLSOpts :: "(TlsConfig \<Rightarrow> TlsConfig) list"
  FilterProvider :: "Filter option"

definition metricsServerOptions :: "Flags \<Rightarrow> MetricsOptions" where
  "metricsServerOptions fs =
     (let opts = \<lparr>BindAddress = MetricsAddr fs, SecureServing = SecureMetrics fs,
            Metrics_TLSOpts = tlsOpts fs, FilterProvider = None\<rparr>
      in if SecureMetrics fs
         then opts\<lparr>FilterProvider := Some WithAuthenticationAndAuthorization\<rparr> else opts)"

text \<open>A scheme is the list of the types it knows, each with its group and version.\<close>

record GroupVersion =
  Group :: string
  Version :: string

type_synonym scheme = "(GroupVersion \<times> string) list"

record ManagerOptions =
  Scheme :: scheme
  Metrics :: MetricsOptions
  WebhookServer_TLSOpts :: "(TlsConfig \<Rightarrow> TlsConfig) list"
  HealthProbeBindAddress :: string
  LeaderElection :: bool
  LeaderElectionID :: string

definition managerOptions :: "scheme \<Rightarrow> Flags \<Rightarrow> ManagerOptions" where
  "managerOptions scheme fs = \<lparr>Scheme = scheme, Metrics = metricsServerOptions fs,
     WebhookServer_TLSOpts = tlsOpts fs, HealthProbeBindAddress = ProbeAddr fs,
     LeaderElection = EnableLeaderElection fs, LeaderElectionID = ''18998046.essity.com''\<rparr>"

subsection \<open>The calls into the libraries\<close>

text \<open>A controller is registered with the type it reconciles and the types it owns, a webhook with
  its type. \<open>AddToScheme_of\<close> is the scheme builder of controller-runtime, for a group, a
  version and the types registered with it; \<open>ClientGoScheme_of\<close> adds the built-in types.\<close>

record 'w lib =
  OtherFlags :: "string \<Rightarrow> (bool \<times> (string \<Rightarrow> bool)) option"
  OsGetenv :: "string \<Rightarrow> string"
  ClientGoScheme_of :: "scheme \<Rightarrow> 'w \<Rightarrow> (goerr + scheme) \<times> 'w"
  AddToScheme_of :: "GroupVersion \<Rightarrow> string list \<Rightarrow> scheme \<Rightarrow> 'w \<Rightarrow> (goerr + scheme) \<times> 'w"
  GetConfig_of :: "'w \<Rightarrow> bool \<times> 'w"
  NewManager_of :: "ManagerOptions \<Rightarrow> 'w \<Rightarrow> goerr option \<times> 'w"
  CompleteController_of :: "string \<Rightarrow> string list \<Rightarrow> 'w \<Rightarrow> goerr option \<times> 'w"
  CompleteWebhook_of :: "string \<Rightarrow> 'w \<Rightarrow> goerr option \<times> 'w"
  AddHealthzCheck_of :: "string \<Rightarrow> 'w \<Rightarrow> goerr option \<times> 'w"
  AddReadyzCheck_of :: "string \<Rightarrow> 'w \<Rightarrow> goerr option \<times> 'w"
  Start_of :: "'w \<Rightarrow> goerr option \<times> 'w"

datatype lib_event =
    EvScheme "goerr + scheme"
  | EvGetConfig bool
  | EvNewManager ManagerOptions "goerr option"
  | EvController string "string list" "goerr option"
  | EvWebhook string "goerr option"
  | EvHealthz string "goerr option"
  | EvReadyz string "goerr option"
  | EvStart "goerr option"

type_synonym ('w, 'a) startup = "('w, lib_event, 'a) prog"

subsection \<open>Registration\<close>

definition tfrunGroupVersion :: GroupVersion where
  "tfrunGroupVersion = \<lparr>Group = ''infra.essity.com'', Version = ''v1alpha1''\<rparr>"

text \<open>The types that \<open>init\<close> of \<open>tfrun_types.go\<close> registers with the builder.\<close>

definition registeredTypes :: "string list" where
  "registeredTypes = [''TfRun'', ''TfRunList'']"

definition AddToScheme :: "'w lib \<Rightarrow> scheme \<Rightarrow> ('w, goerr + scheme) startup" where
  "AddToScheme l s = call (AddToScheme_of l tfrunGroupVersion registeredTypes s) EvScheme"

definition SetupWithManager :: "'w lib \<Rightarrow> ('w, goerr option) startup" where
  "SetupWithManager l =
     call (CompleteController_of l ''TfRun'' [''Job'']) (EvController ''TfRun'' [''Job''])"

definition SetupWebhookWithManager :: "'w lib \<Rightarrow> ('w, goerr option) startup" where
  "SetupWebhookWithManager l = call (CompleteWebhook_of l ''TfRun'') (EvWebhook ''TfRun'')"

subsection \<open>The program\<close>

text \<open>How the process ends: a panic of \<open>utilruntime.Must\<close>, an exit with a status, or the return of
  \<open>main\<close>, which is status 0.\<close>

datatype exit = MustPanic goerr | Exit int | Returned

text \<open>A call that ends the process with status 1 when it fails.\<close>

definition orExit ::
  "('w, goerr option) startup \<Rightarrow> ('w, exit) startup \<Rightarrow> ('w, exit) startup" where
  "orExit m k = andThen m (\<lambda>err. case err of Some _ \<Rightarrow> ret (Exit 1) | None \<Rightarrow> k)"

text \<open>\<open>init\<close>: the scheme with the built-in types and those of the program.\<close>

definition initScheme :: "'w lib \<Rightarrow> ('w, goerr + scheme) startup" where
  "initScheme l =
     andThen (call (ClientGoScheme_of l []) EvScheme) (\<lambda>res. case res of
       Inl err \<Rightarrow> ret (Inl err)
     | Inr s \<Rightarrow> AddToScheme l s)"

definition startManager :: "'w lib \<Rightarrow> ('w, exit) startup" where
  "startManager l =
     orExit (call (AddHealthzCheck_of l ''healthz'') (EvHealthz ''healthz''))
      (orExit (call (AddReadyzCheck_of l ''readyz'') (EvReadyz ''readyz''))
        (orExit (call (Start_of l) EvStart) (ret Returned)))"

definition main :: "'w lib \<Rightarrow> string list \<Rightarrow> ('w, exit) startup" where
  "main l args =
     andThen (initScheme l) (\<lambda>res. case res of
       Inl err \<Rightarrow> ret (MustPanic err)
     | Inr scheme \<Rightarrow>
     (case parseFlags (OtherFlags l) args defaultFlags of
        Inl status \<Rightarrow> ret (Exit status)
      | Inr fs \<Rightarrow>
      andThen (call (GetConfig_of l) EvGetConfig) (\<lambda>ok.
      if \<not> ok then ret (Exit 1)
      else
        orExit (call (NewManager_of l (managerOptions scheme fs))
            (EvNewManager (managerOptions scheme fs)))
         (orExit (SetupWithManager l)
           (if OsGetenv l ''ENABLE_WEBHOOKS'' \<noteq> ''false''
            then orExit (SetupWebhookWithManager l) (startManager l)
            else startManager l)))))"

subsection \<open>The command line sets what it names\<close>

text \<open>An argument that names a flag, with one dash or two, with a value or without.\<close>

definition names_flag :: "string \<Rightarrow> string \<Rightarrow> bool" where
  "names_flag n a \<longleftrightarrow> (\<exists>dashes \<in> {''-'', ''--''}. a = dashes @ n \<or> prefix (dashes @ n @ ''='') a)"

lemma splitFlag_name:
  assumes "splitFlag s = (n, v)" "s \<noteq> []"
  shows "s = n \<or> prefix (n @ ''='') s"
proof -
  obtain c cs where s: "s = c # cs"
    using assms(2) by (cases s) auto
  let ?n = "takeWhile (\<lambda>c. c \<noteq> CHR ''='') cs"
  let ?r = "dropWhile (\<lambda>c. c \<noteq> CHR ''='') cs"
  have cs: "cs = ?n @ ?r"
    by simp
  then have "take (length ?n) cs = ?n"
    by (metis append_eq_conv_conj)
  then have n: "n = c # ?n"
    using assms(1) s by (simp add: splitFlag_def Let_def)
  show ?thesis
  proof (cases ?r)
    case Nil
    then show ?thesis
      using cs n s by (metis append_Nil2)
  next
    case (Cons d r)
    then have "d = CHR ''=''"
      using hd_dropWhile [of "\<lambda>c. c \<noteq> CHR ''=''" cs] by simp
    then have "s = n @ ''='' @ r"
      using cs n s Cons by simp
    then show ?thesis
      by (metis append_assoc prefixI)
  qed
qed

text \<open>One step of the parser: a flag that the argument names is set, the others stay.\<close>

lemma formal_keeps:
  assumes "formal others n = Some (b, set_to)" "set_to v fs = Some fs'"
  shows "n = ''enable-http2'' \<or> EnableHTTP2 fs' = EnableHTTP2 fs"
    and "n = ''metrics-secure'' \<or> SecureMetrics fs' = SecureMetrics fs"
    and "n = ''leader-elect'' \<or> EnableLeaderElection fs' = EnableLeaderElection fs"
  using assms by (auto simp: formal_def stringFlag_def boolFlag_def split: if_splits)

lemma flag_named:
  assumes "\<not> (length s < 2 \<or> hd s \<noteq> CHR ''-'' \<or> s = ''--'')"
    and "splitFlag (if s ! 1 = CHR ''-'' then drop 2 s else drop 1 s) = (n, v)"
  shows "names_flag n s"
proof -
  obtain c rest where s: "s = CHR ''-'' # c # rest"
    using assms(1) by (cases s; cases "tl s") auto
  show ?thesis
  proof (cases "c = CHR ''-''")
    case True
    then have "splitFlag rest = (n, v)" "rest \<noteq> []" "s = ''--'' @ rest"
      using assms s by auto
    then show ?thesis
      using splitFlag_name [of rest n v] by (auto simp: names_flag_def)
  next
    case False
    then have "splitFlag (c # rest) = (n, v)" "s = ''-'' @ c # rest"
      using assms(2) s by auto
    then show ?thesis
      using splitFlag_name [of "c # rest" n v] by (auto simp: names_flag_def)
  qed
qed

lemma parseFlags_step:
  assumes "parseFlags others (s # args) fs = Inr fs'"
  shows "fs' = fs \<or> (\<exists>n b set_to v fs1 args1. args1 \<in> {args, tl args} \<and> names_flag n s \<and>
    formal others n = Some (b, set_to) \<and> set_to v fs = Some fs1 \<and>
    parseFlags others args1 fs1 = Inr fs')"
proof (cases "length s < 2 \<or> hd s \<noteq> CHR ''-'' \<or> s = ''--''")
  case True
  then show ?thesis
    using assms by simp
next
  case False
  let ?name = "if s ! 1 = CHR ''-'' then drop 2 s else drop 1 s"
  have ok: "(hd ?name = CHR ''-'' \<or> hd ?name = CHR ''='') = False"
  proof (rule ccontr)
    assume "\<not> ?thesis"
    then show False
      using assms unfolding parseFlags.simps Let_def by (simp only: False if_False if_True) simp
  qed
  obtain n val where split: "splitFlag ?name = (n, val)"
    by (cases "splitFlag ?name")
  have named: "names_flag n s"
    by (rule flag_named [OF False split])
  have parse: "(case formal others n of None \<Rightarrow> Inl (if n = ''help'' \<or> n = ''h'' then 0 else 2)
      | Some (b, set_to) \<Rightarrow>
          if b then (case set_to (case val of None \<Rightarrow> ''true'' | Some v \<Rightarrow> v) fs of
            None \<Rightarrow> Inl 2 | Some fs' \<Rightarrow> parseFlags others args fs')
          else (case val of
              Some v \<Rightarrow> (case set_to v fs of None \<Rightarrow> Inl 2 | Some fs' \<Rightarrow> parseFlags others args fs')
            | None \<Rightarrow> (case args of [] \<Rightarrow> Inl 2
                | v # args' \<Rightarrow> (case set_to v fs of None \<Rightarrow> Inl 2
                    | Some fs' \<Rightarrow> parseFlags others args' fs')))) = Inr fs'"
    using assms unfolding parseFlags.simps Let_def
    by (simp only: False ok split if_False prod.case)
  then obtain b set_to where f: "formal others n = Some (b, set_to)"
    by (cases "formal others n") auto
  have "\<exists>v fs1 args1. args1 \<in> {args, tl args} \<and> set_to v fs = Some fs1 \<and>
      parseFlags others args1 fs1 = Inr fs'"
    using parse unfolding f option.case prod.case
    by (cases val; cases args) (force split: if_splits option.splits)+
  then show ?thesis
    using named f by metis
qed

lemma parseFlags_keeps:
  assumes keep: "\<And>n' b set_to v fs fs'. formal others n' = Some (b, set_to) \<Longrightarrow>
      set_to v fs = Some fs' \<Longrightarrow> n' = n \<or> g fs' = g fs"
  shows "parseFlags others args fs = Inr fs' \<Longrightarrow> \<forall>a \<in> set args. \<not> names_flag n a \<Longrightarrow> g fs' = g fs"
proof (induction "length args" arbitrary: args fs rule: less_induct)
  case less
  show ?case
  proof (cases args)
    case (Cons s rest)
    show ?thesis
    proof (cases "fs' = fs")
      case False
      have "parseFlags others (s # rest) fs = Inr fs'"
        using less(2) Cons by simp
      from parseFlags_step [OF this] False obtain n' b set_to v fs1 args1 where step: "args1 \<in> {rest, tl rest}" "names_flag n' s"
          "formal others n' = Some (b, set_to)" "set_to v fs = Some fs1"
          "parseFlags others args1 fs1 = Inr fs'"
        by metis
      have "length args1 < length args" "set args1 \<subseteq> set args"
        using step(1) Cons by (cases rest; auto)+
      then have "g fs' = g fs1"
        using less(1) [OF _ step(5)] less(3) by blast
      moreover have "n' \<noteq> n"
        using step(2) less(3) Cons by auto
      ultimately show ?thesis
        using keep [OF step(3,4)] by simp
    qed simp
  qed (use less(2) in simp)
qed

subsection \<open>The start\<close>

lemma always_orExit_call [always_intros]:
  assumes "\<And>err. Q (Ret (Exit 1)) [ev (Some err)]" "always k (\<lambda>out es. Q out (ev None # es))"
  shows "always (orExit (call f ev) k) Q"
  unfolding orExit_def
  by (intro always_intros) (use assms in \<open>auto split: option.split intro: always_ret\<close>)

lemma always_andThen_ret [always_intros]: "always (k x) Q \<Longrightarrow> always (andThen (ret x) k) Q"
  by simp

lemma always_andThen_sum [always_intros]:
  "(\<And>x. r = Inl x \<Longrightarrow> always (andThen (f x) k) Q) \<Longrightarrow>
   (\<And>y. r = Inr y \<Longrightarrow> always (andThen (g y) k) Q) \<Longrightarrow>
   always (andThen (case r of Inl x \<Rightarrow> f x | Inr y \<Rightarrow> g y) k) Q"
  by (cases r) auto

lemmas main_defs = main_def initScheme_def AddToScheme_def SetupWithManager_def
  SetupWebhookWithManager_def startManager_def


text \<open>C29: What no argument asks for stays off: without \<open>enable-http2\<close> on the command line both the
  metrics server and the webhook server offer HTTP/1.1 alone, whatever their TLS
  configuration was; without \<open>metrics-secure\<close> the metrics are served over HTTPS and behind
  authentication and authorization; without \<open>leader-elect\<close> there is no leader election.\<close>

theorem safe_by_default:
  assumes "main l args w = (out, es, w')" "EvNewManager opts res \<in> set es"
  shows "((\<forall>a \<in> set args. \<not> names_flag ''enable-http2'' a) \<longrightarrow>
      NextProtos (foldl (\<lambda>c f. f c) c (Metrics_TLSOpts (Metrics opts))) = [''http/1.1''] \<and>
      NextProtos (foldl (\<lambda>c f. f c) c (WebhookServer_TLSOpts opts)) = [''http/1.1'']) \<and>
    ((\<forall>a \<in> set args. \<not> names_flag ''metrics-secure'' a) \<longrightarrow>
      SecureServing (Metrics opts) \<and>
      FilterProvider (Metrics opts) = Some WithAuthenticationAndAuthorization) \<and>
    ((\<forall>a \<in> set args. \<not> names_flag ''leader-elect'' a) \<longrightarrow> \<not> LeaderElection opts)"
proof -
  have "always (main l args) (\<lambda>out es. \<forall>opts res. EvNewManager opts res \<in> set es \<longrightarrow>
      (\<exists>scheme fs. parseFlags (OtherFlags l) args defaultFlags = Inr fs \<and>
        opts = managerOptions scheme fs))"
    unfolding main_defs andThen_assoc by (intro always_intros) auto
  from always_run [OF this assms(1)] assms(2) obtain scheme fs where
      fs: "parseFlags (OtherFlags l) args defaultFlags = Inr fs" and opts: "opts = managerOptions scheme fs"
    by blast
  have "(\<forall>a \<in> set args. \<not> names_flag ''enable-http2'' a) \<longrightarrow> \<not> EnableHTTP2 fs"
    using parseFlags_keeps [where g = EnableHTTP2, OF formal_keeps(1) fs] by (auto simp: defaultFlags_def)
  moreover have "(\<forall>a \<in> set args. \<not> names_flag ''metrics-secure'' a) \<longrightarrow> SecureMetrics fs"
    using parseFlags_keeps [where g = SecureMetrics, OF formal_keeps(2) fs] by (auto simp: defaultFlags_def)
  moreover have "(\<forall>a \<in> set args. \<not> names_flag ''leader-elect'' a) \<longrightarrow> \<not> EnableLeaderElection fs"
    using parseFlags_keeps [where g = EnableLeaderElection, OF formal_keeps(3) fs]
    by (auto simp: defaultFlags_def)
  ultimately show ?thesis
    unfolding opts
    by (auto simp: managerOptions_def metricsServerOptions_def tlsOpts_def disableHTTP2_def Let_def)
qed

definition okLib :: "unit lib" where
  "okLib = \<lparr>OtherFlags = (\<lambda>_. None), OsGetenv = (\<lambda>_. ''''),
     ClientGoScheme_of = (\<lambda>s w. (Inr s, w)),
     AddToScheme_of = (\<lambda>gv ts s w. (Inr (map (Pair gv) ts @ s), w)),
     GetConfig_of = (\<lambda>w. (True, w)), NewManager_of = (\<lambda>_ w. (None, w)),
     CompleteController_of = (\<lambda>_ _ w. (None, w)), CompleteWebhook_of = (\<lambda>_ w. (None, w)),
     AddHealthzCheck_of = (\<lambda>_ w. (None, w)), AddReadyzCheck_of = (\<lambda>_ w. (None, w)),
     Start_of = (\<lambda>w. (None, w))\<rparr>"

theorem safe_by_default_witness:
  "\<exists>es opts. main okLib [''--metrics-bind-address=:8443'', ''-leader-elect''] () = (Ret Returned, es, ()) \<and>
    EvNewManager opts None \<in> set es \<and> BindAddress (Metrics opts) = '':8443'' \<and> LeaderElection opts \<and>
    NextProtos (foldl (\<lambda>c f. f c) \<lparr>NextProtos = [''h2'', ''http/1.1'']\<rparr> (WebhookServer_TLSOpts opts)) =
      [''http/1.1''] \<and> FilterProvider (Metrics opts) = Some WithAuthenticationAndAuthorization"
proof -
  let ?args = "[''--metrics-bind-address=:8443'', ''-leader-elect'']"
  let ?fs = "defaultFlags\<lparr>MetricsAddr := '':8443'', EnableLeaderElection := True\<rparr>"
  have flags: "parseFlags (\<lambda>_. None) ?args defaultFlags =
      Inr ?fs"
    by (simp add: splitFlag_def formal_def stringFlag_def boolFlag_def ParseBool_def)
  obtain es s where run: "main okLib ?args () = (Ret Returned, es, ())"
      "EvNewManager (managerOptions s ?fs) None \<in> set es"
    by (simp add: main_defs orExit_def okLib_def flags run_simps del: parseFlags.simps)
  have none: "\<forall>a \<in> set ?args. \<not> names_flag ''enable-http2'' a"
      "\<forall>a \<in> set ?args. \<not> names_flag ''metrics-secure'' a"
    by (auto simp: names_flag_def)
  note safe = safe_by_default [OF run, of "\<lparr>NextProtos = [''h2'', ''http/1.1'']\<rparr>"]
  show ?thesis
  proof (intro exI conjI)
    show "BindAddress (Metrics (managerOptions s ?fs)) = '':8443''"
        "LeaderElection (managerOptions s ?fs)"
      by (simp_all add: managerOptions_def metricsServerOptions_def Let_def)
  qed (use run safe none in blast)+
qed

end
