(* ===== verification/Memory.thy ===== *)
theory Memory
  imports Prelude
begin

text \<open>
  Go's memory, for the one part of the program in which it matters that two pointers may share
  what they point to: the generated deep copies. A store maps addresses to cells and knows the
  first address that is still free. The locale \<open>deep_copy\<close> is the contract of a deep copy of a
  value that may hold pointers: the copy reads as the original, in cells of its own. It is
  closed under pointers and slices, which is proved here once for all types.
\<close>

type_synonym addr = nat

record 'c store =
  mem :: "addr \<Rightarrow> 'c"
  free :: addr

definition new :: "'c \<Rightarrow> 'c store \<Rightarrow> addr \<times> 'c store" where
  "new c st = (free st, \<lparr>mem = (mem st)(free st := c), free = Suc (free st)\<rparr>)"

text \<open>The cells of a set are the same, and none has been freed.\<close>

definition agree :: "addr set \<Rightarrow> 'c store \<Rightarrow> 'c store \<Rightarrow> bool" where
  "agree A st st' \<longleftrightarrow> free st \<le> free st' \<and> (\<forall>a \<in> A. mem st' a = mem st a)"

abbreviation allocated :: "'c store \<Rightarrow> addr set" where
  "allocated st \<equiv> {..<free st}"

abbreviation extends :: "'c store \<Rightarrow> 'c store \<Rightarrow> bool" where
  "extends st st' \<equiv> agree (allocated st) st st'"

lemma agree_refl [simp]: "agree A st st"
  by (simp add: agree_def)

lemma agree_subset: "agree A st st' \<Longrightarrow> B \<subseteq> A \<Longrightarrow> agree B st st'"
  by (auto simp: agree_def)

lemma agree_trans: "agree A st st' \<Longrightarrow> agree A st' st'' \<Longrightarrow> agree A st st''"
  by (auto simp: agree_def)

lemma extends_trans: "extends st st' \<Longrightarrow> extends st' st'' \<Longrightarrow> extends st st''"
  by (auto simp: agree_def)

lemma extends_new: "new c st = (a, st') \<Longrightarrow> extends st st'"
  by (auto simp: new_def agree_def)

lemma new_cell:
  assumes "new c st = (a, st')"
  shows "a = free st" "mem st' a = c" "free st' = Suc (free st)"
  using assms by (auto simp: new_def)

subsection \<open>The contract of a deep copy\<close>

text \<open>
  \<open>ok\<close> is the well-formedness of a value in a store, \<open>val\<close> what it reads as, \<open>fp\<close> the cells that it
  reaches. What it reads as depends on those cells alone; a copy leaves every old cell as it
  was, reads as the original, and reaches new cells only.
\<close>

locale deep_copy =
  fixes copy :: "'h \<Rightarrow> 'c store \<Rightarrow> 'h \<times> 'c store"
    and ok :: "'c store \<Rightarrow> 'h \<Rightarrow> bool"
    and val :: "'c store \<Rightarrow> 'h \<Rightarrow> 'v"
    and fp :: "'c store \<Rightarrow> 'h \<Rightarrow> addr set"
  assumes footprint: "ok st h \<Longrightarrow> fp st h \<subseteq> allocated st"
    and local: "ok st h \<Longrightarrow> agree (fp st h) st st' \<Longrightarrow>
      ok st' h \<and> val st' h = val st h \<and> fp st' h = fp st h"
    and copies: "ok st h \<Longrightarrow> copy h st = (h', st') \<Longrightarrow> extends st st' \<and> ok st' h' \<and>
      val st' h' = val st h \<and> fp st' h' \<inter> allocated st = {}"
begin

lemma kept: "ok st h \<Longrightarrow> extends st st' \<Longrightarrow> ok st' h \<and> val st' h = val st h \<and> fp st' h = fp st h"
  using local agree_subset footprint by blast

text \<open>The copy shares nothing with the original: whatever is written through the one is not seen
  through the other.\<close>

lemma independent:
  assumes "ok st h" "copy h st = (h', st')"
  shows "fp st' h' \<inter> fp st' h = {}"
    and "\<forall>a. a \<notin> fp st' h' \<longrightarrow> mem st'' a = mem st' a \<Longrightarrow> free st' \<le> free st'' \<Longrightarrow>
      val st'' h = val st h"
    and "\<forall>a. a \<notin> fp st' h \<longrightarrow> mem st'' a = mem st' a \<Longrightarrow> free st' \<le> free st'' \<Longrightarrow>
      val st'' h' = val st h"
proof -
  note c = copies [OF assms]
  note k = kept [OF assms(1) c [THEN conjunct1]]
  show disjoint: "fp st' h' \<inter> fp st' h = {}"
    using c k footprint [OF assms(1)] by blast
  show "val st'' h = val st h"
    if "\<forall>a. a \<notin> fp st' h' \<longrightarrow> mem st'' a = mem st' a" "free st' \<le> free st''"
  proof -
    have "agree (fp st' h) st' st''"
      using that disjoint by (auto simp: agree_def)
    then show ?thesis
      using local [of st' h st''] k by simp
  qed
  show "val st'' h' = val st h"
    if "\<forall>a. a \<notin> fp st' h \<longrightarrow> mem st'' a = mem st' a" "free st' \<le> free st''"
  proof -
    have "agree (fp st' h') st' st''"
      using that disjoint by (auto simp: agree_def)
    then show ?thesis
      using local [of st' h' st''] c by simp
  qed
qed

end

subsection \<open>Values without pointers\<close>

interpretation plain: deep_copy Pair "\<lambda>_ _. True" "\<lambda>_ h. h" "\<lambda>_ _. {}"
  by unfold_locales auto

subsection \<open>Pointers\<close>

text \<open>The shape of every generated \<open>DeepCopy\<close>: nil for nil, else a new cell with a deep copy.\<close>

definition copyPtr ::
  "('h \<Rightarrow> 'c) \<Rightarrow> ('c \<Rightarrow> 'h) \<Rightarrow> ('h \<Rightarrow> 'c store \<Rightarrow> 'h \<times> 'c store) \<Rightarrow>
   addr option \<Rightarrow> 'c store \<Rightarrow> addr option \<times> 'c store" where
  "copyPtr mk get copy p st = (case p of
       None \<Rightarrow> (None, st)
     | Some a \<Rightarrow> (case copy (get (mem st a)) st of (h, st1) \<Rightarrow>
         (case new (mk h) st1 of (a', st2) \<Rightarrow> (Some a', st2))))"

definition ptr_ok ::
  "('h \<Rightarrow> 'c) \<Rightarrow> ('c store \<Rightarrow> 'h \<Rightarrow> bool) \<Rightarrow> 'c store \<Rightarrow> addr option \<Rightarrow> bool" where
  "ptr_ok mk ok st p = (case p of None \<Rightarrow> True
     | Some a \<Rightarrow> a < free st \<and> (\<exists>h. mem st a = mk h \<and> ok st h))"

definition ptr_val :: "('c \<Rightarrow> 'h) \<Rightarrow> ('c store \<Rightarrow> 'h \<Rightarrow> 'v) \<Rightarrow> 'c store \<Rightarrow> addr option \<Rightarrow> 'v option" where
  "ptr_val get val st p = map_option (\<lambda>a. val st (get (mem st a))) p"

definition ptr_fp :: "('c \<Rightarrow> 'h) \<Rightarrow> ('c store \<Rightarrow> 'h \<Rightarrow> addr set) \<Rightarrow> 'c store \<Rightarrow> addr option \<Rightarrow> addr set" where
  "ptr_fp get fp st p = (case p of None \<Rightarrow> {} | Some a \<Rightarrow> insert a (fp st (get (mem st a))))"

lemmas ptr_defs = ptr_ok_def ptr_val_def ptr_fp_def

locale pointer = deep_copy copy ok val fp
  for copy :: "'h \<Rightarrow> 'c store \<Rightarrow> 'h \<times> 'c store" and ok and val :: "'c store \<Rightarrow> 'h \<Rightarrow> 'v" and fp +
  fixes mk :: "'h \<Rightarrow> 'c" and get :: "'c \<Rightarrow> 'h"
  assumes get_mk: "get (mk h) = h"

sublocale pointer \<subseteq> ptr: deep_copy "copyPtr mk get copy" "ptr_ok mk ok" "ptr_val get val" "ptr_fp get fp"
proof
  fix st st' p
  assume "ptr_ok mk ok st p"
  then show "ptr_fp get fp st p \<subseteq> allocated st"
    using footprint by (fastforce simp: ptr_defs get_mk split: option.splits)
next
  fix st st' p
  assume ptr: "ptr_ok mk ok st p" "agree (ptr_fp get fp st p) st st'"
  show "ptr_ok mk ok st' p \<and> ptr_val get val st' p = ptr_val get val st p \<and>
      ptr_fp get fp st' p = ptr_fp get fp st p"
  proof (cases p)
    case (Some a)
    then obtain h where h: "mem st a = mk h" "ok st h" "a < free st"
      using ptr(1) by (auto simp: ptr_defs)
    then have m: "mem st' a = mk h" "agree (fp st h) st st'" "free st \<le> free st'"
      using ptr(2) Some by (auto simp: ptr_defs get_mk agree_def)
    show ?thesis
      using local [OF h(2) m(2)] m(1,3) h Some by (auto simp: ptr_defs get_mk)
  qed (simp add: ptr_defs)
next
  fix st st' p q
  assume p: "ptr_ok mk ok st p" "copyPtr mk get copy p st = (q, st')"
  show "extends st st' \<and> ptr_ok mk ok st' q \<and> ptr_val get val st' q = ptr_val get val st p \<and>
      ptr_fp get fp st' q \<inter> allocated st = {}"
  proof (cases p)
    case None
    then show ?thesis
      using p by (simp add: copyPtr_def ptr_defs)
  next
    case (Some a)
    then obtain h where h: "mem st a = mk h" "ok st h"
      using p(1) by (auto simp: ptr_defs)
    obtain h' st1 where copy: "copy h st = (h', st1)"
      by (cases "copy h st")
    obtain a' where a': "new (mk h') st1 = (a', st')" "q = Some a'"
      using p(2) Some h copy by (auto simp: copyPtr_def get_mk split: prod.splits)
    note c = copies [OF h(2) copy]
    note k = kept [OF _ extends_new [OF a'(1)], of h']
    show ?thesis
      using c k a'(2) new_cell [OF a'(1)] extends_trans [OF _ extends_new [OF a'(1)], of st] h Some
      by (auto simp: ptr_defs get_mk agree_def)
  qed
qed

subsection \<open>Several parts\<close>

definition copyBoth ::
  "('h \<Rightarrow> 'c store \<Rightarrow> 'h \<times> 'c store) \<Rightarrow> ('k \<Rightarrow> 'c store \<Rightarrow> 'k \<times> 'c store) \<Rightarrow>
   'h \<times> 'k \<Rightarrow> 'c store \<Rightarrow> ('h \<times> 'k) \<times> 'c store" where
  "copyBoth f g p st = (case f (fst p) st of (x, st1) \<Rightarrow>
     (case g (snd p) st1 of (y, st2) \<Rightarrow> ((x, y), st2)))"

definition both_ok ::
  "('c store \<Rightarrow> 'h \<Rightarrow> bool) \<Rightarrow> ('c store \<Rightarrow> 'k \<Rightarrow> bool) \<Rightarrow> 'c store \<Rightarrow> 'h \<times> 'k \<Rightarrow> bool" where
  "both_ok o1 o2 st p \<longleftrightarrow> o1 st (fst p) \<and> o2 st (snd p)"

definition both_val ::
  "('c store \<Rightarrow> 'h \<Rightarrow> 'v) \<Rightarrow> ('c store \<Rightarrow> 'k \<Rightarrow> 'w) \<Rightarrow> 'c store \<Rightarrow> 'h \<times> 'k \<Rightarrow> 'v \<times> 'w" where
  "both_val v1 v2 st p = (v1 st (fst p), v2 st (snd p))"

definition both_fp ::
  "('c store \<Rightarrow> 'h \<Rightarrow> addr set) \<Rightarrow> ('c store \<Rightarrow> 'k \<Rightarrow> addr set) \<Rightarrow> 'c store \<Rightarrow> 'h \<times> 'k \<Rightarrow> addr set" where
  "both_fp f1 f2 st p = f1 st (fst p) \<union> f2 st (snd p)"

lemmas both_defs = both_ok_def both_val_def both_fp_def

locale both = x: deep_copy copy1 ok1 val1 fp1 + y: deep_copy copy2 ok2 val2 fp2
  for copy1 :: "'h \<Rightarrow> 'c store \<Rightarrow> 'h \<times> 'c store" and ok1 and val1 :: "'c store \<Rightarrow> 'h \<Rightarrow> 'v" and fp1
    and copy2 :: "'k \<Rightarrow> 'c store \<Rightarrow> 'k \<times> 'c store" and ok2 and val2 :: "'c store \<Rightarrow> 'k \<Rightarrow> 'w" and fp2

sublocale both \<subseteq> both: deep_copy "copyBoth copy1 copy2" "both_ok ok1 ok2" "both_val val1 val2"
  "both_fp fp1 fp2"
proof
  fix st st' p
  assume "both_ok ok1 ok2 st p"
  then show "both_fp fp1 fp2 st p \<subseteq> allocated st"
    using x.footprint y.footprint by (auto simp: both_defs)
next
  fix st st' p
  assume p: "both_ok ok1 ok2 st p" "agree (both_fp fp1 fp2 st p) st st'"
  then have a: "agree (fp1 st (fst p)) st st'" "agree (fp2 st (snd p)) st st'"
    by (auto simp: both_defs agree_def)
  show "both_ok ok1 ok2 st' p \<and> both_val val1 val2 st' p = both_val val1 val2 st p \<and>
      both_fp fp1 fp2 st' p = both_fp fp1 fp2 st p"
    using x.local [OF _ a(1)] y.local [OF _ a(2)] p(1) by (simp add: both_defs)
next
  fix st st' p q
  assume p: "both_ok ok1 ok2 st p" "copyBoth copy1 copy2 p st = (q, st')"
  then have ok: "ok1 st (fst p)" "ok2 st (snd p)"
    by (auto simp: both_defs)
  obtain x st1 where x: "copy1 (fst p) st = (x, st1)"
    by (cases "copy1 (fst p) st")
  obtain y where y: "copy2 (snd p) st1 = (y, st')" "q = (x, y)"
    using p(2) x by (auto simp: copyBoth_def split: prod.splits)
  note c1 = x.copies [OF ok(1) x]
  note k2 = y.kept [OF ok(2) c1 [THEN conjunct1]]
  note c2 = y.copies [OF k2 [THEN conjunct1] y(1)]
  note k1 = x.kept [OF c1 [THEN conjunct2, THEN conjunct1] c2 [THEN conjunct1]]
  have "allocated st \<subseteq> allocated st1"
    using c1 by (auto simp: agree_def)
  then show "extends st st' \<and> both_ok ok1 ok2 st' q \<and> both_val val1 val2 st' q = both_val val1 val2 st p \<and>
      both_fp fp1 fp2 st' q \<inter> allocated st = {}"
    using c1 c2 k1 k2 y(2) extends_trans by (auto simp: both_defs)
qed

text \<open>A struct: its parts that hold pointers, and the rest, which the assignment copies.\<close>

locale struct = deep_copy copy ok val fp
  for copy :: "'p \<Rightarrow> 'c store \<Rightarrow> 'p \<times> 'c store" and ok and val :: "'c store \<Rightarrow> 'p \<Rightarrow> 'v" and fp +
  fixes parts :: "'h \<Rightarrow> 'p" and assign :: "'p \<Rightarrow> 'h \<Rightarrow> 'h" and build :: "'h \<Rightarrow> 'v \<Rightarrow> 'w"
    and into :: "'h \<Rightarrow> 'c store \<Rightarrow> 'h \<times> 'c store"
  assumes parts_assign: "parts (assign p h) = p" and build_assign: "build (assign p h) v = build h v"
    and into: "into h st = (case copy (parts h) st of (p, st1) \<Rightarrow> (assign p h, st1))"

sublocale struct \<subseteq> struct: deep_copy into "\<lambda>st h. ok st (parts h)"
  "\<lambda>st h. build h (val st (parts h))" "\<lambda>st h. fp st (parts h)"
proof
  fix st h assume "ok st (parts h)"
  then show "fp st (parts h) \<subseteq> allocated st"
    by (rule footprint)
next
  fix st st' h assume "ok st (parts h)" "agree (fp st (parts h)) st st'"
  from local [OF this] show "ok st' (parts h) \<and>
      build h (val st' (parts h)) = build h (val st (parts h)) \<and> fp st' (parts h) = fp st (parts h)"
    by simp
next
  fix st st' h h' assume h: "ok st (parts h)" "into h st = (h', st')"
  obtain p where "copy (parts h) st = (p, st')" "h' = assign p h"
    using h(2) by (auto simp: into split: prod.splits)
  then show "extends st st' \<and> ok st' (parts h') \<and>
      build h' (val st' (parts h')) = build h (val st (parts h)) \<and>
      fp st' (parts h') \<inter> allocated st = {}"
    using copies [OF h(1)] by (auto simp: parts_assign build_assign)
qed

subsection \<open>Elements\<close>

text \<open>The loop over the elements of a slice, or over the values of a map.\<close>

fun copyList :: "('h \<Rightarrow> 'c store \<Rightarrow> 'h \<times> 'c store) \<Rightarrow> 'h list \<Rightarrow> 'c store \<Rightarrow> 'h list \<times> 'c store" where
  "copyList f [] st = ([], st)"
| "copyList f (h # hs) st = (case f h st of (h', st1) \<Rightarrow>
     (case copyList f hs st1 of (hs', st2) \<Rightarrow> (h' # hs', st2)))"

context deep_copy
begin

lemma copyList_copies:
  "list_all (ok st) hs \<Longrightarrow> copyList copy hs st = (hs', st') \<Longrightarrow> extends st st' \<and> list_all (ok st') hs' \<and>
   map (val st') hs' = map (val st) hs \<and> (\<Union>h \<in> set hs'. fp st' h) \<inter> allocated st = {}"
proof (induction hs arbitrary: hs' st)
  case (Cons h hs)
  then have ok: "ok st h" "list_all (ok st) hs"
    by simp_all
  obtain x st1 where x: "copy h st = (x, st1)"
    by (cases "copy h st")
  obtain xs where xs: "copyList copy hs st1 = (xs, st')" "hs' = x # xs"
    using Cons(3) x by (auto split: prod.splits)
  note c1 = copies [OF ok(1) x]
  have k: "ok st1 h' \<and> val st1 h' = val st h'" if "h' \<in> set hs" for h'
    using that ok(2) kept c1 by (auto simp: list_all_iff)
  then have "list_all (ok st1) hs" "map (val st1) hs = map (val st) hs"
    by (simp_all add: list_all_iff)
  note c2 = Cons(1) [OF this(1) xs(1)]
  note k1 = kept [OF c1 [THEN conjunct2, THEN conjunct1] c2 [THEN conjunct1]]
  have "allocated st \<subseteq> allocated st1"
    using c1 by (auto simp: agree_def)
  then have "fp st' y \<inter> allocated st = {}" if "y \<in> set hs'" for y
    using that c1 c2 k1 xs(2) by auto
  moreover have "extends st st'"
    using c1 c2 extends_trans by blast
  ultimately show ?case
    using c1 c2 k1 xs(2) \<open>map (val st1) hs = map (val st) hs\<close> by auto
qed simp

lemma mapped: "deep_copy copy ok (\<lambda>st h. f (val st h)) fp"
proof
  fix st st' h assume "ok st h" "agree (fp st h) st st'"
  from local [OF this] show "ok st' h \<and> f (val st' h) = f (val st h) \<and> fp st' h = fp st h"
    by simp
next
  fix st st' h h' assume "ok st h" "copy h st = (h', st')"
  from copies [OF this] show "extends st st' \<and> ok st' h' \<and> f (val st' h') = f (val st h) \<and>
      fp st' h' \<inter> allocated st = {}"
    by simp
qed (rule footprint)

lemma list_copy:
  "deep_copy (copyList copy) (\<lambda>st. list_all (ok st)) (\<lambda>st. map (val st)) (\<lambda>st hs. \<Union>h \<in> set hs. fp st h)"
proof
  fix st hs assume "list_all (ok st) hs"
  then show "(\<Union>h \<in> set hs. fp st h) \<subseteq> allocated st"
    using footprint by (auto simp: list_all_iff)
next
  fix st st' hs assume hs: "list_all (ok st) hs" "agree (\<Union>h \<in> set hs. fp st h) st st'"
  have "ok st' h \<and> val st' h = val st h \<and> fp st' h = fp st h" if "h \<in> set hs" for h
  proof (rule local)
    show "agree (fp st h) st st'"
      using hs(2) that by (rule_tac agree_subset) auto
  qed (use hs(1) that in \<open>simp add: list_all_iff\<close>)
  then show "list_all (ok st') hs \<and> map (val st') hs = map (val st) hs \<and>
      (\<Union>h \<in> set hs. fp st' h) = (\<Union>h \<in> set hs. fp st h)"
    by (simp add: list_all_iff)
next
  fix st st' hs hs' assume "list_all (ok st) hs" "copyList copy hs st = (hs', st')"
  then show "extends st st' \<and> list_all (ok st') hs' \<and> map (val st') hs' = map (val st) hs \<and>
      (\<Union>h \<in> set hs'. fp st' h) \<inter> allocated st = {}"
    by (rule copyList_copies)
qed

end

subsection \<open>The closure properties as rules\<close>

context pointer
begin

lemma closed: "deep_copy (copyPtr mk get copy) (ptr_ok mk ok) (ptr_val get val) (ptr_fp get fp)"
  by unfold_locales

end

context both
begin

lemma closed: "deep_copy (copyBoth copy1 copy2) (both_ok ok1 ok2) (both_val val1 val2) (both_fp fp1 fp2)"
  by unfold_locales

end

context struct
begin

lemma closed: "deep_copy into (\<lambda>st h. ok st (parts h)) (\<lambda>st h. build h (val st (parts h)))
  (\<lambda>st h. fp st (parts h))"
  by unfold_locales

end

lemma deep_copy_ptr:
  "deep_copy copy ok val fp \<Longrightarrow> (\<And>h. get (mk h) = h) \<Longrightarrow>
   deep_copy (copyPtr mk get copy) (ptr_ok mk ok) (ptr_val get val) (ptr_fp get fp)"
  by (rule pointer.closed) (simp add: pointer_def pointer_axioms_def)

lemma deep_copy_both:
  "deep_copy copy1 ok1 val1 fp1 \<Longrightarrow> deep_copy copy2 ok2 val2 fp2 \<Longrightarrow>
   deep_copy (copyBoth copy1 copy2) (both_ok ok1 ok2) (both_val val1 val2) (both_fp fp1 fp2)"
  by (rule both.closed) (simp add: both_def)

lemma deep_copy_struct:
  "deep_copy copy ok val fp \<Longrightarrow> (\<And>p h. parts (assign p h) = p) \<Longrightarrow>
   (\<And>p h v. build (assign p h) v = build h v) \<Longrightarrow>
   (\<And>h st. into h st = (case copy (parts h) st of (p, st1) \<Rightarrow> (assign p h, st1))) \<Longrightarrow>
   deep_copy into (\<lambda>st h. ok st (parts h)) (\<lambda>st h. build h (val st (parts h))) (\<lambda>st h. fp st (parts h))"
  by (rule struct.closed [of copy _ _ _ parts assign build]) (simp add: struct_def struct_axioms_def)

end
