(* ===== verification/Deep_Copies.thy ===== *)
theory Deep_Copies
  imports Memory Api_Types
begin

text \<open>
  \<open>api/v1alpha1/zz_generated.deepcopy.go\<close> over an explicit memory. A struct with pointers has a
  record of its own here, in which a pointer, a map or a slice is an address (\<open>None\<close> is nil);
  \<open>DeepCopyInto\<close> takes the struct that \<open>in\<close> points to and returns the one that it leaves in
  \<open>out\<close>; \<open>DeepCopy\<close> takes and returns a pointer. The deep copies of metadata, times, conditions
  and JSON values come from the Kubernetes libraries: they are fields of the record \<open>copylib\<close>.
\<close>

subsection \<open>The structs in memory\<close>

record TfBackend_mem =
  Cloud_ptr :: "addr option"
  StorageAccount_ptr :: "addr option"

record TfRunSpec_mem =
  ForProvider_field :: TfProviderSpec
  RunInterval_ptr :: "addr option"
  Engine_field :: TfEngine
  Source_field :: TfSource
  Backend_field :: TfBackend_mem
  Arguments_ptr :: "addr option"
  Vars_ptr :: "addr option"

text \<open>The fields of a status that are plain values are those of the record \<open>TfRunStatus\<close>; its three
  fields for times and conditions are not used here.\<close>

record TfRunStatus_mem =
  Status_values :: TfRunStatus
  LastRunTime_ptr :: "addr option"
  NextRunTime_ptr :: "addr option"
  Conditions_ptr :: "addr option"

record TypeMeta =
  Kind :: string
  APIVersion :: string

record 'm TfRun_mem =
  TypeMeta_field :: TypeMeta
  ObjectMeta_field :: 'm
  Spec_field :: TfRunSpec_mem
  Status_field :: TfRunStatus_mem

record 'l TfRunList_mem =
  List_TypeMeta :: TypeMeta
  ListMeta_field :: 'l
  Items_ptr :: "addr option"

text \<open>What a cell may hold; \<open>CLib\<close> is for the cells of the libraries.\<close>

datatype ('m, 'l, 'j, 'x) cell =
    CCloud (theCloud: CloudBackend)
  | CStorage (theStorage: StorageAccountBackend)
  | CDuration (theDuration: Duration)
  | CBackend (theBackend: TfBackend_mem)
  | CEngine (theEngine: TfEngine)
  | CProvider (theProvider: TfProviderSpec)
  | CSource (theSource: TfSource)
  | CArguments (theArguments: "string gomap")
  | CVars (theVars: "addr option gomap")
  | CJson (theJson: 'j)
  | CTime (theTime: time)
  | CConditions (theConditions: "Condition list")
  | CSpec (theSpec: TfRunSpec_mem)
  | CStatus (theStatus: TfRunStatus_mem)
  | CRun (theRun: "'m TfRun_mem")
  | CRuns (theRuns: "'m TfRun_mem list")
  | CRunList (theRunList: "'l TfRunList_mem")
  | CLib (theLib: 'x)

type_synonym ('m, 'l, 'j, 'x) memory = "('m, 'l, 'j, 'x) cell store"

record ('m, 'l, 'j, 'x) copylib =
  ObjectMeta_DeepCopyInto :: "'m \<Rightarrow> ('m, 'l, 'j, 'x) memory \<Rightarrow> 'm \<times> ('m, 'l, 'j, 'x) memory"
  ListMeta_DeepCopyInto :: "'l \<Rightarrow> ('m, 'l, 'j, 'x) memory \<Rightarrow> 'l \<times> ('m, 'l, 'j, 'x) memory"
  JSON_DeepCopyInto :: "'j \<Rightarrow> ('m, 'l, 'j, 'x) memory \<Rightarrow> 'j \<times> ('m, 'l, 'j, 'x) memory"
  Time_DeepCopy :: "addr option \<Rightarrow> ('m, 'l, 'j, 'x) memory \<Rightarrow> addr option \<times> ('m, 'l, 'j, 'x) memory"
  Condition_DeepCopyInto :: "Condition \<Rightarrow> ('m, 'l, 'j, 'x) memory \<Rightarrow> Condition \<times> ('m, 'l, 'j, 'x) memory"

subsection \<open>Structs without pointers\<close>

text \<open>\<open>*out = *in\<close>\<close>

definition CloudBackend_DeepCopyInto :: "CloudBackend \<Rightarrow> 'c store \<Rightarrow> CloudBackend \<times> 'c store" where
  "CloudBackend_DeepCopyInto h st = (h, st)"

definition CloudBackend_DeepCopy where
  "CloudBackend_DeepCopy = copyPtr CCloud theCloud CloudBackend_DeepCopyInto"

definition Duration_DeepCopyInto :: "Duration \<Rightarrow> 'c store \<Rightarrow> Duration \<times> 'c store" where
  "Duration_DeepCopyInto h st = (let out = h; out = out\<lparr>Time := Time h\<rparr> in (out, st))"

definition Duration_DeepCopy where
  "Duration_DeepCopy = copyPtr CDuration theDuration Duration_DeepCopyInto"

definition StorageAccountBackend_DeepCopyInto ::
  "StorageAccountBackend \<Rightarrow> 'c store \<Rightarrow> StorageAccountBackend \<times> 'c store" where
  "StorageAccountBackend_DeepCopyInto h st = (h, st)"

definition StorageAccountBackend_DeepCopy where
  "StorageAccountBackend_DeepCopy = copyPtr CStorage theStorage StorageAccountBackend_DeepCopyInto"

definition TfEngine_DeepCopyInto :: "TfEngine \<Rightarrow> 'c store \<Rightarrow> TfEngine \<times> 'c store" where
  "TfEngine_DeepCopyInto h st = (h, st)"

definition TfEngine_DeepCopy where
  "TfEngine_DeepCopy = copyPtr CEngine theEngine TfEngine_DeepCopyInto"

definition TfProviderSpec_DeepCopyInto :: "TfProviderSpec \<Rightarrow> 'c store \<Rightarrow> TfProviderSpec \<times> 'c store" where
  "TfProviderSpec_DeepCopyInto h st = (h, st)"

definition TfProviderSpec_DeepCopy where
  "TfProviderSpec_DeepCopy = copyPtr CProvider theProvider TfProviderSpec_DeepCopyInto"

definition TfSource_DeepCopyInto :: "TfSource \<Rightarrow> 'c store \<Rightarrow> TfSource \<times> 'c store" where
  "TfSource_DeepCopyInto h st = (h, st)"

definition TfSource_DeepCopy where
  "TfSource_DeepCopy = copyPtr CSource theSource TfSource_DeepCopyInto"

subsection \<open>The backend\<close>

text \<open>\<open>*out = new(T); **out = **in\<close> for a pointer field that is not nil\<close>

definition TfBackend_DeepCopyInto ::
  "TfBackend_mem \<Rightarrow> ('m, 'l, 'j, 'x) memory \<Rightarrow> TfBackend_mem \<times> ('m, 'l, 'j, 'x) memory" where
  "TfBackend_DeepCopyInto h st =
     (let out = h in
      case (case Cloud_ptr h of None \<Rightarrow> (out, st)
        | Some a \<Rightarrow> (case new (CCloud (theCloud (mem st a))) st of
            (a', st) \<Rightarrow> (out\<lparr>Cloud_ptr := Some a'\<rparr>, st))) of (out, st) \<Rightarrow>
      (case StorageAccount_ptr h of None \<Rightarrow> (out, st)
        | Some a \<Rightarrow> (case new (CStorage (theStorage (mem st a))) st of
            (a', st) \<Rightarrow> (out\<lparr>StorageAccount_ptr := Some a'\<rparr>, st))))"

definition TfBackend_DeepCopy where
  "TfBackend_DeepCopy = copyPtr CBackend theBackend TfBackend_DeepCopyInto"

subsection \<open>The spec\<close>

text \<open>An assignment \<open>m[key] = val\<close> to a map.\<close>

definition mapSet :: "string \<Rightarrow> 'v \<Rightarrow> 'v gomap \<Rightarrow> 'v gomap" where
  "mapSet k v m = filter (\<lambda>(k', _). k' \<noteq> k) m @ [(k, v)]"

fun copyArguments :: "string gomap \<Rightarrow> string gomap \<Rightarrow> string gomap" where
  "copyArguments [] out = out"
| "copyArguments ((key, v) # rest) out = copyArguments rest (mapSet key v out)"

fun copyVars :: "('m, 'l, 'j, 'x) copylib \<Rightarrow> addr option gomap \<Rightarrow> addr option gomap \<Rightarrow>
  ('m, 'l, 'j, 'x) memory \<Rightarrow> addr option gomap \<times> ('m, 'l, 'j, 'x) memory" where
  "copyVars lib [] out st = (out, st)"
| "copyVars lib ((key, v) # rest) out st =
     (case v of
        None \<Rightarrow> copyVars lib rest (mapSet key None (mapSet key None out)) st
      | Some a \<Rightarrow>
         (case JSON_DeepCopyInto lib (theJson (mem st a)) st of (j, st) \<Rightarrow>
          (case new (CJson j) st of (a', st) \<Rightarrow>
            copyVars lib rest (mapSet key (Some a') out) st)))"

definition TfRunSpec_DeepCopyInto :: "('m, 'l, 'j, 'x) copylib \<Rightarrow>
  TfRunSpec_mem \<Rightarrow> ('m, 'l, 'j, 'x) memory \<Rightarrow> TfRunSpec_mem \<times> ('m, 'l, 'j, 'x) memory" where
  "TfRunSpec_DeepCopyInto lib h st =
     (let out = h; out = out\<lparr>ForProvider_field := ForProvider_field h\<rparr> in
      case (case RunInterval_ptr h of None \<Rightarrow> (out, st)
        | Some a \<Rightarrow> (case new (CDuration (theDuration (mem st a))) st of
            (a', st) \<Rightarrow> (out\<lparr>RunInterval_ptr := Some a'\<rparr>, st))) of (out, st) \<Rightarrow>
      let out = out\<lparr>Engine_field := Engine_field h, Source_field := Source_field h\<rparr> in
      case TfBackend_DeepCopyInto (Backend_field h) st of (b, st) \<Rightarrow>
      let out = out\<lparr>Backend_field := b\<rparr> in
      case (case Arguments_ptr h of None \<Rightarrow> (out, st)
        | Some a \<Rightarrow> (case new (CArguments (copyArguments (theArguments (mem st a)) [])) st of
            (a', st) \<Rightarrow> (out\<lparr>Arguments_ptr := Some a'\<rparr>, st))) of (out, st) \<Rightarrow>
      (case Vars_ptr h of None \<Rightarrow> (out, st)
        | Some a \<Rightarrow> (case copyVars lib (theVars (mem st a)) [] st of (m, st) \<Rightarrow>
            (case new (CVars m) st of (a', st) \<Rightarrow> (out\<lparr>Vars_ptr := Some a'\<rparr>, st)))))"

definition TfRunSpec_DeepCopy where
  "TfRunSpec_DeepCopy lib = copyPtr CSpec theSpec (TfRunSpec_DeepCopyInto lib)"

subsection \<open>The status\<close>

definition TfRunStatus_DeepCopyInto :: "('m, 'l, 'j, 'x) copylib \<Rightarrow>
  TfRunStatus_mem \<Rightarrow> ('m, 'l, 'j, 'x) memory \<Rightarrow> TfRunStatus_mem \<times> ('m, 'l, 'j, 'x) memory" where
  "TfRunStatus_DeepCopyInto lib h st =
     (let out = h in
      case (if LastRunTime_ptr h \<noteq> None then
          (case Time_DeepCopy lib (LastRunTime_ptr h) st of (p, st) \<Rightarrow> (out\<lparr>LastRunTime_ptr := p\<rparr>, st))
        else (out, st)) of (out, st) \<Rightarrow>
      case (if NextRunTime_ptr h \<noteq> None then
          (case Time_DeepCopy lib (NextRunTime_ptr h) st of (p, st) \<Rightarrow> (out\<lparr>NextRunTime_ptr := p\<rparr>, st))
        else (out, st)) of (out, st) \<Rightarrow>
      (case Conditions_ptr h of None \<Rightarrow> (out, st)
        | Some a \<Rightarrow> (case copyList (Condition_DeepCopyInto lib) (theConditions (mem st a)) st of (cs, st) \<Rightarrow>
            (case new (CConditions cs) st of (a', st) \<Rightarrow> (out\<lparr>Conditions_ptr := Some a'\<rparr>, st)))))"

definition TfRunStatus_DeepCopy where
  "TfRunStatus_DeepCopy lib = copyPtr CStatus theStatus (TfRunStatus_DeepCopyInto lib)"

subsection \<open>The resource and its list\<close>

definition TfRun_DeepCopyInto :: "('m, 'l, 'j, 'x) copylib \<Rightarrow>
  'm TfRun_mem \<Rightarrow> ('m, 'l, 'j, 'x) memory \<Rightarrow> 'm TfRun_mem \<times> ('m, 'l, 'j, 'x) memory" where
  "TfRun_DeepCopyInto lib h st =
     (let out = h; out = out\<lparr>TypeMeta_field := TypeMeta_field h\<rparr> in
      case ObjectMeta_DeepCopyInto lib (ObjectMeta_field h) st of (m, st) \<Rightarrow>
      case TfRunSpec_DeepCopyInto lib (Spec_field h) st of (s, st) \<Rightarrow>
      case TfRunStatus_DeepCopyInto lib (Status_field h) st of (t, st) \<Rightarrow>
        (out\<lparr>ObjectMeta_field := m, Spec_field := s, Status_field := t\<rparr>, st))"

definition TfRun_DeepCopy where
  "TfRun_DeepCopy lib = copyPtr CRun theRun (TfRun_DeepCopyInto lib)"

definition TfRunList_DeepCopyInto :: "('m, 'l, 'j, 'x) copylib \<Rightarrow>
  'l TfRunList_mem \<Rightarrow> ('m, 'l, 'j, 'x) memory \<Rightarrow> 'l TfRunList_mem \<times> ('m, 'l, 'j, 'x) memory" where
  "TfRunList_DeepCopyInto lib h st =
     (let out = h; out = out\<lparr>List_TypeMeta := List_TypeMeta h\<rparr> in
      case ListMeta_DeepCopyInto lib (ListMeta_field h) st of (m, st) \<Rightarrow>
      let out = out\<lparr>ListMeta_field := m\<rparr> in
      (case Items_ptr h of None \<Rightarrow> (out, st)
        | Some a \<Rightarrow> (case copyList (TfRun_DeepCopyInto lib) (theRuns (mem st a)) st of (rs, st) \<Rightarrow>
            (case new (CRuns rs) st of (a', st) \<Rightarrow> (out\<lparr>Items_ptr := Some a'\<rparr>, st)))))"

definition TfRunList_DeepCopy where
  "TfRunList_DeepCopy lib = copyPtr CRunList theRunList (TfRunList_DeepCopyInto lib)"

text \<open>\<open>DeepCopyObject\<close>: the copy as a \<open>runtime.Object\<close>, the nil interface for a nil pointer.\<close>

definition asObject :: "addr option \<times> 'c store \<Rightarrow> addr option \<times> 'c store" where
  "asObject r = (case r of (Some c, st) \<Rightarrow> (Some c, st) | (None, st) \<Rightarrow> (None, st))"

definition TfRun_DeepCopyObject where
  "TfRun_DeepCopyObject lib p st = asObject (TfRun_DeepCopy lib p st)"

definition TfRunList_DeepCopyObject where
  "TfRunList_DeepCopyObject lib p st = asObject (TfRunList_DeepCopy lib p st)"

end
