(* ===== verification/Deep_Copy_Laws.thy ===== *)
theory Deep_Copy_Laws
  imports Deep_Copies
begin

text \<open>
  The generated deep copies keep to the contract \<open>deep_copy\<close>, given that the library's do: the copy
  reads as the original and shares no cell with it. What a struct reads as is the record of
  \<open>Api_Types\<close>, on which the rest of the development works.
\<close>

subsection \<open>The backend\<close>

abbreviation anything :: "'c store \<Rightarrow> 'h \<Rightarrow> bool" where "anything st h \<equiv> True"
abbreviation itself :: "'c store \<Rightarrow> 'h \<Rightarrow> 'h" where "itself st h \<equiv> h"
abbreviation nowhere :: "'c store \<Rightarrow> 'h \<Rightarrow> addr set" where "nowhere st h \<equiv> {}"

lemma plain_copy: "deep_copy Pair anything itself nowhere"
  by unfold_locales

lemma plain_into [simp]:
  "CloudBackend_DeepCopyInto = Pair" "Duration_DeepCopyInto = Pair"
  "StorageAccountBackend_DeepCopyInto = Pair" "TfEngine_DeepCopyInto = Pair"
  "TfProviderSpec_DeepCopyInto = Pair" "TfSource_DeepCopyInto = Pair"
  by (simp_all add: fun_eq_iff CloudBackend_DeepCopyInto_def Duration_DeepCopyInto_def
      StorageAccountBackend_DeepCopyInto_def TfEngine_DeepCopyInto_def
      TfProviderSpec_DeepCopyInto_def TfSource_DeepCopyInto_def)

interpretation cloud: pointer CloudBackend_DeepCopyInto anything itself nowhere CCloud theCloud
  by unfold_locales auto

interpretation storage: pointer StorageAccountBackend_DeepCopyInto anything itself nowhere CStorage theStorage
  by unfold_locales auto

interpretation backend_parts: both
  "copyPtr CCloud theCloud CloudBackend_DeepCopyInto" "ptr_ok CCloud anything"
  "ptr_val theCloud itself" "ptr_fp theCloud nowhere"
  "copyPtr CStorage theStorage StorageAccountBackend_DeepCopyInto" "ptr_ok CStorage anything"
  "ptr_val theStorage itself" "ptr_fp theStorage nowhere"
  by unfold_locales

definition backend_parts :: "TfBackend_mem \<Rightarrow> addr option \<times> addr option" where
  "backend_parts h = (Cloud_ptr h, StorageAccount_ptr h)"

definition backend_assign :: "addr option \<times> addr option \<Rightarrow> TfBackend_mem \<Rightarrow> TfBackend_mem" where
  "backend_assign p h = h\<lparr>Cloud_ptr := fst p, StorageAccount_ptr := snd p\<rparr>"

definition backend_build :: "TfBackend_mem \<Rightarrow> CloudBackend option \<times> StorageAccountBackend option \<Rightarrow> TfBackend" where
  "backend_build h v = \<lparr>Cloud = fst v, StorageAccount = snd v\<rparr>"

lemmas backend_struct = backend_parts_def backend_assign_def backend_build_def

interpretation backend: struct
  "copyBoth (copyPtr CCloud theCloud CloudBackend_DeepCopyInto)
     (copyPtr CStorage theStorage StorageAccountBackend_DeepCopyInto)"
  "both_ok (ptr_ok CCloud anything) (ptr_ok CStorage anything)"
  "both_val (ptr_val theCloud itself) (ptr_val theStorage itself)"
  "both_fp (ptr_fp theCloud nowhere) (ptr_fp theStorage nowhere)"
  backend_parts backend_assign backend_build TfBackend_DeepCopyInto
proof unfold_locales
  fix h st
  show "TfBackend_DeepCopyInto h st =
    (case copyBoth (copyPtr CCloud theCloud CloudBackend_DeepCopyInto)
        (copyPtr CStorage theStorage StorageAccountBackend_DeepCopyInto) (backend_parts h) st of
       (p, st1) \<Rightarrow> (backend_assign p h, st1))"
    by (cases h) (simp add: TfBackend_DeepCopyInto_def copyBoth_def copyPtr_def backend_struct
        split: option.split prod.split)
qed (simp_all add: backend_struct)

subsection \<open>The maps\<close>

lemma mapSet_new: "k \<notin> fst ` set m \<Longrightarrow> mapSet k v m = m @ [(k, v)]"
  unfolding mapSet_def by (induction m) auto

lemma copyArguments_append: "gomap_ok (out @ xs) \<Longrightarrow> copyArguments xs out = out @ xs"
  by (induction xs out rule: copyArguments.induct) (auto simp: gomap_ok_def mapSet_new)

lemma arguments_copy:
  "deep_copy (\<lambda>xs st. (copyArguments xs [], st)) (\<lambda>_ xs. gomap_ok xs) itself nowhere"
  by unfold_locales (auto simp: copyArguments_append)

text \<open>The loop over the variables copies the pointers in order; the keys stay.\<close>

lemma copyVars_list:
  "gomap_ok (out @ xs) \<Longrightarrow> copyVars lib xs out st =
    (case copyList (copyPtr CJson theJson (JSON_DeepCopyInto lib)) (map snd xs) st of
       (ps, st') \<Rightarrow> (out @ zip (map fst xs) ps, st'))"
proof (induction lib xs out st rule: copyVars.induct)
  case (2 lib key v rest out st)
  have new_key: "key \<notin> fst ` set out"
    using 2(3) by (auto simp: gomap_ok_def)
  have ok: "gomap_ok ((out @ [(key, p)]) @ rest)" for p :: "addr option"
    using 2(3) by (simp add: gomap_ok_def)
  have again: "mapSet key None (out @ [(key, None)]) = out @ [(key, None)]"
    using new_key unfolding mapSet_def by (induction out) auto
  show ?case
  proof (cases v)
    case None
    then show ?thesis
      using 2(1) [OF None] ok new_key again
      by (simp add: mapSet_new copyPtr_def split: prod.split)
  next
    case (Some a)
    obtain j st1 where j: "JSON_DeepCopyInto lib (theJson (mem st a)) st = (j, st1)"
      by (cases "JSON_DeepCopyInto lib (theJson (mem st a)) st")
    obtain a' st2 where a': "new (CJson j) st1 = (a', st2)"
      by (cases "new (CJson j) st1")
    show ?thesis
      using 2(2) [OF Some j [symmetric] a' [symmetric]] ok new_key Some j a'
      by (simp add: mapSet_new copyPtr_def split: prod.split)
  qed
qed simp

definition vars_ok where
  "vars_ok okj st xs \<longleftrightarrow> gomap_ok xs \<and> list_all (ptr_ok CJson okj st) (map snd xs)"

definition vars_val where
  "vars_val valj st xs = zip (map fst xs) (map (ptr_val theJson valj st) (map snd xs))"

definition vars_fp where
  "vars_fp fpj st xs = (\<Union>p \<in> set (map snd xs). ptr_fp theJson fpj st p)"

lemma vars_copy:
  fixes lib :: "('m, 'l, 'j, 'x) copylib"
  assumes "deep_copy (JSON_DeepCopyInto lib) okj valj fpj"
  shows "deep_copy (\<lambda>xs. copyVars lib xs []) (vars_ok okj) (vars_val valj) (vars_fp fpj)"
proof -
  note l = deep_copy.list_copy [OF deep_copy_ptr [where mk = CJson and get = theJson, OF assms cell.sel(10)]]
  show ?thesis
  proof
    fix st xs assume "vars_ok okj st xs"
    then show "vars_fp fpj st xs \<subseteq> allocated st"
      using deep_copy.footprint [OF l, of st "map snd xs"] by (simp add: vars_ok_def vars_fp_def)
  next
    fix st st' xs assume "vars_ok okj st xs" "agree (vars_fp fpj st xs) st st'"
    then show "vars_ok okj st' xs \<and> vars_val valj st' xs = vars_val valj st xs \<and>
        vars_fp fpj st' xs = vars_fp fpj st xs"
      using deep_copy.local [OF l, of st "map snd xs" st']
      by (simp add: vars_ok_def vars_val_def vars_fp_def del: map_map map_eq_conv)
  next
    fix st st' xs xs' assume xs: "vars_ok okj st xs" "copyVars lib xs [] st = (xs', st')"
    then obtain ps where ps: "copyList (copyPtr CJson theJson (JSON_DeepCopyInto lib)) (map snd xs) st =
        (ps, st')" "xs' = zip (map fst xs) ps"
      using copyVars_list [of "[]" xs lib st] by (auto simp: vars_ok_def split: prod.splits)
    note c = deep_copy.copies [OF l _ ps(1)]
    have "list_all (ptr_ok CJson okj st) (map snd xs)"
      using xs(1) by (simp add: vars_ok_def)
    note c = c [OF this]
    then have "length ps = length xs"
      by (metis length_map)
    then have "map fst xs' = map fst xs" "map snd xs' = ps"
      using ps(2) by simp_all
    then show "extends st st' \<and> vars_ok okj st' xs' \<and> vars_val valj st' xs' = vars_val valj st xs \<and>
        vars_fp fpj st' xs' \<inter> allocated st = {}"
      using c xs(1) by (simp add: vars_ok_def vars_val_def vars_fp_def gomap_ok_def)
  qed
qed

subsection \<open>The spec\<close>

definition spec_parts where
  "spec_parts h = (RunInterval_ptr h, Backend_field h, Arguments_ptr h, Vars_ptr h)"

definition spec_assign where
  "spec_assign p h = (case p of (ri, b, args, vars) \<Rightarrow>
     h\<lparr>RunInterval_ptr := ri, Backend_field := b, Arguments_ptr := args, Vars_ptr := vars\<rparr>)"

definition spec_build ::
  "TfRunSpec_mem \<Rightarrow> Duration option \<times> TfBackend \<times> string gomap option \<times> json option gomap option \<Rightarrow>
   TfRunSpec" where
  "spec_build h v = (case v of (ri, b, args, vars) \<Rightarrow>
     \<lparr>ForProvider = ForProvider_field h, RunInterval = ri, Engine = Engine_field h,
      Source = Source_field h, Backend = b, Arguments = args, Vars = vars\<rparr>)"

lemmas spec_struct = spec_parts_def spec_assign_def spec_build_def

abbreviation backend_ok where
  "backend_ok st h \<equiv> both_ok (ptr_ok CCloud anything) (ptr_ok CStorage anything) st (backend_parts h)"
abbreviation backend_val where
  "backend_val st h \<equiv> backend_build h
     (both_val (ptr_val theCloud itself) (ptr_val theStorage itself) st (backend_parts h))"
abbreviation backend_fp where
  "backend_fp st h \<equiv> both_fp (ptr_fp theCloud nowhere) (ptr_fp theStorage nowhere) st (backend_parts h)"

definition spec_parts_copy where
  "spec_parts_copy lib = copyBoth (copyPtr CDuration theDuration Duration_DeepCopyInto)
     (copyBoth TfBackend_DeepCopyInto
       (copyBoth (copyPtr CArguments theArguments (\<lambda>xs st. (copyArguments xs [], st)))
         (copyPtr CVars theVars (\<lambda>xs. copyVars lib xs []))))"

definition spec_ok where
  "spec_ok okj st h \<longleftrightarrow> both_ok (ptr_ok CDuration anything) (both_ok backend_ok
     (both_ok (ptr_ok CArguments (\<lambda>_ xs. gomap_ok xs)) (ptr_ok CVars (vars_ok okj)))) st (spec_parts h)"

definition spec_val where
  "spec_val valj st h = spec_build h (both_val (ptr_val theDuration itself) (both_val backend_val
     (both_val (ptr_val theArguments itself) (ptr_val theVars (vars_val valj)))) st (spec_parts h))"

definition spec_fp where
  "spec_fp fpj st h = both_fp (ptr_fp theDuration nowhere) (both_fp backend_fp
     (both_fp (ptr_fp theArguments nowhere) (ptr_fp theVars (vars_fp fpj)))) st (spec_parts h)"

lemma spec_copy:
  assumes "deep_copy (JSON_DeepCopyInto lib) okj valj fpj"
  shows "deep_copy (TfRunSpec_DeepCopyInto lib) (spec_ok okj) (spec_val valj) (spec_fp fpj)"
proof -
  have "deep_copy (spec_parts_copy lib)
      (both_ok (ptr_ok CDuration anything) (both_ok backend_ok
        (both_ok (ptr_ok CArguments (\<lambda>_ xs. gomap_ok xs)) (ptr_ok CVars (vars_ok okj)))))
      (both_val (ptr_val theDuration itself) (both_val backend_val
        (both_val (ptr_val theArguments itself) (ptr_val theVars (vars_val valj)))))
      (both_fp (ptr_fp theDuration nowhere) (both_fp backend_fp
        (both_fp (ptr_fp theArguments nowhere) (ptr_fp theVars (vars_fp fpj)))))"
    unfolding spec_parts_copy_def plain_into
    by (intro deep_copy_both deep_copy_ptr plain_copy backend.closed arguments_copy
        vars_copy [OF assms]) simp_all
  then show ?thesis
    unfolding spec_ok_def spec_val_def spec_fp_def
  proof (rule deep_copy_struct [where assign = spec_assign])
    fix h :: TfRunSpec_mem and st
    show "TfRunSpec_DeepCopyInto lib h st =
        (case spec_parts_copy lib (spec_parts h) st of (p, st1) \<Rightarrow> (spec_assign p h, st1))"
      by (cases h) (simp add: TfRunSpec_DeepCopyInto_def spec_parts_copy_def copyBoth_def copyPtr_def
          spec_struct Let_def split: option.split prod.split)
  qed (simp_all add: spec_struct split: prod.splits)
qed

subsection \<open>The status\<close>

text \<open>What the program relies on of the library's deep copies, as they are documented: each keeps
  to the contract; times and conditions hold no pointers of their own.\<close>

definition copylib_ok where
  "copylib_ok lib okm valm fpm okl vall fpl okj valj fpj \<longleftrightarrow>
     deep_copy (ObjectMeta_DeepCopyInto lib) okm valm fpm \<and>
     deep_copy (ListMeta_DeepCopyInto lib) okl vall fpl \<and>
     deep_copy (JSON_DeepCopyInto lib) okj valj fpj \<and>
     deep_copy (Time_DeepCopy lib) (ptr_ok CTime anything) (ptr_val theTime itself) (ptr_fp theTime nowhere) \<and>
     (\<forall>st. Time_DeepCopy lib None st = (None, st)) \<and>
     deep_copy (Condition_DeepCopyInto lib) anything itself nowhere"

definition status_parts where
  "status_parts h = (LastRunTime_ptr h, NextRunTime_ptr h, Conditions_ptr h)"

definition status_assign where
  "status_assign p h = (case p of (lastRun, nextRun, cs) \<Rightarrow>
     h\<lparr>LastRunTime_ptr := lastRun, NextRunTime_ptr := nextRun, Conditions_ptr := cs\<rparr>)"

definition status_build ::
  "TfRunStatus_mem \<Rightarrow> time option \<times> time option \<times> Condition list option \<Rightarrow> TfRunStatus" where
  "status_build h v = (case v of (lastRun, nextRun, cs) \<Rightarrow> (Status_values h)\<lparr>LastRunTime := lastRun,
     NextRunTime := nextRun, Conditions := (case cs of None \<Rightarrow> [] | Some cs \<Rightarrow> cs)\<rparr>)"

lemmas status_struct = status_parts_def status_assign_def status_build_def

definition status_parts_copy where
  "status_parts_copy lib = copyBoth (Time_DeepCopy lib) (copyBoth (Time_DeepCopy lib)
     (copyPtr CConditions theConditions (copyList (Condition_DeepCopyInto lib))))"

definition status_ok where
  "status_ok st h \<longleftrightarrow> both_ok (ptr_ok CTime anything) (both_ok (ptr_ok CTime anything)
     (ptr_ok CConditions (\<lambda>st. list_all (anything st)))) st (status_parts h)"

definition status_val where
  "status_val st h = status_build h (both_val (ptr_val theTime itself) (both_val (ptr_val theTime itself)
     (ptr_val theConditions (\<lambda>st. map (itself st)))) st (status_parts h))"

definition status_fp where
  "status_fp st h = both_fp (ptr_fp theTime nowhere) (both_fp (ptr_fp theTime nowhere)
     (ptr_fp theConditions (\<lambda>st hs. \<Union>h \<in> set hs. nowhere st h))) st (status_parts h)"

lemma status_copy:
  assumes "copylib_ok lib okm valm fpm okl vall fpl okj valj fpj"
  shows "deep_copy (TfRunStatus_DeepCopyInto lib) status_ok status_val status_fp"
proof -
  have time: "deep_copy (Time_DeepCopy lib) (ptr_ok CTime anything) (ptr_val theTime itself) (ptr_fp theTime nowhere)"
      and nil: "\<And>st. Time_DeepCopy lib None st = (None, st)"
      and cond: "deep_copy (Condition_DeepCopyInto lib) anything itself nowhere"
    using assms by (simp_all add: copylib_ok_def)
  have "deep_copy (status_parts_copy lib)
      (both_ok (ptr_ok CTime anything) (both_ok (ptr_ok CTime anything)
        (ptr_ok CConditions (\<lambda>st. list_all (anything st)))))
      (both_val (ptr_val theTime itself) (both_val (ptr_val theTime itself)
        (ptr_val theConditions (\<lambda>st. map (itself st)))))
      (both_fp (ptr_fp theTime nowhere) (both_fp (ptr_fp theTime nowhere)
        (ptr_fp theConditions (\<lambda>st hs. \<Union>h \<in> set hs. nowhere st h))))"
    unfolding status_parts_copy_def
    by (rule deep_copy_both [OF time deep_copy_both [OF time
          deep_copy_ptr [OF deep_copy.list_copy [OF cond] cell.sel(12)]]])
  then show ?thesis
    unfolding status_ok_def status_val_def status_fp_def
  proof (rule deep_copy_struct [where assign = status_assign])
    fix h :: TfRunStatus_mem and st
    show "TfRunStatus_DeepCopyInto lib h st =
        (case status_parts_copy lib (status_parts h) st of (p, st1) \<Rightarrow> (status_assign p h, st1))"
      by (cases "LastRunTime_ptr h"; cases "NextRunTime_ptr h"; cases "Conditions_ptr h")
        (cases h; simp add: TfRunStatus_DeepCopyInto_def status_parts_copy_def copyBoth_def
          copyPtr_def status_struct nil Let_def split: prod.split)+
  qed (simp_all add: status_struct split: prod.splits)
qed

subsection \<open>The resource\<close>

definition run_parts where
  "run_parts h = (ObjectMeta_field h, Spec_field h, Status_field h)"

definition run_assign where
  "run_assign p h = (case p of (m, s, t) \<Rightarrow>
     h\<lparr>ObjectMeta_field := m, Spec_field := s, Status_field := t\<rparr>)"

definition run_build where
  "run_build h v = (TypeMeta_field h, v)"

lemmas run_struct = run_parts_def run_assign_def run_build_def

definition run_parts_copy where
  "run_parts_copy lib = copyBoth (ObjectMeta_DeepCopyInto lib)
     (copyBoth (TfRunSpec_DeepCopyInto lib) (TfRunStatus_DeepCopyInto lib))"

definition run_ok where
  "run_ok okm okj st h \<longleftrightarrow> both_ok okm (both_ok (spec_ok okj) status_ok) st (run_parts h)"

text \<open>What a TfRun in memory reads as: its type, its metadata, its spec and its status.\<close>

definition run_val where
  "run_val valm valj st h = run_build h (both_val valm (both_val (spec_val valj) status_val) st (run_parts h))"

definition run_fp where
  "run_fp fpm fpj st h = both_fp fpm (both_fp (spec_fp fpj) status_fp) st (run_parts h)"

lemma run_copy:
  assumes "copylib_ok lib okm valm fpm okl vall fpl okj valj fpj"
  shows "deep_copy (TfRun_DeepCopyInto lib) (run_ok okm okj) (run_val valm valj) (run_fp fpm fpj)"
proof -
  have meta: "deep_copy (ObjectMeta_DeepCopyInto lib) okm valm fpm"
      and json: "deep_copy (JSON_DeepCopyInto lib) okj valj fpj"
    using assms by (simp_all add: copylib_ok_def)
  have "deep_copy (run_parts_copy lib) (both_ok okm (both_ok (spec_ok okj) status_ok))
      (both_val valm (both_val (spec_val valj) status_val)) (both_fp fpm (both_fp (spec_fp fpj) status_fp))"
    unfolding run_parts_copy_def
    by (rule deep_copy_both [OF meta deep_copy_both [OF spec_copy [OF json] status_copy [OF assms]]])
  then show ?thesis
    unfolding run_ok_def run_val_def run_fp_def
  proof (rule deep_copy_struct [where assign = run_assign])
    fix h :: "'a TfRun_mem" and st
    show "TfRun_DeepCopyInto lib h st =
        (case run_parts_copy lib (run_parts h) st of (p, st1) \<Rightarrow> (run_assign p h, st1))"
      by (cases h) (simp add: TfRun_DeepCopyInto_def run_parts_copy_def copyBoth_def run_struct Let_def
          split: prod.split)
  qed (simp_all add: run_struct split: prod.splits)
qed

definition runlist_parts where
  "runlist_parts h = (ListMeta_field h, Items_ptr h)"

definition runlist_assign where
  "runlist_assign p h = h\<lparr>ListMeta_field := fst p, Items_ptr := snd p\<rparr>"

definition runlist_build where
  "runlist_build h v = (List_TypeMeta h, v)"

lemmas runlist_struct = runlist_parts_def runlist_assign_def runlist_build_def

definition runlist_parts_copy where
  "runlist_parts_copy lib = copyBoth (ListMeta_DeepCopyInto lib)
     (copyPtr CRuns theRuns (copyList (TfRun_DeepCopyInto lib)))"

definition runlist_ok where
  "runlist_ok okm okl okj st h \<longleftrightarrow>
     both_ok okl (ptr_ok CRuns (\<lambda>st. list_all (run_ok okm okj st))) st (runlist_parts h)"

definition runlist_val where
  "runlist_val valm vall valj st h = runlist_build h
     (both_val vall (ptr_val theRuns (\<lambda>st. map (run_val valm valj st))) st (runlist_parts h))"

definition runlist_fp where
  "runlist_fp fpm fpl fpj st h =
     both_fp fpl (ptr_fp theRuns (\<lambda>st hs. \<Union>h \<in> set hs. run_fp fpm fpj st h)) st (runlist_parts h)"

lemma runlist_copy:
  assumes "copylib_ok lib okm valm fpm okl vall fpl okj valj fpj"
  shows "deep_copy (TfRunList_DeepCopyInto lib) (runlist_ok okm okl okj) (runlist_val valm vall valj)
    (runlist_fp fpm fpl fpj)"
proof -
  have meta: "deep_copy (ListMeta_DeepCopyInto lib) okl vall fpl"
    using assms by (simp add: copylib_ok_def)
  have "deep_copy (runlist_parts_copy lib)
      (both_ok okl (ptr_ok CRuns (\<lambda>st. list_all (run_ok okm okj st))))
      (both_val vall (ptr_val theRuns (\<lambda>st. map (run_val valm valj st))))
      (both_fp fpl (ptr_fp theRuns (\<lambda>st hs. \<Union>h \<in> set hs. run_fp fpm fpj st h)))"
    unfolding runlist_parts_copy_def
    by (rule deep_copy_both [OF meta deep_copy_ptr [OF deep_copy.list_copy [OF run_copy [OF assms]]
          cell.sel(16)]])
  then show ?thesis
    unfolding runlist_ok_def runlist_val_def runlist_fp_def
  proof (rule deep_copy_struct [where assign = runlist_assign])
    fix h :: "'b TfRunList_mem" and st
    show "TfRunList_DeepCopyInto lib h st =
        (case runlist_parts_copy lib (runlist_parts h) st of (p, st1) \<Rightarrow> (runlist_assign p h, st1))"
      by (cases h) (simp add: TfRunList_DeepCopyInto_def runlist_parts_copy_def copyBoth_def copyPtr_def
          runlist_struct Let_def split: prod.split option.split)
  qed (simp_all add: runlist_struct split: prod.splits)
qed

subsection \<open>Independence\<close>

text \<open>
  What a caller relies on: the copy reads as the original, no cell that was there before has
  changed, the two share no cell, and whatever is written through one of them later leaves
  what the other reads as.
\<close>

definition independent_copy where
  "independent_copy copy ok val fp \<longleftrightarrow> (\<forall>st p q st'. ok st p \<longrightarrow> copy p st = (q, st') \<longrightarrow>
     val st' q = val st p \<and> (\<forall>a \<in> allocated st. mem st' a = mem st a) \<and> fp st' q \<inter> fp st' p = {} \<and>
     (\<forall>st''. free st' \<le> free st'' \<longrightarrow>
        ((\<forall>a. a \<notin> fp st' q \<longrightarrow> mem st'' a = mem st' a) \<longrightarrow> val st'' p = val st p) \<and>
        ((\<forall>a. a \<notin> fp st' p \<longrightarrow> mem st'' a = mem st' a) \<longrightarrow> val st'' q = val st p)))"

context deep_copy
begin

lemma independent_copy: "independent_copy copy ok val fp"
  unfolding independent_copy_def using copies independent by (fastforce simp: agree_def)

end

lemma asObject_id [simp]: "asObject r = r"
  by (auto simp: asObject_def split: prod.split option.split)

text \<open>C27: The generated deep copies of a TfRun and of a list of TfRuns, given that those of the library
  keep to their contract: the copy reads as the original (type, metadata, every field of spec
  and status, nil where the original is nil), nothing that existed is written to, the two
  share no memory, and later writes through the one are not seen through the other. So the
  controller may change the object that it got from the cache of the client.\<close>

theorem deep_copies_independent:
  assumes "copylib_ok lib okm valm fpm okl vall fpl okj valj fpj"
  shows "independent_copy (TfRun_DeepCopyObject lib) (ptr_ok CRun (run_ok okm okj))
      (ptr_val theRun (run_val valm valj)) (ptr_fp theRun (run_fp fpm fpj)) \<and>
    independent_copy (TfRunList_DeepCopyObject lib) (ptr_ok CRunList (runlist_ok okm okl okj))
      (ptr_val theRunList (runlist_val valm vall valj)) (ptr_fp theRunList (runlist_fp fpm fpl fpj))"
proof -
  have "TfRun_DeepCopyObject lib = copyPtr CRun theRun (TfRun_DeepCopyInto lib)"
      "TfRunList_DeepCopyObject lib = copyPtr CRunList theRunList (TfRunList_DeepCopyInto lib)"
    by (simp_all add: fun_eq_iff TfRun_DeepCopyObject_def TfRunList_DeepCopyObject_def
        TfRun_DeepCopy_def TfRunList_DeepCopy_def)
  then show ?thesis
    using deep_copy.independent_copy [OF deep_copy_ptr [OF run_copy [OF assms] cell.sel(15)]]
      deep_copy.independent_copy [OF deep_copy_ptr [OF runlist_copy [OF assms] cell.sel(17)]]
    by simp
qed

text \<open>A library whose metadata is a plain name and whose JSON values are slices of bytes.\<close>

definition plainLib :: "(string, string, addr option, string) copylib" where
  "plainLib = \<lparr>ObjectMeta_DeepCopyInto = Pair, ListMeta_DeepCopyInto = Pair,
     JSON_DeepCopyInto = copyPtr CLib theLib Pair, Time_DeepCopy = copyPtr CTime theTime Pair,
     Condition_DeepCopyInto = Pair\<rparr>"

definition bytes_val :: "(string, string, addr option, string) memory \<Rightarrow> addr option \<Rightarrow> json" where
  "bytes_val st p = (case ptr_val theLib itself st p of None \<Rightarrow> '''' | Some raw \<Rightarrow> raw)"

lemma bytes_copy: "deep_copy (copyPtr CLib theLib Pair) (ptr_ok CLib anything) bytes_val (ptr_fp theLib nowhere)"
proof -
  have "deep_copy (copyPtr CLib theLib Pair) (ptr_ok CLib anything) (ptr_val theLib itself)
      (ptr_fp theLib nowhere)"
    by (intro deep_copy_ptr plain_copy) simp
  from deep_copy.mapped [OF this, of "\<lambda>v. case v of None \<Rightarrow> '''' | Some raw \<Rightarrow> raw"] show ?thesis
    by (simp add: bytes_val_def [abs_def])
qed

lemma plainLib_ok: "copylib_ok plainLib anything itself nowhere anything itself nowhere
  (ptr_ok CLib anything) bytes_val (ptr_fp theLib nowhere)"
proof -
  have "deep_copy (copyPtr CTime theTime Pair) (ptr_ok CTime anything) (ptr_val theTime itself)
      (ptr_fp theTime nowhere)"
    by (intro deep_copy_ptr plain_copy) simp
  then show ?thesis
    by (simp add: copylib_ok_def plainLib_def plain_copy bytes_copy) (simp add: copyPtr_def)
qed

definition heapRun :: "string TfRun_mem" where
  "heapRun = \<lparr>TypeMeta_field = \<lparr>Kind = ''TfRun'', APIVersion = ''v1alpha1''\<rparr>, ObjectMeta_field = ''net'',
     Spec_field = \<lparr>ForProvider_field = \<lparr>Provider_CredentialsSecretRef = ''scalr-token''\<rparr>,
       RunInterval_ptr = None, Engine_field = \<lparr>Engine_Type = '''', Engine_Version = ''''\<rparr>,
       Source_field = \<lparr>Module = ''m'', Ref = '''', Path = '''', Source_CredentialsSecretRef = ''''\<rparr>,
       Backend_field = \<lparr>Cloud_ptr = None, StorageAccount_ptr = None\<rparr>,
       Arguments_ptr = None, Vars_ptr = Some 2\<rparr>,
     Status_field = \<lparr>Status_values = \<lparr>ObservedGeneration = 0, Phase = '''', ActiveJobName = '''',
         ActiveDestroyJobName = '''', WorkspaceID = '''', WorkspaceReady = False,
         WorkspaceImport = False, RunID = '''', LastSpecHash = '''', PendingExecHash = '''',
         PendingReason = '''', LastRunTime = None, NextRunTime = None, Message = '''',
         Conditions = []\<rparr>,
       LastRunTime_ptr = None, NextRunTime_ptr = Some 4, Conditions_ptr = None\<rparr>\<rparr>"

definition heapStore :: "(string, string, addr option, string) memory" where
  "heapStore = \<lparr>mem = (\<lambda>a. if a = 0 then CLib ''true'' else if a = 1 then CJson (Some 0)
     else if a = 2 then CVars [(''debug'', Some 1)] else if a = 3 then CRun heapRun else CTime 7),
     free = 5\<rparr>"

theorem deep_copies_independent_witness:
  "\<exists>q st'. TfRun_DeepCopyObject plainLib (Some 3) heapStore = (q, st') \<and>
    map_option (\<lambda>v. Vars (fst (snd (snd v)))) (ptr_val theRun (run_val itself bytes_val) st' q) =
      Some (Some [(''debug'', Some ''true'')]) \<and>
    ptr_fp theRun (run_fp nowhere (ptr_fp theLib nowhere)) st' q \<inter>
      ptr_fp theRun (run_fp nowhere (ptr_fp theLib nowhere)) st' (Some 3) = {}"
proof -
  obtain q st' where copy: "TfRun_DeepCopyObject plainLib (Some 3) heapStore = (q, st')"
    by fastforce
  have ok: "ptr_ok CRun (run_ok anything (ptr_ok CLib anything)) heapStore (Some 3)"
    by (simp add: ptr_ok_def run_ok_def both_ok_def run_parts_def spec_ok_def spec_parts_def
        status_ok_def status_parts_def backend_parts_def vars_ok_def gomap_ok_def heapStore_def heapRun_def)
  have val: "map_option (\<lambda>v. Vars (fst (snd (snd v))))
      (ptr_val theRun (run_val itself bytes_val) heapStore (Some 3)) = Some (Some [(''debug'', Some ''true'')])"
    by (simp add: ptr_val_def run_val_def both_val_def run_parts_def run_build_def spec_val_def
        spec_parts_def spec_build_def vars_val_def bytes_val_def heapStore_def heapRun_def)
  show ?thesis
    using deep_copies_independent [OF plainLib_ok, THEN conjunct1, unfolded independent_copy_def,
        rule_format, OF ok copy] copy val by auto
qed

end
