(* ===== verification/Cluster_Runs.thy ===== *)
theory Cluster_Runs
  imports Controller Cluster
begin

text \<open>
  The program on the reference cluster: programs that return there, what they leave, and
  rounds, that is a reconciliation followed by the progress of the Jobs. The lemmas hold for
  every cluster that answers as \<open>Cluster\<close> does in all but HTTP (locale \<open>api_server\<close>); it has
  two instances, scripted replies and a remote API that is always up.
\<close>

subsection \<open>Programs that return on a world\<close>

definition yields :: "('w, 'e, 'a) prog \<Rightarrow> 'w \<Rightarrow> 'a \<Rightarrow> 'w \<Rightarrow> bool" where
  "yields m w x w' \<longleftrightarrow> (\<exists>es. m w = (Ret x, es, w'))"

lemma yields_ret [simp]: "yields (ret x) w y w' \<longleftrightarrow> y = x \<and> w' = w"
  by (auto simp: yields_def run_simps)

lemma yields_retI: "yields (ret x) w x w"
  by simp

lemma yields_call: "f w = (x, w') \<Longrightarrow> yields (call f ev) w x w'"
  by (simp add: yields_def run_simps)

lemma yields_andThen: "yields m w x w' \<Longrightarrow> yields (f x) w' y w'' \<Longrightarrow> yields (andThen m f) w y w''"
  by (auto simp: yields_def run_simps)

lemma yields_world: "yields m w x w' \<Longrightarrow> snd (snd (m w)) = w'"
  by (auto simp: yields_def)

lemma yields_Inr:
  "yields m w (Inr x) w' \<Longrightarrow> yields (g x) w' y w'' \<Longrightarrow>
   yields (andThen m (\<lambda>res. case res of Inl e \<Rightarrow> f e | Inr x \<Rightarrow> g x)) w y w''"
  by (erule yields_andThen) simp

lemma yields_silent: "f w = (x, w') \<Longrightarrow> yields (silent f) w x w'"
  by (simp add: yields_def run_simps)

lemma yields_lift: "yields (lift_outcome (Ret x)) w x w"
  by (simp add: yields_def run_simps)

subsection \<open>The rounds\<close>

text \<open>
  What happens to a Job between two reconciliations: it starts, one of its pods finishes (the
  Job has succeeded when none is left), or, being finished, it is collected.
\<close>

definition tickJob :: "Job \<Rightarrow> Job option" where
  "tickJob j =
     (if isJobActive j then
        (let n = Active (Job_Status j) - 1 in
         Some (j\<lparr>Job_Status := (Job_Status j)\<lparr>Active := n,
           Succeeded := (if n = 0 then 1 else Succeeded (Job_Status j))\<rparr>\<rparr>))
      else if isJobSucceeded j \<or> isJobFailed j then None
      else Some (j\<lparr>Job_Status := (Job_Status j)\<lparr>Active := 1\<rparr>\<rparr>))"

fun tickJobs :: "(NamespacedName \<times> Job) list \<Rightarrow> (NamespacedName \<times> Job) list" where
  "tickJobs [] = []"
| "tickJobs ((k, j) # js) =
     (case tickJob j of None \<Rightarrow> tickJobs js | Some j' \<Rightarrow> (k, j') # tickJobs js)"

text \<open>One reconciliation of the TfRun, then the progress of the Jobs.\<close>

definition ticked :: "cluster \<Rightarrow> cluster" where
  "ticked w = w\<lparr>Jobs := tickJobs (Jobs w)\<rparr>"

definition round :: "cluster ext \<Rightarrow> NamespacedName \<Rightarrow> cluster \<Rightarrow> cluster" where
  "round r k w = ticked (snd (snd (Reconcile r k w)))"

lemma tickJobs_keys: "fst ` set (tickJobs js) \<subseteq> fst ` set js"
  by (induction js rule: tickJobs.induct) (auto split: option.splits)

lemma tickJobs_distinct: "distinct (map fst js) \<Longrightarrow> distinct (map fst (tickJobs js))"
  using tickJobs_keys by (induction js rule: tickJobs.induct) (auto split: option.splits)

lemma map_of_tickJobs:
  "distinct (map fst js) \<Longrightarrow> map_of (tickJobs js) k = Option.bind (map_of js k) tickJob"
proof (induction js rule: tickJobs.induct)
  case (2 k' j js)
  have "k' \<notin> fst ` set js \<Longrightarrow> map_of (tickJobs js) k' = None"
    using tickJobs_keys [of js] by (auto simp: map_of_eq_None_iff)
  then show ?case
    using 2 by (auto split: option.splits)
qed simp

lemma map_of_store [simp]: "map_of (store k v xs) k' = (if k' = k then Some v else map_of xs k')"
proof -
  have "map_of (filter (\<lambda>(k'', _). k'' \<noteq> k) xs) k' = map_of xs k'" if "k' \<noteq> k"
    using that by (induction xs) auto
  then show ?thesis
    by (simp add: store_def)
qed

lemma map_of_remove [simp]: "map_of (remove k xs) k = None"
  by (induction xs) (auto simp: remove_def)

lemma store_distinct: "distinct (map fst xs) \<Longrightarrow> distinct (map fst (store k v xs))"
  by (auto simp: store_def distinct_map_filter)

lemma ticked_simps [simp]:
  "TfRuns (ticked w) = TfRuns w" "Replies (ticked w) = Replies w" "Secrets (ticked w) = Secrets w"
  "Jobs (ticked w) = tickJobs (Jobs w)" "Created (ticked w) = Created w"
  by (simp_all add: ticked_def)

lemma active_pred:
  fixes n :: int32
  assumes "sint n > 0"
  shows "sint (n - 1) = sint n - 1"
proof -
  have "sint n < 2 ^ 31"
    using sint_lt [of n] by simp
  then have "sint (n - 1) = signed_take_bit 31 (sint n - 1)"
    by (simp add: sint_word_ariths)
  also have "\<dots> = sint n - 1"
    using assms \<open>sint n < 2 ^ 31\<close> by (simp add: signed_take_bit_int_eq_self_iff)
  finally show ?thesis .
qed

text \<open>An active Job stays active with fewer pods, or has succeeded.\<close>

lemma tickJob_active:
  assumes "isJobActive j"
  obtains j' where "tickJob j = Some j'" "isJobFailed j' = isJobFailed j"
    "isJobActive j' \<and> nat (sint (Active (Job_Status j'))) < nat (sint (Active (Job_Status j))) \<or>
     \<not> isJobActive j' \<and> isJobSucceeded j'"
proof -
  let ?n = "Active (Job_Status j)"
  have n: "sint ?n > 0" "sint (?n - 1) = sint ?n - 1"
    using assms active_pred [of ?n] by (simp_all add: isJobActive_def)
  show ?thesis
  proof (cases "sint (?n - 1) > 0")
    case True
    then have "?n - 1 \<noteq> 0"
      by (metis less_irrefl signed_0)
    then show ?thesis
      using that n True assms
      by (simp add: tickJob_def isJobActive_def isJobFailed_def Let_def)
  next
    case False
    then have "sint (?n - 1) = sint (0 :: int32)"
      using n by simp
    then have "?n - 1 = 0"
      using signed_word_eqI [where ?'a = int] by blast
    then show ?thesis
      using that n assms
      by (simp add: tickJob_def isJobActive_def isJobFailed_def isJobSucceeded_def Let_def)
  qed
qed

lemma tickJob_idle:
  assumes "\<not> isJobActive j"
  shows "isJobSucceeded j \<or> isJobFailed j \<Longrightarrow> tickJob j = None"
    and "\<not> isJobSucceeded j \<Longrightarrow> \<not> isJobFailed j \<Longrightarrow>
      \<exists>j'. tickJob j = Some j' \<and> isJobActive j' \<and> sint (Active (Job_Status j')) = 1 \<and> \<not> isJobFailed j'"
  using assms by (simp_all add: tickJob_def isJobActive_def isJobFailed_def isJobSucceeded_def)

subsection \<open>Tokens and the backend\<close>

text \<open>A Secret of the namespace with a token that is not empty.\<close>

definition token_in :: "cluster \<Rightarrow> NamespacedName \<Rightarrow> bool" where
  "token_in w k \<longleftrightarrow> (case map_of (Secrets w) k of None \<Rightarrow> False
     | Some s \<Rightarrow> (case gomap_get (Data s) ''token'' of None \<Rightarrow> False | Some tok \<Rightarrow> tok \<noteq> ''''))"

lemma token_in_read:
  assumes "token_in w k"
  obtains sec tok where "map_of (Secrets w) k = Some sec"
    "gomap_get (Data sec) ''token'' = Some tok" "tok \<noteq> ''''"
  using assms by (auto simp: token_in_def split: option.splits)

lemma getCloudBackend_scalr:
  assumes "Cloud (Backend (Spec t)) = Some cb"
    and "Provider cb = '''' \<or> ToLower (TrimSpace (Provider cb)) = BackendScalr"
  shows "getCloudBackend r t = Inr (ScalrBackend (NewService r))"
proof -
  have "ToLower (TrimSpace BackendScalr) = BackendScalr"
    by code_simp
  then show ?thesis
    using assms by (auto simp: getCloudBackend_def ForProvider_backend_def Let_def)
qed

subsection \<open>The API server\<close>

text \<open>The cluster after a write of the status of the TfRun at a key.\<close>

definition with_status :: "NamespacedName \<Rightarrow> TfRun \<Rightarrow> (TfRunStatus \<Rightarrow> TfRunStatus) \<Rightarrow> cluster \<Rightarrow> cluster" where
  "with_status k t f w = w\<lparr>TfRuns := store k (status_update f t) (TfRuns w)\<rparr>"

lemma with_status_simps [simp]:
  "map_of (TfRuns (with_status k t f w)) k = Some (status_update f t)"
  "Jobs (with_status k t f w) = Jobs w" "Replies (with_status k t f w) = Replies w"
  "Secrets (with_status k t f w) = Secrets w" "Created (with_status k t f w) = Created w"
  by (simp_all add: with_status_def)

text \<open>The contract of an API server: it serves the objects of the cluster. \<open>api_server\<close> stores every
  status it is sent; \<open>api_objects\<close> may answer a status update as it likes.\<close>

locale api_objects =
  fixes r :: "cluster ext"
  assumes serves: "r = kube\<lparr>HttpDo_of := HttpDo_of r, StatusUpdate_of := StatusUpdate_of r\<rparr>"
begin

lemma server_simps:
  "GetTfRun_of r k w = (lookup_in (TfRuns w) k, w)" "GetJob_of r k w = (lookup_in (Jobs w) k, w)"
  "GetSecret_of r k w = (lookup_in (Secrets w) k, w)" "Update_of r = kubeUpdate"
  "CreateJob_of r = kubeCreateJob" "UnmarshalError r s = Err ''invalid JSON''"
  "Now_of r w = (Clock w, w\<lparr>Clock := Clock w + 1\<rparr>)"
  "MarshalVar r = Inr" "ContainsFinalizer r t f = (f \<in> set (Finalizers t))"
  "AddFinalizer r t f = t\<lparr>Finalizers := Finalizers t @ [f]\<rparr>"
  "SetControllerReference r t j = Inr (j\<lparr>Job_OwnerReferences :=
     [\<lparr>Owner_Kind = ''TfRun'', Owner_Name = Name t, Owner_UID = UID t, Owner_Controller = True\<rparr>]\<rparr>)"
  "SetStatusCondition_of r = setCondition"
  by (subst serves, simp)+

lemma GetTfRun_yields: "yields (GetTfRun r k) w (lookup_in (TfRuns w) k) w"
  by (simp add: GetTfRun_def yields_call server_simps)

lemma GetJob_yields: "yields (GetJob r k) w (lookup_in (Jobs w) k) w"
  by (simp add: GetJob_def yields_call server_simps)

lemma SetStatusCondition_yields: "\<exists>cs'. yields (SetStatusCondition r cs c) w cs' w"
  unfolding SetStatusCondition_def server_simps by (intro exI yields_silent) (simp add: setCondition_def)

lemma getGitCredentials_yields:
  assumes "token_in w (Namespace t, if n = '''' then ''git-credentials'' else n)" "K8s b = r"
  shows "\<exists>tok. yields (getGitCredentials b t n) w (Inr tok) w"
proof -
  obtain sec tok where "map_of (Secrets w) (Namespace t, if n = '''' then ''git-credentials'' else n)
      = Some sec" "gomap_get (Data sec) ''token'' = Some tok" "tok \<noteq> ''''"
    using token_in_read [OF assms(1)] .
  then show ?thesis
    using assms(2) by (auto simp: server_simps getGitCredentials_def GetSecret_def run_simps yields_def
        lookup_in_def Let_def)
qed

lemma BuildJob_yields:
  assumes "Cloud (Backend (Spec t)) = Some cb" "K8s b = r"
    and "let ref = Source_CredentialsSecretRef (Source (Spec t)) in
      token_in w (Namespace t, if ref = '''' then ''git-credentials'' else ref)"
  shows "\<exists>j. yields (BuildJob b t jt n) w (Inr j) w \<and> Job_Name j = n \<and>
    Job_Namespace j = Namespace t \<and> Job_Status j = zeroJobStatus"
proof -
  obtain tok where tok: "yields (getGitCredentials b t
      (Source_CredentialsSecretRef (Source (Spec t)))) w (Inr tok) w"
    using getGitCredentials_yields [of w t _ b] assms(2,3) by (auto simp: Let_def)
  obtain env where env: "Bootstrap.cloudBackend t = Inr env"
    using assms(1) by (auto simp: cloudBackend_def Let_def)
  show ?thesis
    unfolding BuildJob_def Let_def env sum.case
    by (intro exI conjI yields_andThen [OF tok], unfold sum.case, rule yields_retI)
      (simp_all add: buildJobTemplate_def Let_def)
qed

end

locale api_server = api_objects +
  assumes stores: "StatusUpdate_of r = kubeStatusUpdate"
begin

lemma StatusUpdate_yields:
  "map_of (TfRuns w) k = Some t \<Longrightarrow> k = (Namespace t, Name t) \<Longrightarrow>
   yields (StatusUpdate r (status_update f t)) w (Inr (status_update f t)) (with_status k t f w)"
  by (auto simp: stores StatusUpdate_def yields_def run_simps kubeStatusUpdate_def ObjectKeyFromObject_def
      with_status_def status_update_def Let_def)

lemma StatusUpdate_ignored_yields:
  "map_of (TfRuns w) k = Some t \<Longrightarrow> k = (Namespace t, Name t) \<Longrightarrow>
   yields (StatusUpdate_ignored r (status_update f t)) w (status_update f t) (with_status k t f w)"
  unfolding StatusUpdate_ignored_def
  by (rule yields_andThen [OF StatusUpdate_yields]) simp_all

lemma updateStatus_yields:
  "map_of (TfRuns w) k = Some t \<Longrightarrow> k = (Namespace t, Name t) \<Longrightarrow>
   yields (updateStatus r (status_update f t)) w (status_update f t, noResult, None) (with_status k t f w)"
  unfolding updateStatus_def by (rule yields_Inr [OF StatusUpdate_yields]) simp_all

end

interpretation scripted: api_server kube
  by unfold_locales simp_all

end
