(* ===== verification/Deletion_Ends.thy ===== *)
theory Deletion_Ends
  imports Cluster_Runs "HOL-Library.While_Combinator"
begin

text \<open>
  The deletion of a TfRun over as many reconciliations as it takes, on the reference cluster:
  between two reconciliations the Jobs make progress and finished ones are collected. Each
  round is a step of a small machine; a lexicographic measure, the refusals that the remote API
  has still to give and then how far the destroy Job is, decreases with every step.
\<close>

definition exists_run :: "NamespacedName \<Rightarrow> cluster \<Rightarrow> bool" where
  "exists_run k w \<longleftrightarrow> map_of (TfRuns w) k \<noteq> None"

subsection \<open>What a deletion needs\<close>

text \<open>An answer that counts as a deletion of the remote workspace.\<close>

definition deletion_reply :: "goerr + HttpResponse \<Rightarrow> bool" where
  "deletion_reply x \<longleftrightarrow> (case x of Inl _ \<Rightarrow> False
     | Inr resp \<Rightarrow> (case Body resp of Inl _ \<Rightarrow> False | Inr _ \<Rightarrow> StatusCode resp \<in> {200, 204, 404}))"

definition has_workspace :: "TfRun \<Rightarrow> bool" where
  "has_workspace t \<longleftrightarrow> WorkspaceReady (Status t) \<and> WorkspaceID (Status t) \<noteq> ''''"

definition destroyName :: "TfRun \<Rightarrow> string" where
  "destroyName t = ToLower (Name t @ ''-destroy'')"

definition deletable :: "NamespacedName \<Rightarrow> cluster \<Rightarrow> TfRun \<Rightarrow> bool" where
  "deletable k w t \<longleftrightarrow> map_of (TfRuns w) k = Some t \<and> k = (Namespace t, Name t) \<and>
     \<not> IsZero (DeletionTimestamp t) \<and> set (Finalizers t) = {finalizerName} \<and>
     ActiveDestroyJobName (Status t) \<in> {'''', destroyName t} \<and>
     ToLower (Engine_Type (Engine (Spec t))) \<in> {tofuEngine, tfEngine} \<and>
     (case Cloud (Backend (Spec t)) of None \<Rightarrow> False
      | Some cb \<Rightarrow> (Provider cb = '''' \<or> ToLower (TrimSpace (Provider cb)) = BackendScalr) \<and>
          plainHost (Hostname cb)) \<and> urlSafe (WorkspaceID (Status t)) \<and>
     (let ref = Source_CredentialsSecretRef (Source (Spec t)) in
      token_in w (Namespace t, if ref = '''' then ''git-credentials'' else ref)) \<and>
     (let ref = Provider_CredentialsSecretRef (ForProvider (Spec t)) in
      ref \<noteq> '''' \<and> token_in w (Namespace t, ref)) \<and>
     distinct (map fst (Jobs w)) \<and>
     (has_workspace t \<longrightarrow> (\<exists>x \<in> set (Replies w). deletion_reply x))"

lemma deletableD:
  assumes "deletable k w t"
  shows "map_of (TfRuns w) k = Some t" "k = (Namespace t, Name t)"
    "\<not> IsZero (DeletionTimestamp t)" "set (Finalizers t) = {finalizerName}"
    "ActiveDestroyJobName (Status t) = '''' \<or> ActiveDestroyJobName (Status t) = destroyName t"
    "let ref = Source_CredentialsSecretRef (Source (Spec t)) in
      token_in w (Namespace t, if ref = '''' then ''git-credentials'' else ref)"
    "Provider_CredentialsSecretRef (ForProvider (Spec t)) \<noteq> ''''"
    "token_in w (Namespace t, Provider_CredentialsSecretRef (ForProvider (Spec t)))"
    "distinct (map fst (Jobs w))"
    "has_workspace t \<Longrightarrow> \<exists>x \<in> set (Replies w). deletion_reply x"
    "urlSafe (WorkspaceID (Status t))"
  using assms unfolding deletable_def Let_def by - (elim conjE, simp)+

lemma deletable_cloud:
  assumes "deletable k w t"
  obtains cb where "Cloud (Backend (Spec t)) = Some cb"
    "Provider cb = '''' \<or> ToLower (TrimSpace (Provider cb)) = BackendScalr" "plainHost (Hostname cb)"
  using assms unfolding deletable_def by (cases "Cloud (Backend (Spec t))") simp_all

lemma deletable_engine:
  assumes "deletable k w t"
  obtains b where "ForEngine kube (ToLower (Engine_Type (Engine (Spec t)))) (Some []) = (Some b, None)"
    "K8s b = kube"
proof -
  have "ToLower (Engine_Type (Engine (Spec t))) \<in> {tofuEngine, tfEngine}"
    using assms unfolding deletable_def by blast
  then have "\<exists>b. ForEngine kube (ToLower (Engine_Type (Engine (Spec t)))) (Some []) =
      (Some b, None) \<and> K8s b = kube"
    unfolding ForEngine_def by auto
  then show ?thesis
    using that by blast
qed

subsection \<open>One reconciliation of a deletion\<close>

text \<open>
  The machine: what a reconciliation of a deletion leaves of the cluster. A refused deletion
  of the remote workspace uses up an answer of the remote API.
\<close>

definition keeps_workspace :: "(TfRunStatus \<Rightarrow> TfRunStatus) \<Rightarrow> string \<Rightarrow> bool" where
  "keeps_workspace f n \<longleftrightarrow> (\<forall>s. WorkspaceReady (f s) = WorkspaceReady s \<and>
     WorkspaceID (f s) = WorkspaceID s \<and> ActiveDestroyJobName (f s) = n)"

inductive cleans :: "NamespacedName \<Rightarrow> TfRun \<Rightarrow> cluster \<Rightarrow> cluster \<Rightarrow> bool" for k t w where
  no_workspace: "\<not> has_workspace t \<Longrightarrow> cleans k t w (w\<lparr>TfRuns := remove k (TfRuns w)\<rparr>)"
| deleted: "has_workspace t \<Longrightarrow> Replies w = x # xs \<Longrightarrow> deletion_reply x \<Longrightarrow>
    cleans k t w (w\<lparr>Replies := xs, TfRuns := remove k (TfRuns w)\<rparr>)"
| refused: "has_workspace t \<Longrightarrow> Replies w = x # xs \<Longrightarrow> \<not> deletion_reply x \<Longrightarrow>
    cleans k t w (w\<lparr>Replies := xs\<rparr>)"

inductive deletes :: "NamespacedName \<Rightarrow> TfRun \<Rightarrow> cluster \<Rightarrow> cluster \<Rightarrow> bool" for k t w where
  created: "ActiveDestroyJobName (Status t) = '''' \<Longrightarrow>
    map_of (Jobs w) (Namespace t, destroyName t) = None \<Longrightarrow> Job_Status j = zeroJobStatus \<Longrightarrow>
    keeps_workspace f (destroyName t) \<Longrightarrow>
    deletes k t w (with_status k t f (addJob (Namespace t, destroyName t) j w))"
| adopted: "ActiveDestroyJobName (Status t) = '''' \<Longrightarrow>
    map_of (Jobs w) (Namespace t, destroyName t) = Some j \<Longrightarrow>
    keeps_workspace f (destroyName t) \<Longrightarrow> deletes k t w (with_status k t f w)"
| waited: "ActiveDestroyJobName (Status t) = destroyName t \<Longrightarrow>
    map_of (Jobs w) (Namespace t, destroyName t) = Some j \<Longrightarrow>
    isJobActive j \<or> \<not> isJobSucceeded j \<and> \<not> isJobFailed j \<Longrightarrow> deletes k t w w"
| failed: "ActiveDestroyJobName (Status t) = destroyName t \<Longrightarrow>
    map_of (Jobs w) (Namespace t, destroyName t) = Some j \<Longrightarrow>
    \<not> isJobActive j \<Longrightarrow> \<not> isJobSucceeded j \<Longrightarrow> isJobFailed j \<Longrightarrow>
    keeps_workspace f '''' \<Longrightarrow> deletes k t w (with_status k t f w)"
| cleaned: "ActiveDestroyJobName (Status t) = destroyName t \<Longrightarrow>
    (case map_of (Jobs w) (Namespace t, destroyName t) of None \<Rightarrow> True
     | Some j \<Rightarrow> \<not> isJobActive j \<and> isJobSucceeded j) \<Longrightarrow>
    keeps_workspace f '''' \<Longrightarrow> cleans k (status_update f t) (with_status k t f w) w' \<Longrightarrow>
    deletes k t w w'"

lemma destroyName_status [simp]: "destroyName (status_update f t) = destroyName t"
  by (simp add: destroyName_def)

lemma destroyName_not_empty: "destroyName t \<noteq> ''''"
  by (simp add: destroyName_def ToLower_def)

subsection \<open>The reconciliation keeps to the machine\<close>

lemma removeFinalizer_yields:
  assumes "map_of (TfRuns w) k = Some t" "k = (Namespace t, Name t)"
    and "\<not> IsZero (DeletionTimestamp t)" "set (Finalizers t) = {finalizerName}"
  shows "yields (removeFinalizer kube t) w (noResult, None) (w\<lparr>TfRuns := remove k (TfRuns w)\<rparr>)"
proof -
  have "filter (\<lambda>x. x \<noteq> finalizerName) (Finalizers t) = []"
    using assms(4) by (auto simp: filter_empty_conv)
  then show ?thesis
    using assms by (auto simp: removeFinalizer_def yields_def GetTfRun_def Update_def run_simps
        lookup_in_def ObjectKeyFromObject_def kubeUpdate_def Let_def)
qed

lemma DeleteScalrWorkspace_yields:
  assumes "Cloud (Backend (Spec t)) = Some cb" "wid \<noteq> ''''" "Replies w = x # xs"
    and "plainHost (Hostname cb)" "urlSafe wid"
    and "Provider_CredentialsSecretRef (ForProvider (Spec t)) \<noteq> ''''"
    and "token_in w (Namespace t, Provider_CredentialsSecretRef (ForProvider (Spec t)))"
  shows "\<exists>res. yields (DeleteScalrWorkspace (NewService kube) t wid) w res (w\<lparr>Replies := xs\<rparr>) \<and>
    (res = None) = deletion_reply x"
proof -
  obtain sec tok where "map_of (Secrets w) (Namespace t,
      Provider_CredentialsSecretRef (ForProvider (Spec t))) = Some sec"
    "gomap_get (Data sec) ''token'' = Some tok" "tok \<noteq> ''''"
    using token_in_read [OF assms(7)] .
  then show ?thesis
    using assms by (auto simp: DeleteScalrWorkspace_def GetScalrToken_def NewService_def
        GetSecret_def HttpDo_def newRequest_chars isControl_def run_simps yields_def lookup_in_def nextReply_def Let_def
        deletion_reply_def split: sum.splits)
qed

lemma cleanup_yields:
  assumes "map_of (TfRuns w) k = Some t" "k = (Namespace t, Name t)"
    and "\<not> IsZero (DeletionTimestamp t)" "set (Finalizers t) = {finalizerName}"
    and cloud: "Cloud (Backend (Spec t)) = Some cb"
      "Provider cb = '''' \<or> ToLower (TrimSpace (Provider cb)) = BackendScalr"
    and address: "plainHost (Hostname cb)" "urlSafe (WorkspaceID (Status t))"
    and token: "Provider_CredentialsSecretRef (ForProvider (Spec t)) \<noteq> ''''"
      "token_in w (Namespace t, Provider_CredentialsSecretRef (ForProvider (Spec t)))"
    and replies: "has_workspace t \<Longrightarrow> Replies w \<noteq> []"
  shows "\<exists>x w'. yields (cleanupWorkspaceAndRemoveFinalizer kube t) w x w' \<and> cleans k t w w'"
proof (cases "has_workspace t")
  case False
  then show ?thesis
    using removeFinalizer_yields [OF assms(1-4)] cleans.no_workspace [OF False, of k w]
    by (auto simp: cleanupWorkspaceAndRemoveFinalizer_def has_workspace_def)
next
  case True
  then obtain x xs where xs: "Replies w = x # xs"
    using replies by (cases "Replies w") auto
  obtain res where res: "yields (deleteRemoteWorkspace kube t) w res (w\<lparr>Replies := xs\<rparr>)"
      "(res = None) = deletion_reply x"
    using DeleteScalrWorkspace_yields [OF cloud(1) _ xs address token] True
    by (auto simp: deleteRemoteWorkspace_def getCloudBackend_scalr [OF cloud] ScalrBackend_def
        ScalrBackend_DeleteWorkspace_def has_workspace_def)
  show ?thesis
  proof (cases res)
    case None
    have "yields (removeFinalizer kube t) (w\<lparr>Replies := xs\<rparr>) (noResult, None)
        (w\<lparr>Replies := xs, TfRuns := remove k (TfRuns w)\<rparr>)"
      using removeFinalizer_yields [of "w\<lparr>Replies := xs\<rparr>" k t] assms(1-4) by simp
    then have "yields (cleanupWorkspaceAndRemoveFinalizer kube t) w (noResult, None)
        (w\<lparr>Replies := xs, TfRuns := remove k (TfRuns w)\<rparr>)"
      unfolding cleanupWorkspaceAndRemoveFinalizer_def
      using True None res(1) by (auto simp: has_workspace_def intro: yields_andThen)
    then show ?thesis
      using cleans.deleted [OF True xs] None res(2) by blast
  next
    case (Some err)
    have "yields (cleanupWorkspaceAndRemoveFinalizer kube t) w (noResult, Some err)
        (w\<lparr>Replies := xs\<rparr>)"
      unfolding cleanupWorkspaceAndRemoveFinalizer_def
      using True Some by (auto simp: has_workspace_def intro: yields_andThen [OF res(1)])
    then show ?thesis
      using cleans.refused [OF True xs, of k] Some res(2) by blast
  qed
qed

text \<open>The same, after the write that clears the name of the destroy Job.\<close>

lemma cleanup_after_write:
  assumes "deletable k w t" "keeps_workspace f n"
  shows "\<exists>x w'. yields (andThen (StatusUpdate_ignored kube (status_update f t))
      (\<lambda>t. cleanupWorkspaceAndRemoveFinalizer kube t)) w x w' \<and>
    cleans k (status_update f t) (with_status k t f w) w'"
proof -
  note d = deletableD [OF assms(1)]
  obtain cb where cb: "Cloud (Backend (Spec t)) = Some cb"
      "Provider cb = '''' \<or> ToLower (TrimSpace (Provider cb)) = BackendScalr" "plainHost (Hostname cb)"
    using deletable_cloud [OF assms(1)] .
  have ws: "has_workspace (status_update f t) = has_workspace t"
    using assms(2) by (simp add: has_workspace_def keeps_workspace_def)
  have replies: "has_workspace t \<Longrightarrow> Replies w \<noteq> []"
    using d(10) by auto
  have "\<exists>x w'. yields (cleanupWorkspaceAndRemoveFinalizer kube (status_update f t))
      (with_status k t f w) x w' \<and> cleans k (status_update f t) (with_status k t f w) w'"
    by (rule cleanup_yields [of _ _ _ cb])
      (use d(2-4,7,8,11) assms(2) cb ws replies in \<open>simp_all add: with_status_def token_in_def keeps_workspace_def\<close>)
  then show ?thesis
    using yields_andThen [OF scripted.StatusUpdate_ignored_yields [OF d(1,2), of f],
        of "\<lambda>t. cleanupWorkspaceAndRemoveFinalizer kube t"] by blast
qed

lemma handleDestroyJob_deletes:
  assumes del: "deletable k w t" and name: "ActiveDestroyJobName (Status t) = destroyName t"
  shows "\<exists>x w'. yields (handleDestroyJob kube t) w x w' \<and> deletes k t w w'"
proof (cases "map_of (Jobs w) (Namespace t, destroyName t)")
  case None
  let ?f = "\<lambda>s :: TfRunStatus. s\<lparr>ActiveDestroyJobName := ''''\<rparr>"
  have keeps: "keeps_workspace ?f ''''"
    by (simp add: keeps_workspace_def)
  obtain x w' where "yields (andThen (StatusUpdate_ignored kube (status_update ?f t))
      (\<lambda>t. cleanupWorkspaceAndRemoveFinalizer kube t)) w x w'"
    and cleans: "cleans k (status_update ?f t) (with_status k t ?f w) w'"
    using cleanup_after_write [OF del keeps] by blast
  then have "yields (handleDestroyJob kube t) w x w'"
    unfolding handleDestroyJob_def name using None
    by (intro yields_andThen [OF scripted.GetJob_yields])
      (simp add: lookup_in_def notFound_def IsNotFound_def)
  moreover have "deletes k t w w'"
    by (rule deletes.cleaned [OF name _ keeps cleans]) (simp add: None)
  ultimately show ?thesis
    by blast
next
  case (Some j)
  note read = yields_andThen [OF scripted.GetJob_yields]
  consider "isJobActive j \<or> \<not> isJobSucceeded j \<and> \<not> isJobFailed j"
    | "\<not> isJobActive j" "isJobSucceeded j"
    | "\<not> isJobActive j" "\<not> isJobSucceeded j" "isJobFailed j"
    by blast
  then show ?thesis
  proof cases
    case 1
    have "yields (handleDestroyJob kube t) w
        (requeueAfter (Seconds (if isJobActive j then 60 else 600)), None) w"
      unfolding handleDestroyJob_def name
      using 1 Some by (intro read) (auto simp: lookup_in_def Let_def)
    then show ?thesis
      using deletes.waited [OF name Some 1] by blast
  next
    case 2
    let ?f = "\<lambda>s :: TfRunStatus. s\<lparr>Message := ''Destroy job '' @ Job_Name j @ '' succeeded'',
        ActiveDestroyJobName := ''''\<rparr>"
    have keeps: "keeps_workspace ?f ''''"
      by (simp add: keeps_workspace_def)
    obtain x w' where "yields (andThen (StatusUpdate_ignored kube (status_update ?f t))
        (\<lambda>t. cleanupWorkspaceAndRemoveFinalizer kube t)) w x w'"
      and cleans: "cleans k (status_update ?f t) (with_status k t ?f w) w'"
      using cleanup_after_write [OF del keeps] by blast
    then have "yields (handleDestroyJob kube t) w x w'"
      unfolding handleDestroyJob_def name using 2 Some by (intro read) (simp add: lookup_in_def)
    moreover have "deletes k t w w'"
      by (rule deletes.cleaned [OF name _ keeps cleans]) (simp add: Some 2)
    ultimately show ?thesis
      by blast
  next
    case 3
    let ?f = "\<lambda>s :: TfRunStatus. s\<lparr>Phase := PhaseFailed,
        Message := ''destroy job '' @ Job_Name j @ '' has failed'', ActiveDestroyJobName := ''''\<rparr>"
    have keeps: "keeps_workspace ?f ''''"
      by (simp add: keeps_workspace_def)
    have "yields (handleDestroyJob kube t) w (noResult, None) (with_status k t ?f w)"
      unfolding handleDestroyJob_def name using 3 Some deletableD(1,2) [OF del]
      by (intro read) (simp add: lookup_in_def yields_andThen [OF scripted.StatusUpdate_ignored_yields])
    then show ?thesis
      using deletes.failed [OF name Some 3 keeps] by blast
  qed
qed

lemma adoptDestroyJob_deletes:
  assumes del: "deletable k w t" and name: "ActiveDestroyJobName (Status t) = ''''"
    and job: "map_of (Jobs w) (Namespace t, destroyName t) = Some j"
  shows "\<exists>x w'. yields (adoptDestroyJob kube t (destroyName t)) w x w' \<and> deletes k t w w'"
proof -
  let ?f = "\<lambda>s :: TfRunStatus. s\<lparr>ActiveDestroyJobName := destroyName t, Phase := PhasePending,
      Message := ''Destroy job '' @ destroyName t @ '' already exists; waiting''\<rparr>"
  note d = deletableD(1,2) [OF del]
  have "yields (GetTfRun kube (ObjectKeyFromObject t)) w (Inr t) w"
    using d by (simp add: GetTfRun_def yields_call lookup_in_def ObjectKeyFromObject_def)
  then have "yields (adoptDestroyJob kube t (destroyName t)) w (requeueAfter (Seconds 30), None)
      (with_status k t ?f w)"
    unfolding adoptDestroyJob_def
    by (rule yields_andThen) (simp add: yields_andThen [OF scripted.StatusUpdate_yields [OF d]])
  moreover have "keeps_workspace ?f (destroyName t)"
    by (simp add: keeps_workspace_def)
  ultimately show ?thesis
    using deletes.adopted [OF name job] by blast
qed

lemma createDestroyJob_deletes:
  assumes del: "deletable k w t" and name: "ActiveDestroyJobName (Status t) = ''''"
    and job: "map_of (Jobs w) (Namespace t, destroyName t) = None"
    and j: "Job_Name j = destroyName t" "Job_Namespace j = Namespace t"
      "Job_Status j = zeroJobStatus"
  shows "\<exists>x w'. yields (createDestroyJob kube t j (destroyName t)) w x w' \<and> deletes k t w w'"
proof -
  let ?f = "\<lambda>s :: TfRunStatus. s\<lparr>ActiveDestroyJobName := destroyName t, Phase := PhasePending,
      ObservedGeneration := Generation t, Message := ''Created destroy Job '' @ destroyName t\<rparr>"
  let ?w = "addJob (Namespace t, destroyName t) j w"
  have "yields (CreateJob kube j) w None ?w"
    using job j by (simp add: CreateJob_def yields_call kubeCreateJob_def Let_def)
  then have "yields (createDestroyJob kube t j (destroyName t)) w (noResult, None)
      (with_status k t ?f ?w)"
    unfolding createDestroyJob_def using deletableD(1,2) [OF del]
    by (elim yields_andThen) (simp add: yields_andThen [OF scripted.StatusUpdate_yields])
  moreover have "keeps_workspace ?f (destroyName t)"
    by (simp add: keeps_workspace_def)
  ultimately show ?thesis
    using deletes.created [OF name job j(3)] by blast
qed

lemma handleDeletion_deletes:
  assumes del: "deletable k w t"
  shows "\<exists>x w'. yields (handleDeletion kube t) w x w' \<and> deletes k t w w'"
proof (cases "ActiveDestroyJobName (Status t) = ''''")
  case False
  then show ?thesis
    using handleDestroyJob_deletes [OF del] deletableD(5) [OF del]
    by (simp add: handleDeletion_def)
next
  case True
  obtain b where b: "ForEngine kube (ToLower (Engine_Type (Engine (Spec t)))) (Some []) = (Some b, None)"
      "K8s b = kube"
    using deletable_engine [OF del] .
  note starts = handleDeletion_def True b(1) prod.case option.case Let_def
    destroyName_def [symmetric]
  note read = yields_andThen [OF scripted.GetJob_yields]
  show ?thesis
  proof (cases "map_of (Jobs w) (Namespace t, destroyName t)")
    case (Some j)
    obtain x w' where run: "yields (adoptDestroyJob kube t (destroyName t)) w x w'" "deletes k t w w'"
      using adoptDestroyJob_deletes [OF del True Some] by blast
    have "yields (handleDeletion kube t) w x w'"
      unfolding starts using run(1) Some by (simp, intro read) (simp add: lookup_in_def)
    then show ?thesis
      using run(2) by blast
  next
    case None
    obtain cb where "Cloud (Backend (Spec t)) = Some cb"
      using deletable_cloud [OF del] by blast
    then obtain j where built: "yields (BuildJob b t jobTypeDestroy (destroyName t)) w (Inr j) w"
      and j: "Job_Name j = destroyName t" "Job_Namespace j = Namespace t" "Job_Status j = zeroJobStatus"
      using scripted.BuildJob_yields [OF _ b(2) deletableD(6) [OF del]] by blast
    let ?j = "j\<lparr>Job_OwnerReferences := [\<lparr>Owner_Kind = ''TfRun'', Owner_Name = Name t,
      Owner_UID = UID t, Owner_Controller = True\<rparr>]\<rparr>"
    obtain x w' where run: "yields (createDestroyJob kube t ?j (destroyName t)) w x w'" "deletes k t w w'"
      using createDestroyJob_deletes [OF del True None, of ?j] j by auto
    have "yields (handleDeletion kube t) w x w'"
      unfolding starts using run(1) None
      by (simp, intro read) (simp add: lookup_in_def yields_andThen [OF built])
    then show ?thesis
      using run(2) by blast
  qed
qed

lemma Reconcile_deletes:
  assumes del: "deletable k w t"
  shows "deletes k t w (snd (snd (Reconcile kube k w)))"
proof -
  obtain x w' where run: "yields (handleDeletion kube t) w x w'" "deletes k t w w'"
    using handleDeletion_deletes [OF del] by blast
  have "yields (GetTfRun kube k) w (Inr t) w"
    using deletableD(1) [OF del] by (simp add: GetTfRun_def yields_call lookup_in_def)
  moreover have "yields (ensureFinalizer kube t) w (t, None) w"
    using deletableD(4) [OF del] by (simp add: ensureFinalizer_def)
  ultimately have "yields (Reconcile kube k) w x w'"
    unfolding Reconcile_def using run(1) deletableD(3) [OF del]
    by (elim yields_andThen) (simp add: yields_andThen)
  then show ?thesis
    using run(2) by (simp add: yields_world)
qed

subsection \<open>The measure\<close>

text \<open>How many rounds a Job, or its absence, is away from the cleanup or from a retry.\<close>

definition jobRank :: "Job option \<Rightarrow> nat" where
  "jobRank jo = (case jo of None \<Rightarrow> 0
     | Some j \<Rightarrow>
         if isJobActive j then nat (sint (Active (Job_Status j)))
         else if isJobSucceeded j then 0 else if isJobFailed j then 3 else 2)"

definition stage :: "cluster \<Rightarrow> TfRun \<Rightarrow> nat" where
  "stage w t = (let jo = map_of (Jobs w) (Namespace t, destroyName t) in
     if ActiveDestroyJobName (Status t) \<noteq> '''' then jobRank jo
     else case jo of None \<Rightarrow> 2 | Some _ \<Rightarrow> 1 + jobRank jo)"

definition refusals :: "cluster \<Rightarrow> nat" where
  "refusals w = length (takeWhile (\<lambda>x. \<not> deletion_reply x) (Replies w))"

text \<open>What is left of the answers: the first that counts as a deletion is the last one used.\<close>

definition remaining :: "bool \<Rightarrow> (goerr + HttpResponse) list \<Rightarrow> (goerr + HttpResponse) list" where
  "remaining h rs = (if h then tl (dropWhile (\<lambda>x. \<not> deletion_reply x) rs) else rs)"

lemma jobRank_tick:
  shows "isJobActive j \<Longrightarrow> jobRank (tickJob j) < jobRank (Some j)"
    and "\<not> isJobActive j \<Longrightarrow> \<not> isJobSucceeded j \<Longrightarrow> \<not> isJobFailed j \<Longrightarrow> jobRank (tickJob j) = 1"
proof -
  show "jobRank (tickJob j) < jobRank (Some j)" if active: "isJobActive j"
  proof -
    have "jobRank (Some j) > 0"
      using active by (simp add: jobRank_def isJobActive_def)
    then show ?thesis
      by - (rule tickJob_active [OF active], use active in \<open>auto simp: jobRank_def\<close>)
  qed
  show "\<not> isJobActive j \<Longrightarrow> \<not> isJobSucceeded j \<Longrightarrow> \<not> isJobFailed j \<Longrightarrow> jobRank (tickJob j) = 1"
    using tickJob_idle(2) [of j] by (auto simp: jobRank_def)
qed

definition deletion_measure :: "NamespacedName \<Rightarrow> cluster \<Rightarrow> nat \<times> nat" where
  "deletion_measure k w = (case map_of (TfRuns w) k of None \<Rightarrow> (0, 0)
     | Some t \<Rightarrow> (refusals w, Suc (stage w t)))"

text \<open>What the rounds preserve, until the TfRun is gone.\<close>

definition deletion_invariant ::
  "NamespacedName \<Rightarrow> (goerr + HttpResponse) list \<Rightarrow> cluster \<Rightarrow> bool" where
  "deletion_invariant k left w = (case map_of (TfRuns w) k of
       None \<Rightarrow> Replies w = left
     | Some t \<Rightarrow> deletable k w t \<and> remaining (has_workspace t) (Replies w) = left)"

lemma keeps_workspace_status:
  assumes "keeps_workspace f n"
  shows "has_workspace (status_update f t) = has_workspace t"
    "ActiveDestroyJobName (Status (status_update f t)) = n"
    "WorkspaceID (Status (status_update f t)) = WorkspaceID (Status t)"
  using assms by (simp_all add: keeps_workspace_def has_workspace_def)

text \<open>
  A step that leaves the TfRun there, with a status that keeps the workspace, leaves it
  deletable, as long as an answer that counts as a deletion is still to come.
\<close>

lemma deletable_kept:
  assumes "deletable k w t" "keeps_workspace f n" "n = '''' \<or> n = destroyName t"
    and "map_of (TfRuns w') k = Some (status_update f t)" "Secrets w' = Secrets w"
    and "distinct (map fst (Jobs w'))"
    and "has_workspace t \<Longrightarrow> \<exists>x \<in> set (Replies w'). deletion_reply x"
  shows "deletable k w' (status_update f t)"
proof -
  have "token_in w' = token_in w" "destroyName (status_update f t) = destroyName t"
    using assms(5) by (simp_all add: token_in_def destroyName_def fun_eq_iff)
  note same = this keeps_workspace_status [OF assms(2)] status_update_fields(1,2,6,8,9)
  have "n \<in> {'''', destroyName t}"
    using assms(3) by simp
  then show ?thesis
    using assms(1,4,6,7) unfolding deletable_def Let_def same by fast
qed

lemma deletable_ticked: "deletable k w t \<Longrightarrow> deletable k (ticked w) t"
proof -
  have "token_in (ticked w) = token_in w"
    by (simp add: token_in_def fun_eq_iff)
  then show "deletable k w t \<Longrightarrow> deletable k (ticked w) t"
    using tickJobs_distinct unfolding deletable_def Let_def ticked_simps by metis
qed

text \<open>A round that leaves the answers alone and brings the destroy Job nearer.\<close>

lemma round_nearer:
  assumes del: "deletable k w t"
    and f: "keeps_workspace f n" "n = '''' \<or> n = destroyName t"
    and w': "map_of (TfRuns w') k = Some (status_update f t)" "Secrets w' = Secrets w"
      "Replies w' = Replies w" "distinct (map fst (Jobs w'))"
    and nearer: "stage w' (status_update f t) < stage w t"
  shows "deletion_invariant k (remaining (has_workspace t) (Replies w)) w' \<and>
    (deletion_measure k w', deletion_measure k w) \<in> less_than <*lex*> less_than"
proof -
  have "deletable k w' (status_update f t)"
    by (rule deletable_kept [OF del f w'(1,2,4)]) (simp add: w'(3) deletableD(10) [OF del])
  then show ?thesis
    using w' nearer deletableD(1) [OF del] keeps_workspace_status(1) [OF f(1)]
    by (simp add: deletion_invariant_def deletion_measure_def refusals_def)
qed

lemma cleans_round:
  assumes del: "deletable k w t" and f: "keeps_workspace f ''''"
    and "cleans k (status_update f t) (with_status k t f w) w'"
  shows "deletion_invariant k (remaining (has_workspace t) (Replies w)) (ticked w') \<and>
    (deletion_measure k (ticked w'), deletion_measure k w) \<in> less_than <*lex*> less_than"
  using assms(3)
proof cases
  case no_workspace
  then show ?thesis
    using deletableD(1) [OF del] keeps_workspace_status(1) [OF f]
    by (auto simp: deletion_invariant_def deletion_measure_def remaining_def)
next
  case (deleted x xs)
  then show ?thesis
    using deletableD(1) [OF del] keeps_workspace_status(1) [OF f]
    by (auto simp: deletion_invariant_def deletion_measure_def remaining_def)
next
  case (refused x xs)
  have ws: "has_workspace t" "Replies w = x # xs"
    using refused(2,3) keeps_workspace_status(1) [OF f] by simp_all
  have "deletable k (ticked w') (status_update f t)"
    by (rule deletable_kept [OF del f])
      (use refused ws deletableD(9,10) [OF del] in \<open>auto simp: tickJobs_distinct\<close>)
  then show ?thesis
    using refused ws deletableD(1) [OF del] keeps_workspace_status(1) [OF f]
    by (simp add: deletion_invariant_def deletion_measure_def remaining_def refusals_def)
qed

lemma deletes_round:
  assumes del: "deletable k w t" and step: "deletes k t w w'"
  shows "deletion_invariant k (remaining (has_workspace t) (Replies w)) (ticked w') \<and>
    (deletion_measure k (ticked w'), deletion_measure k w) \<in> less_than <*lex*> less_than"
  using step
proof cases
  case (created j f)
  have "jobRank (tickJob j) = 1"
    using created(4) by (intro jobRank_tick(2))
      (simp_all add: isJobActive_def isJobSucceeded_def isJobFailed_def zeroJobStatus_def)
  then show ?thesis
    using created deletableD(9) [OF del] keeps_workspace_status(2) [OF created(5)]
    by (intro round_nearer [OF del created(5)])
      (simp_all add: stage_def map_of_tickJobs tickJobs_distinct store_distinct destroyName_not_empty Let_def)
next
  case (adopted j f)
  have "jobRank (tickJob j) < 1 + jobRank (Some j)"
    using jobRank_tick [of j] tickJob_idle(1) [of j] by (cases "isJobActive j") (auto simp: jobRank_def split: if_splits)
  then show ?thesis
    using adopted deletableD(9) [OF del] keeps_workspace_status(2) [OF adopted(4)]
    by (intro round_nearer [OF del adopted(4)])
      (simp_all add: stage_def map_of_tickJobs tickJobs_distinct destroyName_not_empty Let_def)
next
  case (waited j)
  have "jobRank (tickJob j) < jobRank (Some j)"
    using waited(4) jobRank_tick [of j] by (auto simp: jobRank_def split: if_splits)
  then have "stage (ticked w') t < stage w t"
    using waited deletableD(9) [OF del]
    by (simp add: stage_def map_of_tickJobs destroyName_not_empty Let_def)
  then show ?thesis
    using waited(1) deletable_ticked [OF del] deletableD(1) [OF del]
    by (simp add: deletion_invariant_def deletion_measure_def refusals_def)
next
  case (failed j f)
  have "tickJob j = None"
    using failed by (intro tickJob_idle(1)) simp_all
  then show ?thesis
    using failed deletableD(9) [OF del] keeps_workspace_status(2) [OF failed(7)]
    by (intro round_nearer [OF del failed(7)])
      (simp_all add: stage_def map_of_tickJobs tickJobs_distinct destroyName_not_empty
        jobRank_def Let_def)
next
  case (cleaned f)
  then show ?thesis
    using cleans_round [OF del] by blast
qed

subsection \<open>Every deletion ends\<close>

lemma invariant_round:
  assumes "deletion_invariant k left w" "exists_run k w"
  shows "deletion_invariant k left (round kube k w) \<and>
    (deletion_measure k (round kube k w), deletion_measure k w) \<in> less_than <*lex*> less_than"
proof -
  obtain t where t: "map_of (TfRuns w) k = Some t"
    using assms(2) by (auto simp: exists_run_def)
  then have "deletable k w t" "left = remaining (has_workspace t) (Replies w)"
    using assms(1) by (simp_all add: deletion_invariant_def)
  then show ?thesis
    unfolding round_def using deletes_round Reconcile_deletes by blast
qed


text \<open>
  A TfRun that is deleted while an earlier destroy Job is there, failed, and the remote API
  refuses twice before it deletes the workspace.
\<close>

definition doomedRun :: TfRun where
  "doomedRun = sampleRun\<lparr>DeletionTimestamp := Some 900,
     Status := emptyStatus\<lparr>WorkspaceID := ''ws-1'', WorkspaceReady := True\<rparr>\<rparr>"

definition doomedCluster :: cluster where
  "doomedCluster = sampleCluster doomedRun
     [((''team'', ''net-destroy''), sampleJob ''net-destroy'' \<lparr>Active = 0, Succeeded = 0, Failed = 4\<rparr>)]
     [Inl (Err ''connection refused''), Inr \<lparr>StatusCode = 500, Body = Inr ''''\<rparr>,
      Inr \<lparr>StatusCode = 204, Body = Inr ''''\<rparr>]"


end
