(* ===== verification/Remote_Up.thy ===== *)
theory Remote_Up
  imports Cluster_Runs Remote_Workspace
begin

text \<open>
  The Scalr client and the workspace steps against a remote API that is up: every request gets
  the answer it needs. \<open>remote_api\<close> is the contract, an API server that serves its objects
  and an HTTP client that reaches the remote API; the steps that only read rest on it alone.
\<close>

subsection \<open>A remote API that is up\<close>

text \<open>It answers every GET with a list that is not empty and every POST with a new resource, whose
  ids can be put into an address as they are.\<close>

definition usable :: "string \<Rightarrow> bool" where
  "usable x \<longleftrightarrow> x \<noteq> '''' \<and> urlSafe x"

definition healthy :: "(HttpRequest \<Rightarrow> HttpResponse) \<Rightarrow> bool" where
  "healthy api \<longleftrightarrow> (\<forall>q.
     (Method q = ''GET'' \<longrightarrow> StatusCode (api q) = 200 \<and> (\<exists>b l d ds. Body (api q) = Inr b \<and>
        UnmarshalEnvironmentList b = Some l \<and> elems (List_Data l) = d # ds \<and> usable (Response_ID d))) \<and>
     (Method q = ''POST'' \<longrightarrow> StatusCode (api q) = 201 \<and> (\<exists>b x. Body (api q) = Inr b \<and>
        UnmarshalWorkspace b = Some x \<and> usable (Response_ID (Workspace_Data x)))))"

lemma healthy_get:
  assumes "healthy api" "Method q = ''GET''"
  obtains b l d ds where "StatusCode (api q) = 200" "Body (api q) = Inr b"
    "UnmarshalEnvironmentList b = Some l" "elems (List_Data l) = d # ds" "usable (Response_ID d)"
  using assms unfolding healthy_def by blast

lemma healthy_post:
  assumes "healthy api" "Method q = ''POST''"
  obtains b x where "StatusCode (api q) = 201" "Body (api q) = Inr b"
    "UnmarshalWorkspace b = Some x" "usable (Response_ID (Workspace_Data x))"
  using assms unfolding healthy_def by blast

text \<open>A TfRun whose backend is Scalr, with a token and texts that need no escapes.\<close>

definition remote_ready :: "cluster \<Rightarrow> TfRun \<Rightarrow> bool" where
  "remote_ready w t \<longleftrightarrow>
     (case Cloud (Backend (Spec t)) of None \<Rightarrow> False
      | Some cb \<Rightarrow> (Provider cb = '''' \<or> ToLower (TrimSpace (Provider cb)) = BackendScalr) \<and>
          plainHost (Hostname cb) \<and> urlSafe (Organization cb) \<and> urlSafe (EnvironmentID cb)) \<and>
     urlSafe (importAnnotation t) \<and>
     (let ref = Provider_CredentialsSecretRef (ForProvider (Spec t)) in
      ref \<noteq> '''' \<and> token_in w (Namespace t, ref))"

lemma remote_ready_cloud:
  assumes "remote_ready w t"
  obtains cb where "Cloud (Backend (Spec t)) = Some cb"
    "getCloudBackend r t = Inr (ScalrBackend (NewService r))"
    "plainHost (Hostname cb)" "urlSafe (Organization cb)" "urlSafe (EnvironmentID cb)"
  using assms getCloudBackend_scalr unfolding remote_ready_def by (auto split: option.splits)

lemma Service_K8s_New [simp]: "Service_K8s (NewService r) = r"
  by (simp add: NewService_def)

locale remote_api = api_objects r for r :: "cluster ext" +
  fixes api :: "HttpRequest \<Rightarrow> HttpResponse"
  assumes reaches: "HttpDo_of r q w = (Inr (api q), w)"
begin

lemma setAuthHeaders_yields:
  assumes "remote_ready w t"
  shows "\<exists>q'. yields (setAuthHeaders (NewService r) t q) w (Inr q') w \<and> Method q' = Method q"
proof -
  obtain sec tok where "map_of (Secrets w) (Namespace t,
      Provider_CredentialsSecretRef (ForProvider (Spec t))) = Some sec"
    "gomap_get (Data sec) ''token'' = Some tok" "tok \<noteq> ''''"
    using assms token_in_read unfolding remote_ready_def Let_def by blast
  then show ?thesis
    using assms by (auto simp: remote_ready_def setAuthHeaders_def GetScalrToken_def NewService_def
        GetSecret_def run_simps yields_def server_simps lookup_in_def Let_def)
qed

lemma HttpDo_up: "yields (HttpDo r q) w (Inr (api q)) w"
  by (simp add: HttpDo_def yields_call reaches)

lemma GetWorkspace_up:
  assumes "healthy api" and t: "remote_ready w t" and ids: "urlSafe wid" "urlSafe e"
  shows "\<exists>wid'. usable wid' \<and> yields (GetWorkspace (NewService r) t wid e) w (Inr wid') w"
proof -
  obtain cb where cb: "Cloud (Backend (Spec t)) = Some cb" "plainHost (Hostname cb)"
    using remote_ready_cloud [OF t] by blast
  let ?url = "''https://'' @ Hostname cb @
    ''/api/iacp/v3/workspaces?filter[environment]='' @ e @ ''&filter[workspace]='' @ wid"
  let ?q = "\<lparr>Method = ''GET'', URL = ?url, Header = [], ReqBody = None\<rparr>"
  have new: "newRequest ''GET'' ?url None = Inr ?q"
    using cb(2) ids by (simp add: newRequest_chars isControl_def)
  obtain q where q: "yields (setAuthHeaders (NewService r) t ?q) w (Inr q) w"
      "Method q = ''GET''"
    using setAuthHeaders_yields [OF t, of ?q] by auto
  obtain b l d ds where "StatusCode (api q) = 200" "Body (api q) = Inr b"
      "UnmarshalEnvironmentList b = Some l" "elems (List_Data l) = d # ds" "usable (Response_ID d)"
    using healthy_get [OF assms(1) q(2)] .
  then show ?thesis
    unfolding GetWorkspace_def Let_def cb(1) option.case new sum.case Service_K8s_New
    by (intro exI [of _ "Response_ID d"] conjI yields_Inr [OF q(1)] yields_Inr [OF HttpDo_up]) simp_all
qed

lemma GetScalrEnvironmentID_up:
  assumes "healthy api" and t: "remote_ready w t"
  shows "\<exists>e. usable e \<and> yields (GetScalrEnvironmentID (NewService r) t) w (Inr e) w"
proof -
  obtain cb where cb: "Cloud (Backend (Spec t)) = Some cb" "plainHost (Hostname cb)" "urlSafe (Organization cb)"
    using remote_ready_cloud [OF t] by blast
  let ?url = "''https://'' @ Hostname cb @ ''/api/iacp/v3/environments?filter[name]='' @ Organization cb"
  let ?q = "\<lparr>Method = ''GET'', URL = ?url, Header = [], ReqBody = None\<rparr>"
  have new: "newRequest ''GET'' ?url None = Inr ?q"
    using cb(2,3) by (simp add: newRequest_chars isControl_def)
  obtain q where q: "yields (setAuthHeaders (NewService r) t ?q) w (Inr q) w"
      "Method q = ''GET''"
    using setAuthHeaders_yields [OF t, of ?q] by auto
  obtain b l d ds where "StatusCode (api q) = 200" "Body (api q) = Inr b"
      "UnmarshalEnvironmentList b = Some l" "elems (List_Data l) = d # ds" "usable (Response_ID d)"
    using healthy_get [OF assms(1) q(2)] .
  then show ?thesis
    unfolding GetScalrEnvironmentID_def Let_def cb(1) option.case new sum.case Service_K8s_New
    by (intro exI [of _ "Response_ID d"] conjI yields_Inr [OF q(1)] yields_Inr [OF HttpDo_up]) simp_all
qed

lemma CreateScalrWorkspace_up:
  assumes "healthy api" and t: "remote_ready w t" and "e \<noteq> ''''"
  shows "\<exists>wid. usable wid \<and> yields (CreateScalrWorkspace (NewService r) t e) w (Inr wid) w"
proof -
  obtain cb where cb: "Cloud (Backend (Spec t)) = Some cb" "plainHost (Hostname cb)"
    using remote_ready_cloud [OF t] by blast
  let ?b = "marshalWorkspaceRequest (workspacePayload t cb e)"
  let ?url = "''https://'' @ Hostname cb @ ''/api/iacp/v3/workspaces''"
  let ?new = "\<lparr>Method = ''POST'', URL = ?url, Header = [], ReqBody = Some ?b\<rparr>"
  have new: "newRequest ''POST'' ?url (Some ?b) = Inr ?new"
    using cb(2) by (simp add: newRequest_chars isControl_def)
  obtain q where q: "yields (setAuthHeaders (NewService r) t ?new) w (Inr q) w"
      "Method q = ''POST''"
    using setAuthHeaders_yields [OF t, of ?new] by auto
  let ?q = "HeaderSet ''Content-Type'' requestHeaderAccept q"
  have build: "yields (buildAuthRequest (NewService r) t ''POST'' ?url (Some ?b)) w (Inr ?q) w"
    unfolding buildAuthRequest_def new sum.case
    by (rule yields_Inr [OF q(1)]) simp
  have "Method ?q = ''POST''"
    using q(2) by simp
  then obtain b x where "StatusCode (api ?q) = 201" "Body (api ?q) = Inr b"
      "UnmarshalWorkspace b = Some x" "usable (Response_ID (Workspace_Data x))"
    using healthy_post [OF assms(1)] by blast
  then show ?thesis
    unfolding CreateScalrWorkspace_def Let_def cb(1) option.case Service_K8s_New if_not_P [OF assms(3)]
    by (intro exI [of _ "Response_ID (Workspace_Data x)"] conjI yields_Inr [OF build]
        yields_Inr [OF HttpDo_up]) simp_all
qed

lemma getEnvironmentId_up:
  assumes "healthy api" and t: "remote_ready w t"
  shows "\<exists>e. usable e \<and> yields (getEnvironmentId (NewService r) t) w (Inr e) w"
proof -
  obtain cb where cb: "Cloud (Backend (Spec t)) = Some cb" "urlSafe (EnvironmentID cb)"
    using remote_ready_cloud [OF t] by blast
  obtain e where "usable e" "yields (GetScalrEnvironmentID (NewService r) t) w (Inr e) w"
    using GetScalrEnvironmentID_up [OF assms] by blast
  then show ?thesis
    by (cases "EnvironmentID cb = ''''") (auto simp: getEnvironmentId_def cb usable_def yields_andThen)
qed

lemma be_up:
  assumes "healthy api" "remote_ready w t"
  shows "\<exists>wid. usable wid \<and> yields (be_EnsureWorkspace (ScalrBackend (NewService r)) t) w (Inr wid) w"
    and "urlSafe wid \<Longrightarrow>
      \<exists>wid'. usable wid' \<and> yields (be_GetWorkspace (ScalrBackend (NewService r)) t wid) w (Inr wid') w"
proof -
  obtain e where e: "usable e" "yields (getEnvironmentId (NewService r) t) w (Inr e) w"
    using getEnvironmentId_up [OF assms] by blast
  obtain v where "usable v" "yields (CreateScalrWorkspace (NewService r) t e) w (Inr v) w"
    using CreateScalrWorkspace_up [OF assms, of e] e(1) unfolding usable_def by blast
  then show "\<exists>wid. usable wid \<and> yields (be_EnsureWorkspace (ScalrBackend (NewService r)) t) w (Inr wid) w"
    by (auto simp: ScalrBackend_def ScalrBackend_EnsureWorkspace_def intro!: exI yields_Inr [OF e(2)])
  assume "urlSafe wid"
  then obtain wid' where "usable wid'"
      "yields (GetWorkspace (NewService r) t wid e) w (Inr wid') w"
    using GetWorkspace_up [OF assms, of wid e] e(1) unfolding usable_def by blast
  then show "\<exists>wid'. usable wid' \<and> yields (be_GetWorkspace (ScalrBackend (NewService r)) t wid) w (Inr wid') w"
    by (auto simp: ScalrBackend_def ScalrBackend_GetWorkspace_def intro!: exI yields_Inr [OF e(2)])
qed

text \<open>A known workspace is verified, and nothing is written.\<close>

lemma ensureWorkspaceIfNeeded_known:
  assumes "healthy api" "remote_ready w t" "WorkspaceID (Status t) \<noteq> ''''" "urlSafe (WorkspaceID (Status t))"
  shows "yields (ensureWorkspaceIfNeeded r t) w (t, noResult, None) w"
proof -
  obtain wid where wid: "yields (be_GetWorkspace (ScalrBackend (NewService r)) t
      (WorkspaceID (Status t))) w (Inr wid) w"
    using be_up(2) [OF assms(1,2,4)] by blast
  obtain cb where "Cloud (Backend (Spec t)) = Some cb"
      "getCloudBackend r t = Inr (ScalrBackend (NewService r))"
    using remote_ready_cloud [OF assms(2)] by blast
  then show ?thesis
    unfolding ensureWorkspaceIfNeeded_def using assms(3)
    by (simp, intro yields_Inr [OF wid]) simp
qed

end

subsection \<open>The workspace steps\<close>

definition kubeUp :: "(HttpRequest \<Rightarrow> HttpResponse) \<Rightarrow> cluster ext" where
  "kubeUp api = kube\<lparr>HttpDo_of := (\<lambda>q w. (Inr (api q), w))\<rparr>"

lemma kubeUp_http [simp]: "HttpDo_of (kubeUp api) q w = (Inr (api q), w)"
  by (simp add: kubeUp_def)

interpretation up: api_server "kubeUp api" for api
  by unfold_locales (simp_all add: kubeUp_def)

interpretation remote: remote_api "kubeUp api" api for api
  by unfold_locales simp

lemmas up_simps = up.server_simps kubeUp_http

text \<open>A change of the status that leaves the fields of the Jobs alone.\<close>

definition keeps_jobs :: "(TfRunStatus \<Rightarrow> TfRunStatus) \<Rightarrow> bool" where
  "keeps_jobs f \<longleftrightarrow> (\<forall>s. ActiveJobName (f s) = ActiveJobName s \<and> LastSpecHash (f s) = LastSpecHash s \<and>
     PendingExecHash (f s) = PendingExecHash s \<and> NextRunTime (f s) = NextRunTime s)"

lemma importScalrWorkspace_up:
  assumes "healthy api" "remote_ready w t" "map_of (TfRuns w) k = Some t" "k = (Namespace t, Name t)"
  shows "\<exists>f. yields (importScalrWorkspace (kubeUp api) t) w (status_update f t, noResult, None)
      (with_status k t f w) \<and> keeps_jobs f \<and> (\<forall>s. usable (WorkspaceID (f s)))"
proof -
  have be: "getCloudBackend (kubeUp api) t = Inr (ScalrBackend (NewService (kubeUp api)))"
    using remote_ready_cloud [OF assms(2)] by blast
  obtain wid where wid: "usable wid" "yields (be_GetWorkspace (ScalrBackend (NewService (kubeUp api))) t
      (importAnnotation t)) w (Inr wid) w"
    using remote.be_up(2) [OF assms(1,2), of "importAnnotation t"] assms(2) unfolding remote_ready_def by blast
  let ?f = "\<lambda>s :: TfRunStatus. s\<lparr>WorkspaceID := wid, WorkspaceReady := True, WorkspaceImport := True,
      Phase := PhasePending, Message := CloudWorkspaceImported, ObservedGeneration := Generation t\<rparr>"
  have "yields (importScalrWorkspace (kubeUp api) t) w (status_update ?f t, noResult, None)
      (with_status k t ?f w)"
    unfolding importScalrWorkspace_def Let_def be sum.case
    by (intro yields_Inr [OF wid(2)] up.updateStatus_yields [OF assms(3,4)])
  then show ?thesis
    using wid(1) by (intro exI [of _ ?f]) (simp add: keeps_jobs_def)
qed

lemma reconcileWorkspace_up:
  assumes "healthy api" "remote_ready w t" "map_of (TfRuns w) k = Some t" "k = (Namespace t, Name t)"
  shows "\<exists>f. yields (reconcileWorkspace (kubeUp api) t) w (status_update f t, noResult, None)
      (with_status k t f w) \<and> keeps_jobs f \<and> (\<forall>s. usable (WorkspaceID (f s)))"
proof (cases "importAnnotation t = ''''")
  case False
  moreover have "getCloudBackend (kubeUp api) t = Inr (ScalrBackend (NewService (kubeUp api)))"
    using remote_ready_cloud [OF assms(2)] by blast
  ultimately show ?thesis
    using importScalrWorkspace_up [OF assms] by (simp add: reconcileWorkspace_def)
next
  case True
  have be: "getCloudBackend (kubeUp api) t = Inr (ScalrBackend (NewService (kubeUp api)))"
    using remote_ready_cloud [OF assms(2)] by blast
  obtain wid where wid: "usable wid"
      "yields (be_EnsureWorkspace (ScalrBackend (NewService (kubeUp api))) t) w (Inr wid) w"
    using remote.be_up(1) [OF assms(1,2)] by blast
  let ?f = "\<lambda>s :: TfRunStatus. s\<lparr>WorkspaceID := wid, WorkspaceReady := True, Phase := PhasePending,
      Message := CloudWorkspacePending, ObservedGeneration := Generation t\<rparr>"
  have "yields (reconcileWorkspace (kubeUp api) t) w (status_update ?f t, noResult, None)
      (with_status k t ?f w)"
    unfolding reconcileWorkspace_def be sum.case
    by (simp add: True, rule yields_Inr [OF wid(2)])
      (use wid(1) in \<open>simp add: usable_def up.updateStatus_yields [OF assms(3,4)]\<close>)
  then show ?thesis
    using wid(1) by (intro exI [of _ ?f]) (simp add: keeps_jobs_def)
qed

text \<open>A known workspace is verified; a missing one is created or imported.\<close>

lemma ensureWorkspaceIfNeeded_up:
  assumes "healthy api" "remote_ready w t" "map_of (TfRuns w) k = Some t" "k = (Namespace t, Name t)"
    and "urlSafe (WorkspaceID (Status t))"
  shows "\<exists>f w'. yields (ensureWorkspaceIfNeeded (kubeUp api) t) w (status_update f t, noResult, None) w' \<and>
    keeps_jobs f \<and> map_of (TfRuns w') k = Some (status_update f t) \<and> Jobs w' = Jobs w \<and>
    Secrets w' = Secrets w \<and> Created w' = Created w \<and> usable (WorkspaceID (f (Status t))) \<and>
    (WorkspaceID (Status t) \<noteq> '''' \<longrightarrow> f = (\<lambda>s. s) \<and> w' = w)"
proof (cases "WorkspaceID (Status t) = ''''")
  case True
  obtain f where f: "yields (reconcileWorkspace (kubeUp api) t) w (status_update f t, noResult, None)
      (with_status k t f w)" "keeps_jobs f" "\<forall>s. usable (WorkspaceID (f s))"
    using reconcileWorkspace_up [OF assms(1-4)] by blast
  moreover obtain cb where "Cloud (Backend (Spec t)) = Some cb"
    using remote_ready_cloud [OF assms(2)] by blast
  ultimately show ?thesis
    using True by (intro exI [of _ f] exI [of _ "with_status k t f w"])
      (simp add: ensureWorkspaceIfNeeded_def)
next
  case False
  then show ?thesis
    using remote.ensureWorkspaceIfNeeded_known [OF assms(1,2) False assms(5)] assms(3,5) by (intro exI [of _ "\<lambda>s. s"] exI [of _ w]) (simp add: keeps_jobs_def usable_def)
qed

end
