(* ===== verification/Apply_Converges.thy ===== *)
theory Apply_Converges
  imports Remote_Up Names "HOL-Library.While_Combinator"
begin

text \<open>
  The progress of a TfRun that is not being deleted and has no interval, on the reference
  cluster with a remote API that is up. The workspace steps come first and leave the Job fields
  of the status alone; the decision table of \<open>Decisions\<close> then makes each round a step of a small
  machine. A lexicographic measure, first what has still to be started, then the rounds until
  the Jobs in the way are collected, decreases until nothing is left to do.
\<close>

subsection \<open>What an apply needs\<close>

definition applyName :: "TfRun \<Rightarrow> string \<Rightarrow> string" where
  "applyName t h = (case BuildRunID (Generation t) h of Panic _ \<Rightarrow> '''' | Ret rid \<Rightarrow> buildJobName t rid)"

definition jobNamed :: "(NamespacedName \<times> Job) list \<Rightarrow> TfRun \<Rightarrow> string \<Rightarrow> Job option" where
  "jobNamed js t n = map_of js (Namespace t, n)"

definition activeJob :: "(NamespacedName \<times> Job) list \<Rightarrow> TfRun \<Rightarrow> Job option" where
  "activeJob js t = (if ActiveJobName (Status t) = '''' then None
     else jobNamed js t (ActiveJobName (Status t)))"

definition appliable :: "NamespacedName \<Rightarrow> cluster \<Rightarrow> TfRun \<Rightarrow> bool" where
  "appliable k w t \<longleftrightarrow> map_of (TfRuns w) k = Some t \<and> k = (Namespace t, Name t) \<and>
     IsZero (DeletionTimestamp t) \<and> RunInterval (Spec t) = None \<and>
     ToLower (Engine_Type (Engine (Spec t))) \<in> {tofuEngine, tfEngine} \<and> remote_ready w t \<and>
     (let ref = Source_CredentialsSecretRef (Source (Spec t)) in
      token_in w (Namespace t, if ref = '''' then ''git-credentials'' else ref)) \<and>
     (PendingExecHash (Status t) = '''' \<or> 8 \<le> length (PendingExecHash (Status t))) \<and>
     urlSafe (WorkspaceID (Status t)) \<and> distinct (map fst (Jobs w))"

lemma appliableD:
  assumes "appliable k w t"
  shows "map_of (TfRuns w) k = Some t" "k = (Namespace t, Name t)" "IsZero (DeletionTimestamp t)"
    "RunInterval (Spec t) = None" "remote_ready w t"
    "let ref = Source_CredentialsSecretRef (Source (Spec t)) in
      token_in w (Namespace t, if ref = '''' then ''git-credentials'' else ref)"
    "PendingExecHash (Status t) = '''' \<or> 8 \<le> length (PendingExecHash (Status t))"
    "distinct (map fst (Jobs w))" "urlSafe (WorkspaceID (Status t))"
  using assms unfolding appliable_def Let_def by - (elim conjE, simp)+

lemma appliable_engine:
  assumes "appliable k w t"
  obtains b where "ForEngine r (ToLower (Engine_Type (Engine (Spec t)))) (Some []) = (Some b, None)"
    "K8s b = r"
proof -
  have "ToLower (Engine_Type (Engine (Spec t))) \<in> {tofuEngine, tfEngine}"
    using assms unfolding appliable_def by blast
  then have "\<exists>b. ForEngine r (ToLower (Engine_Type (Engine (Spec t)))) (Some []) =
      (Some b, None) \<and> K8s b = r"
    unfolding ForEngine_def by auto
  then show ?thesis
    using that by blast
qed

lemma applyName_not_empty:
  assumes "8 \<le> length h"
  shows "applyName t h \<noteq> ''''"
proof -
  obtain rid where "BuildRunID (Generation t) h = Ret rid"
    using assms BuildRunID_Ret by blast
  then show ?thesis
    using buildJobName_prefix [of t rid] by (auto simp: applyName_def)
qed

subsection \<open>Starting an apply\<close>

lemma createJobAndUpdateStatus_adopts:
  assumes "map_of (TfRuns w) k = Some t" "k = (Namespace t, Name t)"
    and "Job_Namespace j = Namespace t" "map_of (Jobs w) (Namespace t, Job_Name j) = Some j'"
  shows "yields (createJobAndUpdateStatus (kubeUp api) t j h (Job_Name j) jt) w (noResult, None)
    (with_status k t (\<lambda>s. s\<lparr>ActiveJobName := Job_Name j, Phase := PhaseRunning,
      ObservedGeneration := Generation t\<rparr>) w)"
proof -
  have "yields (CreateJob (kubeUp api) j) w (Some (ApiErr ReasonAlreadyExists ''already exists'')) w"
    using assms(3,4) by (simp add: CreateJob_def yields_call up_simps kubeCreateJob_def Let_def)
  moreover have "yields (GetTfRun (kubeUp api) (ObjectKeyFromObject t)) w (Inr t) w"
    using up.GetTfRun_yields [of api k w] assms(1,2)
    by (simp add: lookup_in_def ObjectKeyFromObject_def)
  ultimately show ?thesis
    unfolding createJobAndUpdateStatus_def
    by (elim yields_andThen) (simp add: IsAlreadyExists_def,
        elim yields_Inr, intro yields_andThen [OF up.updateStatus_yields [OF assms(1,2)]], simp)
qed

lemma createJobAndUpdateStatus_creates:
  assumes "map_of (TfRuns w) k = Some t" "k = (Namespace t, Name t)" "RunInterval (Spec t) = None"
    and "Job_Namespace j = Namespace t" "map_of (Jobs w) (Namespace t, Job_Name j) = None"
    and "BuildRunID (Generation t) h = Ret rid"
  shows "\<exists>cs. yields (createJobAndUpdateStatus (kubeUp api) t j h (Job_Name j) jt) w (noResult, None)
    (with_status k t (\<lambda>s. s\<lparr>ActiveJobName := Job_Name j, RunID := rid, LastSpecHash := h,
      Phase := PhaseRunning, ObservedGeneration := Generation t, Message := ''Created Job '' @ Job_Name j,
      PendingExecHash := '''', PendingReason := '''', Conditions := cs, NextRunTime := None\<rparr>)
      (addJob (Namespace t, Job_Name j) j w))"
proof -
  let ?w = "addJob (Namespace t, Job_Name j) j w"
  let ?c = "appliedCondition ''False'' ''JobCreated'' ''tfrun job created'' (Generation t)"
  have create: "yields (CreateJob (kubeUp api) j) w None ?w"
    using assms(4,5) by (simp add: CreateJob_def yields_call up_simps kubeCreateJob_def Let_def)
  obtain cs where cs: "yields (SetStatusCondition (kubeUp api) (Conditions (Status t)) ?c) ?w cs ?w"
    using up.SetStatusCondition_yields by blast
  have "map_of (TfRuns ?w) k = Some t"
    using assms(1) by simp
  note stored = up.StatusUpdate_yields [OF this assms(2)]
  show ?thesis
    unfolding createJobAndUpdateStatus_def assms(3,6) option.case Let_def
    by (intro exI [of _ cs] yields_andThen [OF create], unfold option.case,
        intro yields_andThen [OF yields_lift] yields_andThen [OF cs])
      (unfold status_update_fields assms(3) option.case andThen_ret status_update_twice,
        intro yields_Inr [OF stored], simp add: assms(3))
qed

subsection \<open>The machine of an apply\<close>

text \<open>
  What a reconciliation does to the status and to the Jobs, after the workspace steps: \<open>s\<close> and
  \<open>js\<close> before, \<open>s'\<close> and \<open>js'\<close> after. \<open>starts\<close> says for which hash an apply is started.
\<close>

definition starts :: "string \<Rightarrow> (NamespacedName \<times> Job) list \<Rightarrow> TfRun \<Rightarrow> string \<Rightarrow> bool" where
  "starts h js t h' \<longleftrightarrow> (case activeJob js t of Some j \<Rightarrow> \<not> isJobActive j | None \<Rightarrow> True) \<and>
     (if LastSpecHash (Status t) \<noteq> h then h' = h
      else activeJob js t = None \<and> h' = PendingExecHash (Status t) \<and> h' \<notin> {'''', h})"

inductive applies :: "string \<Rightarrow> TfRun \<Rightarrow> (NamespacedName \<times> Job) list \<Rightarrow> TfRunStatus \<Rightarrow>
    (NamespacedName \<times> Job) list \<Rightarrow> bool" for h t js where
  recorded: "activeJob js t = Some j \<Longrightarrow> isJobActive j \<Longrightarrow> LastSpecHash (Status t) \<noteq> h \<Longrightarrow>
    applies h t js ((Status t)\<lparr>PendingExecHash := h, PendingReason := ''SpecChange''\<rparr>) js"
| awaited: "activeJob js t = Some j \<Longrightarrow> isJobActive j \<Longrightarrow> LastSpecHash (Status t) = h \<Longrightarrow>
    applies h t js (Status t) js"
| finished: "activeJob js t = Some j \<Longrightarrow> \<not> isJobActive j \<Longrightarrow> LastSpecHash (Status t) = h \<Longrightarrow>
    keeps_jobs f \<Longrightarrow> WorkspaceID (f (Status t)) = WorkspaceID (Status t) \<Longrightarrow>
    (isJobSucceeded j \<Longrightarrow> \<not> isJobFailed j \<Longrightarrow> Phase (f (Status t)) = ''Succeeded'') \<Longrightarrow>
    applies h t js (f (Status t)) js"
| adopted: "starts h js t h' \<Longrightarrow> jobNamed js t (applyName t h') = Some j \<Longrightarrow>
    applies h t js ((Status t)\<lparr>ActiveJobName := applyName t h', Phase := PhaseRunning,
      ObservedGeneration := Generation t\<rparr>) js"
| created: "starts h js t h' \<Longrightarrow> jobNamed js t (applyName t h') = None \<Longrightarrow>
    Job_Status j = zeroJobStatus \<Longrightarrow>
    applies h t js ((Status t)\<lparr>ActiveJobName := applyName t h', RunID := rid, LastSpecHash := h',
      Phase := PhaseRunning, ObservedGeneration := Generation t, Message := m,
      PendingExecHash := '''', PendingReason := '''', Conditions := cs, NextRunTime := None\<rparr>)
      (store (Namespace t, applyName t h') j js)"
| unscheduled: "activeJob js t = None \<Longrightarrow> LastSpecHash (Status t) = h \<Longrightarrow>
    PendingExecHash (Status t) \<in> {'''', h} \<Longrightarrow> NextRunTime (Status t) \<noteq> None \<Longrightarrow>
    applies h t js ((Status t)\<lparr>NextRunTime := None\<rparr>) js"
| idle: "activeJob js t = None \<Longrightarrow> LastSpecHash (Status t) = h \<Longrightarrow>
    PendingExecHash (Status t) \<in> {'''', h} \<Longrightarrow> NextRunTime (Status t) = None \<Longrightarrow>
    applies h t js (Status t) js"

lemma applyName_status [simp]: "applyName (t\<lparr>Status := s\<rparr>) h = applyName t h"
proof -
  have "buildJobName (t\<lparr>Status := s\<rparr>) = buildJobName t"
    by (simp add: buildJobName_def fun_eq_iff)
  then show ?thesis
    by (simp add: applyName_def split: outcome.split)
qed

text \<open>The Jobs that have still to be created: one for a pending hash, one for the spec.\<close>

definition due :: "string \<Rightarrow> TfRun \<Rightarrow> NamespacedName list" where
  "due h t =
     (if LastSpecHash (Status t) \<noteq> h then [(Namespace t, applyName t h)]
      else if PendingExecHash (Status t) \<notin> {'''', h} then
        [(Namespace t, applyName t (PendingExecHash (Status t))), (Namespace t, applyName t h)]
      else [])"

lemma due_keeps:
  assumes "LastSpecHash s' = LastSpecHash (Status t)"
    and "LastSpecHash (Status t) = h \<Longrightarrow> PendingExecHash s' = PendingExecHash (Status t)"
  shows "due h (t\<lparr>Status := s'\<rparr>) = due h t"
  using assms by (simp add: due_def)

lemma due_created:
  assumes "starts h js t h'" "LastSpecHash s' = h'" "PendingExecHash s' = ''''"
  shows "(Namespace t, applyName t h') # due h (t\<lparr>Status := s'\<rparr>) = due h t"
  using assms by (auto simp: due_def starts_def split: if_splits)

text \<open>The cluster after such a step; a step that changes no status leaves it as it is.\<close>

definition applied :: "NamespacedName \<Rightarrow> string \<Rightarrow> TfRun \<Rightarrow> cluster \<Rightarrow> cluster \<Rightarrow> bool" where
  "applied k h t w w' \<longleftrightarrow> (\<exists>s'. applies h t (Jobs w) s' (Jobs w') \<and>
     map_of (TfRuns w') k = Some (t\<lparr>Status := s'\<rparr>) \<and> Secrets w' = Secrets w \<and>
     Created w' @ due h (t\<lparr>Status := s'\<rparr>) = Created w @ due h t \<and>
     (activeJob (Jobs w) t = None \<and> s' = Status t \<and> Jobs w' = Jobs w \<longrightarrow> TfRuns w' = TfRuns w))"

lemma applied_status:
  assumes "applies h t (Jobs w) (f (Status t)) (Jobs w')"
    and "w' = with_status k t f w1" "Secrets w1 = Secrets w"
    and "activeJob (Jobs w) t \<noteq> None \<or> f (Status t) \<noteq> Status t \<or> Jobs w' \<noteq> Jobs w"
    and "Created w1 @ due h (t\<lparr>Status := f (Status t)\<rparr>) = Created w @ due h t"
  shows "applied k h t w w'"
  unfolding applied_def using assms
  by (intro exI [of _ "f (Status t)"]) (auto simp: status_update_def)

context api_objects
begin

text \<open>A supported TfRun gets as far as the request for its Job.\<close>

lemma createNewJob_builds:
  assumes app: "appliable k w t" and "8 \<le> length h'"
  obtains j where "Job_Name j = applyName t h'" "Job_Namespace j = Namespace t" "Job_Status j = zeroJobStatus"
    "\<And>x w'. yields (createJobAndUpdateStatus r t j h' (applyName t h') jobTypeApply) w x w' \<Longrightarrow>
      yields (createNewJob r t h' jobTypeApply) w x w'"
proof -
  obtain rid where rid: "BuildRunID (Generation t) h' = Ret rid"
    using assms(2) BuildRunID_Ret by blast
  then have n: "applyName t h' = buildJobName t rid"
    by (simp add: applyName_def)
  obtain b where b: "ForEngine r (ToLower (Engine_Type (Engine (Spec t)))) (Some []) = (Some b, None)" "K8s b = r"
    using appliable_engine [OF app] by blast
  obtain cb where "Cloud (Backend (Spec t)) = Some cb"
    using remote_ready_cloud [OF appliableD(5) [OF app]] by blast
  then obtain j where built: "yields (BuildJob b t jobTypeApply (applyName t h')) w (Inr j) w"
    and j: "Job_Name j = applyName t h'" "Job_Namespace j = Namespace t" "Job_Status j = zeroJobStatus"
    using BuildJob_yields [OF _ b(2) appliableD(6) [OF app]] by blast
  let ?j = "j\<lparr>Job_OwnerReferences := [\<lparr>Owner_Kind = ''TfRun'', Owner_Name = Name t,
    Owner_UID = UID t, Owner_Controller = True\<rparr>]\<rparr>"
  have "yields (createNewJob r t h' jobTypeApply) w x w'"
    if "yields (createJobAndUpdateStatus r t ?j h' (applyName t h') jobTypeApply) w x w'" for x w'
    unfolding createNewJob_def b(1) prod.case option.case rid Let_def
    using that by (intro yields_andThen [OF yields_lift] yields_Inr [OF built [unfolded n]])
      (simp add: server_simps n)
  then show ?thesis
    using that [of ?j] j by simp
qed

lemma lookupActiveJob_yields:
  "yields (lookupActiveJob r t) w (activeJob (Jobs w) t) w"
proof (cases "ActiveJobName (Status t) = ''''")
  case False
  then show ?thesis
    unfolding lookupActiveJob_def if_not_P [OF False]
    by (intro yields_andThen [OF GetJob_yields])
      (simp add: activeJob_def jobNamed_def lookup_in_def split: option.split)
qed (simp add: lookupActiveJob_def activeJob_def)

end

lemma createNewJob_applied:
  assumes app: "appliable k w t" and h': "starts h (Jobs w) t h'" "8 \<le> length h'"
  shows "\<exists>x w'. yields (createNewJob (kubeUp api) t h' jobTypeApply) w x w' \<and> applied k h t w w'"
proof -
  obtain j where j: "Job_Name j = applyName t h'" "Job_Namespace j = Namespace t" "Job_Status j = zeroJobStatus"
    and run: "\<And>x w'. yields (createJobAndUpdateStatus (kubeUp api) t j h' (applyName t h') jobTypeApply) w x w' \<Longrightarrow>
      yields (createNewJob (kubeUp api) t h' jobTypeApply) w x w'"
    using up.createNewJob_builds [OF app h'(2)] by blast
  obtain rid where rid: "BuildRunID (Generation t) h' = Ret rid"
    using h'(2) BuildRunID_Ret by blast
  note d = appliableD [OF app]
  show ?thesis
  proof (cases "jobNamed (Jobs w) t (applyName t h')")
    case (Some j')
    let ?f = "\<lambda>s :: TfRunStatus. s\<lparr>ActiveJobName := applyName t h', Phase := PhaseRunning,
      ObservedGeneration := Generation t\<rparr>"
    have "yields (createNewJob (kubeUp api) t h' jobTypeApply) w (noResult, None) (with_status k t ?f w)"
      using run createJobAndUpdateStatus_adopts [OF d(1,2), of j j' api h' jobTypeApply] Some j
      by (simp add: jobNamed_def)
    moreover have "applied k h t w (with_status k t ?f w)"
    proof (rule applied_status [where f = ?f, OF _ refl refl])
      show "applies h t (Jobs w) (?f (Status t)) (Jobs (with_status k t ?f w))"
        using applies.adopted [OF h'(1) Some] by simp
      have "?f (Status t) \<noteq> Status t" if "activeJob (Jobs w) t = None"
        using that Some applyName_not_empty [OF h'(2), of t]
        by (metis activeJob_def TfRunStatus.select_convs(3) TfRunStatus.surjective
            TfRunStatus.update_convs(1-3) option.distinct(1))
      then show "activeJob (Jobs w) t \<noteq> None \<or> ?f (Status t) \<noteq> Status t \<or>
          Jobs (with_status k t ?f w) \<noteq> Jobs w"
        by blast
    qed (simp add: due_keeps)
    ultimately show ?thesis
      by blast
  next
    case None
    obtain cs where run': "yields (createNewJob (kubeUp api) t h' jobTypeApply) w (noResult, None)
      (with_status k t (\<lambda>s. s\<lparr>ActiveJobName := applyName t h', RunID := rid, LastSpecHash := h',
      Phase := PhaseRunning, ObservedGeneration := Generation t, Message := ''Created Job '' @ applyName t h',
      PendingExecHash := '''', PendingReason := '''', Conditions := cs, NextRunTime := None\<rparr>)
      (addJob (Namespace t, applyName t h') j w))" (is "yields _ _ _ (with_status k t ?f ?w)")
      using run createJobAndUpdateStatus_creates [OF d(1,2,4), of j h' rid api jobTypeApply] None j rid
      by (auto simp: jobNamed_def)
    have "applied k h t w (with_status k t ?f ?w)"
    proof (rule applied_status [where f = ?f, OF _ refl])
      show "applies h t (Jobs w) (?f (Status t)) (Jobs (with_status k t ?f ?w))"
        using applies.created [where j = j and rid = rid and cs = cs and
            m = "''Created Job '' @ applyName t h'", OF h'(1) None] j by simp
      have "Jobs (with_status k t ?f ?w) \<noteq> Jobs w"
      proof
        assume "Jobs (with_status k t ?f ?w) = Jobs w"
        from arg_cong [OF this, of "\<lambda>js. map_of js (Namespace t, applyName t h')"] None
        show False
          by (simp add: jobNamed_def)
      qed
      then show "activeJob (Jobs w) t \<noteq> None \<or> ?f (Status t) \<noteq> Status t \<or>
          Jobs (with_status k t ?f ?w) \<noteq> Jobs w"
        by blast
      show "Created ?w @ due h (t\<lparr>Status := ?f (Status t)\<rparr>) = Created w @ due h t"
        using due_created [OF h'(1), of "?f (Status t)"] by simp
    qed simp
    then show ?thesis
      using run' by blast
  qed
qed

subsection \<open>The Job steps keep to the machine\<close>

context api_objects
begin

lemma Now_yields: "yields (Now r) w (Clock w) (w\<lparr>Clock := Clock w + 1\<rparr>)"
  by (simp add: Now_def yields_call server_simps)

text \<open>The two marks of a completed Job change nothing of the cluster but its clock.\<close>

lemma markSucceeded_yields:
  "\<exists>f c. yields (markSucceeded r t j) w (status_update f t) (w\<lparr>Clock := c\<rparr>) \<and> keeps_jobs f \<and>
    (\<forall>s. WorkspaceID (f s) = WorkspaceID s) \<and> (isJobSucceeded j \<longrightarrow> (\<forall>s. Phase (f s) = ''Succeeded''))"
proof (cases "isJobSucceeded j")
  case True
  let ?w = "w\<lparr>Clock := Clock w + 1\<rparr>"
  obtain cs where cs: "yields (SetStatusCondition r (Conditions (Status t))
      (appliedCondition ''True'' ''JobSucceeded'' ''tfrun job succeeded'' (Generation t))) ?w cs ?w"
    using SetStatusCondition_yields by blast
  let ?f = "\<lambda>s :: TfRunStatus. s\<lparr>Phase := PhaseSucceeded, Message := ''Job '' @ Job_Name j @ '' succeeded'',
      LastRunTime := Some (Clock w), Conditions := cs\<rparr>"
  have "yields (markSucceeded r t j) w (status_update ?f t) ?w"
    unfolding markSucceeded_def if_P [OF True]
    by (intro yields_andThen [OF Now_yields] yields_andThen [OF cs] yields_retI)
  then show ?thesis
    by (intro exI [of _ ?f] exI [of _ "Clock w + 1"]) (simp add: keeps_jobs_def PhaseSucceeded_def)
next
  case False
  then show ?thesis
    by (intro exI [of _ "\<lambda>s. s"] exI [of _ "Clock w"]) (simp add: markSucceeded_def keeps_jobs_def)
qed

lemma markFailed_yields:
  "\<exists>f. yields (markFailed r t j) w (status_update f t) w \<and> keeps_jobs f \<and>
    (\<forall>s. WorkspaceID (f s) = WorkspaceID s) \<and> (\<not> isJobFailed j \<longrightarrow> f = (\<lambda>s. s))"
proof (cases "isJobFailed j")
  case True
  obtain cs where cs: "yields (SetStatusCondition r (Conditions (Status t))
      (appliedCondition ''False'' ''JobFailed'' ''tfrun job failed'' (Generation t))) w cs w"
    using SetStatusCondition_yields by blast
  let ?f = "\<lambda>s :: TfRunStatus. s\<lparr>Phase := PhaseFailed, Message := ''Job '' @ Job_Name j @ '' failed'',
      Conditions := cs\<rparr>"
  have "yields (markFailed r t j) w (status_update ?f t) w"
    unfolding markFailed_def if_P [OF True] by (intro yields_andThen [OF cs] yields_retI)
  then show ?thesis
    using True by (intro exI [of _ ?f]) (simp add: keeps_jobs_def)
next
  case False
  then show ?thesis
    by (intro exI [of _ "\<lambda>s. s"]) (simp add: markFailed_def keeps_jobs_def)
qed

end

lemma completed_applied:
  assumes app: "appliable k w t" and j: "activeJob (Jobs w) t = Some j" "\<not> isJobActive j"
    and last: "LastSpecHash (Status t) = h"
  shows "\<exists>x w'. yields (updateStatusBasedOnCompletedJob (kubeUp api) t j) w x w' \<and> applied k h t w w'"
proof -
  obtain f c where f: "yields (markSucceeded (kubeUp api) t j) w (status_update f t) (w\<lparr>Clock := c\<rparr>)"
      "keeps_jobs f" "\<forall>s. WorkspaceID (f s) = WorkspaceID s"
      "isJobSucceeded j \<longrightarrow> (\<forall>s. Phase (f s) = ''Succeeded'')"
    using up.markSucceeded_yields by blast
  obtain g where g: "yields (markFailed (kubeUp api) (status_update f t) j) (w\<lparr>Clock := c\<rparr>)
      (status_update g (status_update f t)) (w\<lparr>Clock := c\<rparr>)"
      "keeps_jobs g" "\<forall>s. WorkspaceID (g s) = WorkspaceID s" "\<not> isJobFailed j \<longrightarrow> g = (\<lambda>s. s)"
    using up.markFailed_yields by blast
  let ?f = "\<lambda>s. g (f s)"
  have "map_of (TfRuns (w\<lparr>Clock := c\<rparr>)) k = Some t"
    using appliableD(1) [OF app] by simp
  note stored = up.StatusUpdate_yields [OF this appliableD(2) [OF app]]
  have "yields (updateStatusBasedOnCompletedJob (kubeUp api) t j) w (requeueAfter (Minutes 5), None)
      (with_status k t ?f (w\<lparr>Clock := c\<rparr>))"
    unfolding updateStatusBasedOnCompletedJob_def
    by (intro yields_andThen [OF f(1)] yields_andThen [OF g(1)], unfold status_update_twice,
        intro yields_Inr [OF stored] yields_retI)
  moreover have "applies h t (Jobs w) (?f (Status t)) (Jobs (with_status k t ?f (w\<lparr>Clock := c\<rparr>)))"
    using applies.finished [OF j last, of ?f] f g by (simp add: keeps_jobs_def)
  then have "applied k h t w (with_status k t ?f (w\<lparr>Clock := c\<rparr>))"
    by (rule applied_status [where f = ?f, OF _ refl])
      (use f(2) g(2) in \<open>simp_all add: j due_keeps keeps_jobs_def\<close>)
  ultimately show ?thesis
    by blast
qed

lemma reconcileJobs_applied:
  assumes app: "appliable k w t" and h: "8 \<le> length h"
  shows "\<exists>x w'. yields (reconcileJobs (kubeUp api) t h) w x w' \<and> applied k h t w w'"
proof -
  note d = appliableD [OF app]
  have "\<exists>x w'. yields (perform (kubeUp api) t h (decide t h (activeJob (Jobs w) t))) w x w' \<and>
      applied k h t w w'"
  proof (cases "activeJob (Jobs w) t")
    case (Some j)
    consider (running) "isJobActive j" "LastSpecHash (Status t) = h"
      | (changed) "isJobActive j" "LastSpecHash (Status t) \<noteq> h"
      | (completed) "\<not> isJobActive j" "LastSpecHash (Status t) = h"
      | (start) "\<not> isJobActive j" "LastSpecHash (Status t) \<noteq> h"
      by blast
    then show ?thesis
    proof cases
      case running
      have "applied k h t w w"
        unfolding applied_def using applies.awaited [OF Some running] d(1)
        by (intro exI [of _ "Status t"]) simp
      then show ?thesis
        using running Some by (auto simp: decide_def)
    next
      case changed
      let ?f = "\<lambda>s :: TfRunStatus. s\<lparr>PendingExecHash := h, PendingReason := ''SpecChange''\<rparr>"
      have "applied k h t w (with_status k t ?f w)"
        using applies.recorded [OF Some changed]
        by (intro applied_status [where f = ?f, OF _ refl refl]) (use changed in \<open>simp_all add: Some due_def\<close>)
      moreover have "yields (perform (kubeUp api) t h RecordPending) w (requeueAfter (Seconds 60), None)
          (with_status k t ?f w)"
        unfolding perform.simps
        by (rule yields_andThen [OF up.StatusUpdate_yields [OF d(1,2)]]) simp
      ultimately show ?thesis
        using changed Some by (auto simp: decide_def)
    next
      case completed
      then show ?thesis
        using completed_applied [OF app Some completed] Some by (simp add: decide_def)
    next
      case start
      then show ?thesis
        using createNewJob_applied [OF app _ h] Some by (simp add: decide_def starts_def)
    qed
  next
    case None
    consider (start) "LastSpecHash (Status t) \<noteq> h"
      | (pending) "LastSpecHash (Status t) = h" "PendingExecHash (Status t) \<notin> {'''', h}"
      | (scheduled) "LastSpecHash (Status t) = h" "PendingExecHash (Status t) \<in> {'''', h}"
          "NextRunTime (Status t) \<noteq> None"
      | (idle) "LastSpecHash (Status t) = h" "PendingExecHash (Status t) \<in> {'''', h}"
          "NextRunTime (Status t) = None"
      by blast
    then show ?thesis
    proof cases
      case start
      then show ?thesis
        using createNewJob_applied [OF app _ h] None by (simp add: decide_def starts_def)
    next
      case pending
      then have "8 \<le> length (PendingExecHash (Status t))"
        using d(7) by auto
      then show ?thesis
        using createNewJob_applied [OF app] pending None by (simp add: decide_def starts_def)
    next
      case scheduled
      let ?f = "\<lambda>s :: TfRunStatus. s\<lparr>NextRunTime := None\<rparr>"
      have "?f (Status t) \<noteq> Status t"
        using scheduled(3) by (metis TfRunStatus.select_convs(13) TfRunStatus.surjective TfRunStatus.update_convs(13))
      then have "applied k h t w (with_status k t ?f w)"
        using applies.unscheduled [OF None scheduled]
        by (intro applied_status [where f = ?f, OF _ refl refl]) (simp_all add: due_keeps)
      moreover have "yields (perform (kubeUp api) t h StopSchedule) w (noResult, None) (with_status k t ?f w)"
        unfolding perform.simps
        by (rule yields_andThen [OF up.StatusUpdate_yields [OF d(1,2)]]) simp
      ultimately show ?thesis
        using scheduled None d(4) by (auto simp: decide_def decideSchedule_def)
    next
      case idle
      have "applied k h t w w"
        unfolding applied_def using applies.idle [OF None idle] d(1)
        by (intro exI [of _ "Status t"]) simp
      then show ?thesis
        using idle None d(4) by (auto simp: decide_def decideSchedule_def)
    qed
  qed
  then show ?thesis
    unfolding reconcileJobs_decides by (blast intro: yields_andThen [OF up.lookupActiveJob_yields])
qed

subsection \<open>One reconciliation\<close>

definition same_object :: "TfRun \<Rightarrow> TfRun \<Rightarrow> bool" where
  "same_object t t' \<longleftrightarrow> Name t' = Name t \<and> Namespace t' = Namespace t \<and> Generation t' = Generation t \<and>
     DeletionTimestamp t' = DeletionTimestamp t \<and> Spec t' = Spec t \<and> Annotations t' = Annotations t"

lemma appliable_moved:
  assumes "appliable k w t" "map_of (TfRuns w') k = Some t'" "same_object t t'"
    and "Secrets w' = Secrets w" "distinct (map fst (Jobs w'))"
    and "PendingExecHash (Status t') = '''' \<or> 8 \<le> length (PendingExecHash (Status t'))"
    and "urlSafe (WorkspaceID (Status t'))"
  shows "appliable k w' t'"
proof -
  have "token_in w' = token_in w"
    using assms(4) by (simp add: token_in_def fun_eq_iff)
  moreover have "importAnnotation t' = importAnnotation t"
    using assms(3) by (simp add: same_object_def importAnnotation_def)
  moreover note assms(3) [unfolded same_object_def]
  ultimately show ?thesis
    using assms(1,2,5-7) unfolding appliable_def remote_ready_def Let_def by metis
qed

lemma due_same:
  assumes "same_object t t1" "keeps_jobs f" "Status t1 = f (Status t)"
  shows "due h t1 = due h t"
proof -
  have "applyName t1 = applyName t"
    using assms(1) by (auto simp: applyName_def buildJobName_def same_object_def fun_eq_iff split: outcome.split)
  then show ?thesis
    using assms by (simp add: due_def keeps_jobs_def same_object_def)
qed

lemma same_hash: "same_object t t' \<Longrightarrow> computeSpecHash r t' = computeSpecHash r t"
  by (auto simp: same_object_def computeSpecHash_def hashInput_def split: sum.split)

text \<open>The finalizer is there and the workspace is known.\<close>

definition settled :: "TfRun \<Rightarrow> bool" where
  "settled t \<longleftrightarrow> finalizerName \<in> set (Finalizers t) \<and> WorkspaceID (Status t) \<noteq> ''''"

context api_objects
begin

lemma ensureFinalizer_yields:
  assumes app: "appliable k w t"
  shows "\<exists>fs w'. yields (ensureFinalizer r t) w (t\<lparr>Finalizers := fs\<rparr>, None) w' \<and>
    appliable k w' (t\<lparr>Finalizers := fs\<rparr>) \<and> Jobs w' = Jobs w \<and> Created w' = Created w \<and> finalizerName \<in> set fs \<and>
    (finalizerName \<in> set (Finalizers t) \<longrightarrow> fs = Finalizers t \<and> w' = w)"
proof (cases "finalizerName \<in> set (Finalizers t)")
  case True
  then show ?thesis
    using app by (intro exI [of _ "Finalizers t"] exI [of _ w]) (simp add: ensureFinalizer_def server_simps)
next
  case False
  let ?t = "t\<lparr>Finalizers := Finalizers t @ [finalizerName]\<rparr>"
  let ?w = "w\<lparr>TfRuns := store k ?t (TfRuns w)\<rparr>"
  note d = appliableD [OF app]
  have "yields (Update r ?t) w (Inr ?t) ?w"
    using d(1-3) by (simp add: Update_def yields_call server_simps kubeUpdate_def ObjectKeyFromObject_def Let_def)
  then have "yields (ensureFinalizer r t) w (?t, None) ?w"
    using False by (simp add: ensureFinalizer_def server_simps Let_def yields_Inr)
  moreover have "appliable k ?w ?t"
    by (rule appliable_moved [OF app]) (use d in \<open>simp_all add: same_object_def\<close>)
  ultimately show ?thesis
    using False by (intro exI [of _ "Finalizers t @ [finalizerName]"] exI [of _ ?w]) simp
qed

end

lemma ensure_steps_up:
  assumes up: "healthy api" and app: "appliable k w t"
  shows "\<exists>t0 w0 t1 w1. yields (ensureFinalizer (kubeUp api) t) w (t0, None) w0 \<and>
    yields (ensureWorkspaceIfNeeded (kubeUp api) t0) w0 (t1, noResult, None) w1 \<and>
    same_object t t0 \<and> same_object t t1 \<and> appliable k w1 t1 \<and> Jobs w1 = Jobs w \<and>
    Created w1 = Created w \<and> settled t1 \<and>
    (\<exists>f. keeps_jobs f \<and> Status t1 = f (Status t)) \<and>
    (WorkspaceID (Status t) \<noteq> '''' \<longrightarrow> Status t1 = Status t) \<and> (settled t \<longrightarrow> t1 = t \<and> w1 = w)"
proof -
  obtain fs w0 where fs: "yields (ensureFinalizer (kubeUp api) t) w (t\<lparr>Finalizers := fs\<rparr>, None) w0"
      "appliable k w0 (t\<lparr>Finalizers := fs\<rparr>)" "Jobs w0 = Jobs w" "Created w0 = Created w" "finalizerName \<in> set fs"
      "finalizerName \<in> set (Finalizers t) \<longrightarrow> fs = Finalizers t \<and> w0 = w"
    using up.ensureFinalizer_yields [OF app] by blast
  let ?t = "t\<lparr>Finalizers := fs\<rparr>"
  note d = appliableD [OF fs(2)]
  obtain f w1 where f: "yields (ensureWorkspaceIfNeeded (kubeUp api) ?t) w0 (status_update f ?t, noResult, None) w1"
      "keeps_jobs f" "map_of (TfRuns w1) k = Some (status_update f ?t)" "Jobs w1 = Jobs w0"
      "Secrets w1 = Secrets w0" "Created w1 = Created w0" "usable (WorkspaceID (f (Status ?t)))"
      "WorkspaceID (Status ?t) \<noteq> '''' \<longrightarrow> f = (\<lambda>s. s) \<and> w1 = w0"
    using ensureWorkspaceIfNeeded_up [OF up d(5,1,2,9)] by blast
  have "appliable k w1 (status_update f ?t)"
    by (rule appliable_moved [OF fs(2) f(3) _ f(5)])
      (use d(7,8) f(2,4,7) in \<open>simp_all add: same_object_def keeps_jobs_def usable_def\<close>)
  moreover have "settled (status_update f ?t)"
    using f(7) fs(5) by (simp add: settled_def usable_def)
  ultimately show ?thesis
    using fs f by (intro exI [of _ ?t] exI [of _ w0] exI [of _ "status_update f ?t"] exI [of _ w1])
      (auto simp: same_object_def settled_def)
qed

lemma Reconcile_applied:
  assumes up: "healthy api" and app: "appliable k w t" and hash: "computeSpecHash (kubeUp api) t = Inr h"
  shows "\<exists>t1 w1. same_object t t1 \<and> appliable k w1 t1 \<and> Jobs w1 = Jobs w \<and>
    Created w1 = Created w \<and> settled t1 \<and>
    (\<exists>f. keeps_jobs f \<and> Status t1 = f (Status t)) \<and>
    (WorkspaceID (Status t) \<noteq> '''' \<longrightarrow> Status t1 = Status t) \<and> (settled t \<longrightarrow> t1 = t \<and> w1 = w) \<and>
    applied k h t1 w1 (snd (snd (Reconcile (kubeUp api) k w)))"
proof -
  obtain t0 w0 t1 w1 where t0: "yields (ensureFinalizer (kubeUp api) t) w (t0, None) w0" "same_object t t0"
      and t1: "yields (ensureWorkspaceIfNeeded (kubeUp api) t0) w0 (t1, noResult, None) w1"
      and moved: "same_object t t1" "appliable k w1 t1" "Jobs w1 = Jobs w" "Created w1 = Created w" "settled t1"
      "\<exists>f. keeps_jobs f \<and> Status t1 = f (Status t)"
      "WorkspaceID (Status t) \<noteq> '''' \<longrightarrow> Status t1 = Status t" "settled t \<longrightarrow> t1 = t \<and> w1 = w"
    using ensure_steps_up [OF up app] by blast
  have "8 \<le> length h"
    using computeSpecHash_hex [OF hash] by simp
  then obtain x w' where jobs: "yields (reconcileJobs (kubeUp api) t1 h) w1 x w'" "applied k h t1 w1 w'"
    using reconcileJobs_applied [OF moved(2)] by blast
  have get: "yields (GetTfRun (kubeUp api) k) w (Inr t) w"
    using up.GetTfRun_yields [of api k w] appliableD(1) [OF app] by (simp add: lookup_in_def)
  have "yields (Reconcile (kubeUp api) k) w x w'"
    unfolding Reconcile_def using t0(2) appliableD(3) [OF app] hash same_hash [OF t0(2), of "kubeUp api"] jobs(1)
    by (intro yields_Inr [OF get] yields_andThen [OF t0(1)])
      (simp add: same_object_def yields_andThen [OF t1] noResult_def)
  then show ?thesis
    using moved jobs(2) by (auto dest: yields_world)
qed

subsection \<open>The measure\<close>

text \<open>How many ticks a Job is away from being collected.\<close>

definition jobLife :: "Job option \<Rightarrow> nat" where
  "jobLife jo = (case jo of None \<Rightarrow> 0
     | Some j \<Rightarrow> if isJobActive j then nat (sint (Active (Job_Status j))) + 1
         else if isJobSucceeded j \<or> isJobFailed j then 1 else 3)"

lemma jobLife_tick: "jobLife (tickJob j) < jobLife (Some j)"
proof (cases "isJobActive j")
  case True
  then have "jobLife (Some j) > 1"
    by (simp add: jobLife_def isJobActive_def)
  then show ?thesis
    by - (rule tickJob_active [OF True], use True in \<open>auto simp: jobLife_def\<close>)
next
  case False
  then show ?thesis
    using tickJob_idle [OF False] by (auto simp: jobLife_def)
qed

lemma jobLife_bind: "jobLife (Option.bind jo tickJob) \<le> jobLife jo"
  using jobLife_tick by (cases jo) (auto intro: less_imp_le)

lemma jobNamed_tick:
  "distinct (map fst js) \<Longrightarrow> jobNamed (tickJobs js) t n = Option.bind (jobNamed js t n) tickJob"
  by (simp add: jobNamed_def map_of_tickJobs)

text \<open>The ticks until nothing keeps an apply of the given name from being created.\<close>

definition toward :: "(NamespacedName \<times> Job) list \<Rightarrow> TfRun \<Rightarrow> string \<Rightarrow> nat" where
  "toward js t n = (if ActiveJobName (Status t) = n then jobLife (activeJob js t)
     else jobLife (activeJob js t) + jobLife (jobNamed js t n) + 1)"

definition applyMeasure :: "string \<Rightarrow> TfRun \<Rightarrow> (NamespacedName \<times> Job) list \<Rightarrow> nat \<times> nat" where
  "applyMeasure h t js =
     (if LastSpecHash (Status t) \<noteq> h then (1, toward js t (applyName t h))
      else if PendingExecHash (Status t) \<notin> {'''', h} then
        (2, toward js t (applyName t (PendingExecHash (Status t))))
      else (0, jobLife (activeJob js t) + (if NextRunTime (Status t) = None then 0 else 1) +
        (if settled t then 0 else 1)))"

text \<open>Nothing is left to do: the spec is applied, no Job is there, no hash is pending.\<close>

definition finished_run :: "string \<Rightarrow> TfRun \<Rightarrow> (NamespacedName \<times> Job) list \<Rightarrow> bool" where
  "finished_run h t js \<longleftrightarrow> LastSpecHash (Status t) = h \<and> PendingExecHash (Status t) \<in> {'''', h} \<and>
     activeJob js t = None \<and> NextRunTime (Status t) = None \<and> settled t"

text \<open>A status that names the same Job: the Job has ticked, and every name is nearer.\<close>

lemma activeJob_tick:
  assumes "distinct (map fst js)" "ActiveJobName s' = ActiveJobName (Status t)"
  shows "activeJob (tickJobs js) (t\<lparr>Status := s'\<rparr>) = Option.bind (activeJob js t) tickJob"
  using assms by (simp add: activeJob_def jobNamed_tick) (simp add: jobNamed_def)

lemma jobLife_active_tick:
  "activeJob js t = Some j \<Longrightarrow> jobLife (Option.bind (activeJob js t) tickJob) < jobLife (activeJob js t)"
  using jobLife_tick by simp

lemma toward_tick:
  assumes "distinct (map fst js)" "activeJob js t = Some j" "ActiveJobName s' = ActiveJobName (Status t)"
  shows "toward (tickJobs js) (t\<lparr>Status := s'\<rparr>) n < toward js t n"
proof -
  have named: "jobNamed (tickJobs js) (t\<lparr>Status := s'\<rparr>) n = Option.bind (jobNamed js t n) tickJob"
    using jobNamed_tick [OF assms(1)] by (simp add: jobNamed_def)
  show ?thesis
    using jobLife_active_tick [OF assms(2)] jobLife_bind [of "jobNamed js t n"] assms(3)
    by (simp add: toward_def named activeJob_tick [OF assms(1,3)])
qed

text \<open>The Job that is adopted becomes the one that the status names.\<close>

lemma toward_adopted:
  assumes "distinct (map fst js)" "jobNamed js t n = Some j" "n \<noteq> ''''" "ActiveJobName s' = n"
  shows "toward (tickJobs js) (t\<lparr>Status := s'\<rparr>) n < toward js t n"
proof -
  have "jobNamed (tickJobs js) (t\<lparr>Status := s'\<rparr>) n = tickJob j"
    using jobNamed_tick [OF assms(1)] assms(2) by (simp add: jobNamed_def)
  then have "activeJob (tickJobs js) (t\<lparr>Status := s'\<rparr>) = tickJob j"
    using assms(3,4) by (simp add: activeJob_def)
  then show ?thesis
    using assms jobLife_tick [of j] by (simp add: toward_def activeJob_def)
qed

lemma applies_nearer:
  assumes "applies h t js s' js'" and settled: "settled t" and dist: "distinct (map fst js)"
    and lens: "8 \<le> length h" "PendingExecHash (Status t) = '''' \<or> 8 \<le> length (PendingExecHash (Status t))"
  shows "(applyMeasure h (t\<lparr>Status := s'\<rparr>) (tickJobs js'), applyMeasure h t js) \<in>
      less_than <*lex*> less_than \<or> finished_run h t js \<and> s' = Status t \<and> js' = js"
  using assms(1)
proof cases
  case (recorded j)
  then have "toward (tickJobs js) (t\<lparr>Status := s'\<rparr>) (applyName t h) < toward js t (applyName t h)"
    by (intro toward_tick [OF dist, of _ j]) simp_all
  then show ?thesis
    using recorded by (simp add: applyMeasure_def)
next
  case (awaited j)
  have "toward (tickJobs js) (t\<lparr>Status := s'\<rparr>) n < toward js t n" for n
    using awaited by (intro toward_tick [OF dist, of _ j]) simp_all
  then show ?thesis
    using awaited activeJob_tick [OF dist, of s' t] jobLife_tick [of j]
    by (simp add: applyMeasure_def settled_def)
next
  case (finished j f)
  have "toward (tickJobs js) (t\<lparr>Status := s'\<rparr>) n < toward js t n" for n
    using finished by (intro toward_tick [OF dist, of _ j]) (simp_all add: keeps_jobs_def)
  then show ?thesis
    using finished activeJob_tick [OF dist, of s' t] jobLife_tick [of j]
    by (simp add: applyMeasure_def settled_def keeps_jobs_def)
next
  case (adopted h' j)
  have "8 \<le> length h'"
    using adopted(3) lens by (auto simp: starts_def split: if_splits)
  then have "toward (tickJobs js) (t\<lparr>Status := s'\<rparr>) (applyName t h') < toward js t (applyName t h')"
    using adopted by (intro toward_adopted [OF dist, of _ _ j] applyName_not_empty) simp_all
  then show ?thesis
    using adopted by (auto simp: applyMeasure_def starts_def split: if_splits)
next
  case (created h' j rid m cs)
  then show ?thesis
    by (auto simp: applyMeasure_def starts_def split: if_splits)
next
  case unscheduled
  then show ?thesis
    using settled activeJob_tick [OF dist, of s' t] by (auto simp: applyMeasure_def settled_def jobLife_def)
next
  case idle
  then show ?thesis
    using settled by (simp add: finished_run_def)
qed

subsection \<open>The invariant\<close>

text \<open>
  What holds from the first round on of a TfRun whose spec is not applied at the start: once
  its hash is recorded, the Job of that apply is under way or the phase tells its success.
\<close>

definition on_its_way :: "string \<Rightarrow> TfRun \<Rightarrow> (NamespacedName \<times> Job) list \<Rightarrow> bool" where
  "on_its_way h t js \<longleftrightarrow>
     (if LastSpecHash (Status t) = h \<and> PendingExecHash (Status t) \<in> {'''', h} then
        WorkspaceID (Status t) \<noteq> '''' \<and>
        (case activeJob js t of None \<Rightarrow> Phase (Status t) = ''Succeeded'' | Some j \<Rightarrow> \<not> isJobFailed j)
      else True)"

lemma applies_on_its_way:
  assumes "applies h t js s' js'" "on_its_way h t js" and dist: "distinct (map fst js)"
    and "WorkspaceID (Status t) \<noteq> ''''"
    and lens: "8 \<le> length h" "PendingExecHash (Status t) = '''' \<or> 8 \<le> length (PendingExecHash (Status t))"
  shows "on_its_way h (t\<lparr>Status := s'\<rparr>) (tickJobs js')"
  using assms(1)
proof cases
  case (recorded j)
  then show ?thesis
    by (simp add: on_its_way_def)
next
  case (awaited j)
  obtain j' where "tickJob j = Some j'" "isJobFailed j' = isJobFailed j"
    using tickJob_active [OF awaited(4)] by blast
  then show ?thesis
    using awaited assms(2) activeJob_tick [OF dist, of s' t]
    by (auto simp: on_its_way_def split: if_splits)
next
  case (finished j f)
  have f: "ActiveJobName s' = ActiveJobName (Status t)" "LastSpecHash s' = LastSpecHash (Status t)"
      "PendingExecHash s' = PendingExecHash (Status t)" "WorkspaceID s' = WorkspaceID (Status t)"
    using finished(1,6,7) by (simp_all add: keeps_jobs_def)
  show ?thesis
  proof (cases "PendingExecHash (Status t) \<in> {'''', h}")
    case True
    then have ok: "\<not> isJobFailed j"
      using assms(2) finished(3,5) by (simp add: on_its_way_def)
    have "case tickJob j of None \<Rightarrow> Phase s' = ''Succeeded'' | Some j' \<Rightarrow> \<not> isJobFailed j'"
      using tickJob_idle [OF finished(4)] ok finished(1,8) by (cases "isJobSucceeded j") auto
    then show ?thesis
      using True assms(4) f activeJob_tick [OF dist f(1)] finished(2,3,5)
      by (simp add: on_its_way_def cong: option.case_cong)
  qed (simp add: on_its_way_def f)
next
  case (adopted h' j)
  then show ?thesis
    by (auto simp: on_its_way_def starts_def split: if_splits)
next
  case (created h' j rid m cs)
  show ?thesis
  proof (cases "h' = h")
    case True
    have fresh: "\<not> isJobActive j" "\<not> isJobSucceeded j" "\<not> isJobFailed j"
      using created(5)
      by (simp_all add: isJobActive_def isJobSucceeded_def isJobFailed_def zeroJobStatus_def)
    obtain j' where j': "tickJob j = Some j'" "\<not> isJobFailed j'"
      using tickJob_idle(2) [OF fresh] by blast
    have "applyName t h \<noteq> ''''"
      by (rule applyName_not_empty [OF lens(1)])
    then have "activeJob (tickJobs js') (t\<lparr>Status := s'\<rparr>) = Some j'"
      using created(1,2) True j'(1) dist
      by (simp add: activeJob_def jobNamed_def map_of_tickJobs store_distinct)
    then show ?thesis
      using created(1) True assms(4) j'(2) by (simp add: on_its_way_def)
  qed (simp add: on_its_way_def created(1))
next
  case unscheduled
  then show ?thesis
    using assms(2,4) activeJob_tick [OF dist, of s' t] by (simp add: on_its_way_def)
next
  case idle
  then show ?thesis
    using assms(2,4) activeJob_tick [OF dist, of s' t] by (simp add: on_its_way_def)
qed

lemma applies_keeps:
  assumes "applies h t js s' js'" "distinct (map fst js)" "8 \<le> length h"
    and "PendingExecHash (Status t) = '''' \<or> 8 \<le> length (PendingExecHash (Status t))"
  shows "distinct (map fst js')" "PendingExecHash s' = '''' \<or> 8 \<le> length (PendingExecHash s')"
    "WorkspaceID s' = WorkspaceID (Status t)"
  using assms by (cases; auto simp: store_distinct keeps_jobs_def)+

text \<open>The finalizer and the workspace bring a TfRun nearer only.\<close>

lemma settles_nearer:
  assumes "same_object t t1" "keeps_jobs f" "Status t1 = f (Status t)" "settled t1"
  shows "(applyMeasure h t1 js, applyMeasure h t js) \<in> (less_than <*lex*> less_than)\<^sup>="
    and "\<not> settled t \<Longrightarrow> LastSpecHash (Status t) = h \<Longrightarrow> PendingExecHash (Status t) \<in> {'''', h} \<Longrightarrow>
      (applyMeasure h t1 js, applyMeasure h t js) \<in> less_than <*lex*> less_than"
proof -
  have same: "ActiveJobName (Status t1) = ActiveJobName (Status t)"
      "LastSpecHash (Status t1) = LastSpecHash (Status t)"
      "PendingExecHash (Status t1) = PendingExecHash (Status t)"
      "NextRunTime (Status t1) = NextRunTime (Status t)"
    using assms(2,3) by (simp_all add: keeps_jobs_def)
  have named: "jobNamed js t1 = jobNamed js t" "applyName t1 = applyName t"
    using assms(1)
    by (auto simp: jobNamed_def applyName_def buildJobName_def same_object_def fun_eq_iff split: outcome.split)
  have active: "activeJob js t1 = activeJob js t"
    by (simp add: activeJob_def same named)
  note all = applyMeasure_def toward_def same named active
  show "(applyMeasure h t1 js, applyMeasure h t js) \<in> (less_than <*lex*> less_than)\<^sup>="
    using assms(4) by (simp add: all)
  show "\<not> settled t \<Longrightarrow> LastSpecHash (Status t) = h \<Longrightarrow> PendingExecHash (Status t) \<in> {'''', h} \<Longrightarrow>
      (applyMeasure h t1 js, applyMeasure h t js) \<in> less_than <*lex*> less_than"
    using assms(4) by (simp add: all)
qed

subsection \<open>Every apply comes to rest\<close>

definition at_rest :: "NamespacedName \<Rightarrow> string \<Rightarrow> cluster \<Rightarrow> bool" where
  "at_rest k h w = (case map_of (TfRuns w) k of None \<Rightarrow> True | Some t \<Rightarrow> finished_run h t (Jobs w))"

definition apply_invariant ::
  "bool \<Rightarrow> NamespacedName \<Rightarrow> string \<Rightarrow> TfRun \<Rightarrow> NamespacedName list \<Rightarrow> cluster \<Rightarrow> bool" where
  "apply_invariant fresh k h t0 ns w \<longleftrightarrow> (\<exists>t. appliable k w t \<and> same_object t0 t \<and>
     Created w @ due h t = ns \<and> (fresh \<longrightarrow> on_its_way h t (Jobs w)))"

definition world_measure :: "NamespacedName \<Rightarrow> string \<Rightarrow> cluster \<Rightarrow> nat \<times> nat" where
  "world_measure k h w = (case map_of (TfRuns w) k of None \<Rightarrow> (0, 0)
     | Some t \<Rightarrow> applyMeasure h t (Jobs w))"

lemma on_its_way_settles:
  assumes "on_its_way h t js" "same_object t t1" "keeps_jobs f" "Status t1 = f (Status t)"
    and "WorkspaceID (Status t) \<noteq> '''' \<longrightarrow> Status t1 = Status t"
  shows "on_its_way h t1 js"
proof (cases "WorkspaceID (Status t) = ''''")
  case True
  then show ?thesis
    using assms(1,3,4) by (auto simp: on_its_way_def keeps_jobs_def split: if_splits)
next
  case False
  then have "Status t1 = Status t" "Namespace t1 = Namespace t"
    using assms(2,5) by (simp_all add: same_object_def)
  then have "activeJob js t1 = activeJob js t"
    by (simp add: activeJob_def jobNamed_def)
  then show ?thesis
    using assms(1) \<open>Status t1 = Status t\<close> by (simp add: on_its_way_def cong: option.case_cong)
qed

lemma apply_round:
  assumes up: "healthy api" and hash: "computeSpecHash (kubeUp api) t0 = Inr h"
    and inv: "apply_invariant fresh k h t0 ns w"
  shows "apply_invariant fresh k h t0 ns (round (kubeUp api) k w)"
    and "\<not> at_rest k h w \<Longrightarrow>
      (world_measure k h (round (kubeUp api) k w), world_measure k h w) \<in> less_than <*lex*> less_than"
proof -
  obtain t where app: "appliable k w t" and same0: "same_object t0 t"
      and way: "fresh \<longrightarrow> on_its_way h t (Jobs w)" and ns: "Created w @ due h t = ns"
    using inv by (auto simp: apply_invariant_def)
  have hash_t: "computeSpecHash (kubeUp api) t = Inr h"
    using hash same_hash [OF same0, of "kubeUp api"] by simp
  then have len: "8 \<le> length h"
    using computeSpecHash_hex by fastforce
  let ?w = "snd (snd (Reconcile (kubeUp api) k w))"
  obtain t1 w1 f where t1: "same_object t t1" "appliable k w1 t1" "Jobs w1 = Jobs w" "settled t1"
      "keeps_jobs f" "Status t1 = f (Status t)" "WorkspaceID (Status t) \<noteq> '''' \<longrightarrow> Status t1 = Status t"
      "settled t \<longrightarrow> t1 = t \<and> w1 = w" "applied k h t1 w1 ?w" "Created w1 = Created w"
    using Reconcile_applied [OF up app hash_t] by blast
  obtain s' where s': "applies h t1 (Jobs w) s' (Jobs ?w)" "map_of (TfRuns ?w) k = Some (t1\<lparr>Status := s'\<rparr>)"
      "Secrets ?w = Secrets w1" "Created ?w @ due h (t1\<lparr>Status := s'\<rparr>) = Created w @ due h t1"
    using t1(3,9,10) by (auto simp: applied_def)
  have "due h t1 = due h t"
    using due_same [OF t1(1,5,6)] .
  then have created: "Created (round (kubeUp api) k w) @ due h (t1\<lparr>Status := s'\<rparr>) = ns"
    using s'(4) ns by (simp add: round_def)
  note d = appliableD [OF t1(2), unfolded t1(3)]
  note keeps = applies_keeps [OF s'(1) d(8) len d(7)] d(9)
  have app': "appliable k (round (kubeUp api) k w) (t1\<lparr>Status := s'\<rparr>)"
    by (rule appliable_moved [OF t1(2)])
      (use s' keeps in \<open>simp_all add: round_def same_object_def tickJobs_distinct\<close>)
  have "same_object t0 (t1\<lparr>Status := s'\<rparr>)"
    using same0 t1(1) by (simp add: same_object_def)
  moreover have "on_its_way h (t1\<lparr>Status := s'\<rparr>) (tickJobs (Jobs ?w))" if fresh
  proof (rule applies_on_its_way [OF s'(1) _ d(8) _ len d(7)])
    show "on_its_way h t1 (Jobs w)"
      using on_its_way_settles [OF _ t1(1,5,6,7)] way that by blast
    show "WorkspaceID (Status t1) \<noteq> ''''"
      using t1(4) by (simp add: settled_def)
  qed
  ultimately show "apply_invariant fresh k h t0 ns (round (kubeUp api) k w)"
    unfolding apply_invariant_def using app' created by (auto simp: round_def)
  have t: "map_of (TfRuns w) k = Some t"
    by (rule appliableD(1) [OF app])
  have m: "world_measure k h w = applyMeasure h t (Jobs w)"
      "world_measure k h (round (kubeUp api) k w) = applyMeasure h (t1\<lparr>Status := s'\<rparr>) (tickJobs (Jobs ?w))"
    using t s'(2) by (simp_all add: world_measure_def round_def)
  note le = settles_nearer(1) [OF t1(1,5,6,4), of h "Jobs w"]
  have tr: "trans (less_than <*lex*> less_than)"
    by (intro trans_lex_prod trans_less_than)
  assume busy: "\<not> at_rest k h w"
  show "(world_measure k h (round (kubeUp api) k w), world_measure k h w) \<in> less_than <*lex*> less_than"
    unfolding m using applies_nearer [OF s'(1) t1(4) d(8) len d(7)]
  proof
    assume "(applyMeasure h (t1\<lparr>Status := s'\<rparr>) (tickJobs (Jobs ?w)), applyMeasure h t1 (Jobs w)) \<in>
      less_than <*lex*> less_than"
    then show "(applyMeasure h (t1\<lparr>Status := s'\<rparr>) (tickJobs (Jobs ?w)), applyMeasure h t (Jobs w)) \<in>
      less_than <*lex*> less_than"
      using le transD [OF tr] by (metis UnE pair_in_Id_conv)
  next
    assume rested: "finished_run h t1 (Jobs w) \<and> s' = Status t1 \<and> Jobs ?w = Jobs w"
    then have "\<not> settled t"
      using busy t t1(8) by (auto simp: at_rest_def)
    moreover have "LastSpecHash (Status t) = h" "PendingExecHash (Status t) \<in> {'''', h}"
      using rested t1(5,6) by (simp_all add: finished_run_def keeps_jobs_def)
    ultimately have "(applyMeasure h t1 (Jobs w), applyMeasure h t (Jobs w)) \<in> less_than <*lex*> less_than"
      using settles_nearer(2) [OF t1(1,5,6,4)] by blast
    moreover have "applyMeasure h (t1\<lparr>Status := s'\<rparr>) (tickJobs (Jobs ?w)) = applyMeasure h t1 (Jobs w)"
      using rested activeJob_tick [OF d(8), of s' t1]
      by (simp add: finished_run_def applyMeasure_def settled_def)
    ultimately show "(applyMeasure h (t1\<lparr>Status := s'\<rparr>) (tickJobs (Jobs ?w)), applyMeasure h t (Jobs w)) \<in>
      less_than <*lex*> less_than"
      by simp
  qed
qed

text \<open>A TfRun at rest is left as it is.\<close>

lemma rest_stays:
  assumes up: "healthy api" and app: "appliable k w t" and hash: "computeSpecHash (kubeUp api) t = Inr h"
    and rest: "finished_run h t (Jobs w)"
  shows "TfRuns (round (kubeUp api) k w) = TfRuns w"
proof -
  let ?w = "snd (snd (Reconcile (kubeUp api) k w))"
  have "settled t"
    using rest by (simp add: finished_run_def)
  then have "applied k h t w ?w"
    using Reconcile_applied [OF up app hash] by blast
  then obtain s' where s': "applies h t (Jobs w) s' (Jobs ?w)"
      "activeJob (Jobs w) t = None \<and> s' = Status t \<and> Jobs ?w = Jobs w \<longrightarrow> TfRuns ?w = TfRuns w"
    by (auto simp: applied_def)
  have "8 \<le> length h"
    using computeSpecHash_hex [OF hash] by simp
  then have "(applyMeasure h (t\<lparr>Status := s'\<rparr>) (tickJobs (Jobs ?w)), applyMeasure h t (Jobs w)) \<in>
      less_than <*lex*> less_than \<or> s' = Status t \<and> Jobs ?w = Jobs w"
    using applies_nearer [OF s'(1) \<open>settled t\<close>] appliableD(7,8) [OF app] by blast
  moreover have "applyMeasure h t (Jobs w) = (0, 0)"
    using rest by (simp add: applyMeasure_def finished_run_def jobLife_def)
  moreover have "(x, 0, 0) \<notin> less_than <*lex*> less_than" for x :: "nat \<times> nat"
    by (cases x) simp
  ultimately have "s' = Status t \<and> Jobs ?w = Jobs w"
    by metis
  then show ?thesis
    using s'(2) rest by (auto simp: round_def finished_run_def)
qed

lemma apply_rests:
  assumes "healthy api" "appliable k w t" "computeSpecHash (kubeUp api) t = Inr h"
  obtains w' t' where "while_option (\<lambda>w. \<not> at_rest k h w) (round (kubeUp api) k) w = Some w'"
    "map_of (TfRuns w') k = Some t'" "same_object t t'" "finished_run h t' (Jobs w')"
    "LastSpecHash (Status t) \<noteq> h \<longrightarrow> Phase (Status t') = ''Succeeded''"
    "Created w' = Created w @ due h t" "TfRuns (round (kubeUp api) k w') = TfRuns w'"
proof -
  let ?fresh = "LastSpecHash (Status t) \<noteq> h"
  let ?inv = "apply_invariant ?fresh k h t (Created w @ due h t)"
  note step = apply_round [OF assms(1,3), of ?fresh k "Created w @ due h t"]
  have init: "?inv w"
    using assms(2) by (auto simp: apply_invariant_def same_object_def on_its_way_def)
  have wf: "wf (inv_image (less_than <*lex*> less_than) (world_measure k h))"
    by (intro wf_inv_image wf_lex_prod wf_less_than)
  obtain w' where w': "while_option (\<lambda>w. \<not> at_rest k h w) (round (kubeUp api) k) w = Some w'"
    using wf_rel_while_option_Some [OF wf, of ?inv "\<lambda>w. \<not> at_rest k h w" "round (kubeUp api) k" w]
      step init unfolding in_inv_image by blast
  have "?inv w'"
    using while_option_rule [OF _ w', of ?inv] step(1) init by blast
  then obtain t' where t': "appliable k w' t'" "same_object t t'" "?fresh \<longrightarrow> on_its_way h t' (Jobs w')"
      "Created w' @ due h t' = Created w @ due h t"
    by (auto simp: apply_invariant_def)
  have rest: "finished_run h t' (Jobs w')"
    using while_option_stop [OF w'] appliableD(1) [OF t'(1)] by (simp add: at_rest_def)
  moreover have "computeSpecHash (kubeUp api) t' = Inr h"
    using assms(3) same_hash [OF t'(2), of "kubeUp api"] by simp
  then have "TfRuns (round (kubeUp api) k w') = TfRuns w'"
    using rest_stays [OF assms(1) t'(1)] rest by blast
  moreover have "?fresh \<longrightarrow> Phase (Status t') = ''Succeeded''"
    using t'(3) rest by (auto simp: on_its_way_def finished_run_def)
  moreover have "Created w' = Created w @ due h t"
    using t'(4) rest by (simp add: due_def finished_run_def)
  ultimately show ?thesis
    using that w' t'(2) appliableD(1) [OF t'(1)] by blast
qed


subsection \<open>A first apply\<close>

text \<open>
  A TfRun as a user has created it, without finalizer and status, while a Job of an earlier TfRun
  of the same name is still there; and a remote API that answers as documented.
\<close>

definition scalrAnswers :: "HttpRequest \<Rightarrow> HttpResponse" where
  \<open>scalrAnswers q = (if Method q = ''POST''
     then \<lparr>StatusCode = 201, Body = Inr ''{"data":{"id":"ws-1","type":"workspaces"}}''\<rparr>
     else \<lparr>StatusCode = 200, Body = Inr workspaceReply\<rparr>)\<close>

lemma scalrAnswers_healthy: "healthy scalrAnswers"
  by (simp add: healthy_def scalrAnswers_def UnmarshalEnvironmentList_workspaceReply elems_def)
    (simp add: unmarshal_defs parse_defs decode_defs usable_def isControl_def)

definition newRun :: TfRun where
  "newRun = sampleRun\<lparr>Finalizers := []\<rparr>"

definition newCluster :: cluster where
  "newCluster = sampleCluster newRun
     [((''team'', applyName newRun (case computeSpecHash (kubeUp scalrAnswers) newRun of
        Inl _ \<Rightarrow> '''' | Inr h \<Rightarrow> h)), sampleJob ''old'' \<lparr>Active = 2, Succeeded = 0, Failed = 0\<rparr>)] []"

lemma newRun_hash: "\<exists>h. computeSpecHash (kubeUp scalrAnswers) newRun = Inr h"
proof -
  have "hashInput (kubeUp scalrAnswers) newRun \<noteq> Inl e" for e
    by (simp add: hashInput_def marshalVars_def newRun_def sample_defs)
  then show ?thesis
    by (cases "hashInput (kubeUp scalrAnswers) newRun") (auto simp: computeSpecHash_def)
qed

lemma newRun_appliable: "appliable (''team'', ''net'') newCluster newRun"
  by (simp add: appliable_def newCluster_def newRun_def sample_defs token_in_def gomap_get_def
      IsZero_def remote_ready_def tofuEngine_def ToLower_def lowerChar_def BackendScalr_def
      TrimSpace_def isSpace_def Let_def importAnnotation_def sample_host isControl_def)


end
