(* ===== verification/Lost_Writes.thy ===== *)
theory Lost_Writes
  imports Apply_Converges
begin

text \<open>
  An API server that refuses status updates, as it does when the TfRun has been changed since it
  was read. Any number of refused rounds only delays an apply, at the cost of at most one Job
  each; and one refused write can indeed cost one: the spec is then applied twice.
\<close>

definition conflict :: goerr where
  "conflict = ApiErr ReasonConflict ''the object has been modified''"

text \<open>The reference cluster, with every update of a status refused.\<close>

definition lossy :: "(HttpRequest \<Rightarrow> HttpResponse) \<Rightarrow> cluster ext" where
  "lossy api = (kubeUp api)\<lparr>StatusUpdate_of := (\<lambda>t w. (Inl conflict, w))\<rparr>"

interpretation lossy: remote_api "lossy api" api for api
  by unfold_locales (simp_all add: lossy_def kubeUp_def)

lemma lossy_StatusUpdate: "yields (StatusUpdate (lossy api) t) w (Inl conflict) w"
  by (simp add: StatusUpdate_def lossy_def yields_call)

lemma lossy_hash: "computeSpecHash (lossy api) t = computeSpecHash (kubeUp api) t"
  by (simp add: computeSpecHash_def hashInput_def marshalVars_def lossy.server_simps up.server_simps)

lemma createJobAndUpdateStatus_loses:
  assumes "RunInterval (Spec t) = None" "Job_Namespace j = Namespace t"
    and "map_of (Jobs w) (Namespace t, Job_Name j) = None" "8 \<le> length h"
  shows "yields (createJobAndUpdateStatus (lossy api) t j h (Job_Name j) jt) w (noResult, Some conflict)
    (addJob (Namespace t, Job_Name j) j w)"
proof -
  let ?w = "addJob (Namespace t, Job_Name j) j w"
  let ?c = "appliedCondition ''False'' ''JobCreated'' ''tfrun job created'' (Generation t)"
  have create: "yields (CreateJob (lossy api) j) w None ?w"
    using assms(2,3) by (simp add: CreateJob_def yields_call lossy.server_simps kubeCreateJob_def Let_def)
  obtain cs where cs: "yields (SetStatusCondition (lossy api) (Conditions (Status t)) ?c) ?w cs ?w"
    using lossy.SetStatusCondition_yields by blast
  obtain rid where rid: "BuildRunID (Generation t) h = Ret rid"
    using assms(4) BuildRunID_Ret by blast
  show ?thesis
    unfolding createJobAndUpdateStatus_def rid Let_def
    by (intro yields_andThen [OF create], unfold option.case,
        intro yields_andThen [OF yields_lift] yields_andThen [OF cs])
      (unfold status_update_fields assms(1) option.case andThen_ret status_update_twice,
        intro yields_andThen [OF lossy_StatusUpdate], simp)
qed

subsection \<open>A round of refused writes\<close>

text \<open>What a round leaves whose status writes are all refused: the TfRuns as they were, and the Jobs
  with at most one more.\<close>

definition unrecorded :: "cluster \<Rightarrow> cluster \<Rightarrow> bool" where
  "unrecorded w w' \<longleftrightarrow> TfRuns w' = TfRuns w \<and> Secrets w' = Secrets w \<and>
     (Jobs w' = Jobs w \<and> Created w' = Created w \<or>
      (\<exists>n j. Jobs w' = store n j (Jobs w) \<and> Created w' = Created w @ [n]))"

lemma unrecorded_same [simp]: "unrecorded w w" "unrecorded w (w\<lparr>Clock := c\<rparr>)"
  by (simp_all add: unrecorded_def)

lemma unrecorded_addJob [simp]: "unrecorded w (addJob n j w)"
  unfolding unrecorded_def by (intro conjI disjI2 exI [of _ n] exI [of _ j]) simp_all

lemma lossy_updateStatus:
  "yields (updateStatus (lossy api) t) w (t, requeueAfter (Seconds 5), Some conflict) w"
  unfolding updateStatus_def by (rule yields_andThen [OF lossy_StatusUpdate]) simp

lemma createJobAndUpdateStatus_unrecorded:
  assumes app: "appliable k w t" and "Job_Namespace j = Namespace t" "8 \<le> length h"
  shows "\<exists>x w'. yields (createJobAndUpdateStatus (lossy api) t j h (Job_Name j) jt) w x w' \<and> unrecorded w w'"
proof (cases "map_of (Jobs w) (Namespace t, Job_Name j)")
  case None
  then show ?thesis
    using createJobAndUpdateStatus_loses [OF appliableD(4) [OF app] assms(2) _ assms(3)]
      unrecorded_addJob by blast
next
  case (Some j')
  note d = appliableD [OF app]
  have "yields (CreateJob (lossy api) j) w (Some (ApiErr ReasonAlreadyExists ''already exists'')) w"
    using assms(2) Some by (simp add: CreateJob_def yields_call lossy.server_simps kubeCreateJob_def Let_def)
  moreover have "yields (GetTfRun (lossy api) (ObjectKeyFromObject t)) w (Inr t) w"
    using lossy.GetTfRun_yields [of api k w] d(1,2) by (simp add: lookup_in_def ObjectKeyFromObject_def)
  ultimately have "yields (createJobAndUpdateStatus (lossy api) t j h (Job_Name j) jt) w
      (requeueAfter (Seconds 5), Some conflict) w"
    unfolding createJobAndUpdateStatus_def
    by (elim yields_andThen) (simp add: IsAlreadyExists_def,
        elim yields_Inr, intro yields_andThen [OF lossy_updateStatus], simp)
  then show ?thesis
    using unrecorded_same(1) by blast
qed

lemma createNewJob_unrecorded:
  assumes app: "appliable k w t" and "8 \<le> length h"
  shows "\<exists>x w'. yields (createNewJob (lossy api) t h jobTypeApply) w x w' \<and> unrecorded w w'"
proof -
  obtain j where j: "Job_Name j = applyName t h" "Job_Namespace j = Namespace t"
    and run: "\<And>x w'. yields (createJobAndUpdateStatus (lossy api) t j h (applyName t h) jobTypeApply) w x w' \<Longrightarrow>
      yields (createNewJob (lossy api) t h jobTypeApply) w x w'"
    using lossy.createNewJob_builds [OF assms] by blast
  obtain x w' where "yields (createJobAndUpdateStatus (lossy api) t j h (applyName t h) jobTypeApply) w x w'"
      "unrecorded w w'"
    using createJobAndUpdateStatus_unrecorded [OF app j(2) assms(2), of api jobTypeApply] j(1) by auto
  then show ?thesis
    using run by blast
qed

lemma completed_unrecorded:
  "\<exists>x w'. yields (updateStatusBasedOnCompletedJob (lossy api) t j) w x w' \<and> unrecorded w w'"
proof -
  obtain f c where f: "yields (markSucceeded (lossy api) t j) w (status_update f t) (w\<lparr>Clock := c\<rparr>)"
    using lossy.markSucceeded_yields by blast
  obtain g where g: "yields (markFailed (lossy api) (status_update f t) j) (w\<lparr>Clock := c\<rparr>)
      (status_update g (status_update f t)) (w\<lparr>Clock := c\<rparr>)"
    using lossy.markFailed_yields by blast
  have "yields (updateStatusBasedOnCompletedJob (lossy api) t j) w (noResult, Some conflict) (w\<lparr>Clock := c\<rparr>)"
    unfolding updateStatusBasedOnCompletedJob_def
    by (intro yields_andThen [OF f] yields_andThen [OF g] yields_andThen [OF lossy_StatusUpdate]) simp
  then show ?thesis
    using unrecorded_same(2) by blast
qed

text \<open>Whatever the decision table says, nothing but a new Job is left of it.\<close>

lemma reconcileJobs_unrecorded:
  assumes app: "appliable k w t" and h: "8 \<le> length h"
  shows "\<exists>x w'. yields (reconcileJobs (lossy api) t h) w x w' \<and> unrecorded w w'"
proof -
  let ?a = "decide t h (activeJob (Jobs w) t)"
  note d = appliableD [OF app]
  have "\<exists>x w'. yields (perform (lossy api) t h ?a) w x w' \<and> unrecorded w w'"
  proof (cases ?a)
    case (StartApply h')
    then have "8 \<le> length h'"
      using h d(4,7) by (auto simp: decide_def decideSchedule_def split: option.splits if_splits)
    then show ?thesis
      using createNewJob_unrecorded [OF app] StartApply by simp
  next
    case (FinishJob j)
    then show ?thesis
      using completed_unrecorded by simp
  next
    case RecordPending
    then show ?thesis
      by (intro exI [of _ w] exI conjI) (simp, rule yields_andThen [OF lossy_StatusUpdate], simp_all)
  next
    case StopSchedule
    then show ?thesis
      by (intro exI [of _ w] exI conjI) (simp, rule yields_andThen [OF lossy_StatusUpdate], simp_all)
  next
    case AwaitJob
    then show ?thesis
      by auto
  next
    case Idle
    then show ?thesis
      by auto
  next
    case (RefuseInterval i)
    then show ?thesis
      using d(4) by (simp add: decide_def decideSchedule_def split: option.splits if_splits)
  next
    case (RunWhenDue tm)
    then show ?thesis
      using d(4) by (simp add: decide_def decideSchedule_def split: option.splits if_splits)
  qed
  then show ?thesis
    unfolding reconcileJobs_decides by (blast intro: yields_andThen [OF lossy.lookupActiveJob_yields])
qed

text \<open>A workspace that is created or imported cannot be recorded; the reconciliation ends there.\<close>

lemma reconcileWorkspace_unrecorded:
  assumes "healthy api" and t: "remote_ready w t"
  shows "\<exists>f. yields (reconcileWorkspace (lossy api) t) w
    (status_update f t, requeueAfter (Seconds 5), Some conflict) w"
proof -
  have be: "getCloudBackend (lossy api) t = Inr (ScalrBackend (NewService (lossy api)))"
    using remote_ready_cloud [OF t] by blast
  show ?thesis
  proof (cases "importAnnotation t = ''''")
    case True
    obtain wid where wid: "usable wid"
        "yields (be_EnsureWorkspace (ScalrBackend (NewService (lossy api))) t) w (Inr wid) w"
      using lossy.be_up(1) [OF assms] by blast
    then show ?thesis
      unfolding reconcileWorkspace_def be sum.case
      by (intro exI) (simp add: True, rule yields_Inr [OF wid(2)], simp add: usable_def,
          rule lossy_updateStatus)
  next
    case False
    obtain wid where wid: "yields (be_GetWorkspace (ScalrBackend (NewService (lossy api))) t
        (importAnnotation t)) w (Inr wid) w"
      using lossy.be_up(2) [OF assms, of "importAnnotation t"] t unfolding remote_ready_def by blast
    show ?thesis
      unfolding reconcileWorkspace_def importScalrWorkspace_def be sum.case Let_def
      by (intro exI) (simp add: False, rule yields_Inr [OF wid], rule lossy_updateStatus)
  qed
qed

lemma Reconcile_unrecorded:
  assumes up: "healthy api" and app: "appliable k w t" and hash: "computeSpecHash (kubeUp api) t = Inr h"
  shows "\<exists>fs x w0 w'. yields (Reconcile (lossy api) k) w x w' \<and> appliable k w0 (t\<lparr>Finalizers := fs\<rparr>) \<and>
    Jobs w0 = Jobs w \<and> Created w0 = Created w \<and> unrecorded w0 w'"
proof -
  obtain fs w0 where fs: "yields (ensureFinalizer (lossy api) t) w (t\<lparr>Finalizers := fs\<rparr>, None) w0"
      "appliable k w0 (t\<lparr>Finalizers := fs\<rparr>)" "Jobs w0 = Jobs w" "Created w0 = Created w"
    using lossy.ensureFinalizer_yields [OF app, of api] by blast
  let ?t = "t\<lparr>Finalizers := fs\<rparr>"
  note d = appliableD [OF fs(2)]
  have hash': "computeSpecHash (lossy api) ?t = Inr h"
    using hash same_hash [of t ?t "kubeUp api"] by (simp add: lossy_hash same_object_def)
  have get: "yields (GetTfRun (lossy api) k) w (Inr t) w"
    using lossy.GetTfRun_yields [of api k w] appliableD(1) [OF app] by (simp add: lookup_in_def)
  have "\<exists>x w'. yields (andThen (ensureWorkspaceIfNeeded (lossy api) ?t) (\<lambda>(tfRun, result, err).
      if err \<noteq> None \<or> Requeue result \<or> sint (RequeueAfter result) > 0 then ret (result, err)
      else reconcileJobs (lossy api) tfRun h)) w0 x w' \<and> unrecorded w0 w'"
  proof (cases "WorkspaceID (Status ?t) = ''''")
    case True
    obtain cb where "Cloud (Backend (Spec ?t)) = Some cb"
      using remote_ready_cloud [OF d(5)] by blast
    moreover obtain f where "yields (reconcileWorkspace (lossy api) ?t) w0
        (status_update f ?t, requeueAfter (Seconds 5), Some conflict) w0"
      using reconcileWorkspace_unrecorded [OF up d(5)] by blast
    ultimately have "yields (ensureWorkspaceIfNeeded (lossy api) ?t) w0
        (status_update f ?t, requeueAfter (Seconds 5), Some conflict) w0"
      using True by (simp add: ensureWorkspaceIfNeeded_def)
    then show ?thesis
      by (intro exI [of _ "(requeueAfter (Seconds 5), Some conflict)"] exI [of _ w0] conjI, elim yields_andThen)
        simp_all
  next
    case False
    have "8 \<le> length h"
      using computeSpecHash_hex [OF hash] by simp
    then obtain x w' where "yields (reconcileJobs (lossy api) ?t h) w0 x w'" "unrecorded w0 w'"
      using reconcileJobs_unrecorded [OF fs(2)] by blast
    then show ?thesis
      by (intro exI [of _ x] exI [of _ w'] conjI
          yields_andThen [OF lossy.ensureWorkspaceIfNeeded_known [OF up d(5) False d(9)]])
        (simp_all add: noResult_def)
  qed
  then obtain x w' where "yields (andThen (ensureWorkspaceIfNeeded (lossy api) ?t) (\<lambda>(tfRun, result, err).
      if err \<noteq> None \<or> Requeue result \<or> sint (RequeueAfter result) > 0 then ret (result, err)
      else reconcileJobs (lossy api) tfRun h)) w0 x w'" and w': "unrecorded w0 w'"
    by blast
  then have "yields (Reconcile (lossy api) k) w x w'"
    unfolding Reconcile_def using d(3) hash'
    by (intro yields_Inr [OF get] yields_andThen [OF fs(1)]) simp
  then show ?thesis
    using fs(2-4) w' by blast
qed

text \<open>The TfRun stays appliable, with the status it had.\<close>

lemma lossy_round:
  assumes "healthy api" "appliable k w t" "computeSpecHash (kubeUp api) t = Inr h"
  shows "\<exists>t'. appliable k (round (lossy api) k w) t' \<and> same_object t t' \<and> Status t' = Status t \<and>
    length (Created w) \<le> length (Created (round (lossy api) k w)) \<and>
    length (Created (round (lossy api) k w)) \<le> Suc (length (Created w))"
proof -
  obtain fs x w0 w' where w0: "yields (Reconcile (lossy api) k) w x w'" "appliable k w0 (t\<lparr>Finalizers := fs\<rparr>)"
      "Created w0 = Created w" "unrecorded w0 w'"
    using Reconcile_unrecorded [OF assms] by blast
  let ?t = "t\<lparr>Finalizers := fs\<rparr>"
  note d = appliableD [OF w0(2)]
  have round: "round (lossy api) k w = ticked w'"
    using w0(1) by (simp add: round_def yields_world)
  have "appliable k (ticked w') ?t"
    by (rule appliable_moved [OF w0(2)])
      (use d w0(4) in \<open>auto simp: same_object_def unrecorded_def store_distinct tickJobs_distinct\<close>)
  then show ?thesis
    unfolding round using w0(3,4) by (intro exI [of _ ?t]) (auto simp: same_object_def unrecorded_def)
qed

subsection \<open>Any number of refused rounds\<close>

text \<open>The rounds before the API server accepts every write: \<open>True\<close> is a round of refused writes.\<close>

fun rounds :: "(HttpRequest \<Rightarrow> HttpResponse) \<Rightarrow> NamespacedName \<Rightarrow> bool list \<Rightarrow> cluster \<Rightarrow> cluster" where
  "rounds api k [] w = w"
| "rounds api k (refuse # bs) w =
    rounds api k bs (round (if refuse then lossy api else kubeUp api) k w)"

lemma good_round:
  assumes up: "healthy api" and app: "appliable k w t" and hash: "computeSpecHash (kubeUp api) t = Inr h"
  shows "\<exists>t'. appliable k (round (kubeUp api) k w) t' \<and> same_object t t' \<and>
    Created (round (kubeUp api) k w) @ due h t' = Created w @ due h t"
proof -
  have "apply_invariant False k h t (Created w @ due h t) w"
    using app by (auto simp: apply_invariant_def same_object_def)
  from apply_round(1) [OF up hash this] show ?thesis
    unfolding apply_invariant_def by blast
qed

lemma rounds_appliable:
  assumes "healthy api" "appliable k w t" "computeSpecHash (kubeUp api) t = Inr h"
  shows "\<exists>t'. appliable k (rounds api k bs w) t' \<and> same_object t t' \<and>
    length (Created w) + length (due h t) \<le> length (Created (rounds api k bs w)) + length (due h t') \<and>
    length (Created (rounds api k bs w)) + length (due h t') \<le>
      length (Created w) + length (due h t) + count_list bs True"
  using assms(2,3)
proof (induction bs arbitrary: w t)
  case Nil
  then show ?case
    by (auto simp: same_object_def)
next
  case (Cons refuse bs)
  let ?w = "round (if refuse then lossy api else kubeUp api) k w"
  have "\<exists>t'. appliable k ?w t' \<and> same_object t t' \<and>
      length (Created w) + length (due h t) \<le> length (Created ?w) + length (due h t') \<and>
      length (Created ?w) + length (due h t') \<le>
        length (Created w) + length (due h t) + (if refuse then 1 else 0)"
  proof (cases refuse)
    case True
    obtain t' where t': "appliable k ?w t'" "same_object t t'" "Status t' = Status t"
        "length (Created w) \<le> length (Created ?w)" "length (Created ?w) \<le> Suc (length (Created w))"
      using lossy_round [OF assms(1) Cons.prems] True by auto
    have "due h t' = due h t"
      by (rule due_same [OF t'(2), of "\<lambda>s. s"]) (simp_all add: keeps_jobs_def t'(3))
    then show ?thesis
      using t' True by auto
  next
    case False
    then obtain t' where t': "appliable k ?w t'" "same_object t t'"
        "Created ?w @ due h t' = Created w @ due h t"
      using good_round [OF assms(1) Cons.prems] by auto
    from arg_cong [OF t'(3), of length] show ?thesis
      using t'(1,2) False by auto
  qed
  then obtain t' where t': "appliable k ?w t'" "same_object t t'"
      "length (Created w) + length (due h t) \<le> length (Created ?w) + length (due h t')"
      "length (Created ?w) + length (due h t') \<le>
        length (Created w) + length (due h t) + (if refuse then 1 else 0)"
    by blast
  have "computeSpecHash (kubeUp api) t' = Inr h"
    using Cons.prems(2) same_hash [OF t'(2), of "kubeUp api"] by simp
  from Cons.IH [OF t'(1) this] obtain t'' where "appliable k (rounds api k bs ?w) t''" "same_object t' t''"
      "length (Created ?w) + length (due h t') \<le> length (Created (rounds api k bs ?w)) + length (due h t'')"
      "length (Created (rounds api k bs ?w)) + length (due h t'') \<le>
        length (Created ?w) + length (due h t') + count_list bs True"
    by blast
  then show ?case
    using t'(2-4) by (intro exI [of _ t'']) (auto simp: same_object_def)
qed



subsection \<open>One refused write\<close>

text \<open>The whole reconciliation: the Job is there, the status is as it was.\<close>

lemma Reconcile_loses:
  assumes up: "healthy api" and app: "appliable k w t" and hash: "computeSpecHash (kubeUp api) t = Inr h"
    and settled: "settled t" and fresh: "LastSpecHash (Status t) \<noteq> h"
    and free: "activeJob (Jobs w) t = None" "jobNamed (Jobs w) t (applyName t h) = None"
  shows "\<exists>j. yields (Reconcile (lossy api) k) w (noResult, Some conflict)
    (addJob (Namespace t, applyName t h) j w)"
proof -
  note d = appliableD [OF app]
  have len: "8 \<le> length h"
    using computeSpecHash_hex [OF hash] by simp
  obtain j where j: "Job_Name j = applyName t h" "Job_Namespace j = Namespace t"
    and run: "\<And>x w'. yields (createJobAndUpdateStatus (lossy api) t j h (applyName t h) jobTypeApply) w x w' \<Longrightarrow>
      yields (createNewJob (lossy api) t h jobTypeApply) w x w'"
    using lossy.createNewJob_builds [OF app len] by blast
  have new: "yields (createNewJob (lossy api) t h jobTypeApply) w (noResult, Some conflict)
      (addJob (Namespace t, applyName t h) j w)"
    using run createJobAndUpdateStatus_loses [OF d(4) j(2) _ len] free(2) j(1) by (simp add: jobNamed_def)
  have "yields (lookupActiveJob (lossy api) t) w None w"
    using lossy.lookupActiveJob_yields [of api t w] free(1) by simp
  then have jobs: "yields (reconcileJobs (lossy api) t h) w (noResult, Some conflict)
      (addJob (Namespace t, applyName t h) j w)"
    unfolding reconcileJobs_decides using new fresh by (elim yields_andThen) (simp add: decide_def)
  have known: "yields (ensureWorkspaceIfNeeded (lossy api) t) w (t, noResult, None) w"
    using lossy.ensureWorkspaceIfNeeded_known [OF up d(5) _ d(9)] settled by (simp add: settled_def)
  have get: "yields (GetTfRun (lossy api) k) w (Inr t) w"
    using lossy.GetTfRun_yields [of api k w] d(1) by (simp add: lookup_in_def)
  have "yields (ensureFinalizer (lossy api) t) w (t, None) w"
    using settled by (simp add: ensureFinalizer_def settled_def lossy.server_simps)
  then have "yields (Reconcile (lossy api) k) w (noResult, Some conflict)
      (addJob (Namespace t, applyName t h) j w)"
    unfolding Reconcile_def using jobs d(3) hash
    by (intro yields_Inr [OF get], elim yields_andThen)
      (simp add: lossy_hash yields_andThen [OF known] noResult_def)
  then show ?thesis ..
qed

text \<open>C38: One lost write makes the controller apply a spec twice. Let a TfRun with a new spec be ready to
  be applied, with no Job in the way, and let the API server refuse the status update that
  should record the Job just created (a conflict). From then on let everything succeed. The
  controller comes to rest as it should, with the hash recorded, but has created the Job for
  the spec a second time: it adopts the first without recording the hash, and starts the spec
  again as soon as that Job is collected. Without the refusal one Job is created.\<close>

theorem lost_write_applies_twice:
  assumes "healthy api" "appliable k w t" "computeSpecHash (kubeUp api) t = Inr h"
    and "settled t" "LastSpecHash (Status t) \<noteq> h"
    and "activeJob (Jobs w) t = None" "jobNamed (Jobs w) t (applyName t h) = None"
  shows "\<exists>w' t'. while_option (\<lambda>w. \<not> at_rest k h w) (round (kubeUp api) k) (round (lossy api) k w) = Some w' \<and>
    map_of (TfRuns w') k = Some t' \<and> finished_run h t' (Jobs w') \<and>
    Created w' = Created w @ [(Namespace t, applyName t h), (Namespace t, applyName t h)]"
proof -
  let ?n = "(Namespace t, applyName t h)"
  obtain j where "yields (Reconcile (lossy api) k) w (noResult, Some conflict) (addJob ?n j w)"
    using Reconcile_loses [OF assms] by blast
  then have w1: "round (lossy api) k w = ticked (addJob ?n j w)"
    by (simp add: round_def yields_world)
  note d = appliableD [OF assms(2)]
  have "appliable k (ticked (addJob ?n j w)) t"
    by (rule appliable_moved [OF assms(2)])
      (use d in \<open>simp_all add: same_object_def store_distinct tickJobs_distinct\<close>)
  moreover have "due h t = [?n]"
    using assms(5) by (simp add: due_def)
  ultimately obtain w' t' where "while_option (\<lambda>w. \<not> at_rest k h w) (round (kubeUp api) k)
      (ticked (addJob ?n j w)) = Some w'" "map_of (TfRuns w') k = Some t'" "finished_run h t' (Jobs w')"
      "Created w' = Created w @ [?n, ?n]"
    by (elim apply_rests [OF assms(1) _ assms(3)]) simp
  then show ?thesis
    unfolding w1 by blast
qed

subsection \<open>A conflict\<close>

text \<open>A TfRun with its finalizer and its workspace, and a spec that was not applied yet.\<close>

theorem lost_write_applies_twice_witness:
  "\<exists>h w. computeSpecHash (kubeUp scalrAnswers) readyRun = Inr h \<and>
    while_option (\<lambda>w. \<not> at_rest (''team'', ''net'') h w) (round (kubeUp scalrAnswers) (''team'', ''net''))
      (round (lossy scalrAnswers) (''team'', ''net'') (sampleCluster readyRun [] [])) = Some w \<and>
    Created w = [(''team'', applyName readyRun h), (''team'', applyName readyRun h)]"
proof -
  let ?w = "sampleCluster readyRun [] []"
  have "hashInput (kubeUp scalrAnswers) readyRun \<noteq> Inl e" for e
    by (simp add: hashInput_def marshalVars_def readyRun_def sample_defs)
  then obtain h where h: "computeSpecHash (kubeUp scalrAnswers) readyRun = Inr h"
    by (cases "hashInput (kubeUp scalrAnswers) readyRun") (auto simp: computeSpecHash_def)
  have app: "appliable (''team'', ''net'') ?w readyRun"
    by (simp add: appliable_def readyRun_def sample_defs token_in_def gomap_get_def
        IsZero_def remote_ready_def tofuEngine_def ToLower_def lowerChar_def BackendScalr_def
        TrimSpace_def isSpace_def Let_def importAnnotation_def sample_host isControl_def)
  have settled: "settled readyRun"
    by (simp add: settled_def readyRun_def sample_defs finalizerName_def)
  have fresh: "LastSpecHash (Status readyRun) \<noteq> h"
    using computeSpecHash_hex [OF h] by (auto simp: readyRun_def sample_defs)
  have free: "activeJob (Jobs ?w) readyRun = None" "jobNamed (Jobs ?w) readyRun n = None" for n
    by (simp_all add: activeJob_def jobNamed_def sampleCluster_def)
  have "Namespace readyRun = ''team''" "Created ?w = []"
    by (simp_all add: readyRun_def sample_defs)
  then show ?thesis
    using lost_write_applies_twice [OF scalrAnswers_healthy app h settled fresh free] h by auto
qed

end
