(* ===== verification/Addresses.thy ===== *)
theory Addresses
  imports Safety Remote_Workspace
begin

text \<open>
  What the four requests of the Scalr client ask for, as the parser of the HTTP client reads their
  addresses. The texts of the spec are put into the address as they are, so a number sign ends
  the query and an ampersand begins another parameter.
\<close>

subsection \<open>Reading an address\<close>

text \<open>The address of a request on a host: the path and the query that the server is sent.\<close>

definition asks :: "string \<Rightarrow> string \<Rightarrow> string \<Rightarrow> string \<Rightarrow> bool" where
  "asks h path query u \<longleftrightarrow> (\<exists>url. parseURL u = Inr url \<and> Scheme url = ''https'' \<and> Host url = h \<and>
     User url = None \<and> URLPath url = path \<and> RawQuery url = query)"

text \<open>The part of a text that is in front of the first number sign.\<close>

abbreviation beforeHash :: "string \<Rightarrow> string" where
  "beforeHash s \<equiv> fst (cutAt (CHR ''#'') s)"

lemma asks_safe:
  assumes "plainHost h" "urlSafe s"
  shows "asks h (CHR ''/'' # fst (cutAt (CHR ''?'') (beforeHash s)))
    (optText (snd (cutAt (CHR ''?'') (beforeHash s)))) (''https://'' @ h @ CHR ''/'' # s)"
  unfolding asks_def parseURL_plain [OF assms] Let_def by (simp split: prod.split)

lemma asks_query:
  assumes "plainHost h" "urlSafe a" "urlSafe s" "CHR ''?'' \<notin> set a" "CHR ''#'' \<notin> set a"
  shows "asks h (CHR ''/'' # a) (beforeHash s) (''https://'' @ h @ CHR ''/'' # a @ CHR ''?'' # s)"
proof -
  have "urlSafe (a @ CHR ''?'' # s)"
    using assms(2,3) by (simp add: isControl_def)
  moreover have "beforeHash (a @ CHR ''?'' # s) = a @ CHR ''?'' # beforeHash s"
    using cut_prefix [of "CHR ''#''" "a @ ''?''" s] assms(5) by simp
  ultimately show ?thesis
    using asks_safe [OF assms(1), of "a @ CHR ''?'' # s"] by (simp add: cut_append assms(4) optText_def)
qed

lemma asks_path:
  assumes "plainHost h" "urlSafe a" "CHR ''?'' \<notin> set a" "CHR ''#'' \<notin> set a"
  shows "asks h (CHR ''/'' # a) '''' (''https://'' @ h @ CHR ''/'' # a)"
  using asks_safe [OF assms(1,2)] by (simp add: cut_none assms(3,4) optText_def)

subsection \<open>The four requests\<close>

definition asked :: "string \<Rightarrow> string \<Rightarrow> string \<Rightarrow> string \<Rightarrow> event \<Rightarrow> bool" where
  "asked m h path query e = (case e of EvHttp q _ \<Rightarrow> Method q = m \<and> asks h path query (URL q) | _ \<Rightarrow> True)"

lemma asked_not_http [simp]: "\<not> is_http e \<Longrightarrow> asked m h p q e"
  by (cases e) (simp_all add: asked_def)

lemma asked_http [simp]: "asked m h p u (EvHttp q res) \<longleftrightarrow> Method q = m \<and> asks h p u (URL q)"
  by (simp add: asked_def)

lemma each_call_runs: "runs ok [] m Q \<Longrightarrow> each_call m ok"
  unfolding runs_def each_call_def by (erule always_mono) simp

lemma GetScalrToken_asked:
  "runs (\<lambda>_. asked m h p u) past (GetScalrToken s t) (\<lambda>out h. \<exists>res. out = Ret res)"
  by (rule runs_weaken [OF GetScalrToken_runs [of t "{}"]])
    (auto simp: scalr_call_def scalr_request_def asked_def split: event.splits)

lemma setAuthHeaders_asked:
  "runs (\<lambda>_. asked m h p u) past (setAuthHeaders s t q) (\<lambda>out h. \<exists>res. out = Ret res \<and>
     (\<forall>q'. res = Inr q' \<longrightarrow> Method q' = Method q \<and> URL q' = URL q))"
  by (rule runs_weaken [OF setAuthHeaders_runs [of t "{}"]])
    (auto simp: scalr_call_def scalr_request_def asked_def split: event.splits)

lemma buildAuthRequest_asked:
  "runs (\<lambda>_. asked m h p u) past (buildAuthRequest s t m' u' b) (\<lambda>out h. \<exists>res. out = Ret res \<and>
     (\<forall>q'. res = Inr q' \<longrightarrow> Method q' = m' \<and> URL q' = u'))"
  by (rule runs_weaken [OF buildAuthRequest_runs [of t "{}"]])
    (auto simp: scalr_call_def scalr_request_def asked_def split: event.splits)

lemma GetScalrEnvironmentID_asked:
  assumes "Cloud (Backend (Spec t)) = Some cb" "plainHost (Hostname cb)" "urlSafe (Organization cb)"
  shows "each_call (GetScalrEnvironmentID s t) (\<lambda>_. asked ''GET'' (Hostname cb)
    ''/api/iacp/v3/environments'' (''filter[name]='' @ beforeHash (Organization cb)))"
proof (rule each_call_runs)
  have "asks (Hostname cb) ''/api/iacp/v3/environments'' (''filter[name]='' @ beforeHash (Organization cb))
      (''https://'' @ Hostname cb @ ''/api/iacp/v3/environments?filter[name]='' @ Organization cb)"
    using asks_query [OF assms(2), of "''api/iacp/v3/environments''" "''filter[name]='' @ Organization cb"]
      cut_prefix [of "CHR ''#''" "''filter[name]=''" "Organization cb"] assms(3) by (simp add: isControl_def)
  then show "runs (\<lambda>_. asked ''GET'' (Hostname cb) ''/api/iacp/v3/environments''
      (''filter[name]='' @ beforeHash (Organization cb))) [] (GetScalrEnvironmentID s t) (\<lambda>_ _. True)"
    unfolding GetScalrEnvironmentID_def Let_def ext_call_defs assms(1) option.case
    by (intro runs_intros runs_mono [OF setAuthHeaders_asked]) (auto intro!: runs_intros simp: newRequest_Inr)
qed

lemma GetWorkspace_asked:
  assumes "Cloud (Backend (Spec t)) = Some cb" "plainHost (Hostname cb)" "urlSafe wid" "urlSafe eid"
  shows "each_call (GetWorkspace s t wid eid) (\<lambda>_. asked ''GET'' (Hostname cb)
    ''/api/iacp/v3/workspaces''
    (beforeHash (''filter[environment]='' @ eid @ ''&filter[workspace]='' @ wid)))"
proof (rule each_call_runs)
  have "asks (Hostname cb) ''/api/iacp/v3/workspaces''
      (beforeHash (''filter[environment]='' @ eid @ ''&filter[workspace]='' @ wid))
      (''https://'' @ Hostname cb @ ''/api/iacp/v3/workspaces?filter[environment]='' @ eid @
        ''&filter[workspace]='' @ wid)"
    using asks_query [OF assms(2), of "''api/iacp/v3/workspaces''"
        "''filter[environment]='' @ eid @ ''&filter[workspace]='' @ wid"] assms(3,4)
    by (simp add: isControl_def)
  then show "runs (\<lambda>_. asked ''GET'' (Hostname cb) ''/api/iacp/v3/workspaces''
      (beforeHash (''filter[environment]='' @ eid @ ''&filter[workspace]='' @ wid))) []
      (GetWorkspace s t wid eid) (\<lambda>_ _. True)"
    unfolding GetWorkspace_def Let_def ext_call_defs assms(1) option.case
    by (intro runs_intros runs_mono [OF setAuthHeaders_asked]) (auto intro!: runs_intros simp: newRequest_Inr)
qed

lemma CreateScalrWorkspace_asked:
  assumes "Cloud (Backend (Spec t)) = Some cb" "plainHost (Hostname cb)"
  shows "each_call (CreateScalrWorkspace s t eid) (\<lambda>_. asked ''POST'' (Hostname cb)
    ''/api/iacp/v3/workspaces'' '''')"
proof (rule each_call_runs)
  have "asks (Hostname cb) ''/api/iacp/v3/workspaces'' ''''
      (''https://'' @ Hostname cb @ ''/api/iacp/v3/workspaces'')"
    using asks_path [OF assms(2), of "''api/iacp/v3/workspaces''"] by (simp add: isControl_def)
  then show "runs (\<lambda>_. asked ''POST'' (Hostname cb) ''/api/iacp/v3/workspaces'' '''') []
      (CreateScalrWorkspace s t eid) (\<lambda>_ _. True)"
    unfolding CreateScalrWorkspace_def Let_def ext_call_defs assms(1) option.case
    by (intro runs_intros runs_mono [OF buildAuthRequest_asked]) (auto intro!: runs_intros)
qed

lemma DeleteScalrWorkspace_asked:
  assumes "Cloud (Backend (Spec t)) = Some cb" "plainHost (Hostname cb)" "urlSafe wid"
  shows "each_call (DeleteScalrWorkspace s t wid) (\<lambda>_. asked ''DELETE'' (Hostname cb)
    (''/api/iacp/v3/workspaces/'' @ fst (cutAt (CHR ''?'') (beforeHash wid)))
    (optText (snd (cutAt (CHR ''?'') (beforeHash wid)))))"
proof (rule each_call_runs)
  have "asks (Hostname cb) (''/api/iacp/v3/workspaces/'' @ fst (cutAt (CHR ''?'') (beforeHash wid)))
      (optText (snd (cutAt (CHR ''?'') (beforeHash wid))))
      (''https://'' @ Hostname cb @ ''/api/iacp/v3/workspaces/'' @ wid)"
    using asks_safe [OF assms(2), of "''api/iacp/v3/workspaces/'' @ wid"] assms(3)
      cut_prefix [of "CHR ''#''" "''api/iacp/v3/workspaces/''" wid]
      cut_prefix [of "CHR ''?''" "''api/iacp/v3/workspaces/''" "beforeHash wid"]
    by (simp add: isControl_def)
  then show "runs (\<lambda>_. asked ''DELETE'' (Hostname cb)
      (''/api/iacp/v3/workspaces/'' @ fst (cutAt (CHR ''?'') (beforeHash wid)))
      (optText (snd (cutAt (CHR ''?'') (beforeHash wid))))) [] (DeleteScalrWorkspace s t wid) (\<lambda>_ _. True)"
    unfolding DeleteScalrWorkspace_def Let_def ext_call_defs assms(1) option.case
    by (intro runs_intros runs_mono [OF GetScalrToken_asked]) (auto intro!: runs_intros simp: newRequest_Inr)
qed

text \<open>C35: What each request of the Scalr client asks the host of the TfRun for, when the texts it is
  made from need no escapes: the method, the path and the query, as the HTTP client reads the
  address. The organization, the environment and the workspace are not escaped: from the first
  number sign on they are lost, so two organizations that differ only there are the same to
  the server, and an ampersand in one of them begins another parameter.\<close>

theorem requests_ask:
  assumes "Cloud (Backend (Spec t)) = Some cb" "plainHost (Hostname cb)"
    and "urlSafe (Organization cb)" "urlSafe wid" "urlSafe eid"
  shows "each_call (GetScalrEnvironmentID s t) (\<lambda>_. asked ''GET'' (Hostname cb)
      ''/api/iacp/v3/environments'' (''filter[name]='' @ beforeHash (Organization cb))) \<and>
    each_call (GetWorkspace s t wid eid) (\<lambda>_. asked ''GET'' (Hostname cb)
      ''/api/iacp/v3/workspaces''
      (beforeHash (''filter[environment]='' @ eid @ ''&filter[workspace]='' @ wid))) \<and>
    each_call (CreateScalrWorkspace s t eid) (\<lambda>_. asked ''POST'' (Hostname cb)
      ''/api/iacp/v3/workspaces'' '''') \<and>
    each_call (DeleteScalrWorkspace s t wid) (\<lambda>_. asked ''DELETE'' (Hostname cb)
      (''/api/iacp/v3/workspaces/'' @ fst (cutAt (CHR ''?'') (beforeHash wid)))
      (optText (snd (cutAt (CHR ''?'') (beforeHash wid)))))"
  using GetScalrEnvironmentID_asked [OF assms(1-3)] GetWorkspace_asked [OF assms(1,2,4,5)]
    CreateScalrWorkspace_asked [OF assms(1,2)] DeleteScalrWorkspace_asked [OF assms(1,2,4)] by blast

text \<open>The environment of the organization \<open>acme#2\<close> is looked up as that of \<open>acme\<close>.\<close>

definition numberedRun :: TfRun where
  "numberedRun = sampleRun\<lparr>Spec := sampleSpec\<lparr>Backend :=
     \<lparr>Cloud = Some (sampleCloud\<lparr>Organization := ''acme#2''\<rparr>), StorageAccount = None\<rparr>\<rparr>\<rparr>"

theorem requests_ask_witness:
  "each_call (GetScalrEnvironmentID (NewService kube) numberedRun) (\<lambda>_. asked ''GET'' ''acme.scalr.io''
      ''/api/iacp/v3/environments'' ''filter[name]=acme'') \<and>
    each_call (DeleteScalrWorkspace (NewService kube) numberedRun ''ws-1'') (\<lambda>_. asked ''DELETE''
      ''acme.scalr.io'' ''/api/iacp/v3/workspaces/ws-1'' '''')"
proof -
  let ?cb = "sampleCloud\<lparr>Organization := ''acme#2''\<rparr>"
  have "Cloud (Backend (Spec numberedRun)) = Some ?cb" "plainHost (Hostname ?cb)"
      "urlSafe (Organization ?cb)" "urlSafe ''ws-1''" "urlSafe ''env-1''"
    by (simp_all add: numberedRun_def sampleCloud_def sample_host isControl_def)
  from requests_ask [OF this, of "NewService kube"] show ?thesis
    by (simp add: sampleCloud_def cutAt_def optText_def)
qed

end
