(* ===== verification/Spec2Isabelle.thy ===== *)
theory Spec2Isabelle
  imports Outcomes Lifecycle Json_Texts Manager Deep_Copy_Laws Deletion_Ends Lost_Writes Addresses
begin

text \<open>
  A verification development for the TfRun operator (\<open>orchestrator-api\<close>): a Kubernetes
  controller that runs OpenTofu or Terraform for a custom resource \<open>TfRun\<close>. It hashes the spec,
  keeps a workspace at the Scalr API, starts one Job per run and records its fate in the status;
  on deletion it runs a destroy Job, deletes the workspace and gives up its finalizer.

  \<^bold>\<open>Programs.\<close> \<open>Prelude\<close> defines the monad of the model: a Go function that talks to the outside
  is a function from a world to an outcome (a returned value, or a run-time panic), the list of
  its external calls with their answers, and the next world. A pointer argument that the code
  mutates is returned with the results. Every external service (API server, HTTP, clock,
  environment, helpers of controller-runtime) is a field of the record \<open>ext\<close> in
  \<open>Effects\<close>, an argument of every definition that uses it; nothing is assumed of it unless a
  theorem says so (\<open>owner_ref_only\<close> and \<open>finalizer_laws\<close> in \<open>Safety\<close> state documented behaviour
  of \<open>controllerutil\<close>). Go's integers are words, instants are nanoseconds, a Go map is an
  association list in the order in which \<open>range\<close> visits it. Two parts have a setting of their
  own: the entry point, whose calls go to the record \<open>lib\<close> in \<open>Manager\<close>, and the deep copies,
  which act on the explicit memory of \<open>Memory\<close>, where aliasing can be stated.

  \<^bold>\<open>Theories and sources.\<close>
    \<^item> \<open>GoStd\<close>, \<open>GoJson\<close>, \<open>GoSha256\<close>: what the code uses of Go's library (strings, decimal and
      duration text, \<open>json.Marshal\<close>, SHA-256), executable. Case folding acts on ASCII.
    \<^item> \<open>GoUrl\<close>: \<open>url.Parse\<close>, by which \<open>http.NewRequestWithContext\<close> refuses an address, and what it
      makes of an address on a plain host.
    \<^item> \<open>GoJson_Decode\<close>: \<open>json.Unmarshal\<close>: scanner, parser with its depth limit, and the decoding
      into structs, strings and slices. \<open>GoJson_Roundtrip\<close>: what the reader makes of the texts
      that \<open>json.Marshal\<close> writes, by rules on the shape of the text (\<open>reads_intros\<close>).
    \<^item> \<open>Api_Types\<close>: \<open>api/v1alpha1/tfrun_types.go\<close> and the fields used of Jobs and Secrets.
    \<^item> \<open>Webhook\<close>: \<open>api/v1alpha1/tfrun_webhook.go\<close>.
    \<^item> \<open>Engine_Commands\<close>: \<open>internal/engine\<close>, with the contract \<open>engine_contract\<close> of the interface.
    \<^item> \<open>Bootstrap\<close>, \<open>Bootstrap_Laws\<close>: \<open>internal/bootstrapjob\<close>, with the contract \<open>job_builder\<close>.
    \<^item> \<open>Scalr\<close>, \<open>Scalr_Laws\<close>, \<open>Backends\<close>, \<open>Backend_Laws\<close>: \<open>internal/scalr\<close> and \<open>internal/backend\<close>,
      with the contract \<open>cloud_backend\<close> that the controller relies on. The response structs and
      their decoding are in \<open>Scalr\<close>.
    \<^item> \<open>Addresses\<close>: what the four requests of the client ask for.
    \<^item> \<open>Json_Texts\<close>: the payload, the answers and the hashed text, read back.
    \<^item> \<open>Manager\<close>: \<open>cmd/main.go\<close>, with \<open>flag.Parse\<close>, the scheme of \<open>groupversion_info.go\<close>, and the
      registration of controller and webhook. \<open>managerOptions\<close> and \<open>startManager\<close> are parts of
      \<open>main\<close>; \<open>initScheme\<close> is its \<open>init\<close>.
    \<^item> \<open>Memory\<close>: cells, allocation and the contract \<open>deep_copy\<close>, with its composition over pointers,
      pairs, structs and slices. \<open>Deep_Copies\<close>: \<open>zz_generated.deepcopy.go\<close>, one definition for each
      function. \<open>Deep_Copy_Laws\<close>: the contract, established bottom-up.
    \<^item> \<open>Common\<close>, \<open>Workspace_Steps\<close>, \<open>Controller\<close>: \<open>internal/controller\<close>. \<open>reconcileJobs\<close> is the
      second half of \<open>Reconcile\<close> (from the lookup of the active Job on), \<open>adoptDestroyJob\<close> and
      \<open>createDestroyJob\<close> are the ends of \<open>handleDeletion\<close>, \<open>markSucceeded\<close> and \<open>markFailed\<close> the two
      halves of \<open>updateStatusBasedOnCompletedJob\<close>; every other name is the code's.
    \<^item> \<open>Protocol\<close>: the abstract specification of a reconciliation. \<open>status_step\<close> is the state
      machine of the status, \<open>allowed\<close> says which external call may follow a history of calls.
    \<^item> \<open>Protocol_Workspace\<close>, \<open>Protocol_Jobs\<close>, \<open>Protocol_Deletion\<close>: every handler keeps to the
      protocol and panics for two causes at most, for all answers of the services.
    \<^item> \<open>Safety\<close>: what the protocol says of Jobs, finalizers, requests and single status fields.
    \<^item> \<open>Lifecycle\<close>: the statuses that any number of reconciliations can bring about, with their
      invariant by rule induction, and the absence of panics within them.
    \<^item> \<open>Cluster\<close>: a small executable cluster that instantiates \<open>ext\<close> in the concrete runs.
    \<^item> \<open>Cluster_Runs\<close>: reasoning about runs on that cluster (the rules for \<open>yields\<close>), the progress
      of its Jobs between reconciliations (\<open>round\<close>), and the contracts \<open>api_objects\<close>
      and \<open>api_server\<close> of the API server. \<open>Remote_Up\<close>: the client and the workspace steps against a
      remote API that is up, with its contract \<open>remote_api\<close>.
    \<^item> \<open>Deletion_Ends\<close>, \<open>Apply_Converges\<close>: a deletion and an apply over many reconciliations, each
      with the measure that makes it end. \<open>Lost_Writes\<close>: what one refused status update costs.
    \<^item> \<open>Decisions\<close>: the decision table of the Job steps, and its equality with the handlers.
    \<^item> \<open>Names\<close>: run ids, Job names and spec hashes.
    \<^item> \<open>Remote_Workspace\<close>, \<open>Outcomes\<close>: runs for given answers, call by call.

  \<^bold>\<open>What is shown.\<close> This theory collects the statements on whole reconciliations: the refinement
  of the protocol, at most one Job, the only panics, which Jobs, finalizers, deletions and
  credentials are possible, and what is recorded in the status. The other theories hold the
  properties of their parts, some of which record defects of the code as it is.

  \<^bold>\<open>Termination and bounds.\<close> No definition needs fuel: the loops of the code range over maps,
  slices and arguments, the JSON parser recurses on its tokens (its depth limit of 10000 is that
  of Go), and all definitions are total. That a deletion ends and an apply comes to rest after
  finitely many rounds are theorems on \<open>while_option\<close>. The first measure counts the refusals of
  the remote API still to come and the rounds up to the end of the destroy Job; the second is
  lexicographic: what has still to be started, then the rounds until the Jobs in the way are
  collected; the Jobs that are created on the way are counted. The numbers that could overflow (time to
  live, durations, Job counts) keep their width.

  \<^bold>\<open>Not modelled.\<close> Logging, the timeout of the HTTP client, the YAML manifests and build files.
  Code outside the repository is a parameter: the services of \<open>ext\<close>, the text of decoding errors (\<open>UnmarshalError\<close>), the JSON of a variable
  (\<open>MarshalVar\<close>), controller-runtime's side of the start (\<open>lib\<close>) and the deep copies of the
  Kubernetes libraries (\<open>copylib\<close>).

  \<^bold>\<open>Plan.\<close> Still to come: conflicts at every write of a reconciliation (one is in \<open>Lost_Writes\<close>), and
  the rounds of a TfRun with an interval.
\<close>

section \<open>The protocol of a reconciliation\<close>

text \<open>C1: Every external call of a reconciliation is one that the protocol allows after the calls
  before it, whatever the services answer: in particular every status that the controller
  writes is a step of the status machine from a TfRun that the server returned, justified by
  what the controller has seen.\<close>

theorem Reconcile_protocol: "each_call (Reconcile r req) (allowed r)"
  by (rule Reconcile_allowed)

text \<open>C2: A reconciliation asks for at most one Job.\<close>

theorem one_job_per_reconcile:
  "always (Reconcile r req) (\<lambda>out es. length (filter is_create es) \<le> 1)"
  by (rule Reconcile_always) (rule justified_one_create)






text \<open>C7: The only remote object that a reconciliation deletes is the workspace that the status of
  the TfRun records as ready, and only after the destroy Job is over.\<close>

theorem workspace_deleted_after_destroy:
  "each_call (Reconcile r req) (\<lambda>past e. case e of
     EvHttp q _ \<Rightarrow> if Method q = ''DELETE''
       then destroy_done past \<and> (\<exists>t \<in> observed past. WorkspaceReady (Status t) \<and>
         workspace_url t (WorkspaceID (Status t)) (URL q))
       else Method q \<in> {''GET'', ''POST''}
   | _ \<Rightarrow> True)"
  by (rule Reconcile_each) (auto split: event.split simp: request_allowed_def scalr_request_def)

text \<open>C8: Every remote request has an address that parses, of the API of the TfRun's own backend:
  over https, and, where the hostname is a plain one, to this host, under the path of the API
  and without user information. It carries a bearer token that was read before from the Secret
  that the TfRun names in its own namespace; no Secret and no Job of another namespace is read.\<close>

theorem credentials_confined:
  "each_call (Reconcile r req) (\<lambda>past e. case e of
     EvHttp q _ \<Rightarrow> request_confined past q
   | EvGetSecret k _ \<Rightarrow> (\<exists>t \<in> observed past. fst k = Namespace t)
   | EvGetJob k _ \<Rightarrow> (\<exists>t \<in> observed past. fst k = Namespace t)
   | _ \<Rightarrow> True)"
  by (rule Reconcile_each)
    (auto split: event.split simp: secret_allowed_def simp del: allowed.simps(7)
      intro: request_confined_allowed)

text \<open>C9: The hash of a spec is recorded as applied only together with the Job that was created
  for it in the same reconciliation, under the Job's own name and run id; it is the hash of a
  spec that the server returned, or the one that was left pending.\<close>

theorem hash_recorded_with_job:
  "each_call (Reconcile r req) (\<lambda>past e. case e of
     EvStatusUpdate t _ \<Rightarrow> (\<exists>t0 \<in> observed past. t = t0\<lparr>Status := Status t\<rparr> \<and>
       hash_kept r past t0 (Status t))
   | _ \<Rightarrow> True)"
  by (rule Reconcile_writes) (rule hash_step)

text \<open>The phase that a reconciliation writes is one of the four of the CRD's enumeration that
  the controller uses, or the phase that the server had: \<open>Destroying\<close> is never written.\<close>

lemma written_phases:
  "each_call (Reconcile r req) (\<lambda>past e. case e of
     EvStatusUpdate t _ \<Rightarrow> (\<exists>t0 \<in> observed past. t = t0\<lparr>Status := Status t\<rparr> \<and>
       Phase (Status t) \<in>
         {Phase (Status t0), ''Pending'', ''Running'', ''Succeeded'', ''Failed''})
   | _ \<Rightarrow> True)"
  by (rule Reconcile_writes [where P = "\<lambda>past t s. Phase s \<in>
        {Phase (Status t), ''Pending'', ''Running'', ''Succeeded'', ''Failed''}"])
    (rule phase_step)


end
